(* ===== verification/Prelude.thy ===== *)
theory Prelude
  imports Main
begin

text \<open>
  Shared vocabulary of the development: the effect type of an asynchronous TypeScript
  function, its combinators, and generic facts about lists and results.

  An asynchronous function of the program talks to the outside world (gRPC clients, JetStream,
  BullMQ, the HTTP response object) by calls that may reject. The model of such a function is a
  map from the list of the calls made so far to an outcome, an error on the left or a value on the
  right, together with the calls made when it is done. The answer of the outside world to one
  call is a function of all the calls made before it, so a theorem that holds for every such
  function holds for every deterministic behaviour of the outside world, a changing one included.
\<close>

named_theorems io_simps \<open>equations that run an effectful function\<close>
named_theorems io_rules \<open>rules that bound the calls an effectful function makes\<close>
named_theorems js_simps \<open>equations of the JavaScript library functions\<close>

section \<open>Effects\<close>

type_synonym ('c, 'e, 'a) io = "'c list \<Rightarrow> ('e + 'a) \<times> 'c list"

definition io_return :: "'a \<Rightarrow> ('c, 'e, 'a) io" where
  "io_return x h = (Inr x, h)"

definition io_throw :: "'e \<Rightarrow> ('c, 'e, 'a) io" where
  "io_throw e h = (Inl e, h)"

definition io_bind :: "('c, 'e, 'a) io \<Rightarrow> ('a \<Rightarrow> ('c, 'e, 'b) io) \<Rightarrow> ('c, 'e, 'b) io" where
  "io_bind m f h = (case m h of (Inl e, h') \<Rightarrow> (Inl e, h') | (Inr x, h') \<Rightarrow> f x h')"

text \<open>\<open>try { m } catch (e) { k(e) }\<close>.\<close>

definition io_catch :: "('c, 'e, 'a) io \<Rightarrow> ('e \<Rightarrow> ('c, 'e, 'a) io) \<Rightarrow> ('c, 'e, 'a) io" where
  "io_catch m k h = (case m h of (Inl e, h') \<Rightarrow> k e h' | (Inr x, h') \<Rightarrow> (Inr x, h'))"

text \<open>\<open>try { m } finally { fin }\<close>: an error of \<open>fin\<close> replaces the outcome of \<open>m\<close>.\<close>

definition io_finally :: "('c, 'e, 'a) io \<Rightarrow> ('c, 'e, unit) io \<Rightarrow> ('c, 'e, 'a) io" where
  "io_finally m fin h =
     (case m h of (r, h') \<Rightarrow>
        (case fin h' of (Inl e, h'') \<Rightarrow> (Inl e, h'') | (Inr _, h'') \<Rightarrow> (r, h'')))"

text \<open>One call to the outside world: the answer depends on the calls before it.\<close>

definition io_call :: "'c \<Rightarrow> ('c list \<Rightarrow> 'e + 'a) \<Rightarrow> ('c, 'e, 'a) io" where
  "io_call c answer h = (answer h, h @ [c])"

text \<open>A value read from the environment without a call that others could see.\<close>

definition io_read :: "('c list \<Rightarrow> 'a) \<Rightarrow> ('c, 'e, 'a) io" where
  "io_read f h = (Inr (f h), h)"

definition io_of_result :: "'e + 'a \<Rightarrow> ('c, 'e, 'a) io" where
  "io_of_result r h = (r, h)"

definition io_when :: "bool \<Rightarrow> ('c, 'e, unit) io \<Rightarrow> ('c, 'e, unit) io" where
  "io_when b m = (if b then m else io_return ())"

text \<open>The outcome of \<open>m\<close> as a value, for a \<open>catch\<close> block that does not rethrow.\<close>

definition io_attempt :: "('c, 'e, 'a) io \<Rightarrow> ('c, 'e, 'e + 'a) io" where
  "io_attempt m h = (case m h of (r, h') \<Rightarrow> (Inr r, h'))"

abbreviation io_seq :: "('c, 'e, 'a) io \<Rightarrow> ('c, 'e, 'b) io \<Rightarrow> ('c, 'e, 'b) io" where
  "io_seq m k \<equiv> io_bind m (\<lambda>_. k)"

declare io_return_def [io_simps] io_throw_def [io_simps] io_bind_def [io_simps]
  io_catch_def [io_simps] io_finally_def [io_simps] io_call_def [io_simps]
  io_read_def [io_simps] io_of_result_def [io_simps] io_when_def [io_simps]
  io_attempt_def [io_simps]

lemma io_bind_assoc: "io_bind (io_bind m f) g = io_bind m (\<lambda>x. io_bind (f x) g)"
  by (rule ext) (simp add: io_bind_def split: prod.split sum.split)

lemma io_bind_return [simp]: "io_bind (io_return x) f = f x"
  by (rule ext) (simp add: io_bind_def io_return_def)

lemma io_return_bind [simp]: "io_bind m io_return = m"
  by (rule ext) (auto simp add: io_bind_def io_return_def split: prod.split sum.split)

lemma io_bind_throw [simp]: "io_bind (io_throw e) f = io_throw e"
  by (rule ext) (simp add: io_bind_def io_throw_def)

lemma io_bind_of_result [simp]:
  "io_bind (io_of_result (Inr x)) f = f x" "io_bind (io_of_result (Inl e)) f = io_throw e"
  by (simp_all add: io_bind_def io_of_result_def io_throw_def fun_eq_iff)

lemma io_catch_return [simp]: "io_catch (io_return x) k = io_return x"
  by (rule ext) (simp add: io_catch_def io_return_def)

lemma io_catch_throw [simp]: "io_catch (io_throw e) k = k e"
  by (rule ext) (simp add: io_catch_def io_throw_def)

section \<open>The calls an effectful function makes\<close>

text \<open>
  \<open>io_emits P m\<close>: from every history, \<open>m\<close> only appends calls, and each of them satisfies \<open>P\<close>.
\<close>

definition io_emits :: "('c \<Rightarrow> bool) \<Rightarrow> ('c, 'e, 'a) io \<Rightarrow> bool" where
  "io_emits P m \<longleftrightarrow> (\<forall>h. \<exists>t. snd (m h) = h @ t \<and> list_all P t)"

lemma io_emitsD: "io_emits P m \<Longrightarrow> \<exists>t. snd (m h) = h @ t \<and> list_all P t"
  by (simp add: io_emits_def)

lemma io_emits_return [io_rules]: "io_emits P (io_return x)"
  by (simp add: io_emits_def io_return_def)

lemma io_emits_throw [io_rules]: "io_emits P (io_throw e)"
  by (simp add: io_emits_def io_throw_def)

lemma io_emits_read [io_rules]: "io_emits P (io_read f)"
  by (simp add: io_emits_def io_read_def)

lemma io_emits_of_result [io_rules]: "io_emits P (io_of_result r)"
  by (simp add: io_emits_def io_of_result_def)

lemma io_emits_call [io_rules]: "P c \<Longrightarrow> io_emits P (io_call c f)"
  by (simp add: io_emits_def io_call_def)

lemma io_emits_bind [io_rules]:
  assumes m: "io_emits P m" and f: "\<And>x. io_emits P (f x)"
  shows "io_emits P (io_bind m f)"
  unfolding io_emits_def
proof
  fix h
  obtain r h1 where mh: "m h = (r, h1)" by (cases "m h")
  with io_emitsD [OF m, of h] obtain t where t: "h1 = h @ t" "list_all P t" by auto
  show "\<exists>t. snd (io_bind m f h) = h @ t \<and> list_all P t"
  proof (cases r)
    case (Inl e)
    with mh t show ?thesis by (simp add: io_bind_def)
  next
    case (Inr x)
    from io_emitsD [OF f, of x h1] obtain u where "snd (f x h1) = h1 @ u" "list_all P u" by auto
    with mh t Inr show ?thesis by (simp add: io_bind_def)
  qed
qed

lemma io_emits_catch [io_rules]:
  assumes m: "io_emits P m" and k: "\<And>e. io_emits P (k e)"
  shows "io_emits P (io_catch m k)"
  unfolding io_emits_def
proof
  fix h
  obtain r h1 where mh: "m h = (r, h1)" by (cases "m h")
  with io_emitsD [OF m, of h] obtain t where t: "h1 = h @ t" "list_all P t" by auto
  show "\<exists>t. snd (io_catch m k h) = h @ t \<and> list_all P t"
  proof (cases r)
    case (Inl e)
    from io_emitsD [OF k, of e h1] obtain u where "snd (k e h1) = h1 @ u" "list_all P u" by auto
    with mh t Inl show ?thesis by (simp add: io_catch_def)
  next
    case (Inr x)
    with mh t show ?thesis by (simp add: io_catch_def)
  qed
qed

lemma io_emits_attempt [io_rules]: "io_emits P m \<Longrightarrow> io_emits P (io_attempt m)"
  by (simp add: io_emits_def io_attempt_def split: prod.split) (metis snd_conv)

lemma io_emits_finally [io_rules]:
  assumes m: "io_emits P m" and f: "io_emits P f"
  shows "io_emits P (io_finally m f)"
  unfolding io_emits_def
proof
  fix h
  obtain r h1 where mh: "m h = (r, h1)" by (cases "m h")
  with io_emitsD [OF m, of h] obtain t where t: "h1 = h @ t" "list_all P t" by auto
  from io_emitsD [OF f, of h1] obtain u where u: "snd (f h1) = h1 @ u" "list_all P u" by auto
  obtain q h2 where "f h1 = (q, h2)" by (cases "f h1")
  with mh t u show "\<exists>t. snd (io_finally m f h) = h @ t \<and> list_all P t"
    by (cases q) (simp_all add: io_finally_def)
qed

lemma io_emits_when [io_rules]: "io_emits P m \<Longrightarrow> io_emits P (io_when b m)"
  by (simp add: io_when_def io_emits_return)

lemma io_emits_if [io_rules]:
  "io_emits P m \<Longrightarrow> io_emits P m' \<Longrightarrow> io_emits P (if b then m else m')"
  by simp

lemma io_emits_option [io_rules]:
  "io_emits P m \<Longrightarrow> (\<And>x. io_emits P (k x)) \<Longrightarrow>
     io_emits P (case z of None \<Rightarrow> m | Some x \<Rightarrow> k x)"
  by (cases z) simp_all

lemma io_emits_mono: "io_emits P m \<Longrightarrow> (\<And>c. P c \<Longrightarrow> Q c) \<Longrightarrow> io_emits Q m"
  unfolding io_emits_def by (meson list_all_iff)

lemma io_emits_filter:
  assumes "io_emits P m" and "\<And>c. P c \<Longrightarrow> \<not> Q c"
  shows "filter Q (snd (m h)) = filter Q h"
proof -
  from io_emitsD [OF assms(1), of h] obtain t where t: "snd (m h) = h @ t" "list_all P t" by auto
  from t(2) assms(2) have "filter Q t = []" by (auto simp: list_all_iff filter_empty_conv)
  with t(1) show ?thesis by simp
qed

section \<open>Results\<close>

fun result_ok :: "'e + 'a \<Rightarrow> bool" where
  "result_ok (Inl e) = False"
| "result_ok (Inr x) = True"

lemma result_ok_iff: "result_ok r \<longleftrightarrow> (\<exists>x. r = Inr x)"
  by (cases r) simp_all

lemma not_result_ok_iff: "\<not> result_ok r \<longleftrightarrow> (\<exists>e. r = Inl e)"
  by (cases r) simp_all

section \<open>What a history says\<close>

text \<open>A state that is read off a history: each call changes it, in view of the calls before.\<close>

definition history_state :: "('c list \<Rightarrow> 'c \<Rightarrow> 's \<Rightarrow> 's) \<Rightarrow> 's \<Rightarrow> 'c list \<Rightarrow> 's" where
  "history_state step init h = fst (foldl (\<lambda>(s, seen) c. (step seen c s, seen @ [c])) (init, []) h)"

lemma history_state_Nil [simp]: "history_state step init [] = init"
  by (simp add: history_state_def)

lemma history_state_snoc: "history_state step init (h @ [c]) = step h c (history_state step init h)"
proof -
  have "snd (foldl (\<lambda>(s, seen) c. (step seen c s, seen @ [c])) (init, []) h) = h"
    by (induction h rule: rev_induct) (simp_all add: case_prod_beta)
  then show ?thesis by (simp add: history_state_def case_prod_beta)
qed

section \<open>Lists\<close>

lemma map_of_map_keys: "map_of (map (\<lambda>k. (k, f k)) ks) k = (if k \<in> set ks then Some (f k) else None)"
  by (induction ks) auto

lemma find_append: "find P (xs @ ys) = (case find P xs of None \<Rightarrow> find P ys | Some x \<Rightarrow> Some x)"
  by (induction xs) auto

lemma find_Some_iff_dropWhile:
  "find P xs = (case dropWhile (\<lambda>x. \<not> P x) xs of [] \<Rightarrow> None | x # _ \<Rightarrow> Some x)"
  by (induction xs) auto

text \<open>An association list with a key set: an existing key keeps its place.\<close>

fun assoc_set :: "('k \<times> 'v) list \<Rightarrow> 'k \<Rightarrow> 'v \<Rightarrow> ('k \<times> 'v) list" where
  "assoc_set [] k v = [(k, v)]"
| "assoc_set ((k', v') # kvs) k v = (if k' = k then (k, v) # kvs else (k', v') # assoc_set kvs k v)"

lemma map_of_assoc_set: "map_of (assoc_set kvs k v) = (map_of kvs)(k \<mapsto> v)"
  by (induction kvs k v rule: assoc_set.induct) (auto simp: fun_eq_iff)

end
