(* ===== verification/Proto_Wire.thy ===== *)
theory Proto_Wire
  imports Prelude
begin

text \<open>
  The formats in which the generated files of src/protogen/ts carry their descriptors: base64 without padding
  over the Protobuf wire format. Decoders that compute, each with the encoder it inverts. Bytes are integers
  from 0 to 255.
\<close>

section \<open>Base64\<close>

definition sextet :: "char \<Rightarrow> int option" where
  "sextet c =
     (let n = (of_char c :: int)
      in if 65 \<le> n \<and> n \<le> 90 then Some (n - 65)
         else if 97 \<le> n \<and> n \<le> 122 then Some (n - 71)
         else if 48 \<le> n \<and> n \<le> 57 then Some (n + 4)
         else if n = 43 then Some 62
         else if n = 47 then Some 63
         else None)"

definition sextet_char :: "int \<Rightarrow> char" where
  "sextet_char v =
     char_of (if v < 26 then v + 65 else if v < 52 then v + 71 else if v < 62 then v - 4
              else if v = 62 then 43 else 47 :: int)"

fun base64_decode :: "string \<Rightarrow> int list option" where
  "base64_decode [] = Some []"
| "base64_decode [a] = None"
| "base64_decode [a, b] =
     Option.bind (sextet a) (\<lambda>x. Option.bind (sextet b) (\<lambda>y. Some [x * 4 + y div 16]))"
| "base64_decode [a, b, c] =
     Option.bind (sextet a) (\<lambda>x. Option.bind (sextet b) (\<lambda>y. Option.bind (sextet c) (\<lambda>z.
       Some [x * 4 + y div 16, y mod 16 * 16 + z div 4])))"
| "base64_decode (a # b # c # d # r) =
     Option.bind (sextet a) (\<lambda>x. Option.bind (sextet b) (\<lambda>y. Option.bind (sextet c) (\<lambda>z.
     Option.bind (sextet d) (\<lambda>w. Option.bind (base64_decode r) (\<lambda>t.
       Some ((x * 4 + y div 16) # (y mod 16 * 16 + z div 4) # (z mod 4 * 64 + w) # t))))))"

fun base64_encode :: "int list \<Rightarrow> string" where
  "base64_encode [] = []"
| "base64_encode [p] = map sextet_char [p div 4, p mod 4 * 16]"
| "base64_encode [p, q] = map sextet_char [p div 4, p mod 4 * 16 + q div 16, q mod 16 * 4]"
| "base64_encode (p # q # s # r) =
     map sextet_char [p div 4, p mod 4 * 16 + q div 16, q mod 16 * 4 + s div 64, s mod 64] @ base64_encode r"

abbreviation byte :: "int \<Rightarrow> bool" where
  "byte b \<equiv> 0 \<le> b \<and> b < 256"

lemma sextet_sextet_char: "0 \<le> v \<Longrightarrow> v < 64 \<Longrightarrow> sextet (sextet_char v) = Some v"
  by (auto simp: sextet_def sextet_char_def Let_def of_char_of)

lemma byte_parts:
  assumes "byte b"
  shows "b div 16 div 16 = 0" "b div 16 mod 16 = b div 16" "b div 64 div 4 = 0" "b div 64 mod 4 = b div 64"
    and "0 \<le> b div 4" "b div 4 < 64" "0 \<le> b div 16" "b div 16 < 16" "0 \<le> b div 64" "b div 64 < 4"
proof -
  have "b div 16 < 16" "b div 64 < 4" "0 \<le> b div 16" "0 \<le> b div 64" using assms by auto
  then show "b div 16 div 16 = 0" "b div 16 mod 16 = b div 16" "b div 64 div 4 = 0" "b div 64 mod 4 = b div 64"
    "0 \<le> b div 16" "b div 16 < 16" "0 \<le> b div 64" "b div 64 < 4"
    by (simp_all del: zdiv_zmult2_eq)
qed (use assms in auto)

lemma sextet_split:
  assumes "byte p" and "byte q"
  shows "sextet (sextet_char (p div 4)) = Some (p div 4)"
    "sextet (sextet_char (p mod 4 * 16 + q div 16)) = Some (p mod 4 * 16 + q div 16)"
    "sextet (sextet_char (q mod 16 * 4 + p div 64)) = Some (q mod 16 * 4 + p div 64)"
    "sextet (sextet_char (p mod 64)) = Some (p mod 64)"
    "sextet (sextet_char (p mod 4 * 16)) = Some (p mod 4 * 16)"
    "sextet (sextet_char (q mod 16 * 4)) = Some (q mod 16 * 4)"
proof -
  have m: "0 \<le> p mod 4" "p mod 4 < 4" "0 \<le> q mod 16" "q mod 16 < 16" "0 \<le> p mod 64" "p mod 64 < 64" by simp_all
  note parts = byte_parts(5-) [OF assms(1)] byte_parts(5-) [OF assms(2)]
  show "sextet (sextet_char (p div 4)) = Some (p div 4)" using parts by (intro sextet_sextet_char)
  show "sextet (sextet_char (p mod 64)) = Some (p mod 64)" using m by (intro sextet_sextet_char)
  show "sextet (sextet_char (p mod 4 * 16 + q div 16)) = Some (p mod 4 * 16 + q div 16)"
    using m parts by (intro sextet_sextet_char) linarith+
  show "sextet (sextet_char (q mod 16 * 4 + p div 64)) = Some (q mod 16 * 4 + p div 64)"
    using m parts by (intro sextet_sextet_char) linarith+
  show "sextet (sextet_char (p mod 4 * 16)) = Some (p mod 4 * 16)"
    using m by (intro sextet_sextet_char) linarith+
  show "sextet (sextet_char (q mod 16 * 4)) = Some (q mod 16 * 4)"
    using m by (intro sextet_sextet_char) linarith+
qed

lemma base64_round_trip: "list_all byte bs \<Longrightarrow> base64_decode (base64_encode bs) = Some bs"
proof (induction bs rule: base64_encode.induct)
  case (4 p q s r)
  then have "byte p" "byte q" "byte s" by simp_all
  with 4 show ?case
    by (simp add: sextet_split [of p q] sextet_split [of s q] byte_parts)
next
  case (3 p q)
  then have "byte p" "byte q" by simp_all
  with 3 show ?case by (simp add: sextet_split [of p q] byte_parts)
next
  case (2 p)
  then show ?case by (simp add: sextet_split [of p p])
qed simp

section \<open>Varints\<close>

fun varint :: "int list \<Rightarrow> (int \<times> int list) option" where
  "varint [] = None"
| "varint (b # r) =
     (if b < 128 then Some (b, r)
      else map_option (\<lambda>(n, t). (b - 128 + 128 * n, t)) (varint r))"

function varint_encode :: "int \<Rightarrow> int list" where
  "varint_encode n = (if n < 128 then [n] else (n mod 128 + 128) # varint_encode (n div 128))"
  by pat_completeness auto
termination by (relation "measure nat") auto

declare varint_encode.simps [simp del]

lemma varint_round_trip: "varint (varint_encode n @ r) = Some (n, r)"
proof (induction n rule: varint_encode.induct)
  case (1 n)
  then show ?case by (subst varint_encode.simps) auto
qed

lemma varint_shorter: "varint bs = Some (n, r) \<Longrightarrow> length r < length bs"
  by (induction bs arbitrary: n r) (fastforce split: if_splits)+

section \<open>Fields\<close>

datatype wire_value = WVarint int | WBytes "int list"

fun split_bytes :: "int \<Rightarrow> int list \<Rightarrow> (int list \<times> int list) option" where
  "split_bytes n [] = (if n \<le> 0 then Some ([], []) else None)"
| "split_bytes n (b # r) =
     (if n \<le> 0 then Some ([], b # r) else map_option (\<lambda>(p, t). (b # p, t)) (split_bytes (n - 1) r))"

lemma split_bytes_append: "split_bytes (int (length p)) (p @ r) = Some (p, r)"
  by (induction p) (auto, cases r, auto)

lemma split_bytes_shorter: "split_bytes n bs = Some (p, r) \<Longrightarrow> length r \<le> length bs"
  by (induction n bs arbitrary: p r rule: split_bytes.induct) (fastforce split: if_splits)+

text \<open>A message is a sequence of fields, each a tag (the number and the wire type) and a value. The descriptors have varints and
  length-delimited values only.\<close>

function wire_fields :: "int list \<Rightarrow> (int \<times> wire_value) list option" where
  "wire_fields bs =
     (if bs = [] then Some []
      else case varint bs of
        None \<Rightarrow> None
      | Some (tag, r) \<Rightarrow>
          (case varint r of
             None \<Rightarrow> None
           | Some (n, r') \<Rightarrow>
               if tag mod 8 = 0 then map_option (\<lambda>fs. (tag div 8, WVarint n) # fs) (wire_fields r')
               else if tag mod 8 = 2 then
                 (case split_bytes n r' of
                    None \<Rightarrow> None
                  | Some (p, r'') \<Rightarrow> map_option (\<lambda>fs. (tag div 8, WBytes p) # fs) (wire_fields r''))
               else None))"
  by pat_completeness auto
termination
  by (relation "measure length") (auto dest!: varint_shorter split_bytes_shorter)

declare wire_fields.simps [simp del]

fun encode_field :: "int \<times> wire_value \<Rightarrow> int list" where
  "encode_field (k, WVarint n) = varint_encode (k * 8) @ varint_encode n"
| "encode_field (k, WBytes p) = varint_encode (k * 8 + 2) @ varint_encode (int (length p)) @ p"

lemma varint_encode_nonempty [simp]: "varint_encode n \<noteq> []"
  by (subst varint_encode.simps) simp

text \<open>The round trip: a sequence of fields is read back.\<close>

lemma wire_round_trip: "wire_fields (concat (map encode_field fs)) = Some fs"
proof (induction fs)
  case Nil
  then show ?case by (simp add: wire_fields.simps)
next
  case (Cons f fs)
  obtain k v where f: "f = (k, v)" by (cases f)
  show ?case
    by (cases v) (use Cons in \<open>simp_all add: f wire_fields.simps [of "_ @ _"] varint_round_trip split_bytes_append\<close>)
qed

section \<open>Evaluation\<close>

text \<open>
  The decoders once more, for the simplifier: with accumulators, and with congruence rules that keep it from
  visiting the bytes it is not working on. \<open>decode_simps\<close> and \<open>decode_congs\<close> evaluate a decoder on a literal in a number of
  steps linear in its length.
\<close>

named_theorems decode_simps \<open>equations that evaluate the decoders on a literal\<close>
named_theorems decode_congs \<open>congruence rules that protect the bytes not yet read\<close>

lemma sextet_table:
  "list_all2 (\<lambda>c v. sextet c = Some v) ''ABCDEFGHIJKLMNOPQRSTUVWXYZabcdefghijklmnopqrstuvwxyz0123456789+/'' [0, 1, 2, 3, 4, 5, 6, 7, 8, 9, 10, 11, 12, 13, 14, 15, 16, 17, 18, 19, 20, 21, 22, 23, 24, 25, 26, 27, 28, 29, 30, 31, 32, 33, 34, 35, 36, 37, 38, 39, 40, 41, 42, 43, 44, 45, 46, 47, 48, 49, 50, 51, 52, 53, 54, 55, 56, 57, 58, 59, 60, 61, 62, 63]"
  by code_simp

lemmas sextet_simps [decode_simps] = sextet_table [simplified]

lemma ascii_table:
  "list_all2 (\<lambda>c n. char_of (n :: int) = c) (''ABCDEFGHIJKLMNOPQRSTUVWXYZabcdefghijklmnopqrstuvwxyz0123456789._*'' @ [CHR 0x5C]) [65, 66, 67, 68, 69, 70, 71, 72, 73, 74, 75, 76, 77, 78, 79, 80, 81, 82, 83, 84, 85, 86, 87, 88, 89, 90, 97, 98, 99, 100, 101, 102, 103, 104, 105, 106, 107, 108, 109, 110, 111, 112, 113, 114, 115, 116, 117, 118, 119, 120, 121, 122, 48, 49, 50, 51, 52, 53, 54, 55, 56, 57, 46, 95, 42, 92]"
  by code_simp

lemmas ascii_simps [decode_simps] = ascii_table [simplified]

definition unrev :: "'a list \<Rightarrow> 'a list \<Rightarrow> 'a list" where
  "unrev xs out = rev xs @ out"

text \<open>Eight bytes at a time where there are eight.\<close>

lemma unrev_simps [decode_simps]:
  "unrev [] out = out" "unrev [a] out = a # out" "unrev [a, b] out = b # a # out" "unrev [a, b, c] out = c # b # a # out"
  "unrev (a # b # c # d # xs) out = unrev xs (d # c # b # a # out)"
  by (simp_all add: unrev_def)

definition base64_go :: "int list \<Rightarrow> string \<Rightarrow> int list option" where
  "base64_go acc s = map_option (append (rev acc)) (base64_decode s)"

definition base64_push :: "int list \<Rightarrow> int \<Rightarrow> int \<Rightarrow> int \<Rightarrow> string \<Rightarrow> int list option" where
  "base64_push acc p q s r = base64_go (s # q # p # acc) r"

definition base64_group ::
    "int list \<Rightarrow> int option \<Rightarrow> int option \<Rightarrow> int option \<Rightarrow> int option \<Rightarrow> string \<Rightarrow> int list option" where
  "base64_group acc a b c d r =
     Option.bind a (\<lambda>x. Option.bind b (\<lambda>y. Option.bind c (\<lambda>z. Option.bind d (\<lambda>w.
       base64_push acc (x * 4 + y div 16) (y mod 16 * 16 + z div 4) (z mod 4 * 64 + w) r))))"

lemma base64_decode_go [decode_simps]: "base64_decode s = base64_go [] s"
  by (cases "base64_decode s") (simp_all add: base64_go_def)

lemma base64_go_simps [decode_simps]:
  "base64_go acc [] = Some (unrev acc [])"
  "base64_go acc [a, b] =
     Option.bind (sextet a) (\<lambda>x. Option.bind (sextet b) (\<lambda>y. Some (unrev acc [x * 4 + y div 16])))"
  "base64_go acc [a, b, c] =
     Option.bind (sextet a) (\<lambda>x. Option.bind (sextet b) (\<lambda>y. Option.bind (sextet c) (\<lambda>z.
       Some (unrev acc [x * 4 + y div 16, y mod 16 * 16 + z div 4]))))"
  "base64_go acc (a # b # c # d # r) = base64_group acc (sextet a) (sextet b) (sextet c) (sextet d) r"
  "base64_group acc (Some x) (Some y) (Some z) (Some w) r =
     base64_push acc (x * 4 + y div 16) (y mod 16 * 16 + z div 4) (z mod 4 * 64 + w) r"
  "base64_push acc p q s r = base64_go (s # q # p # acc) r"
  by (cases "sextet a"; cases "sextet b"; cases "sextet c"; cases "sextet d"; cases "base64_decode r";
      simp add: base64_go_def base64_group_def base64_push_def unrev_def)+

definition wire_payload :: "int \<Rightarrow> int \<Rightarrow> int list \<Rightarrow> (int \<times> wire_value) list option" where
  "wire_payload tag n bs =
     (if tag mod 8 = 0 then map_option (Cons (tag div 8, WVarint n)) (wire_fields bs)
      else if tag mod 8 = 2 then
        Option.bind (split_bytes n bs) (\<lambda>(p, r). map_option (Cons (tag div 8, WBytes p)) (wire_fields r))
      else None)"

definition wire_number :: "int \<Rightarrow> int \<Rightarrow> int \<Rightarrow> int list \<Rightarrow> (int \<times> wire_value) list option" where
  "wire_number tag m n bs = Option.bind (varint bs) (\<lambda>(k, r). wire_payload tag (n + m * k) r)"

definition wire_tag :: "int \<Rightarrow> int \<Rightarrow> int list \<Rightarrow> (int \<times> wire_value) list option" where
  "wire_tag m t bs = Option.bind (varint bs) (\<lambda>(k, r). wire_number (t + m * k) 1 0 r)"

definition wire_split :: "int \<Rightarrow> int \<Rightarrow> int list \<Rightarrow> int list \<Rightarrow> (int \<times> wire_value) list option" where
  "wire_split k n acc bs =
     Option.bind (split_bytes n bs) (\<lambda>(p, r). map_option (Cons (k, WBytes (rev acc @ p))) (wire_fields r))"

lemma wire_fields_simps [decode_simps]: "wire_fields [] = Some []" "wire_fields (b # bs) = wire_tag 1 0 (b # bs)"
  by (simp_all add: wire_fields.simps [of "_ # _"] wire_fields.simps [of "[]"] wire_tag_def wire_number_def wire_payload_def
      Option.bind_def case_prod_beta' split: option.split)

lemma wire_steps [decode_simps]:
  "wire_tag m t (b # r) =
     (if b < 128 then wire_number (t + m * b) 1 0 r else wire_tag (m * 128) (t + m * (b - 128)) r)"
  "wire_number tag m n (b # r) =
     (if b < 128 then wire_payload tag (n + m * b) r else wire_number tag (m * 128) (n + m * (b - 128)) r)"
  "wire_payload tag n bs =
     (if tag mod 8 = 0 then map_option (Cons (tag div 8, WVarint n)) (wire_fields bs)
      else if tag mod 8 = 2 then wire_split (tag div 8) n [] bs else None)"
proof -
  have eq: "t + m * (b - 128 + 128 * k) = t + m * (b - 128) + m * 128 * k" for t k :: int by (simp add: algebra_simps)
  show "wire_tag m t (b # r) =
      (if b < 128 then wire_number (t + m * b) 1 0 r else wire_tag (m * 128) (t + m * (b - 128)) r)"
    by (cases "varint r") (auto simp: wire_tag_def eq)
  show "wire_number tag m n (b # r) =
      (if b < 128 then wire_payload tag (n + m * b) r else wire_number tag (m * 128) (n + m * (b - 128)) r)"
    by (cases "varint r") (auto simp: wire_number_def eq)
qed (simp add: wire_payload_def wire_split_def)

lemma wire_split_step: "0 < n \<Longrightarrow> wire_split k n acc (b # r) = wire_split k (n - 1) (b # acc) r"
  by (cases "split_bytes (n - 1) r") (simp_all add: wire_split_def case_prod_beta')

text \<open>Eight bytes at a time where there are eight.\<close>

lemma wire_split_simps [decode_simps]:
  "wire_split k 0 acc bs = map_option (Cons (k, WBytes (unrev acc []))) (wire_fields bs)"
  "0 < n \<Longrightarrow> n < 8 \<Longrightarrow> wire_split k n acc (b # r) = wire_split k (n - 1) (b # acc) r"
  "8 \<le> n \<Longrightarrow> wire_split k n acc (a # b # c # d # e # f # g # h # r) =
     wire_split k (n - 8) (h # g # f # e # d # c # b # a # acc) r"
  by (cases bs; simp add: wire_split_def unrev_def) (simp_all add: wire_split_step)

lemma decode_weak_congs [decode_congs]:
  "unrev xs out = unrev xs out"
  "base64_go acc s = base64_go acc s"
  "wire_fields bs = wire_fields bs"
  by (rule refl)+

lemma decode_part_congs [decode_congs]:
  "a = a' \<Longrightarrow> b = b' \<Longrightarrow> c = c' \<Longrightarrow> d = d' \<Longrightarrow> base64_group acc a b c d r = base64_group acc a' b' c' d' r"
  "p = p' \<Longrightarrow> q = q' \<Longrightarrow> s = s' \<Longrightarrow> base64_push acc p q s r = base64_push acc p' q' s' r"
  "m = m' \<Longrightarrow> t = t' \<Longrightarrow> wire_tag m t bs = wire_tag m' t' bs"
  "t = t' \<Longrightarrow> m = m' \<Longrightarrow> n = n' \<Longrightarrow> wire_number t m n bs = wire_number t' m' n' bs"
  "t = t' \<Longrightarrow> n = n' \<Longrightarrow> wire_payload t n bs = wire_payload t' n' bs"
  "k = k' \<Longrightarrow> n = n' \<Longrightarrow> wire_split k n acc bs = wire_split k' n' acc bs"
  by simp_all

end
