(* ===== verification/Proto_Descriptor.thy ===== *)
theory Proto_Descriptor
  imports Proto_Wire
begin

text \<open>
  Descriptors of Protobuf files: the part of descriptor.proto that the generated files of src/protogen/ts use, read from the wire
  format, and the rules of protoc-gen-es by which a descriptor becomes a TypeScript declaration.
\<close>

section \<open>Descriptors\<close>

datatype proto_type = PString | PBool | PInt64 | PMessage string | PEnum string

datatype proto_label = Implicit | Explicit | Repeated

text \<open>The rules of buf.validate that the services put on their fields; all are on strings.\<close>

datatype string_rule = MinLen int | MaxLen int | Pattern string | EmailAddress

record proto_field =
  pf_label :: proto_label
  pf_type :: proto_type
  pf_name :: string
  pf_number :: int
  pf_rules :: "string_rule list"

record proto_message =
  pm_name :: string
  pm_fields :: "proto_field list"

record proto_enum =
  pe_name :: string
  pe_values :: "(string \<times> int) list"

record proto_method =
  pr_name :: string
  pr_input :: string
  pr_output :: string

record proto_service =
  ps_name :: string
  ps_methods :: "proto_method list"

record proto_file =
  pd_package :: string
  pd_messages :: "proto_message list"
  pd_enums :: "proto_enum list"
  pd_services :: "proto_service list"

section \<open>Reading a descriptor\<close>

type_synonym wire_message = "(int \<times> wire_value) list"

definition bytes_of :: "int \<Rightarrow> wire_message \<Rightarrow> int list list" where
  "bytes_of k fs = concat (map (\<lambda>(n, v). case v of WBytes p \<Rightarrow> if n = k then [p] else [] | _ \<Rightarrow> []) fs)"

definition number_of :: "int \<Rightarrow> wire_message \<Rightarrow> int" where
  "number_of k fs = foldl (\<lambda>acc (n, v). case v of WVarint m \<Rightarrow> if n = k then m else acc | _ \<Rightarrow> acc) 0 fs"

text \<open>ASCII text; the descriptors have no other.\<close>

definition ascii :: "int list \<Rightarrow> string option" where
  "ascii bs = (if list_all (\<lambda>b. b < 128) bs then Some (map char_of bs) else None)"

definition text_of :: "int \<Rightarrow> wire_message \<Rightarrow> string option" where
  "text_of k fs = (case bytes_of k fs of [] \<Rightarrow> Some [] | [p] \<Rightarrow> ascii p | _ \<Rightarrow> None)"

definition each :: "int \<Rightarrow> (wire_message \<Rightarrow> 'a option) \<Rightarrow> wire_message \<Rightarrow> 'a list option" where
  "each k f fs = those (map (\<lambda>p. Option.bind (wire_fields p) f) (bytes_of k fs))"

text \<open>
  The option \<open>(buf.validate.field).string\<close> of a field, by the numbers of the generated validate_pb.ts: the extension, the member of
  \<open>FieldRules\<close> and the members of \<open>StringRules\<close>.
\<close>

definition validate_field :: int where "validate_field = 1159"

definition FieldRules_string :: int where "FieldRules_string = 14"

definition StringRules_minLen :: int where "StringRules_minLen = 2"

definition StringRules_maxLen :: int where "StringRules_maxLen = 3"

definition StringRules_pattern :: int where "StringRules_pattern = 6"

definition StringRules_email :: int where "StringRules_email = 12"

lemmas validate_numbers = validate_field_def FieldRules_string_def StringRules_minLen_def StringRules_maxLen_def
  StringRules_pattern_def StringRules_email_def

fun read_rule :: "int \<times> wire_value \<Rightarrow> string_rule option" where
  "read_rule (k, WVarint n) =
     (if k = StringRules_minLen then Some (MinLen n)
      else if k = StringRules_maxLen then Some (MaxLen n)
      else if k = StringRules_email \<and> n = 1 then Some EmailAddress
      else None)"
| "read_rule (k, WBytes p) =
     (if k = StringRules_pattern then map_option Pattern (ascii p) else None)"

definition read_rules :: "wire_message \<Rightarrow> string_rule list option" where
  "read_rules options =
     (case bytes_of validate_field options of
        [] \<Rightarrow> Some []
      | [p] \<Rightarrow> Option.bind (wire_fields p) (\<lambda>rules.
          map_option concat (each FieldRules_string (\<lambda>fs. those (map read_rule fs)) rules))
      | _ \<Rightarrow> None)"

text \<open>FieldDescriptorProto: name 1, number 3, label 4, type 5, type_name 6, options 8, proto3_optional 17. A type name is absolute,
  with a dot in front.\<close>

definition field_type :: "int \<Rightarrow> string \<Rightarrow> proto_type option" where
  "field_type k name =
     (if k = 9 then Some PString else if k = 8 then Some PBool else if k = 3 then Some PInt64
      else if k = 11 then Some (PMessage (drop 1 name)) else if k = 14 then Some (PEnum (drop 1 name)) else None)"

definition read_field :: "wire_message \<Rightarrow> proto_field option" where
  "read_field fs =
     Option.bind (text_of 1 fs) (\<lambda>name. Option.bind (text_of 6 fs) (\<lambda>type_name.
     Option.bind (field_type (number_of 5 fs) type_name) (\<lambda>t.
     Option.bind (each 8 read_rules fs) (\<lambda>rules.
       Some \<lparr>pf_label = (if number_of 4 fs = 3 then Repeated else if number_of 17 fs = 1 then Explicit else Implicit),
             pf_type = t, pf_name = name, pf_number = number_of 3 fs, pf_rules = concat rules\<rparr>))))"

text \<open>DescriptorProto: name 1, field 2.\<close>

definition read_message :: "string \<Rightarrow> wire_message \<Rightarrow> proto_message option" where
  "read_message package fs =
     Option.bind (text_of 1 fs) (\<lambda>name. Option.bind (each 2 read_field fs) (\<lambda>fields.
       Some \<lparr>pm_name = package @ ''.'' @ name, pm_fields = fields\<rparr>))"

text \<open>EnumDescriptorProto: name 1, value 2, each with name 1 and number 2.\<close>

definition read_enum :: "string \<Rightarrow> wire_message \<Rightarrow> proto_enum option" where
  "read_enum package fs =
     Option.bind (text_of 1 fs) (\<lambda>name.
     Option.bind (each 2 (\<lambda>vs. map_option (\<lambda>n. (n, number_of 2 vs)) (text_of 1 vs)) fs) (\<lambda>values.
       Some \<lparr>pe_name = package @ ''.'' @ name, pe_values = values\<rparr>))"

text \<open>ServiceDescriptorProto: name 1, method 2, each with name 1, input_type 2 and output_type 3.\<close>

definition read_method :: "wire_message \<Rightarrow> proto_method option" where
  "read_method fs =
     Option.bind (text_of 1 fs) (\<lambda>name. Option.bind (text_of 2 fs) (\<lambda>input. Option.bind (text_of 3 fs) (\<lambda>output.
       Some \<lparr>pr_name = name, pr_input = drop 1 input, pr_output = drop 1 output\<rparr>)))"

definition read_service :: "string \<Rightarrow> wire_message \<Rightarrow> proto_service option" where
  "read_service package fs =
     Option.bind (text_of 1 fs) (\<lambda>name. Option.bind (each 2 read_method fs) (\<lambda>methods.
       Some \<lparr>ps_name = package @ ''.'' @ name, ps_methods = methods\<rparr>))"

text \<open>FileDescriptorProto: package 2, message_type 4, enum_type 5, service 6.\<close>

definition read_file :: "wire_message \<Rightarrow> proto_file option" where
  "read_file fs =
     Option.bind (text_of 2 fs) (\<lambda>package.
     Option.bind (each 4 (read_message package) fs) (\<lambda>messages.
     Option.bind (each 5 (read_enum package) fs) (\<lambda>enums.
     Option.bind (each 6 (read_service package) fs) (\<lambda>services.
       Some \<lparr>pd_package = package, pd_messages = messages, pd_enums = enums, pd_services = services\<rparr>))))"

text \<open>\<open>fileDesc\<close>, \<open>messageDesc\<close>, \<open>enumDesc\<close> and \<open>serviceDesc\<close> of the generated code: the file of a base64 text, and its parts by index.\<close>

definition fileDesc :: "string \<Rightarrow> proto_file option" where
  "fileDesc b64 = Option.bind (base64_decode b64) (\<lambda>bs. Option.bind (wire_fields bs) read_file)"

definition part :: "'a list \<Rightarrow> nat \<Rightarrow> 'a option" where
  "part xs i = (if i < length xs then Some (xs ! i) else None)"

definition messageDesc :: "proto_file option \<Rightarrow> nat \<Rightarrow> proto_message option" where
  "messageDesc file i = Option.bind file (\<lambda>d. part (pd_messages d) i)"

definition enumDesc :: "proto_file option \<Rightarrow> nat \<Rightarrow> proto_enum option" where
  "enumDesc file i = Option.bind file (\<lambda>d. part (pd_enums d) i)"

definition serviceDesc :: "proto_file option \<Rightarrow> nat \<Rightarrow> proto_service option" where
  "serviceDesc file i = Option.bind file (\<lambda>d. part (pd_services d) i)"

section \<open>TypeScript declarations\<close>

text \<open>
  A declared message: the name in its \<open>Message\<close> type and its members, each with its TypeScript type and, from the comment in
  front of it, the field it was generated from.
\<close>

datatype ts_type = TsString | TsBoolean | TsBigint | TsRef string | TsArray ts_type

record ts_field =
  tf_name :: string
  tf_optional :: bool
  tf_type :: ts_type
  tf_from :: proto_field

record ts_message =
  tm_name :: string
  tm_fields :: "ts_field list"

record ts_enum =
  te_name :: string
  te_members :: "(string \<times> int \<times> string) list"

record ts_service =
  tv_name :: string
  tv_methods :: "(string \<times> proto_method) list"

definition ts_member :: "string \<Rightarrow> bool \<Rightarrow> ts_type \<Rightarrow> proto_label \<Rightarrow> proto_type \<Rightarrow> string \<Rightarrow> int \<Rightarrow> ts_field" where
  "ts_member name optional t label ptype pname number =
     \<lparr>tf_name = name, tf_optional = optional, tf_type = t,
      tf_from = \<lparr>pf_label = label, pf_type = ptype, pf_name = pname, pf_number = number, pf_rules = []\<rparr>\<rparr>"

subsection \<open>Names\<close>

definition upper :: "char \<Rightarrow> char" where
  "upper c = (let n = (of_char c :: int) in if 97 \<le> n \<and> n \<le> 122 then char_of (n - 32) else c)"

definition lower :: "char \<Rightarrow> char" where
  "lower c = (let n = (of_char c :: int) in if 65 \<le> n \<and> n \<le> 90 then char_of (n + 32) else c)"

fun camelCase :: "string \<Rightarrow> string" where
  "camelCase [] = []"
| "camelCase [c] = [c]"
| "camelCase (c # d # s) = (if c = CHR ''_'' then upper d # camelCase s else c # camelCase (d # s))"

definition methodName :: "string \<Rightarrow> string" where
  "methodName s = (case s of [] \<Rightarrow> [] | c # r \<Rightarrow> lower c # r)"

text \<open>The last component of a full name, and \<open>OrderStatus\<close> as \<open>ORDER_STATUS_\<close>.\<close>

fun local_name_after :: "string \<Rightarrow> string \<Rightarrow> string" where
  "local_name_after acc [] = rev acc"
| "local_name_after acc (c # s) = (if c = CHR ''.'' then local_name_after [] s else local_name_after (c # acc) s)"

definition localName :: "string \<Rightarrow> string" where
  "localName s = local_name_after [] s"

definition sharedPrefix :: "string \<Rightarrow> string" where
  "sharedPrefix name =
     (case name of [] \<Rightarrow> [] | c # s \<Rightarrow> upper c # concat (map (\<lambda>d. if lower d \<noteq> d then [CHR ''_'', d] else [upper d]) s) @ ''_'')"

subsection \<open>What protoc-gen-es generates\<close>

fun base_type :: "proto_type \<Rightarrow> ts_type" where
  "base_type PString = TsString"
| "base_type PBool = TsBoolean"
| "base_type PInt64 = TsBigint"
| "base_type (PMessage n) = TsRef (localName n)"
| "base_type (PEnum n) = TsRef (localName n)"

fun is_message :: "proto_type \<Rightarrow> bool" where
  "is_message (PMessage _) = True"
| "is_message _ = False"

definition generated_field :: "proto_field \<Rightarrow> ts_field" where
  "generated_field f =
     \<lparr>tf_name = camelCase (pf_name f),
      tf_optional = (pf_label f = Explicit \<or> pf_label f = Implicit \<and> is_message (pf_type f)),
      tf_type = (if pf_label f = Repeated then TsArray (base_type (pf_type f)) else base_type (pf_type f)),
      tf_from = f\<lparr>pf_rules := []\<rparr>\<rparr>"

definition generated_message :: "proto_message \<Rightarrow> ts_message" where
  "generated_message m = \<lparr>tm_name = pm_name m, tm_fields = map generated_field (pm_fields m)\<rparr>"

definition generated_enum :: "proto_enum \<Rightarrow> ts_enum" where
  "generated_enum e =
     \<lparr>te_name = pe_name e,
      te_members = map (\<lambda>(n, k). (drop (length (sharedPrefix (localName (pe_name e)))) n, k, n)) (pe_values e)\<rparr>"

definition generated_service :: "proto_service \<Rightarrow> ts_service" where
  "generated_service s =
     \<lparr>tv_name = ps_name s, tv_methods = map (\<lambda>m. (methodName (pr_name m), m)) (ps_methods s)\<rparr>"

text \<open>A schema agrees with a declaration; a declaration with rules on its fields, as a descriptor.\<close>

definition schema_agrees :: "proto_message option \<times> ts_message \<Rightarrow> bool" where
  "schema_agrees p \<longleftrightarrow> map_option generated_message (fst p) = Some (snd p)"

definition described :: "(string \<times> string_rule list) list \<Rightarrow> ts_message \<Rightarrow> proto_message" where
  "described rules t =
     \<lparr>pm_name = tm_name t,
      pm_fields = map (\<lambda>f. (tf_from f)\<lparr>pf_rules :=
        (case map_of rules (pf_name (tf_from f)) of None \<Rightarrow> [] | Some rs \<Rightarrow> rs)\<rparr>) (tm_fields t)\<rparr>"

definition described_enum :: "ts_enum \<Rightarrow> proto_enum" where
  "described_enum e = \<lparr>pe_name = te_name e, pe_values = map (\<lambda>(_, k, n). (n, k)) (te_members e)\<rparr>"

lemmas descriptor_simps = read_file_def read_message_def read_field_def read_rules_def read_enum_def read_service_def
  read_method_def each_def text_of_def bytes_of_def number_of_def ascii_def field_type_def validate_numbers
  described_def described_enum_def ts_member_def

lemmas generated_simps = generated_message_def generated_field_def localName_def upper_def described_def ts_member_def

end
