(* ===== verification/Protogen_Identity.thy ===== *)
theory Protogen_Identity
  imports Proto_Descriptor
begin

text \<open>
  The generated messages and the service of identity (protogen/ts/identity/v1/identity_pb.ts): the declared types, the
  embedded descriptor, and that they agree.
\<close>

section \<open>identity/v1/identity_pb.ts\<close>

definition SignUpRequest_message :: ts_message where
  "SignUpRequest_message = \<lparr>tm_name = ''identity.v1.SignUpRequest'', tm_fields =
     [ts_member ''name'' False TsString Implicit PString ''name'' 1,
      ts_member ''email'' False TsString Implicit PString ''email'' 2,
      ts_member ''password'' False TsString Implicit PString ''password'' 3]\<rparr>"

definition SignUpResponse_message :: ts_message where
  "SignUpResponse_message = \<lparr>tm_name = ''identity.v1.SignUpResponse'', tm_fields =
     [ts_member ''userId'' False TsString Implicit PString ''user_id'' 1,
      ts_member ''email'' False TsString Implicit PString ''email'' 2]\<rparr>"

definition SignInRequest_message :: ts_message where
  "SignInRequest_message = \<lparr>tm_name = ''identity.v1.SignInRequest'', tm_fields =
     [ts_member ''email'' False TsString Implicit PString ''email'' 1,
      ts_member ''password'' False TsString Implicit PString ''password'' 2]\<rparr>"

definition SignInResponse_message :: ts_message where
  "SignInResponse_message = \<lparr>tm_name = ''identity.v1.SignInResponse'', tm_fields =
     [ts_member ''userId'' False TsString Implicit PString ''user_id'' 1,
      ts_member ''name'' False TsString Implicit PString ''name'' 2,
      ts_member ''email'' False TsString Implicit PString ''email'' 3,
      ts_member ''emailVerified'' False TsBoolean Implicit PBool ''email_verified'' 4,
      ts_member ''sessionToken'' False TsString Implicit PString ''session_token'' 5,
      ts_member ''sessionExpiresAt'' True (TsRef ''Timestamp'') Implicit (PMessage ''google.protobuf.Timestamp'') ''session_expires_at'' 6]\<rparr>"

definition SignOutRequest_message :: ts_message where
  "SignOutRequest_message = \<lparr>tm_name = ''identity.v1.SignOutRequest'', tm_fields =
     []\<rparr>"

definition SignOutResponse_message :: ts_message where
  "SignOutResponse_message = \<lparr>tm_name = ''identity.v1.SignOutResponse'', tm_fields =
     []\<rparr>"

definition CurrentUserRequest_message :: ts_message where
  "CurrentUserRequest_message = \<lparr>tm_name = ''identity.v1.CurrentUserRequest'', tm_fields =
     []\<rparr>"

definition CurrentUserResponse_message :: ts_message where
  "CurrentUserResponse_message = \<lparr>tm_name = ''identity.v1.CurrentUserResponse'', tm_fields =
     [ts_member ''userId'' False TsString Implicit PString ''user_id'' 1,
      ts_member ''name'' False TsString Implicit PString ''name'' 2,
      ts_member ''email'' False TsString Implicit PString ''email'' 3,
      ts_member ''emailVerified'' False TsBoolean Implicit PBool ''email_verified'' 4]\<rparr>"

definition VerifyEmailRequest_message :: ts_message where
  "VerifyEmailRequest_message = \<lparr>tm_name = ''identity.v1.VerifyEmailRequest'', tm_fields =
     [ts_member ''token'' False TsString Implicit PString ''token'' 1]\<rparr>"

definition VerifyEmailResponse_message :: ts_message where
  "VerifyEmailResponse_message = \<lparr>tm_name = ''identity.v1.VerifyEmailResponse'', tm_fields =
     [ts_member ''verified'' False TsBoolean Implicit PBool ''verified'' 1]\<rparr>"

definition IdentityService_methods :: ts_service where
  "IdentityService_methods = \<lparr>tv_name = ''identity.v1.IdentityService'', tv_methods =
     [(''signUp'', \<lparr>pr_name = ''SignUp'', pr_input = tm_name SignUpRequest_message, pr_output = tm_name SignUpResponse_message\<rparr>),
      (''signIn'', \<lparr>pr_name = ''SignIn'', pr_input = tm_name SignInRequest_message, pr_output = tm_name SignInResponse_message\<rparr>),
      (''signOut'', \<lparr>pr_name = ''SignOut'', pr_input = tm_name SignOutRequest_message, pr_output = tm_name SignOutResponse_message\<rparr>),
      (''currentUser'', \<lparr>pr_name = ''CurrentUser'', pr_input = tm_name CurrentUserRequest_message, pr_output = tm_name CurrentUserResponse_message\<rparr>),
      (''verifyEmail'', \<lparr>pr_name = ''VerifyEmail'', pr_input = tm_name VerifyEmailRequest_message, pr_output = tm_name VerifyEmailResponse_message\<rparr>)]\<rparr>"

definition file_identity_v1_identity :: string where
  "file_identity_v1_identity =
    ''ChppZGVudGl0eS92MS9pZGVudGl0eS5wcm90bxILaWRlbnRpdHkudjEiYgoNU2lnblVwUmVxdWVzdBIbCgRuYW1lGAEgASgJQg26SApyCDIGLipcUy4qEhYKBWVtYWlsGAIgASgJQge6SARyAmABEhwKCHBhc3N3b3JkGAMgASgJQgq6SAdyBRAIGIABIjAKDlNpZ25VcFJlc3BvbnNlEg8KB3VzZXJfaWQYASABKAkSDQoFZW1haWwYAiABKAkiRQoNU2lnbkluUmVxdWVzdBIWCgVlbWFpbBgBIAEoCUIHukgEcgJgARIcCghwYXNzd29yZBgCIAEoCUIKukgHcgUQCBiAASKlAQoOU2lnbkluUmVzcG9uc2USDwoHdXNlcl9pZBgBIAEoCRIMCgRuYW1lGAIgASgJEg0KBWVtYWlsGAMgASgJEhYKDmVtYWlsX3ZlcmlmaWVkGAQgASgIEhUKDXNlc3Npb25fdG9rZW4YBSABKAkSNgoSc2Vzc2lvbl9leHBpcmVzX2F0GAYgASgLMhouZ29vZ2xlLnByb3RvYnVmLlRpbWVzdGFtcCIQCg5TaWduT3V0UmVxdWVzdCIRCg9TaWduT3V0UmVzcG9uc2UiFAoSQ3VycmVudFVzZXJSZXF1ZXN0IlsKE0N1cnJlbnRVc2VyUmVzcG9uc2USDwoHdXNlcl9pZBgBIAEoCRIMCgRuYW1lGAIgASgJEg0KBWVtYWlsGAMgASgJEhYKDmVtYWlsX3ZlcmlmaWVkGAQgASgIIiwKElZlcmlmeUVtYWlsUmVxdWVzdBIWCgV0b2tlbhgBIAEoCUIHukgEcgIQASInChNWZXJpZnlFbWFpbFJlc3BvbnNlEhAKCHZlcmlmaWVkGAEgASgIMoEDCg9JZGVudGl0eVNlcnZpY2USQQoGU2lnblVwEhouaWRlbnRpdHkudjEuU2lnblVwUmVxdWVzdBobLmlkZW50aXR5LnYxLlNpZ25VcFJlc3BvbnNlEkEKBlNpZ25JbhIaLmlkZW50aXR5LnYxLlNpZ25JblJlcXVlc3QaGy5pZGVudGl0eS52MS5TaWduSW5SZXNwb25zZRJECgdTaWduT3V0EhsuaWRlbnRpdHkudjEuU2lnbk91dFJlcXVlc3QaHC5pZGVudGl0eS52MS5TaWduT3V0UmVzcG9uc2USUAoLQ3VycmVudFVzZXISHy5pZGVudGl0eS52MS5DdXJyZW50VXNlclJlcXVlc3QaIC5pZGVudGl0eS52MS5DdXJyZW50VXNlclJlc3BvbnNlElAKC1ZlcmlmeUVtYWlsEh8uaWRlbnRpdHkudjEuVmVyaWZ5RW1haWxSZXF1ZXN0GiAuaWRlbnRpdHkudjEuVmVyaWZ5RW1haWxSZXNwb25zZUI6Wjhwb2x5Z2xvdC10aWNrZXRpbmctdjEvcHJvdG9nZW4vZ28vaWRlbnRpdHkvdjE7aWRlbnRpdHl2MWIGcHJvdG8z''"

definition SignUpRequestSchema :: "proto_message option" where
  "SignUpRequestSchema = messageDesc (fileDesc file_identity_v1_identity) 0"

definition SignUpResponseSchema :: "proto_message option" where
  "SignUpResponseSchema = messageDesc (fileDesc file_identity_v1_identity) 1"

definition SignInRequestSchema :: "proto_message option" where
  "SignInRequestSchema = messageDesc (fileDesc file_identity_v1_identity) 2"

definition SignInResponseSchema :: "proto_message option" where
  "SignInResponseSchema = messageDesc (fileDesc file_identity_v1_identity) 3"

definition SignOutRequestSchema :: "proto_message option" where
  "SignOutRequestSchema = messageDesc (fileDesc file_identity_v1_identity) 4"

definition SignOutResponseSchema :: "proto_message option" where
  "SignOutResponseSchema = messageDesc (fileDesc file_identity_v1_identity) 5"

definition CurrentUserRequestSchema :: "proto_message option" where
  "CurrentUserRequestSchema = messageDesc (fileDesc file_identity_v1_identity) 6"

definition CurrentUserResponseSchema :: "proto_message option" where
  "CurrentUserResponseSchema = messageDesc (fileDesc file_identity_v1_identity) 7"

definition VerifyEmailRequestSchema :: "proto_message option" where
  "VerifyEmailRequestSchema = messageDesc (fileDesc file_identity_v1_identity) 8"

definition VerifyEmailResponseSchema :: "proto_message option" where
  "VerifyEmailResponseSchema = messageDesc (fileDesc file_identity_v1_identity) 9"

definition IdentityService :: "proto_service option" where
  "IdentityService = serviceDesc (fileDesc file_identity_v1_identity) 0"

text \<open>The descriptor is the one of the declarations, with the rules on their fields.\<close>

lemmas identity_v1_identity_declared =
  SignUpRequest_message_def SignUpResponse_message_def SignInRequest_message_def SignInResponse_message_def SignOutRequest_message_def SignOutResponse_message_def CurrentUserRequest_message_def CurrentUserResponse_message_def VerifyEmailRequest_message_def VerifyEmailResponse_message_def IdentityService_methods_def

lemma identity_v1_identity_read:
  "fileDesc file_identity_v1_identity = Some
     \<lparr>pd_package = ''identity.v1'',
      pd_messages =
       [described [(''name'', [Pattern (''.*'' @ CHR 0x5C # ''S.*'')]), (''email'', [EmailAddress]), (''password'', [MinLen 8, MaxLen 128])] SignUpRequest_message,
        described [] SignUpResponse_message,
        described [(''email'', [EmailAddress]), (''password'', [MinLen 8, MaxLen 128])] SignInRequest_message,
        described [] SignInResponse_message,
        described [] SignOutRequest_message,
        described [] SignOutResponse_message,
        described [] CurrentUserRequest_message,
        described [] CurrentUserResponse_message,
        described [(''token'', [MinLen 1])] VerifyEmailRequest_message,
        described [] VerifyEmailResponse_message],
      pd_enums = [], pd_services = [\<lparr>ps_name = tv_name IdentityService_methods, ps_methods = map snd (tv_methods IdentityService_methods)\<rparr>]\<rparr>"
  by (simp add: fileDesc_def file_identity_v1_identity_def descriptor_simps decode_simps identity_v1_identity_declared cong: decode_congs)

definition identity_v1_identity_schemas :: "(proto_message option \<times> ts_message) list" where
  "identity_v1_identity_schemas =
    [(SignUpRequestSchema, SignUpRequest_message),
     (SignUpResponseSchema, SignUpResponse_message),
     (SignInRequestSchema, SignInRequest_message),
     (SignInResponseSchema, SignInResponse_message),
     (SignOutRequestSchema, SignOutRequest_message),
     (SignOutResponseSchema, SignOutResponse_message),
     (CurrentUserRequestSchema, CurrentUserRequest_message),
     (CurrentUserResponseSchema, CurrentUserResponse_message),
     (VerifyEmailRequestSchema, VerifyEmailRequest_message),
     (VerifyEmailResponseSchema, VerifyEmailResponse_message)]"

lemma identity_v1_identity_agree: "list_all schema_agrees identity_v1_identity_schemas"
  by (simp add: identity_v1_identity_schemas_def schema_agrees_def messageDesc_def part_def identity_v1_identity_read generated_simps decode_simps identity_v1_identity_declared
      SignUpRequestSchema_def SignUpResponseSchema_def SignInRequestSchema_def SignInResponseSchema_def SignOutRequestSchema_def SignOutResponseSchema_def CurrentUserRequestSchema_def CurrentUserResponseSchema_def VerifyEmailRequestSchema_def VerifyEmailResponseSchema_def)

lemma IdentityService_agrees: "map_option generated_service IdentityService = Some IdentityService_methods"
  by (simp add: IdentityService_def serviceDesc_def part_def identity_v1_identity_read generated_service_def methodName_def lower_def decode_simps IdentityService_methods_def)

end
