(* ===== verification/Protogen_Tickets.thy ===== *)
theory Protogen_Tickets
  imports Proto_Descriptor
begin

text \<open>
  The generated messages, events and service of tickets (protogen/ts/tickets/v1).
\<close>

section \<open>tickets/v1/tickets_pb.ts\<close>

definition CreateTicketRequest_message :: ts_message where
  "CreateTicketRequest_message = \<lparr>tm_name = ''tickets.v1.CreateTicketRequest'', tm_fields =
     [ts_member ''title'' False TsString Implicit PString ''title'' 1,
      ts_member ''price'' False TsBigint Implicit PInt64 ''price'' 2,
      ts_member ''userId'' False TsString Implicit PString ''user_id'' 3]\<rparr>"

definition CreateTicketResponse_message :: ts_message where
  "CreateTicketResponse_message = \<lparr>tm_name = ''tickets.v1.CreateTicketResponse'', tm_fields =
     [ts_member ''id'' False TsString Implicit PString ''id'' 1,
      ts_member ''title'' False TsString Implicit PString ''title'' 2,
      ts_member ''price'' False TsBigint Implicit PInt64 ''price'' 3,
      ts_member ''userId'' False TsString Implicit PString ''user_id'' 4]\<rparr>"

definition UpdateTicketRequest_message :: ts_message where
  "UpdateTicketRequest_message = \<lparr>tm_name = ''tickets.v1.UpdateTicketRequest'', tm_fields =
     [ts_member ''id'' False TsString Implicit PString ''id'' 1,
      ts_member ''title'' False TsString Implicit PString ''title'' 2,
      ts_member ''price'' False TsBigint Implicit PInt64 ''price'' 3,
      ts_member ''userId'' False TsString Implicit PString ''user_id'' 4]\<rparr>"

definition UpdateTicketResponse_message :: ts_message where
  "UpdateTicketResponse_message = \<lparr>tm_name = ''tickets.v1.UpdateTicketResponse'', tm_fields =
     [ts_member ''ticket'' True (TsRef ''Ticket'') Implicit (PMessage ''tickets.v1.Ticket'') ''ticket'' 1]\<rparr>"

definition GetTicketRequest_message :: ts_message where
  "GetTicketRequest_message = \<lparr>tm_name = ''tickets.v1.GetTicketRequest'', tm_fields =
     [ts_member ''id'' False TsString Implicit PString ''id'' 1]\<rparr>"

definition GetTicketResponse_message :: ts_message where
  "GetTicketResponse_message = \<lparr>tm_name = ''tickets.v1.GetTicketResponse'', tm_fields =
     [ts_member ''ticket'' True (TsRef ''Ticket'') Implicit (PMessage ''tickets.v1.Ticket'') ''ticket'' 1]\<rparr>"

definition ListTicketsRequest_message :: ts_message where
  "ListTicketsRequest_message = \<lparr>tm_name = ''tickets.v1.ListTicketsRequest'', tm_fields =
     []\<rparr>"

definition ListTicketsResponse_message :: ts_message where
  "ListTicketsResponse_message = \<lparr>tm_name = ''tickets.v1.ListTicketsResponse'', tm_fields =
     [ts_member ''tickets'' False (TsArray (TsRef ''Ticket'')) Repeated (PMessage ''tickets.v1.Ticket'') ''tickets'' 1]\<rparr>"

definition Ticket_message :: ts_message where
  "Ticket_message = \<lparr>tm_name = ''tickets.v1.Ticket'', tm_fields =
     [ts_member ''id'' False TsString Implicit PString ''id'' 1,
      ts_member ''title'' False TsString Implicit PString ''title'' 2,
      ts_member ''price'' False TsBigint Implicit PInt64 ''price'' 3,
      ts_member ''userId'' False TsString Implicit PString ''user_id'' 4]\<rparr>"

definition TicketsService_methods :: ts_service where
  "TicketsService_methods = \<lparr>tv_name = ''tickets.v1.TicketsService'', tv_methods =
     [(''createTicket'', \<lparr>pr_name = ''CreateTicket'', pr_input = tm_name CreateTicketRequest_message, pr_output = tm_name CreateTicketResponse_message\<rparr>),
      (''updateTicket'', \<lparr>pr_name = ''UpdateTicket'', pr_input = tm_name UpdateTicketRequest_message, pr_output = tm_name UpdateTicketResponse_message\<rparr>),
      (''getTicket'', \<lparr>pr_name = ''GetTicket'', pr_input = tm_name GetTicketRequest_message, pr_output = tm_name GetTicketResponse_message\<rparr>),
      (''listTickets'', \<lparr>pr_name = ''ListTickets'', pr_input = tm_name ListTicketsRequest_message, pr_output = tm_name ListTicketsResponse_message\<rparr>)]\<rparr>"

definition file_tickets_v1_tickets :: string where
  "file_tickets_v1_tickets =
    ''Chh0aWNrZXRzL3YxL3RpY2tldHMucHJvdG8SCnRpY2tldHMudjEiRAoTQ3JlYXRlVGlja2V0UmVxdWVzdBINCgV0aXRsZRgBIAEoCRINCgVwcmljZRgCIAEoAxIPCgd1c2VyX2lkGAMgASgJIlEKFENyZWF0ZVRpY2tldFJlc3BvbnNlEgoKAmlkGAEgASgJEg0KBXRpdGxlGAIgASgJEg0KBXByaWNlGAMgASgDEg8KB3VzZXJfaWQYBCABKAkiUAoTVXBkYXRlVGlja2V0UmVxdWVzdBIKCgJpZBgBIAEoCRINCgV0aXRsZRgCIAEoCRINCgVwcmljZRgDIAEoAxIPCgd1c2VyX2lkGAQgASgJIjoKFFVwZGF0ZVRpY2tldFJlc3BvbnNlEiIKBnRpY2tldBgBIAEoCzISLnRpY2tldHMudjEuVGlja2V0Ih4KEEdldFRpY2tldFJlcXVlc3QSCgoCaWQYASABKAkiNwoRR2V0VGlja2V0UmVzcG9uc2USIgoGdGlja2V0GAEgASgLMhIudGlja2V0cy52MS5UaWNrZXQiFAoSTGlzdFRpY2tldHNSZXF1ZXN0IjoKE0xpc3RUaWNrZXRzUmVzcG9uc2USIwoHdGlja2V0cxgBIAMoCzISLnRpY2tldHMudjEuVGlja2V0IkMKBlRpY2tldBIKCgJpZBgBIAEoCRINCgV0aXRsZRgCIAEoCRINCgVwcmljZRgDIAEoAxIPCgd1c2VyX2lkGAQgASgJMtACCg5UaWNrZXRzU2VydmljZRJRCgxDcmVhdGVUaWNrZXQSHy50aWNrZXRzLnYxLkNyZWF0ZVRpY2tldFJlcXVlc3QaIC50aWNrZXRzLnYxLkNyZWF0ZVRpY2tldFJlc3BvbnNlElEKDFVwZGF0ZVRpY2tldBIfLnRpY2tldHMudjEuVXBkYXRlVGlja2V0UmVxdWVzdBogLnRpY2tldHMudjEuVXBkYXRlVGlja2V0UmVzcG9uc2USSAoJR2V0VGlja2V0EhwudGlja2V0cy52MS5HZXRUaWNrZXRSZXF1ZXN0Gh0udGlja2V0cy52MS5HZXRUaWNrZXRSZXNwb25zZRJOCgtMaXN0VGlja2V0cxIeLnRpY2tldHMudjEuTGlzdFRpY2tldHNSZXF1ZXN0Gh8udGlja2V0cy52MS5MaXN0VGlja2V0c1Jlc3BvbnNlQjhaNnBvbHlnbG90LXRpY2tldGluZy12MS9wcm90b2dlbi9nby90aWNrZXRzL3YxO3RpY2tldHN2MWIGcHJvdG8z''"

definition CreateTicketRequestSchema :: "proto_message option" where
  "CreateTicketRequestSchema = messageDesc (fileDesc file_tickets_v1_tickets) 0"

definition CreateTicketResponseSchema :: "proto_message option" where
  "CreateTicketResponseSchema = messageDesc (fileDesc file_tickets_v1_tickets) 1"

definition UpdateTicketRequestSchema :: "proto_message option" where
  "UpdateTicketRequestSchema = messageDesc (fileDesc file_tickets_v1_tickets) 2"

definition UpdateTicketResponseSchema :: "proto_message option" where
  "UpdateTicketResponseSchema = messageDesc (fileDesc file_tickets_v1_tickets) 3"

definition GetTicketRequestSchema :: "proto_message option" where
  "GetTicketRequestSchema = messageDesc (fileDesc file_tickets_v1_tickets) 4"

definition GetTicketResponseSchema :: "proto_message option" where
  "GetTicketResponseSchema = messageDesc (fileDesc file_tickets_v1_tickets) 5"

definition ListTicketsRequestSchema :: "proto_message option" where
  "ListTicketsRequestSchema = messageDesc (fileDesc file_tickets_v1_tickets) 6"

definition ListTicketsResponseSchema :: "proto_message option" where
  "ListTicketsResponseSchema = messageDesc (fileDesc file_tickets_v1_tickets) 7"

definition TicketSchema :: "proto_message option" where
  "TicketSchema = messageDesc (fileDesc file_tickets_v1_tickets) 8"

definition TicketsService :: "proto_service option" where
  "TicketsService = serviceDesc (fileDesc file_tickets_v1_tickets) 0"

text \<open>The descriptor is the one of the declarations, with the rules on their fields.\<close>

lemmas tickets_v1_tickets_declared =
  CreateTicketRequest_message_def CreateTicketResponse_message_def UpdateTicketRequest_message_def UpdateTicketResponse_message_def GetTicketRequest_message_def GetTicketResponse_message_def ListTicketsRequest_message_def ListTicketsResponse_message_def Ticket_message_def TicketsService_methods_def

lemma tickets_v1_tickets_read:
  "fileDesc file_tickets_v1_tickets = Some
     \<lparr>pd_package = ''tickets.v1'',
      pd_messages =
       [described [] CreateTicketRequest_message,
        described [] CreateTicketResponse_message,
        described [] UpdateTicketRequest_message,
        described [] UpdateTicketResponse_message,
        described [] GetTicketRequest_message,
        described [] GetTicketResponse_message,
        described [] ListTicketsRequest_message,
        described [] ListTicketsResponse_message,
        described [] Ticket_message],
      pd_enums = [], pd_services = [\<lparr>ps_name = tv_name TicketsService_methods, ps_methods = map snd (tv_methods TicketsService_methods)\<rparr>]\<rparr>"
  by (simp add: fileDesc_def file_tickets_v1_tickets_def descriptor_simps decode_simps tickets_v1_tickets_declared cong: decode_congs)

definition tickets_v1_tickets_schemas :: "(proto_message option \<times> ts_message) list" where
  "tickets_v1_tickets_schemas =
    [(CreateTicketRequestSchema, CreateTicketRequest_message),
     (CreateTicketResponseSchema, CreateTicketResponse_message),
     (UpdateTicketRequestSchema, UpdateTicketRequest_message),
     (UpdateTicketResponseSchema, UpdateTicketResponse_message),
     (GetTicketRequestSchema, GetTicketRequest_message),
     (GetTicketResponseSchema, GetTicketResponse_message),
     (ListTicketsRequestSchema, ListTicketsRequest_message),
     (ListTicketsResponseSchema, ListTicketsResponse_message),
     (TicketSchema, Ticket_message)]"

lemma tickets_v1_tickets_agree: "list_all schema_agrees tickets_v1_tickets_schemas"
  by (simp add: tickets_v1_tickets_schemas_def schema_agrees_def messageDesc_def part_def tickets_v1_tickets_read generated_simps decode_simps tickets_v1_tickets_declared
      CreateTicketRequestSchema_def CreateTicketResponseSchema_def UpdateTicketRequestSchema_def UpdateTicketResponseSchema_def GetTicketRequestSchema_def GetTicketResponseSchema_def ListTicketsRequestSchema_def ListTicketsResponseSchema_def TicketSchema_def)

lemma TicketsService_agrees: "map_option generated_service TicketsService = Some TicketsService_methods"
  by (simp add: TicketsService_def serviceDesc_def part_def tickets_v1_tickets_read generated_service_def methodName_def lower_def decode_simps TicketsService_methods_def)

section \<open>tickets/v1/events_pb.ts\<close>

definition TicketCreated_message :: ts_message where
  "TicketCreated_message = \<lparr>tm_name = ''tickets.v1.TicketCreated'', tm_fields =
     [ts_member ''eventId'' False TsString Implicit PString ''event_id'' 1,
      ts_member ''occurredAt'' True (TsRef ''Timestamp'') Implicit (PMessage ''google.protobuf.Timestamp'') ''occurred_at'' 2,
      ts_member ''ticket'' True (TsRef ''Ticket'') Implicit (PMessage ''tickets.v1.Ticket'') ''ticket'' 3,
      ts_member ''aggregateVersion'' False TsBigint Implicit PInt64 ''aggregate_version'' 4]\<rparr>"

definition TicketUpdated_message :: ts_message where
  "TicketUpdated_message = \<lparr>tm_name = ''tickets.v1.TicketUpdated'', tm_fields =
     [ts_member ''eventId'' False TsString Implicit PString ''event_id'' 1,
      ts_member ''occurredAt'' True (TsRef ''Timestamp'') Implicit (PMessage ''google.protobuf.Timestamp'') ''occurred_at'' 2,
      ts_member ''ticket'' True (TsRef ''Ticket'') Implicit (PMessage ''tickets.v1.Ticket'') ''ticket'' 3,
      ts_member ''aggregateVersion'' False TsBigint Implicit PInt64 ''aggregate_version'' 4]\<rparr>"

definition file_tickets_v1_events :: string where
  "file_tickets_v1_events =
    ''Chd0aWNrZXRzL3YxL2V2ZW50cy5wcm90bxIKdGlja2V0cy52MSKRAQoNVGlja2V0Q3JlYXRlZBIQCghldmVudF9pZBgBIAEoCRIvCgtvY2N1cnJlZF9hdBgCIAEoCzIaLmdvb2dsZS5wcm90b2J1Zi5UaW1lc3RhbXASIgoGdGlja2V0GAMgASgLMhIudGlja2V0cy52MS5UaWNrZXQSGQoRYWdncmVnYXRlX3ZlcnNpb24YBCABKAMikQEKDVRpY2tldFVwZGF0ZWQSEAoIZXZlbnRfaWQYASABKAkSLwoLb2NjdXJyZWRfYXQYAiABKAsyGi5nb29nbGUucHJvdG9idWYuVGltZXN0YW1wEiIKBnRpY2tldBgDIAEoCzISLnRpY2tldHMudjEuVGlja2V0EhkKEWFnZ3JlZ2F0ZV92ZXJzaW9uGAQgASgDQjhaNnBvbHlnbG90LXRpY2tldGluZy12MS9wcm90b2dlbi9nby90aWNrZXRzL3YxO3RpY2tldHN2MWIGcHJvdG8z''"

definition TicketCreatedSchema :: "proto_message option" where
  "TicketCreatedSchema = messageDesc (fileDesc file_tickets_v1_events) 0"

definition TicketUpdatedSchema :: "proto_message option" where
  "TicketUpdatedSchema = messageDesc (fileDesc file_tickets_v1_events) 1"

text \<open>The descriptor is the one of the declarations, with the rules on their fields.\<close>

lemmas tickets_v1_events_declared =
  TicketCreated_message_def TicketUpdated_message_def

lemma tickets_v1_events_read:
  "fileDesc file_tickets_v1_events = Some
     \<lparr>pd_package = ''tickets.v1'',
      pd_messages =
       [described [] TicketCreated_message,
        described [] TicketUpdated_message],
      pd_enums = [], pd_services = []\<rparr>"
  by (simp add: fileDesc_def file_tickets_v1_events_def descriptor_simps decode_simps tickets_v1_events_declared cong: decode_congs)

definition tickets_v1_events_schemas :: "(proto_message option \<times> ts_message) list" where
  "tickets_v1_events_schemas =
    [(TicketCreatedSchema, TicketCreated_message),
     (TicketUpdatedSchema, TicketUpdated_message)]"

lemma tickets_v1_events_agree: "list_all schema_agrees tickets_v1_events_schemas"
  by (simp add: tickets_v1_events_schemas_def schema_agrees_def messageDesc_def part_def tickets_v1_events_read generated_simps decode_simps tickets_v1_events_declared
      TicketCreatedSchema_def TicketUpdatedSchema_def)

end
