(* ===== verification/Js_Numbers.thy ===== *)
theory Js_Numbers
  imports Js_Strings Complex_Main "HOL-Library.Log_Nat"
begin

text \<open>
  JavaScript numbers: IEEE 754 double precision values as exact rationals with explicit rounding,
  and the conversions between numbers, strings and dates that the services use. The two zeros of
  IEEE 754 are one value here; no operation of the services tells them apart.
\<close>

section \<open>Doubles\<close>

datatype jsnum = NaN | PosInf | NegInf | Fin rat

text \<open>The binary exponent of a positive rational: the \<open>e\<close> with \<open>2 powi e \<le> r < 2 powi (e + 1)\<close>.\<close>

definition rat_exp :: "rat \<Rightarrow> int" where
  "rat_exp r =
     (case quotient_of r of (n, d) \<Rightarrow>
        let k = bitlen n - bitlen d
        in if 2 powi k \<le> r then k else k - 1)"

definition round_half_even :: "rat \<Rightarrow> int" where
  "round_half_even x =
     (let f = \<lfloor>x\<rfloor>; d = x - of_int f
      in if d < 1 / 2 then f else if 1 / 2 < d then f + 1 else if even f then f else f + 1)"

definition ulp_exp :: "rat \<Rightarrow> int" where
  "ulp_exp r = max (- 1074) (rat_exp \<bar>r\<bar> - 52)"

text \<open>Rounding a rational to the nearest double, ties to even, overflow to an infinity.\<close>

definition fl :: "rat \<Rightarrow> jsnum" where
  "fl r =
     (if r = 0 then Fin 0
      else let v = of_int (round_half_even (r / 2 powi ulp_exp r)) * 2 powi ulp_exp r
           in if 2 ^ 1024 \<le> v then PosInf else if v \<le> - (2 ^ 1024) then NegInf else Fin v)"

fun js_add :: "jsnum \<Rightarrow> jsnum \<Rightarrow> jsnum" where
  "js_add (Fin x) (Fin y) = fl (x + y)"
| "js_add NaN _ = NaN"
| "js_add _ NaN = NaN"
| "js_add PosInf NegInf = NaN"
| "js_add NegInf PosInf = NaN"
| "js_add PosInf _ = PosInf"
| "js_add _ PosInf = PosInf"
| "js_add NegInf _ = NegInf"
| "js_add _ NegInf = NegInf"

fun js_neg :: "jsnum \<Rightarrow> jsnum" where
  "js_neg (Fin x) = Fin (- x)"
| "js_neg PosInf = NegInf"
| "js_neg NegInf = PosInf"
| "js_neg NaN = NaN"

definition js_sub :: "jsnum \<Rightarrow> jsnum \<Rightarrow> jsnum" where
  "js_sub a b = js_add a (js_neg b)"

text \<open>\<open>Math.max(0, n)\<close>.\<close>

fun js_max0 :: "jsnum \<Rightarrow> jsnum" where
  "js_max0 (Fin x) = Fin (max 0 x)"
| "js_max0 PosInf = PosInf"
| "js_max0 NegInf = Fin 0"
| "js_max0 NaN = NaN"

text \<open>Products and quotients by a positive finite constant, the only ones the services form.\<close>

fun js_mul_pos :: "jsnum \<Rightarrow> rat \<Rightarrow> jsnum" where
  "js_mul_pos (Fin x) c = fl (x * c)"
| "js_mul_pos n c = n"

fun js_div_pos :: "jsnum \<Rightarrow> rat \<Rightarrow> jsnum" where
  "js_div_pos (Fin x) c = fl (x / c)"
| "js_div_pos n c = n"

fun js_floor :: "jsnum \<Rightarrow> jsnum" where
  "js_floor (Fin x) = Fin (of_int \<lfloor>x\<rfloor>)"
| "js_floor n = n"

fun js_less :: "jsnum \<Rightarrow> jsnum \<Rightarrow> bool" where
  "js_less NaN _ = False"
| "js_less _ NaN = False"
| "js_less (Fin x) (Fin y) = (x < y)"
| "js_less NegInf n = (n \<noteq> NegInf)"
| "js_less n PosInf = (n \<noteq> PosInf)"
| "js_less _ _ = False"

text \<open>\<open>a === b\<close> on numbers: \<open>NaN\<close> differs from itself.\<close>

definition js_num_eq :: "jsnum \<Rightarrow> jsnum \<Rightarrow> bool" where
  "js_num_eq a b \<longleftrightarrow> a = b \<and> a \<noteq> NaN"

definition js_less_eq :: "jsnum \<Rightarrow> jsnum \<Rightarrow> bool" where
  "js_less_eq a b \<longleftrightarrow> js_less a b \<or> js_num_eq a b"

definition js_isInteger :: "jsnum \<Rightarrow> bool" where
  "js_isInteger n \<longleftrightarrow> (case n of Fin x \<Rightarrow> of_int \<lfloor>x\<rfloor> = x | _ \<Rightarrow> False)"

definition max_safe_integer :: int where
  "max_safe_integer = 2 ^ 53 - 1"

definition js_isSafeInteger :: "jsnum \<Rightarrow> bool" where
  "js_isSafeInteger n \<longleftrightarrow>
     js_isInteger n \<and> (case n of Fin x \<Rightarrow> \<bar>x\<bar> \<le> of_int max_safe_integer | _ \<Rightarrow> False)"

abbreviation num :: "int \<Rightarrow> jsnum" where
  "num i \<equiv> Fin (of_int i)"

section \<open>Rounding is exact on the integers the services use\<close>

lemma round_half_even_int [simp]: "round_half_even (of_int n) = n"
  by (simp add: round_half_even_def)

lemma round_half_even_lower: "of_int n \<le> x \<Longrightarrow> n \<le> round_half_even x"
  by (subst (asm) le_floor_iff [symmetric]) (auto simp: round_half_even_def Let_def)

lemma round_half_even_upper: "x \<le> of_int n \<Longrightarrow> round_half_even x \<le> n"
proof (cases "\<lfloor>x\<rfloor> = n")
  case True
  moreover assume "x \<le> of_int n"
  ultimately have "x = of_int n" using of_int_floor_le [of x] by simp
  then show ?thesis by simp
next
  case False
  moreover assume "x \<le> of_int n"
  ultimately have "\<lfloor>x\<rfloor> + 1 \<le> n" using floor_mono [of x "of_int n"] by simp
  then show ?thesis by (auto simp: round_half_even_def Let_def)
qed

lemma round_half_even_near: "\<bar>of_int (round_half_even x) - x\<bar> \<le> 1 / 2"
proof -
  have "of_int \<lfloor>x\<rfloor> \<le> x" "x < of_int \<lfloor>x\<rfloor> + 1" by linarith+
  then show ?thesis unfolding round_half_even_def Let_def by (auto simp: abs_le_iff)
qed

lemma pow2_cancel: "q \<le> 0 \<Longrightarrow> of_int (n * 2 ^ nat (- q)) * 2 powi q = (of_int n :: rat)"
proof -
  assume q: "q \<le> 0"
  have "(2::rat) ^ nat (- q) * 2 powi q = 1"
    using q by (simp add: power_int_def flip: power_mult_distrib)
  then show ?thesis by (simp add: mult.assoc)
qed

lemma rat_exp_lower:
  assumes "0 < r"
  shows "2 powi rat_exp r \<le> r"
proof -
  obtain n d where q: "quotient_of r = (n, d)" by (cases "quotient_of r")
  have r: "r = of_int n / of_int d" by (rule quotient_of_div [OF q])
  have d: "0 < d" by (rule quotient_of_denom_pos [OF q])
  with assms r have n: "0 < n" by (simp add: zero_less_divide_iff)
  define a where "a = nat (bitlen n)"
  define b where "b = nat (bitlen d)"
  have pos: "1 \<le> bitlen n" using n by (simp add: bitlen_alt_def)
  then have a: "0 < a" and "a - 1 = nat (bitlen n - 1)" by (simp_all add: a_def)
  with bitlen_bounds [OF n] have an: "2 ^ (a - 1) \<le> n" by simp
  have bd: "d < 2 ^ b" using bitlen_bounds [OF d] by (simp add: b_def)
  have "(2::rat) ^ (a - 1) \<le> of_int n"
    using an by (metis of_int_le_iff of_int_numeral of_int_power)
  moreover have "of_int d \<le> (2::rat) ^ b"
    using bd by (metis less_imp_le of_int_le_iff of_int_numeral of_int_power)
  ultimately have "(2::rat) ^ (a - 1) / 2 ^ b \<le> of_int n / of_int d"
    using d n by (intro frac_le) auto
  moreover have "(2::rat) powi (int a - int b - 1) = 2 ^ (a - 1) / 2 ^ b"
  proof -
    have "(2::rat) powi (int a - int b - 1) = 2 powi (int (a - 1) - int b)"
      using a by (simp add: algebra_simps of_nat_diff)
    also have "\<dots> = 2 ^ (a - 1) / 2 ^ b" by (subst power_int_diff) auto
    finally show ?thesis .
  qed
  ultimately have "2 powi (int a - int b - 1) \<le> r" using r by simp
  then show ?thesis
    by (simp add: rat_exp_def q Let_def a_def b_def bitlen_nonneg)
qed

lemma rat_exp_less:
  assumes "0 < r" and "r < 2 ^ k"
  shows "rat_exp r < int k"
proof (rule ccontr)
  assume "\<not> rat_exp r < int k"
  then have "(2::rat) powi int k \<le> 2 powi rat_exp r" by (intro power_int_increasing) auto
  with rat_exp_lower [OF assms(1)] assms(2) show False by simp
qed

lemma fl_exact:
  assumes "r = of_int m * 2 powi ulp_exp r" and "\<bar>r\<bar> < 2 ^ 1024"
  shows "fl r = Fin r"
proof -
  have "r / 2 powi ulp_exp r = of_int m" using assms(1) by (simp add: field_simps)
  with assms show ?thesis by (auto simp: fl_def Let_def abs_if split: if_splits)
qed

lemma fl_int:
  assumes "\<bar>n\<bar> < 2 ^ 53"
  shows "fl (of_int n) = num n"
proof (cases "n = 0")
  case False
  have r: "\<bar>of_int n :: rat\<bar> < 2 ^ 53"
    using assms by (metis of_int_abs of_int_less_iff of_int_numeral of_int_power)
  then have "rat_exp \<bar>of_int n\<bar> < int 53" using False by (intro rat_exp_less) auto
  then have q: "ulp_exp (of_int n) \<le> 0" by (simp add: ulp_exp_def)
  have "(of_int n :: rat) =
      of_int (n * 2 ^ nat (- ulp_exp (of_int n))) * 2 powi ulp_exp (of_int n)"
    by (rule pow2_cancel [OF q, symmetric])
  moreover have "\<bar>of_int n :: rat\<bar> < 2 ^ 1024"
    by (rule less_trans [OF r]) simp
  ultimately show ?thesis by (rule fl_exact)
qed (simp add: fl_def)

text \<open>Rounding never crosses an integer below \<open>2 ^ 53\<close>, and stays within half a unit.\<close>

lemma fl_between:
  assumes "0 < r" and "r < 2 ^ 43"
  shows "\<exists>v. fl r = Fin v \<and> \<bar>v - r\<bar> \<le> 1 / 2048 \<and> (\<forall>n. of_int n \<le> r \<longrightarrow> of_int n \<le> v)"
proof -
  let ?q = "ulp_exp r"
  let ?u = "(2::rat) powi ?q"
  let ?m = "round_half_even (r / ?u)"
  let ?v = "of_int ?m * ?u"
  have "rat_exp \<bar>r\<bar> < int 43" using assms by (intro rat_exp_less) auto
  then have q: "?q \<le> - 10" by (simp add: ulp_exp_def)
  then have "?u \<le> 2 powi (- 10)" by (intro power_int_increasing) auto
  then have u: "?u \<le> 1 / 1024" by (simp add: power_int_def field_simps)
  have u0: "0 < ?u" by simp
  have "\<bar>of_int ?m - r / ?u\<bar> * ?u \<le> 1 / 2 * ?u"
    using round_half_even_near u0 by (intro mult_right_mono) auto
  moreover have "\<bar>of_int ?m - r / ?u\<bar> * ?u = \<bar>?v - r\<bar>"
    using u0 by (simp add: abs_mult_pos' algebra_simps flip: abs_mult_pos)
  ultimately have near: "\<bar>?v - r\<bar> \<le> 1 / 2048" using u by simp
  have keep: "of_int n \<le> ?v" if n: "of_int n \<le> r" for n
  proof -
    have eq: "of_int (n * 2 ^ nat (- ?q)) * ?u = of_int n"
      using q by (intro pow2_cancel) simp
    have "of_int (n * 2 ^ nat (- ?q)) \<le> r / ?u"
      using n by (simp only: pos_le_divide_eq [OF u0] eq)
    then have "n * 2 ^ nat (- ?q) \<le> ?m" by (rule round_half_even_lower)
    then have "of_int (n * 2 ^ nat (- ?q)) * ?u \<le> ?v"
      using u0 by (intro mult_right_mono) (auto simp only: of_int_le_iff)
    then show ?thesis unfolding eq .
  qed
  have "?v < 2 ^ 1024" "- (2 ^ 1024) < ?v"
  proof -
    have "?v - r \<le> 1 / 2048" "r - ?v \<le> 1 / 2048" using near unfolding abs_le_iff by linarith+
    with assms have "?v \<le> 2 ^ 43 + 1" "-1 \<le> ?v" by linarith+
    moreover have "(2::rat) ^ 43 + 1 < 2 ^ 1024" by simp
    ultimately show "?v < 2 ^ 1024" "- (2 ^ 1024) < ?v" by (linarith, simp)
  qed
  then have "fl r = Fin ?v" using assms(1) by (simp add: fl_def Let_def)
  with near keep show ?thesis by blast
qed

section \<open>Number(s)\<close>

text \<open>
  The grammar of string-to-number conversion: white space is trimmed, the empty string is 0, a
  prefix selects a radix, and anything else must be a decimal literal or \<open>Infinity\<close>. The value is
  rounded once.
\<close>

definition span :: "('a \<Rightarrow> bool) \<Rightarrow> 'a list \<Rightarrow> 'a list \<times> 'a list" where
  "span P xs = (takeWhile P xs, dropWhile P xs)"

text \<open>An optional exponent part, then the end of the text.\<close>

definition read_exponent :: "string \<Rightarrow> int option" where
  "read_exponent s =
     (case s of
        [] \<Rightarrow> Some 0
      | c # r \<Rightarrow>
          if c \<noteq> CHR ''e'' \<and> c \<noteq> CHR ''E'' then None
          else (let neg = startsWith r ''-'';
                    ds = (if neg \<or> startsWith r ''+'' then tl r else r)
                in if ds = [] \<or> \<not> list_all is_digit ds then None
                   else Some (if neg then - int (read_digits ds) else int (read_digits ds))))"

text \<open>Digits, an optional fraction and an optional exponent; at least one digit before the exponent.\<close>

definition read_decimal :: "string \<Rightarrow> rat option" where
  "read_decimal s =
     (case span is_digit s of (ip, r) \<Rightarrow>
        case (if startsWith r ''.'' then span is_digit (tl r) else ([], r)) of (fp, r') \<Rightarrow>
          if ip @ fp = [] then None
          else map_option
            (\<lambda>e. of_nat (read_digits (ip @ fp)) * 10 powi (e - int (length fp)))
            (read_exponent r'))"

definition radix_digit :: "char \<Rightarrow> nat option" where
  "radix_digit c =
     (let n = of_char c :: nat
      in if 48 \<le> n \<and> n \<le> 57 then Some (n - 48)
         else if 65 \<le> n \<and> n \<le> 70 then Some (n - 55)
         else if 97 \<le> n \<and> n \<le> 102 then Some (n - 87) else None)"

fun read_radix :: "nat \<Rightarrow> nat \<Rightarrow> string \<Rightarrow> nat option" where
  "read_radix b n [] = Some n"
| "read_radix b n (c # s) =
     (case radix_digit c of
        None \<Rightarrow> None
      | Some d \<Rightarrow> if d < b then read_radix b (b * n + d) s else None)"

definition radix_of :: "string \<Rightarrow> nat option" where
  "radix_of s =
     (if take 2 s = ''0x'' \<or> take 2 s = ''0X'' then Some 16
      else if take 2 s = ''0o'' \<or> take 2 s = ''0O'' then Some 8
      else if take 2 s = ''0b'' \<or> take 2 s = ''0B'' then Some 2 else None)"

definition js_Number :: "string \<Rightarrow> jsnum" where
  "js_Number s =
     (let t = js_trim s
      in if t = [] then Fin 0
         else case radix_of t of
           Some b \<Rightarrow>
             (if drop 2 t = [] then NaN
              else case read_radix b 0 (drop 2 t) of None \<Rightarrow> NaN | Some n \<Rightarrow> fl (of_nat n))
         | None \<Rightarrow>
             (let neg = startsWith t ''-'';
                  u = (if neg \<or> startsWith t ''+'' then tl t else t)
              in if u = ''Infinity'' then (if neg then NegInf else PosInf)
                 else case read_decimal u of
                   None \<Rightarrow> NaN
                 | Some r \<Rightarrow> fl (if neg then - r else r)))"

lemma span_all: "list_all P xs \<Longrightarrow> span P xs = (xs, [])"
  by (auto simp: span_def list_all_iff takeWhile_eq_all_conv)

lemma read_decimal_show_nat: "read_decimal (show_nat n) = Some (of_nat n)"
  by (simp add: read_decimal_def span_all [OF show_nat_digits] startsWith_def read_exponent_def)

lemma digit_not_space: "is_digit c \<Longrightarrow> \<not> js_space c"
  by (auto simp: is_digit_def js_space_def)

lemma show_nat_ends: "is_digit (hd (show_nat n))" "is_digit (last (show_nat n))"
  using show_nat_digits [of n] by (auto simp: list_all_iff)

lemma js_trim_show_nat: "js_trim (show_nat n) = show_nat n"
  by (intro js_trim_id) (auto simp: show_nat_ends digit_not_space)

lemma show_nat_no_char: "\<not> is_digit c \<Longrightarrow> c \<notin> set (show_nat n)"
  using show_nat_digits [of n] by (auto simp: list_all_iff)

lemma nondigits:
  "\<not> is_digit CHR ''x''" "\<not> is_digit CHR ''X''" "\<not> is_digit CHR ''o''" "\<not> is_digit CHR ''O''"
  "\<not> is_digit CHR ''b''" "\<not> is_digit CHR ''B''" "\<not> is_digit CHR ''-''" "\<not> is_digit CHR ''+''"
  "\<not> is_digit CHR ''I''"
  by (simp_all add: is_digit_def)

lemma radix_of_show_nat: "radix_of (show_nat n) = None"
proof -
  have "take 2 (show_nat n) \<noteq> [a, c]" if "\<not> is_digit c" for a c
  proof
    assume "take 2 (show_nat n) = [a, c]"
    then have "c \<in> set (show_nat n)" by (metis in_set_takeD list.set_intros)
    with show_nat_no_char [OF that] show False by blast
  qed
  then show ?thesis by (simp add: radix_of_def nondigits)
qed

lemma js_Number_show_nat:
  assumes "int n < 2 ^ 53"
  shows "js_Number (show_nat n) = Fin (of_nat n)"
proof -
  obtain c r where s: "show_nat n = c # r" and c: "is_digit c"
    using show_nat_ends(1) [of n] by (cases "show_nat n") auto
  have "c \<noteq> CHR ''-''" "c \<noteq> CHR ''+''" "c \<noteq> CHR ''I''"
    using c nondigits by blast+
  with s have "\<not> startsWith (show_nat n) ''-''" "\<not> startsWith (show_nat n) ''+''"
    "show_nat n \<noteq> ''Infinity''"
    by (simp_all add: startsWith_def)
  moreover have "fl (of_nat n) = Fin (of_nat n)"
    using fl_int [of "int n"] assms by simp
  ultimately show ?thesis
    by (simp add: js_Number_def js_trim_show_nat radix_of_show_nat read_decimal_show_nat)
qed

section \<open>Dates\<close>

text \<open>
  A \<open>Date\<close> is its time value in milliseconds, \<open>None\<close> for an invalid date. \<open>new Date(x)\<close> truncates
  to an integer and accepts 8.64e15 milliseconds on either side of the epoch.
\<close>

type_synonym jsdate = "int option"

definition max_time :: int where
  "max_time = 8640000000000000"

definition truncate :: "rat \<Rightarrow> int" where
  "truncate x = (if x < 0 then \<lceil>x\<rceil> else \<lfloor>x\<rfloor>)"

fun newDate :: "jsnum \<Rightarrow> jsdate" where
  "newDate (Fin x) = (if \<bar>x\<bar> \<le> of_int max_time then Some (truncate x) else None)"
| "newDate _ = None"

fun getTime :: "jsdate \<Rightarrow> jsnum" where
  "getTime None = NaN"
| "getTime (Some t) = num t"

text \<open>The remainder of JavaScript takes the sign of the dividend.\<close>

definition js_rem :: "int \<Rightarrow> int \<Rightarrow> int" where
  "js_rem a b = sgn a * (\<bar>a\<bar> mod \<bar>b\<bar>)"

lemma newDate_int: "\<bar>t\<bar> \<le> max_time \<Longrightarrow> newDate (num t) = Some t"
  by (simp add: truncate_def flip: of_int_abs)

lemma js_rem_nonneg: "0 \<le> a \<Longrightarrow> 0 < b \<Longrightarrow> js_rem a b = a mod b"
  by (cases "a = 0") (auto simp: js_rem_def)

lemma floor_div_1000:
  assumes "0 \<le> t" and "t \<le> max_time"
  shows "js_floor (js_div_pos (num t) 1000) = num (t div 1000)"
proof (cases "t = 0")
  case False
  let ?r = "of_int t / 1000 :: rat"
  have t: "(of_int t :: rat) \<le> 8640000000000000" "0 < (of_int t :: rat)"
    using assms False by (simp_all add: max_time_def)
  then have "0 < ?r" "?r < 2 ^ 43" by simp_all
  then obtain v where v: "fl ?r = Fin v" "\<bar>v - ?r\<bar> \<le> 1 / 2048"
    and keep: "\<And>n. of_int n \<le> ?r \<Longrightarrow> of_int n \<le> v" using fl_between by blast
  have eq: "(of_int t :: rat) = 1000 * of_int (t div 1000) + of_int (t mod 1000)"
    by (metis mult_div_mod_eq of_int_add of_int_mult of_int_numeral)
  have m: "(of_int (t mod 1000) :: rat) \<le> 999"
    using pos_mod_bound [of 1000 t] by simp
  have m0: "(0 :: rat) \<le> of_int (t mod 1000)" by simp
  have "of_int (t div 1000) \<le> v" by (rule keep) (use eq m0 in simp)
  moreover have "v < of_int (t div 1000) + 1"
  proof -
    have "?r = of_int (t div 1000) + of_int (t mod 1000) / 1000" using eq by simp
    with v(2) m show ?thesis unfolding abs_le_iff by linarith
  qed
  ultimately have "\<lfloor>v\<rfloor> = t div 1000" by (simp add: floor_unique)
  with v(1) show ?thesis by simp
qed (simp add: fl_def)

end
