(* ===== verification/Js_Values.thy ===== *)
theory Js_Values
  imports Js_Numbers
begin

text \<open>
  JavaScript values as far as the services inspect them, thrown values, and the JSON functions.
  An object is the list of its own properties in insertion order. A read of an absent property
  gives \<open>undefined\<close>; the \<open>in\<close> operator asks for presence.
\<close>

section \<open>Values\<close>

datatype jsval =
    JUndef
  | JNull
  | JBool bool
  | JNum jsnum
  | JStr string
  | JArr "jsval list"
  | JObj "(string \<times> jsval) list"

text \<open>\<open>typeof v === 'object' && v !== null\<close>, \<open>k in v\<close>, and \<open>v.k\<close> on such a value.\<close>

fun is_object :: "jsval \<Rightarrow> bool" where
  "is_object (JArr _) = True"
| "is_object (JObj _) = True"
| "is_object _ = False"

fun has_prop :: "jsval \<Rightarrow> string \<Rightarrow> bool" where
  "has_prop (JObj kvs) k = (k \<in> fst ` set kvs)"
| "has_prop _ _ = False"

fun get_prop :: "jsval \<Rightarrow> string \<Rightarrow> jsval" where
  "get_prop (JObj kvs) k = (case map_of kvs k of None \<Rightarrow> JUndef | Some v \<Rightarrow> v)"
| "get_prop _ _ = JUndef"

fun is_string :: "jsval \<Rightarrow> bool" where
  "is_string (JStr _) = True"
| "is_string _ = False"

fun is_number :: "jsval \<Rightarrow> bool" where
  "is_number (JNum _) = True"
| "is_number _ = False"

fun str_of :: "jsval \<Rightarrow> string" where
  "str_of (JStr s) = s"
| "str_of _ = []"

fun num_of :: "jsval \<Rightarrow> jsnum" where
  "num_of (JNum n) = n"
| "num_of _ = NaN"

text \<open>Assignment to a property: an existing one keeps its place.\<close>

fun obj_set :: "(string \<times> jsval) list \<Rightarrow> string \<Rightarrow> jsval \<Rightarrow> (string \<times> jsval) list" where
  "obj_set [] k v = [(k, v)]"
| "obj_set ((k', v') # kvs) k v = (if k' = k then (k, v) # kvs else (k', v') # obj_set kvs k v)"

lemma has_prop_get: "\<not> has_prop v k \<Longrightarrow> get_prop v k = JUndef"
  by (cases v) (auto simp flip: map_of_eq_None_iff)

lemma is_string_iff: "is_string v \<longleftrightarrow> (\<exists>s. v = JStr s)"
  by (cases v) auto

lemma is_number_iff: "is_number v \<longleftrightarrow> (\<exists>n. v = JNum n)"
  by (cases v) auto

lemma map_of_obj_set: "map_of (obj_set kvs k v) = (map_of kvs)(k \<mapsto> v)"
  by (induction kvs k v rule: obj_set.induct) (auto simp: fun_eq_iff)

lemma obj_set_new: "k \<notin> fst ` set kvs \<Longrightarrow> obj_set kvs k v = kvs @ [(k, v)]"
  by (induction kvs k v rule: obj_set.induct) auto

text \<open>\<open>String(v)\<close>, with the language's text of a number as an argument.\<close>

fun js_String :: "(jsnum \<Rightarrow> string) \<Rightarrow> jsval \<Rightarrow> string" where
  "js_String shown JUndef = ''undefined''"
| "js_String shown JNull = ''null''"
| "js_String shown (JBool b) = (if b then ''true'' else ''false'')"
| "js_String shown (JNum n) = shown n"
| "js_String shown (JStr s) = s"
| "js_String shown (JArr vs) =
     join '','' (map (\<lambda>v. if v = JUndef \<or> v = JNull then [] else js_String shown v) vs)"
| "js_String shown (JObj kvs) = ''[object Object]''"

section \<open>Thrown values\<close>

text \<open>
  A \<open>throw\<close> carries an \<open>HttpException\<close> (its status and response), an \<open>RpcException\<close> (its error
  object), any other \<open>Error\<close> with its class and own properties, or a value that is no error.
\<close>

datatype error_class =
    PlainError | TypeError | RangeError | InvalidOrderCreatedEvent | JetStreamApiError

datatype thrown =
    HttpException jsnum jsval
  | RpcException jsval
  | ErrorObject error_class "(string \<times> jsval) list"
  | ThrownValue jsval

text \<open>The properties a \<open>catch\<close> block sees on a thrown value.\<close>

fun thrown_val :: "thrown \<Rightarrow> jsval" where
  "thrown_val (HttpException s r) = JObj [(''response'', r), (''status'', JNum s)]"
| "thrown_val (RpcException e) = JObj [(''error'', e)]"
| "thrown_val (ErrorObject c kvs) = JObj kvs"
| "thrown_val (ThrownValue v) = v"

text \<open>\<open>error instanceof Error\<close>.\<close>

fun is_error :: "thrown \<Rightarrow> bool" where
  "is_error (ThrownValue _) = False"
| "is_error _ = True"

definition new_error :: "error_class \<Rightarrow> string \<Rightarrow> thrown" where
  "new_error c msg = ErrorObject c [(''message'', JStr msg)]"

section \<open>JSON.stringify\<close>

definition hex_digit :: "nat \<Rightarrow> char" where
  "hex_digit d = char_of (if d < 10 then 48 + d else 87 + d)"

text \<open>The escapes of a quoted string: two-character ones where they exist, else \<open>\u00xx\<close>.\<close>

definition json_escape :: "char \<Rightarrow> string" where
  "json_escape c =
     (if c = CHR 0x22 then [CHR 0x5C, CHR 0x22] else if c = CHR 0x5C then [CHR 0x5C, CHR 0x5C]
      else if c = CHR 0x08 then [CHR 0x5C, CHR ''b''] else if c = CHR 0x0C then [CHR 0x5C, CHR ''f'']
      else if c = CHR 0x0A then [CHR 0x5C, CHR ''n''] else if c = CHR 0x0D then [CHR 0x5C, CHR ''r'']
      else if c = CHR 0x09 then [CHR 0x5C, CHR ''t'']
      else if of_char c < (32 :: nat) then
        [CHR 0x5C, CHR ''u'', CHR ''0'', CHR ''0'', hex_digit (of_char c div 16), hex_digit (of_char c mod 16)]
      else [c])"

definition json_quote :: "string \<Rightarrow> string" where
  "json_quote s = CHR 0x22 # concat (map json_escape s) @ [CHR 0x22]"

text \<open>Arrays and objects from the texts of their members.\<close>

definition json_array :: "string list \<Rightarrow> string" where
  "json_array ts = ''['' @ join '','' ts @ '']''"

definition json_object :: "(string \<times> string) list \<Rightarrow> string" where
  "json_object kts = ''{'' @ join '','' (map (\<lambda>(k, t). json_quote k @ '':'' @ t) kts) @ ''}''"

section \<open>JSON.parse\<close>

definition json_space :: "char \<Rightarrow> bool" where
  "json_space c \<longleftrightarrow> of_char c \<in> {9, 10, 13, 32 :: nat}"

abbreviation skip_ws :: "string \<Rightarrow> string" where
  "skip_ws \<equiv> dropWhile json_space"

text \<open>The character after a backslash, for the two-character escapes.\<close>

definition json_unescape :: "char \<Rightarrow> char option" where
  "json_unescape c =
     (if c = CHR 0x22 \<or> c = CHR 0x5C \<or> c = CHR ''/'' then Some c
      else if c = CHR ''b'' then Some CHR 0x08 else if c = CHR ''f'' then Some CHR 0x0C
      else if c = CHR ''n'' then Some CHR 0x0A else if c = CHR ''r'' then Some CHR 0x0D
      else if c = CHR ''t'' then Some CHR 0x09 else None)"

text \<open>Four hexadecimal digits; a code unit above 255 is not a character of the model's strings.\<close>

definition json_hex4 :: "string \<Rightarrow> char option" where
  "json_hex4 s =
     (if length s = 4
      then case read_radix 16 0 s of
        Some n \<Rightarrow> if n < 256 then Some (char_of n) else None
      | None \<Rightarrow> None
      else None)"

text \<open>The rest of a quoted string after its opening quote.\<close>

function parse_string :: "string \<Rightarrow> (string \<times> string) option" where
  "parse_string s =
     (case s of
        [] \<Rightarrow> None
      | c # r \<Rightarrow>
          if c = CHR 0x22 then Some ([], r)
          else if of_char c < (32 :: nat) then None
          else if c = CHR 0x5C then
            (case r of
               [] \<Rightarrow> None
             | e # r' \<Rightarrow>
                 if e = CHR ''u'' then
                   (case json_hex4 (take 4 r') of
                      None \<Rightarrow> None
                    | Some d \<Rightarrow> map_option (\<lambda>(u, z). (d # u, z)) (parse_string (drop 4 r')))
                 else
                   (case json_unescape e of
                      None \<Rightarrow> None
                    | Some d \<Rightarrow> map_option (\<lambda>(u, z). (d # u, z)) (parse_string r')))
          else map_option (\<lambda>(u, z). (c # u, z)) (parse_string r))"
  by pat_completeness auto
termination by (relation "measure length") auto

declare parse_string.simps [simp del]

text \<open>A number token: no leading zeros, a fraction needs digits, an exponent needs digits.\<close>

definition number_sign :: "string \<Rightarrow> bool \<times> string" where
  "number_sign s = (if startsWith s ''-'' then (True, tl s) else (False, s))"

definition number_fraction :: "string \<Rightarrow> (string \<times> string) option" where
  "number_fraction s =
     (if startsWith s ''.''
      then if takeWhile is_digit (tl s) = [] then None else Some (span is_digit (tl s))
      else Some ([], s))"

definition number_exponent :: "string \<Rightarrow> (int \<times> string) option" where
  "number_exponent s =
     (if startsWith s ''e'' \<or> startsWith s ''E'' then
        (let neg = startsWith (tl s) ''-'';
             u = (if neg \<or> startsWith (tl s) ''+'' then tl (tl s) else tl s);
             ds = takeWhile is_digit u
         in if ds = [] then None
            else Some (if neg then - int (read_digits ds) else int (read_digits ds), dropWhile is_digit u))
      else Some (0, s))"

definition parse_number :: "string \<Rightarrow> (jsval \<times> string) option" where
  "parse_number s =
     (case number_sign s of (neg, s1) \<Rightarrow>
      case span is_digit s1 of (ip, s2) \<Rightarrow>
        if ip = [] \<or> 1 < length ip \<and> hd ip = CHR ''0'' then None
        else (case number_fraction s2 of
                None \<Rightarrow> None
              | Some (fp, s3) \<Rightarrow>
                  (case number_exponent s3 of
                     None \<Rightarrow> None
                   | Some (e, s4) \<Rightarrow>
                       let v = of_nat (read_digits (ip @ fp)) * 10 powi (e - int (length fp))
                       in Some (JNum (fl (if neg then - v else v)), s4))))"

definition expect :: "char \<Rightarrow> string \<Rightarrow> string option" where
  "expect c s = (case skip_ws s of [] \<Rightarrow> None | d # r \<Rightarrow> if d = c then Some r else None)"

text \<open>
  Recursive descent; the first argument bounds the nesting of calls, and \<open>JSON_parse\<close> passes two
  calls per character and two more, which always suffices (\<open>parse_value_fuel\<close>).
\<close>

fun parse_value :: "nat \<Rightarrow> string \<Rightarrow> (jsval \<times> string) option"
  and parse_elements :: "nat \<Rightarrow> jsval list \<Rightarrow> string \<Rightarrow> (jsval list \<times> string) option"
  and parse_members ::
    "nat \<Rightarrow> (string \<times> jsval) list \<Rightarrow> string \<Rightarrow> ((string \<times> jsval) list \<times> string) option" where
  "parse_value 0 s = None"
| "parse_value (Suc n) s =
     (case skip_ws s of
        [] \<Rightarrow> None
      | c # r \<Rightarrow>
          if c = CHR ''{'' then
            (case expect CHR ''}'' r of
               Some r' \<Rightarrow> Some (JObj [], r')
             | None \<Rightarrow> map_option (\<lambda>(kvs, z). (JObj kvs, z)) (parse_members n [] r))
          else if c = CHR ''['' then
            (case expect CHR '']'' r of
               Some r' \<Rightarrow> Some (JArr [], r')
             | None \<Rightarrow> map_option (\<lambda>(vs, z). (JArr vs, z)) (parse_elements n [] r))
          else if c = CHR 0x22 then map_option (\<lambda>(u, z). (JStr u, z)) (parse_string r)
          else if startsWith (c # r) ''null'' then Some (JNull, drop 4 (c # r))
          else if startsWith (c # r) ''true'' then Some (JBool True, drop 4 (c # r))
          else if startsWith (c # r) ''false'' then Some (JBool False, drop 5 (c # r))
          else parse_number (c # r))"
| "parse_elements 0 vs s = None"
| "parse_elements (Suc n) vs s =
     (case parse_value n s of
        None \<Rightarrow> None
      | Some (v, r) \<Rightarrow>
          (case expect CHR '','' r of
             Some r' \<Rightarrow> parse_elements n (vs @ [v]) r'
           | None \<Rightarrow> map_option (\<lambda>z. (vs @ [v], z)) (expect CHR '']'' r)))"
| "parse_members 0 kvs s = None"
| "parse_members (Suc n) kvs s =
     (case expect CHR 0x22 s of
        None \<Rightarrow> None
      | Some s1 \<Rightarrow>
          (case parse_string s1 of
             None \<Rightarrow> None
           | Some (k, s2) \<Rightarrow>
               (case expect CHR '':'' s2 of
                  None \<Rightarrow> None
                | Some s3 \<Rightarrow>
                    (case parse_value n s3 of
                       None \<Rightarrow> None
                     | Some (v, r) \<Rightarrow>
                         (case expect CHR '','' r of
                            Some r' \<Rightarrow> parse_members n (obj_set kvs k v) r'
                          | None \<Rightarrow>
                              map_option (\<lambda>z. (obj_set kvs k v, z)) (expect CHR ''}'' r))))))"

text \<open>\<open>JSON.parse(s)\<close>, with \<open>None\<close> for the \<open>SyntaxError\<close>.\<close>

definition JSON_parse :: "string \<Rightarrow> jsval option" where
  "JSON_parse s =
     (case parse_value (2 * length s + 2) s of
        Some (v, r) \<Rightarrow> if skip_ws r = [] then Some v else None
      | None \<Rightarrow> None)"

end
