(* ===== verification/Js_Json.thy ===== *)
theory Js_Json
  imports Js_Values
begin

text \<open>
  Facts about the JSON functions: what \<open>JSON.stringify\<close> writes, \<open>JSON.parse\<close> reads back, and the
  nesting bound of the parser is always large enough.
\<close>

section \<open>Strings\<close>

lemma radix_digit_hex: "d < 16 \<Longrightarrow> radix_digit (hex_digit d) = Some d"
  by (auto simp: radix_digit_def hex_digit_def Let_def)

lemma json_hex4_escape:
  assumes "n < 32"
  shows "json_hex4 (''00'' @ [hex_digit (n div 16), hex_digit (n mod 16)]) = Some (char_of n)"
proof -
  have "radix_digit CHR ''0'' = Some 0" by (simp add: radix_digit_def)
  moreover have "radix_digit (hex_digit (n div 16)) = Some (n div 16)"
    "radix_digit (hex_digit (n mod 16)) = Some (n mod 16)"
    using assms by (intro radix_digit_hex; simp)+
  ultimately show ?thesis using assms by (simp add: json_hex4_def)
qed

lemma parse_string_Nil [simp]: "parse_string [] = None"
  by (subst parse_string.simps) simp

lemma parse_string_end: "parse_string (CHR 0x22 # r) = Some ([], r)"
  by (subst parse_string.simps) simp

lemma parse_string_plain:
  "c \<noteq> CHR 0x22 \<Longrightarrow> c \<noteq> CHR 0x5C \<Longrightarrow> 32 \<le> (of_char c :: nat) \<Longrightarrow>
     parse_string (c # r) = map_option (\<lambda>(u, z). (c # u, z)) (parse_string r)"
  by (subst parse_string.simps) simp

lemma parse_string_escape:
  "e \<noteq> CHR ''u'' \<Longrightarrow> json_unescape e = Some d \<Longrightarrow>
     parse_string (CHR 0x5C # e # r) = map_option (\<lambda>(u, z). (d # u, z)) (parse_string r)"
  by (subst parse_string.simps) simp

lemma parse_string_unicode:
  "json_hex4 [a, b, c, d] = Some e \<Longrightarrow>
     parse_string (CHR 0x5C # CHR ''u'' # a # b # c # d # r) =
       map_option (\<lambda>(u, z). (e # u, z)) (parse_string r)"
  by (subst parse_string.simps) simp

lemma json_unescape_simps:
  "json_unescape CHR 0x22 = Some CHR 0x22" "json_unescape CHR 0x5C = Some CHR 0x5C"
  "json_unescape CHR ''b'' = Some CHR 0x08" "json_unescape CHR ''f'' = Some CHR 0x0C"
  "json_unescape CHR ''n'' = Some CHR 0x0A" "json_unescape CHR ''r'' = Some CHR 0x0D"
  "json_unescape CHR ''t'' = Some CHR 0x09"
  by (simp_all add: json_unescape_def)

lemma parse_string_escaped_char:
  "parse_string (json_escape c @ r) = map_option (\<lambda>(u, z). (c # u, z)) (parse_string r)"
proof (cases "c \<in> {CHR 0x22, CHR 0x5C, CHR 0x08, CHR 0x0C, CHR 0x0A, CHR 0x0D, CHR 0x09}")
  case True
  then show ?thesis
    by (auto simp: json_escape_def parse_string_escape json_unescape_simps)
next
  case False
  show ?thesis
  proof (cases "of_char c < (32 :: nat)")
    case True
    have "json_hex4 [CHR ''0'', CHR ''0'', hex_digit (of_char c div 16), hex_digit (of_char c mod 16)] =
        Some c"
      using json_hex4_escape [OF True] by simp
    with False True show ?thesis by (simp add: json_escape_def parse_string_unicode)
  next
    case big: False
    with False show ?thesis by (simp add: json_escape_def parse_string_plain)
  qed
qed

lemma parse_string_quoted:
  "parse_string (concat (map json_escape s) @ CHR 0x22 # r) = Some (s, r)"
  by (induction s) (simp_all add: parse_string_end parse_string_escaped_char)

lemma parse_string_shorter: "parse_string s = Some (u, r) \<Longrightarrow> length r < length s"
proof (induction s arbitrary: u rule: measure_induct_rule [of length])
  case (less s)
  have step: "length r < length s" if "parse_string t = Some (a, r)" "length t < length s" for t a
    using less.IH [OF that(2,1)] that(2) by simp
  from less.prems obtain c t where s: "s = c # t" by (cases s) auto
  note eq = less.prems [unfolded s parse_string.simps [of "c # t"] list.case]
  show ?case
  proof (cases t)
    case Nil
    with eq s show ?thesis by (auto split: if_splits)
  next
    case (Cons e t')
    with eq show ?thesis
      by (auto simp: s split: if_splits option.splits dest!: step)
  qed
qed

section \<open>Texts that encode a value\<close>

text \<open>
  \<open>encodes v t\<close>: the parser reads \<open>v\<close> from \<open>t\<close> followed by the end of the text, a comma or a closing
  bracket or brace, and \<open>t\<close> opens with none of these and with no white space.
\<close>

definition delimited :: "string \<Rightarrow> bool" where
  "delimited r \<longleftrightarrow> r = [] \<or> hd r \<in> {CHR '','', CHR '']'', CHR ''}''}"

lemma delimited_simps [simp]:
  "delimited []" "delimited (CHR '','' # r)" "delimited (CHR '']'' # r)" "delimited (CHR ''}'' # r)"
  by (simp_all add: delimited_def)

definition encodes :: "jsval \<Rightarrow> string \<Rightarrow> bool" where
  "encodes v t \<longleftrightarrow>
     t \<noteq> [] \<and> \<not> json_space (hd t) \<and> hd t \<noteq> CHR '']'' \<and>
     (\<forall>n r. length t < n \<longrightarrow> delimited r \<longrightarrow> parse_value n (t @ r) = Some (v, r))"

lemma encodesD: "encodes v t \<Longrightarrow> length t < n \<Longrightarrow> delimited r \<Longrightarrow> parse_value n (t @ r) = Some (v, r)"
  by (simp add: encodes_def)

lemma expect_hit: "\<not> json_space c \<Longrightarrow> expect c (c # r) = Some r"
  by (simp add: expect_def)

lemma expect_miss: "\<not> json_space d \<Longrightarrow> d \<noteq> c \<Longrightarrow> expect c (d # r) = None"
  by (simp add: expect_def)

lemma punctuation:
  "\<not> json_space CHR '',''" "\<not> json_space CHR '':''" "\<not> json_space CHR ''[''" "\<not> json_space CHR '']''"
  "\<not> json_space CHR ''{''" "\<not> json_space CHR ''}''" "\<not> json_space (CHR 0x22)"
  by (simp_all add: json_space_def)

lemmas expect_simps = expect_hit expect_miss punctuation

lemma encodes_string: "encodes (JStr s) (json_quote s)"
proof -
  have "parse_value n (json_quote s @ r) = Some (JStr s, r)" if "length (json_quote s) < n" for n r
    using that parse_string_quoted [of s r]
    by (cases n) (auto simp: json_quote_def punctuation)
  then show ?thesis by (simp add: encodes_def) (simp add: json_quote_def punctuation)
qed

lemma show_nat_hd: "0 < n \<Longrightarrow> hd (show_nat n) \<noteq> CHR ''0''"
proof (induction n rule: show_nat.induct)
  case (1 n)
  show ?case
  proof (cases "n < 10")
    case True
    then have "(of_char (digit_char n) :: nat) \<noteq> of_char CHR ''0''" using 1 by (simp add: of_char_digit_char)
    with True show ?thesis by (auto simp: show_nat.simps [of n])
  next
    case False
    then have "hd (show_nat (n div 10)) \<noteq> CHR ''0''" using 1 by simp
    with False show ?thesis by (simp add: show_nat.simps [of n])
  qed
qed

lemma parse_number_nat:
  assumes "n < 2 ^ 53" and "delimited r"
  shows "parse_number (show_nat n @ r) = Some (JNum (num (int n)), r)"
proof -
  have digits: "list_all is_digit (show_nat n)" by (rule show_nat_digits)
  have hd_r: "r = [] \<or> \<not> is_digit (hd r)" using assms(2) by (auto simp: delimited_def is_digit_def)
  then have span: "span is_digit (show_nat n @ r) = (show_nat n, r)"
    using digits by (cases r) (auto simp: span_def list_all_iff takeWhile_append2 dropWhile_append2)
  obtain c u where c: "show_nat n = c # u" by (cases "show_nat n") auto
  with digits have "is_digit c" by simp
  then have sign: "number_sign (show_nat n @ r) = (False, show_nat n @ r)"
    by (auto simp: number_sign_def startsWith_def c is_digit_def)
  have rest: "\<not> startsWith r ''.''" "\<not> startsWith r ''e''" "\<not> startsWith r ''E''"
    using assms(2) by (cases r; auto simp: delimited_def startsWith_def)+
  have zero: "\<not> (1 < length (show_nat n) \<and> hd (show_nat n) = CHR ''0'')"
    using show_nat_hd [of n] by (cases "n = 0") (simp_all add: show_nat.simps [of 0])
  have "fl (of_nat n) = num (int n)" using fl_int [of "int n"] assms(1) by simp
  with zero show ?thesis
    by (simp add: parse_number_def sign span number_fraction_def number_exponent_def rest)
qed

lemma encodes_nat:
  assumes "n < 2 ^ 53"
  shows "encodes (JNum (num (int n))) (show_nat n)"
proof -
  obtain c u where c: "show_nat n = c # u" by (cases "show_nat n") auto
  with show_nat_digits [of n] have d: "is_digit c" by simp
  then have space: "\<not> json_space c" by (auto simp: is_digit_def json_space_def)
  have other: "c \<noteq> CHR ''{''" "c \<noteq> CHR ''[''" "c \<noteq> CHR 0x22" "c \<noteq> CHR '']''"
    "c \<noteq> CHR ''n''" "c \<noteq> CHR ''t''" "c \<noteq> CHR ''f''"
    using d by (auto simp: is_digit_def)
  have "parse_value k (show_nat n @ r) = Some (JNum (num (int n)), r)"
    if "length (show_nat n) < k" "delimited r" for k r
    using that parse_number_nat [OF assms that(2)] space other
    by (cases k) (auto simp: c startsWith_def)
  with space other show ?thesis by (simp add: encodes_def c)
qed

lemma parse_elements_join:
  assumes "list_all2 encodes vs ts" and "ts \<noteq> []" and "Suc (length (join '','' ts)) < n"
  shows "parse_elements n us (join '','' ts @ CHR '']'' # r) = Some (us @ vs, r)"
  using assms
proof (induction "'',''" ts arbitrary: n us vs rule: join.induct)
  case (2 t)
  then obtain v m where "vs = [v]" "encodes v t" "n = Suc m"
    by (cases n) (auto simp: list_all2_Cons2)
  with 2 show ?case by (simp add: encodesD expect_simps)
next
  case (3 t t' ts)
  then obtain v vs' m where "vs = v # vs'" "encodes v t" "list_all2 encodes vs' (t' # ts)" "n = Suc m"
    by (cases n) (auto simp: list_all2_Cons2)
  with 3 show ?case by (simp add: encodesD expect_simps)
qed simp

lemma encodes_hd: "encodes v t \<Longrightarrow> \<exists>c u. t = c # u \<and> \<not> json_space c \<and> c \<noteq> CHR '']''"
  by (cases t) (auto simp: encodes_def)

lemma encodes_array:
  assumes "list_all2 encodes vs ts"
  shows "encodes (JArr vs) (json_array ts)"
proof -
  have "parse_value n (json_array ts @ r) = Some (JArr vs, r)" if n: "length (json_array ts) < n" for n r
  proof (cases ts)
    case Nil
    with assms n show ?thesis by (cases n) (auto simp: json_array_def expect_simps)
  next
    case (Cons t ts')
    with assms obtain v where "encodes v t" by (auto simp: list_all2_Cons2)
    then obtain c u where c: "t = c # u" "\<not> json_space c" "c \<noteq> CHR '']''"
      using encodes_hd by blast
    have "hd (join '','' ts) = c" "join '','' ts \<noteq> []" using Cons c by (cases ts'; simp)+
    then obtain w where w: "join '','' ts = c # w" by (metis list.exhaust_sel)
    obtain m where m: "n = Suc m" "Suc (length (join '','' ts)) < m"
      using n by (cases n) (auto simp: json_array_def)
    have "parse_elements m [] (join '','' ts @ CHR '']'' # r) = Some ([] @ vs, r)"
      by (rule parse_elements_join [OF assms _ m(2)]) (simp add: Cons)
    moreover have "expect CHR '']'' (c # w @ CHR '']'' # r) = None"
      using c by (auto simp: expect_simps)
    ultimately show ?thesis using m(1) w by (simp add: json_array_def punctuation)
  qed
  then show ?thesis by (simp add: encodes_def) (simp add: json_array_def punctuation)
qed

definition member_text :: "string \<times> string \<Rightarrow> string" where
  "member_text kt = json_quote (fst kt) @ '':'' @ snd kt"

lemma member_text_length: "length t \<le> length (member_text (k, t))"
  by (simp add: member_text_def)

lemma json_object_alt: "json_object kts = ''{'' @ join '','' (map member_text kts) @ ''}''"
proof -
  have "member_text = (\<lambda>(k, t). json_quote k @ '':'' @ t)"
    by (auto simp: fun_eq_iff member_text_def)
  then show ?thesis by (simp add: json_object_def)
qed

lemma parse_member:
  assumes "encodes v t" and "length t < n" and "delimited z"
  shows "parse_members (Suc n) kvs (member_text (k, t) @ z) =
    (case expect CHR '','' z of
       Some r' \<Rightarrow> parse_members n (obj_set kvs k v) r'
     | None \<Rightarrow> map_option (\<lambda>z. (obj_set kvs k v, z)) (expect CHR ''}'' z))"
  using assms parse_string_quoted [of k "'':'' @ t @ z"]
  by (simp add: member_text_def json_quote_def expect_simps encodesD)

lemma parse_members_join:
  assumes "list_all2 (\<lambda>kv kt. fst kv = fst kt \<and> encodes (snd kv) (snd kt)) kvs kts" and "kts \<noteq> []"
    and "Suc (length (join '','' (map member_text kts))) < n" and "distinct (map fst (us @ kvs))"
  shows "parse_members n us (join '','' (map member_text kts) @ CHR ''}'' # r) = Some (us @ kvs, r)"
  using assms
proof (induction kvs kts arbitrary: n us rule: list_all2_induct)
  case step: (Cons kv kvs' kt kts)
  obtain k v t where kv: "kv = (k, v)" and kt: "kt = (k, t)" and v: "encodes v t"
    using step.hyps by (cases kv; cases kt) auto
  obtain m where n: "n = Suc m" using step.prems(2) by (cases n) auto
  have set: "obj_set us k v = us @ [(k, v)]"
    using step.prems(3) kv by (intro obj_set_new) auto
  show ?case
  proof (cases kts)
    case Nil
    with step.prems kt n have "length t < m" by (simp add: member_text_def)
    with Nil step.hyps(2) kt kv n show ?thesis by (simp add: parse_member [OF v] expect_simps set del: parse_members.simps)
  next
    case (Cons kt' kts')
    have len: "length t < m" "Suc (length (join '','' (map member_text kts))) < m"
      using step.prems(2) kt n Cons member_text_length [of t k] by auto
    have "parse_members m (us @ [(k, v)]) (join '','' (map member_text kts) @ CHR ''}'' # r) =
        Some ((us @ [(k, v)]) @ kvs', r)"
      by (rule step.IH [OF _ len(2)]) (use Cons step.prems(3) kv in auto)
    with Cons len kt kv n show ?thesis by (simp add: parse_member [OF v] expect_simps set del: parse_members.simps)
  qed
qed simp

lemma encodes_object:
  assumes "list_all2 (\<lambda>kv kt. fst kv = fst kt \<and> encodes (snd kv) (snd kt)) kvs kts"
    and "distinct (map fst kvs)"
  shows "encodes (JObj kvs) (json_object kts)"
proof -
  have "parse_value n (json_object kts @ r) = Some (JObj kvs, r)" if n: "length (json_object kts) < n" for n r
  proof (cases kts)
    case Nil
    with assms n show ?thesis by (cases n) (auto simp: json_object_alt expect_simps)
  next
    case (Cons kt kts')
    have "hd (join '','' (map member_text kts)) = CHR 0x22" "join '','' (map member_text kts) \<noteq> []"
      using Cons by (cases kts'; simp add: member_text_def json_quote_def)+
    then obtain w where w: "join '','' (map member_text kts) = CHR 0x22 # w"
      by (metis list.exhaust_sel)
    obtain m where m: "n = Suc m" "Suc (length (join '','' (map member_text kts))) < m"
      using n by (cases n) (auto simp: json_object_alt)
    have "parse_members m [] (join '','' (map member_text kts) @ CHR ''}'' # r) = Some ([] @ kvs, r)"
      by (rule parse_members_join [OF assms(1) _ m(2)]) (use assms(2) Cons in auto)
    with m(1) w show ?thesis by (simp add: json_object_alt punctuation expect_simps)
  qed
  then show ?thesis by (simp add: encodes_def) (simp add: json_object_alt punctuation)
qed

text \<open>The round trip: what was encoded is what \<open>JSON.parse\<close> returns.\<close>

lemma JSON_parse_encoded: "encodes v t \<Longrightarrow> JSON_parse t = Some v"
  using encodesD [of v t "2 * length t + 2" "[]"] by (simp add: JSON_parse_def)

section \<open>The nesting bound suffices\<close>

lemma expect_shorter: "expect c s = Some r \<Longrightarrow> length r < length s"
  using length_dropWhile_le [of json_space s]
  by (auto simp: expect_def split: list.splits if_splits)

lemma skip_ws_shorter: "skip_ws s = c # r \<Longrightarrow> length r < length s"
  using length_dropWhile_le [of json_space s] by simp

lemma startsWith_length: "startsWith s p \<Longrightarrow> length p \<le> length s"
  by (auto simp: startsWith_iff)

lemma span_shorter: "span P u = (a, b) \<Longrightarrow> length b \<le> length u"
  by (auto simp: span_def length_dropWhile_le)

lemma span_shorter_strict: "span P u = (a, b) \<Longrightarrow> a \<noteq> [] \<Longrightarrow> length b < length u"
  by (cases u) (auto simp: span_def length_dropWhile_le less_Suc_eq_le split: if_splits)

lemma number_sign_shorter: "number_sign s = (b, r) \<Longrightarrow> length r \<le> length s"
  by (auto simp: number_sign_def split: if_splits)

lemma number_fraction_shorter: "number_fraction s = Some (fp, r) \<Longrightarrow> length r \<le> length s"
  using span_shorter [of is_digit "tl s" fp r]
  by (auto simp: number_fraction_def split: if_splits)

lemma number_exponent_shorter: "number_exponent s = Some (e, r) \<Longrightarrow> length r \<le> length s"
proof -
  have "length (dropWhile is_digit u) \<le> length u" for u by (rule length_dropWhile_le)
  moreover have "length (tl (tl s)) \<le> length s" "length (tl s) \<le> length s" by simp_all
  ultimately have "length (dropWhile is_digit (tl (tl s))) \<le> length s"
    "length (dropWhile is_digit (tl s)) \<le> length s" by (metis order_trans)+
  then show "number_exponent s = Some (e, r) \<Longrightarrow> length r \<le> length s"
    by (auto simp: number_exponent_def Let_def split: if_splits)
qed

lemma parse_number_shorter:
  assumes "parse_number s = Some (v, r)"
  shows "length r < length s"
proof -
  obtain neg s1 where 1: "number_sign s = (neg, s1)" by (cases "number_sign s")
  obtain ip s2 where 2: "span is_digit s1 = (ip, s2)" by (cases "span is_digit s1")
  from assms 1 2 obtain fp s3 e where "ip \<noteq> []" "number_fraction s2 = Some (fp, s3)"
    "number_exponent s3 = Some (e, r)"
    by (auto simp: parse_number_def Let_def split: if_splits option.splits)
  with number_sign_shorter [OF 1] span_shorter_strict [OF 2] number_fraction_shorter
    number_exponent_shorter
  show ?thesis by (metis le_less_trans less_le_trans)
qed

text \<open>Every parser consumes at least one character.\<close>

lemma parse_shorter:
  "parse_value n s = Some (v, r) \<Longrightarrow> length r < length s"
  "parse_elements n us s = Some (vs, r) \<Longrightarrow> length r < length s"
  "parse_members n ks s = Some (kvs, r) \<Longrightarrow> length r < length s"
proof (induction n arbitrary: s us ks v vs kvs r)
  case (Suc n)
  note shorter = expect_shorter parse_string_shorter parse_number_shorter Suc.IH
  {
    case 1
    then obtain c t where t: "skip_ws s = c # t" by (cases "skip_ws s") auto
    have "length r < length s" if "length r < length (c # t)"
      using that skip_ws_shorter [OF t] by simp
    moreover have "length r < length (c # t)"
      using 1 t startsWith_length [of "c # t" "''null''"] startsWith_length [of "c # t" "''true''"]
        startsWith_length [of "c # t" "''false''"]
      by (auto split: if_splits option.splits dest!: shorter simp del: length_Cons)
    ultimately show ?case by blast
  next
    case 2
    then show ?case
      by (auto split: option.splits dest!: shorter)
  next
    case 3
    then show ?case
      by (auto split: option.splits dest!: shorter)
  }
qed simp_all

text \<open>More fuel than two calls per remaining character changes nothing.\<close>

lemma parse_fuel_Suc:
  "2 * length s + 1 \<le> n \<Longrightarrow> parse_value (Suc n) s = parse_value n s"
  "2 * length s + 2 \<le> n \<Longrightarrow> parse_elements (Suc n) us s = parse_elements n us s"
  "2 * length s + 2 \<le> n \<Longrightarrow> parse_members (Suc n) ks s = parse_members n ks s"
proof (induction n arbitrary: s us ks)
  case (Suc n)
  {
    case 1
    show ?case
    proof (cases "skip_ws s")
      case Nil
      then show ?thesis by (simp only: parse_value.simps list.case)
    next
      case (Cons c t)
      from skip_ws_shorter [OF this] 1 have "2 * length t + 2 \<le> n" by simp
      then have "parse_elements (Suc n) [] t = parse_elements n [] t"
        "parse_members (Suc n) [] t = parse_members n [] t" by (rule Suc.IH)+
      with Cons show ?thesis by (simp only: parse_value.simps list.case)
    qed
  next
    case 2
    have v: "parse_value (Suc n) s = parse_value n s" by (rule Suc.IH) (use 2 in simp)
    have "parse_elements (Suc n) (us @ [v]) t = parse_elements n (us @ [v]) t"
      if "parse_value n s = Some (v, r)" "expect CHR '','' r = Some t" for v r t
      using parse_shorter(1) [OF that(1)] expect_shorter [OF that(2)] 2 by (intro Suc.IH(2)) simp
    then show ?case
      unfolding parse_elements.simps(2) [of "Suc n" us s] parse_elements.simps(2) [of n us s] v
      by (auto split: option.split simp del: parse_elements.simps parse_value.simps)
  next
    case 3
    have v: "parse_value (Suc n) t = parse_value n t" if "length t \<le> length s" for t
      by (rule Suc.IH) (use 3 that in simp)
    have m: "parse_members (Suc n) ks' t = parse_members n ks' t" if "length t < length s" for t ks'
      by (rule Suc.IH) (use 3 that in simp)
    show ?case
    proof (cases "expect CHR 0x22 s")
      case s1: (Some s1)
      show ?thesis
      proof (cases "parse_string s1")
        case s2: (Some ks2)
        obtain k s2' where ks2: "ks2 = (k, s2')" by (cases ks2)
        show ?thesis
        proof (cases "expect CHR '':'' s2'")
          case s3: (Some s3)
          have len: "length s3 < length s"
            using expect_shorter [OF s1] parse_string_shorter [OF s2 [unfolded ks2]] expect_shorter [OF s3]
            by simp
          have "parse_members (Suc n) ks' t = parse_members n ks' t"
            if "parse_value n s3 = Some (v, r)" "expect CHR '','' r = Some t" for v r t ks'
            using parse_shorter(1) [OF that(1)] expect_shorter [OF that(2)] len by (intro m) simp
          with s1 s2 s3 ks2 v [of s3] len show ?thesis
            unfolding parse_members.simps(2) [of "Suc n" ks s] parse_members.simps(2) [of n ks s]
            by (auto split: option.split simp del: parse_members.simps parse_value.simps)
        qed (simp_all add: s1 s2 ks2)
      qed (simp_all add: s1)
    qed simp_all
  }
qed simp_all

lemma parse_value_fuel:
  assumes "2 * length s + 1 \<le> n"
  shows "parse_value n s = parse_value (2 * length s + 2) s"
proof -
  have "parse_value (2 * length s + 1 + k) s = parse_value (2 * length s + 1) s" for k
    by (induction k) (simp_all only: add_Suc_right add_0_right parse_fuel_Suc(1) le_add1)
  from this [of "n - (2 * length s + 1)"] this [of 1] assms show ?thesis by simp
qed

end
