(* ===== verification/Public_Errors.thy ===== *)
theory Public_Errors
  imports Js_Json
begin

text \<open>
  The public error vocabulary shared by the gateway and identity: the generated \<open>ErrorCode\<close> enum
  (protogen/ts/common/v1/error_pb.ts), the conversion of a code to its public string (error-code.ts
  of both services), and error items. Then the status numbers of gRPC and HTTP that the code compares with.
\<close>

section \<open>Error codes\<close>

datatype ErrorCode =
    UNSPECIFIED | INVALID_ARGUMENT | INVALID_NAME | INVALID_EMAIL | INVALID_PASSWORD
  | INVALID_TITLE | INVALID_PRICE | INVALID_CREDENTIALS | EMAIL_NOT_VERIFIED
  | INVALID_VERIFICATION_TOKEN | ALREADY_EXISTS | UNAUTHENTICATED | FORBIDDEN | NOT_FOUND
  | RATE_LIMITED | SERVICE_UNAVAILABLE | INTERNAL_ERROR

fun code_number :: "ErrorCode \<Rightarrow> int" where
  "code_number UNSPECIFIED = 0"
| "code_number INVALID_ARGUMENT = 1"
| "code_number INVALID_NAME = 2"
| "code_number INVALID_EMAIL = 3"
| "code_number INVALID_PASSWORD = 4"
| "code_number INVALID_TITLE = 5"
| "code_number INVALID_PRICE = 6"
| "code_number INVALID_CREDENTIALS = 7"
| "code_number EMAIL_NOT_VERIFIED = 8"
| "code_number INVALID_VERIFICATION_TOKEN = 9"
| "code_number ALREADY_EXISTS = 10"
| "code_number UNAUTHENTICATED = 11"
| "code_number FORBIDDEN = 12"
| "code_number NOT_FOUND = 13"
| "code_number RATE_LIMITED = 14"
| "code_number SERVICE_UNAVAILABLE = 15"
| "code_number INTERNAL_ERROR = 16"

fun code_name :: "ErrorCode \<Rightarrow> string" where
  "code_name UNSPECIFIED = ''UNSPECIFIED''"
| "code_name INVALID_ARGUMENT = ''INVALID_ARGUMENT''"
| "code_name INVALID_NAME = ''INVALID_NAME''"
| "code_name INVALID_EMAIL = ''INVALID_EMAIL''"
| "code_name INVALID_PASSWORD = ''INVALID_PASSWORD''"
| "code_name INVALID_TITLE = ''INVALID_TITLE''"
| "code_name INVALID_PRICE = ''INVALID_PRICE''"
| "code_name INVALID_CREDENTIALS = ''INVALID_CREDENTIALS''"
| "code_name EMAIL_NOT_VERIFIED = ''EMAIL_NOT_VERIFIED''"
| "code_name INVALID_VERIFICATION_TOKEN = ''INVALID_VERIFICATION_TOKEN''"
| "code_name ALREADY_EXISTS = ''ALREADY_EXISTS''"
| "code_name UNAUTHENTICATED = ''UNAUTHENTICATED''"
| "code_name FORBIDDEN = ''FORBIDDEN''"
| "code_name NOT_FOUND = ''NOT_FOUND''"
| "code_name RATE_LIMITED = ''RATE_LIMITED''"
| "code_name SERVICE_UNAVAILABLE = ''SERVICE_UNAVAILABLE''"
| "code_name INTERNAL_ERROR = ''INTERNAL_ERROR''"

text \<open>The codes can be enumerated, in the order of their numbers.\<close>

instantiation ErrorCode :: enum
begin

definition enum_ErrorCode :: "ErrorCode list" where
  "enum_ErrorCode =
     [UNSPECIFIED, INVALID_ARGUMENT, INVALID_NAME, INVALID_EMAIL, INVALID_PASSWORD, INVALID_TITLE,
      INVALID_PRICE, INVALID_CREDENTIALS, EMAIL_NOT_VERIFIED, INVALID_VERIFICATION_TOKEN,
      ALREADY_EXISTS, UNAUTHENTICATED, FORBIDDEN, NOT_FOUND, RATE_LIMITED, SERVICE_UNAVAILABLE,
      INTERNAL_ERROR]"

definition enum_all_ErrorCode :: "(ErrorCode \<Rightarrow> bool) \<Rightarrow> bool" where
  "enum_all_ErrorCode P \<longleftrightarrow> list_all P enum_class.enum"

definition enum_ex_ErrorCode :: "(ErrorCode \<Rightarrow> bool) \<Rightarrow> bool" where
  "enum_ex_ErrorCode P \<longleftrightarrow> list_ex P enum_class.enum"

instance
proof
  show univ: "(UNIV :: ErrorCode set) = set enum_class.enum"
    by (auto simp: enum_ErrorCode_def) (metis ErrorCode.exhaust)
  show "distinct (enum_class.enum :: ErrorCode list)" by (simp add: enum_ErrorCode_def)
  show "enum_class.enum_all P = Ball UNIV P" for P :: "ErrorCode \<Rightarrow> bool"
    by (simp only: enum_all_ErrorCode_def univ list_all_iff)
  show "enum_class.enum_ex P = Bex UNIV P" for P :: "ErrorCode \<Rightarrow> bool"
    by (simp only: enum_ex_ErrorCode_def univ list_ex_iff)
qed

end

instantiation ErrorCode :: linorder
begin

definition less_eq_ErrorCode :: "ErrorCode \<Rightarrow> ErrorCode \<Rightarrow> bool" where
  "less_eq_ErrorCode a b \<longleftrightarrow> code_number a \<le> code_number b"

definition less_ErrorCode :: "ErrorCode \<Rightarrow> ErrorCode \<Rightarrow> bool" where
  "less_ErrorCode a b \<longleftrightarrow> code_number a < code_number b"

instance
proof
  fix a b :: ErrorCode
  show "a \<le> b \<Longrightarrow> b \<le> a \<Longrightarrow> a = b"
    by (cases a; cases b) (simp_all add: less_eq_ErrorCode_def)
qed (auto simp: less_eq_ErrorCode_def less_ErrorCode_def)

end

text \<open>\<open>ErrorCode[n]\<close>: the reverse mapping of the compiled enum, \<open>undefined\<close> for other numbers.\<close>

definition ErrorCode_at :: "int \<Rightarrow> string option" where
  "ErrorCode_at n = map_option code_name (find (\<lambda>c. code_number c = n) enum_class.enum)"

lemma ErrorCode_at_number [simp]: "ErrorCode_at (code_number c) = Some (code_name c)"
  by (cases c) (simp_all add: ErrorCode_at_def enum_ErrorCode_def)

lemma code_number_inject [simp]: "code_number a = code_number b \<longleftrightarrow> a = b"
  by (cases a; cases b) simp_all

lemma code_name_inject [simp]: "code_name a = code_name b \<longleftrightarrow> a = b"
  by (cases a; cases b) simp_all

lemma ErrorCode_at_None: "ErrorCode_at n = None \<longleftrightarrow> (\<forall>c. code_number c \<noteq> n)"
proof -
  have "find P enum_class.enum = None \<longleftrightarrow> (\<forall>c. \<not> P c)" for P :: "ErrorCode \<Rightarrow> bool"
    by (simp add: find_None_iff in_enum)
  then show ?thesis by (simp add: ErrorCode_at_def)
qed

lemma ErrorCode_at_Some: "ErrorCode_at n = Some s \<Longrightarrow> \<exists>c. code_number c = n \<and> s = code_name c"
  by (auto simp: ErrorCode_at_def find_Some_iff)

section \<open>The public string of a code\<close>

text \<open>apps/api-gateway/src/errors/error-code.ts.\<close>

definition toPublicErrorCode :: "int \<Rightarrow> string" where
  "toPublicErrorCode errorCode =
     (case ErrorCode_at errorCode of
        None \<Rightarrow> code_name INTERNAL_ERROR
      | Some code \<Rightarrow>
          if errorCode = code_number UNSPECIFIED then code_name INTERNAL_ERROR else code)"

text \<open>apps/identity/src/errors/error-code.ts, a copy of the function in the other service.\<close>

definition identity_toPublicErrorCode :: "int \<Rightarrow> string" where
  "identity_toPublicErrorCode errorCode =
     (let code = ErrorCode_at errorCode
      in if errorCode = code_number UNSPECIFIED \<or> code = None then code_name INTERNAL_ERROR
         else the code)"

abbreviation public_code :: "ErrorCode \<Rightarrow> string" where
  "public_code c \<equiv> toPublicErrorCode (code_number c)"

abbreviation identity_code :: "ErrorCode \<Rightarrow> string" where
  "identity_code c \<equiv> identity_toPublicErrorCode (code_number c)"

text \<open>The strings of docs/error-contract.md: every name but the unspecified one.\<close>

definition public_codes :: "string set" where
  "public_codes = code_name ` {c. c \<noteq> UNSPECIFIED}"

lemma toPublicErrorCode_same: "identity_toPublicErrorCode n = toPublicErrorCode n"
  by (auto simp: identity_toPublicErrorCode_def toPublicErrorCode_def Let_def split: option.split)

lemma public_code_name: "c \<noteq> UNSPECIFIED \<Longrightarrow> public_code c = code_name c"
  by (simp add: toPublicErrorCode_def del: code_number.simps)

lemma toPublicErrorCode_public: "toPublicErrorCode n \<in> public_codes"
  by (auto simp: toPublicErrorCode_def public_codes_def dest!: ErrorCode_at_Some
      split: option.split simp del: code_number.simps code_name.simps)

lemma public_code_in: "public_code c \<in> public_codes" "identity_code c \<in> public_codes"
  by (simp_all add: toPublicErrorCode_same toPublicErrorCode_public del: code_number.simps)

section \<open>Error items\<close>

text \<open>The interface \<open>ErrorItem\<close>, declared alike by both services.\<close>

record error_item =
  ei_message :: string
  ei_code :: string
  ei_field :: "string option"

text \<open>An item as the object the services write, its keys in the order of the source's literals.\<close>

definition item_val :: "error_item \<Rightarrow> jsval" where
  "item_val e =
     JObj ((''code'', JStr (ei_code e)) #
           (case ei_field e of None \<Rightarrow> [] | Some f \<Rightarrow> [(''field'', JStr f)]) @
           [(''message'', JStr (ei_message e))])"

lemma item_val_props:
  "get_prop (item_val e) ''code'' = JStr (ei_code e)"
  "get_prop (item_val e) ''message'' = JStr (ei_message e)"
  "get_prop (item_val e) ''field'' = (case ei_field e of None \<Rightarrow> JUndef | Some f \<Rightarrow> JStr f)"
  by (simp_all add: item_val_def split: option.split)

section \<open>Status numbers\<close>

text \<open>The status codes of the gRPC protocol, by number.\<close>

datatype grpc_status =
    OK | CANCELLED | UNKNOWN | GRPC_INVALID_ARGUMENT | DEADLINE_EXCEEDED | GRPC_NOT_FOUND
  | GRPC_ALREADY_EXISTS | PERMISSION_DENIED | RESOURCE_EXHAUSTED | FAILED_PRECONDITION | ABORTED
  | OUT_OF_RANGE | UNIMPLEMENTED | INTERNAL | UNAVAILABLE | DATA_LOSS | GRPC_UNAUTHENTICATED

fun status_number :: "grpc_status \<Rightarrow> int" where
  "status_number OK = 0"
| "status_number CANCELLED = 1"
| "status_number UNKNOWN = 2"
| "status_number GRPC_INVALID_ARGUMENT = 3"
| "status_number DEADLINE_EXCEEDED = 4"
| "status_number GRPC_NOT_FOUND = 5"
| "status_number GRPC_ALREADY_EXISTS = 6"
| "status_number PERMISSION_DENIED = 7"
| "status_number RESOURCE_EXHAUSTED = 8"
| "status_number FAILED_PRECONDITION = 9"
| "status_number ABORTED = 10"
| "status_number OUT_OF_RANGE = 11"
| "status_number UNIMPLEMENTED = 12"
| "status_number INTERNAL = 13"
| "status_number UNAVAILABLE = 14"
| "status_number DATA_LOSS = 15"
| "status_number GRPC_UNAUTHENTICATED = 16"

end
