(* ===== verification/Gateway_Errors.thy ===== *)
theory Gateway_Errors
  imports Public_Errors
begin

text \<open>
  Errors in the gateway (apps/api-gateway/src/errors): the structured HTTP exception, the reading
  of a gRPC error's details, the translation of a gRPC error into the exception, and the filter
  that turns every exception into the public response.
\<close>

section \<open>The structured HTTP exception\<close>

text \<open>api-error.ts: the constructor copies message, code and, when present, field of each item.\<close>

definition api_item :: "jsval \<Rightarrow> jsval" where
  "api_item e =
     JObj ([(''message'', get_prop e ''message''), (''code'', get_prop e ''code'')] @
           (if get_prop e ''field'' = JUndef then [] else [(''field'', get_prop e ''field'')]))"

definition ApiError :: "int \<Rightarrow> jsval list \<Rightarrow> thrown" where
  "ApiError status errors =
     HttpException (num status) (JObj [(''errors'', JArr (map api_item errors))])"

section \<open>Structured gRPC details\<close>

text \<open>grpc-error.ts.\<close>

definition isGrpcStatusError :: "thrown \<Rightarrow> bool" where
  "isGrpcStatusError error \<longleftrightarrow>
     (let v = thrown_val error
      in is_object v \<and> has_prop v ''code'' \<and> is_number (get_prop v ''code''))"

definition isErrorItem :: "jsval \<Rightarrow> bool" where
  "isErrorItem v \<longleftrightarrow>
     is_object v \<and> has_prop v ''message'' \<and> is_string (get_prop v ''message'') \<and>
     has_prop v ''code'' \<and> is_string (get_prop v ''code'') \<and>
     (\<not> has_prop v ''field'' \<or> is_string (get_prop v ''field''))"

definition hasErrorItems :: "jsval \<Rightarrow> bool" where
  "hasErrorItems v \<longleftrightarrow>
     is_object v \<and> has_prop v ''errors'' \<and>
     (case get_prop v ''errors'' of
        JArr es \<Rightarrow> es \<noteq> [] \<and> list_all isErrorItem es
      | _ \<Rightarrow> False)"

fun elements_of :: "jsval \<Rightarrow> jsval list" where
  "elements_of (JArr es) = es"
| "elements_of _ = []"

definition getGrpcErrorResponse :: "thrown \<Rightarrow> jsval list option" where
  "getGrpcErrorResponse error =
     (let details = get_prop (thrown_val error) ''details''
      in if \<not> is_string details then None
         else (case JSON_parse (str_of details) of
                 None \<Rightarrow> None
               | Some parsed \<Rightarrow>
                   if hasErrorItems parsed then Some (elements_of (get_prop parsed ''errors''))
                   else None))"

definition httpStatusFromGrpcCode :: "jsnum \<Rightarrow> int" where
  "httpStatusFromGrpcCode code =
     (if code = num (status_number GRPC_INVALID_ARGUMENT) then 400
      else if code = num (status_number GRPC_UNAUTHENTICATED) then 401
      else if code = num (status_number PERMISSION_DENIED) then 403
      else if code = num (status_number GRPC_NOT_FOUND) then 404
      else if code = num (status_number GRPC_ALREADY_EXISTS) then 409
      else if code = num (status_number RESOURCE_EXHAUSTED) then 429
      else if code = num (status_number UNAVAILABLE) then 503
      else 500)"

section \<open>Translating a failed gRPC call\<close>

definition service_unavailable_item :: error_item where
  "service_unavailable_item =
     \<lparr>ei_message = ''A required service is unavailable.'',
      ei_code = public_code SERVICE_UNAVAILABLE, ei_field = None\<rparr>"

text \<open>throw-grpc-error.ts; the value is what the function throws.\<close>

definition throwGatewayGrpcError :: "thrown \<Rightarrow> error_item option \<Rightarrow> thrown" where
  "throwGatewayGrpcError error invalidArgumentError =
     (let unavailable = ApiError 503 [item_val service_unavailable_item];
          code = num_of (get_prop (thrown_val error) ''code'')
      in if isGrpcStatusError error then
           (case getGrpcErrorResponse error of
              Some errors \<Rightarrow> ApiError (httpStatusFromGrpcCode code) errors
            | None \<Rightarrow>
                (case invalidArgumentError of
                   Some item \<Rightarrow>
                     if code = num (status_number GRPC_INVALID_ARGUMENT)
                     then ApiError 400 [item_val item] else unavailable
                 | None \<Rightarrow> unavailable))
         else unavailable)"

section \<open>The exception filter\<close>

text \<open>api-error.filter.ts.\<close>

definition filter_isErrorItem :: "jsval \<Rightarrow> bool" where
  "filter_isErrorItem v \<longleftrightarrow>
     is_object v \<and> has_prop v ''message'' \<and> is_string (get_prop v ''message'') \<and>
     has_prop v ''code'' \<and> is_string (get_prop v ''code'') \<and>
     (\<not> has_prop v ''field'' \<or> is_string (get_prop v ''field''))"

definition getHttpStatus :: "thrown \<Rightarrow> jsnum" where
  "getHttpStatus ex = (case ex of HttpException s _ \<Rightarrow> s | _ \<Rightarrow> num 500)"

definition getStructuredResponse :: "jsval \<Rightarrow> jsval list option" where
  "getStructuredResponse response =
     (if is_object response \<and> has_prop response ''errors'' then
        (case get_prop response ''errors'' of
           JArr es \<Rightarrow> if es \<noteq> [] \<and> list_all filter_isErrorItem es then Some es else None
         | _ \<Rightarrow> None)
      else None)"

definition getMessages :: "jsval \<Rightarrow> string list" where
  "getMessages response =
     (case response of
        JStr s \<Rightarrow> [s]
      | _ \<Rightarrow>
          if has_prop response ''message'' then
            (case get_prop response ''message'' of
               JArr ms \<Rightarrow> map str_of (filter is_string ms)
             | JStr m \<Rightarrow> [m]
             | _ \<Rightarrow> [''Request failed.''])
          else [''Request failed.''])"

definition getCodeForStatus :: "jsnum \<Rightarrow> string" where
  "getCodeForStatus status =
     (if status = num 400 then public_code INVALID_ARGUMENT
      else if status = num 401 then public_code UNAUTHENTICATED
      else if status = num 403 then public_code FORBIDDEN
      else if status = num 404 then public_code NOT_FOUND
      else if status = num 409 then public_code ALREADY_EXISTS
      else if status = num 429 then public_code RATE_LIMITED
      else public_code INTERNAL_ERROR)"

definition message_item :: "string \<Rightarrow> string \<Rightarrow> jsval" where
  "message_item m c = JObj [(''message'', JStr m), (''code'', JStr c)]"

definition getErrorResponse :: "thrown \<Rightarrow> jsnum \<Rightarrow> jsval list" where
  "getErrorResponse ex status =
     (let unavailable = (status = num 503 \<or> status = num 502);
          generic =
            [message_item
               (if unavailable then ''A required service is unavailable.''
                else ''An unexpected error occurred.'')
               (if unavailable then public_code SERVICE_UNAVAILABLE else public_code INTERNAL_ERROR)]
      in case ex of
           HttpException _ response \<Rightarrow>
             if js_less status (num 500) then
               (case getStructuredResponse response of
                  Some errors \<Rightarrow> errors
                | None \<Rightarrow> map (\<lambda>m. message_item m (getCodeForStatus status)) (getMessages response))
             else generic
         | _ \<Rightarrow> generic)"

text \<open>The response of the filter: its status and the value of \<open>errors\<close> in its JSON body.\<close>

definition api_error_filter_catch :: "thrown \<Rightarrow> jsnum \<times> jsval list" where
  "api_error_filter_catch ex = (getHttpStatus ex, getErrorResponse ex (getHttpStatus ex))"

section \<open>Facts about items\<close>

lemma filter_isErrorItem_same: "filter_isErrorItem = isErrorItem"
  by (simp add: fun_eq_iff isErrorItem_def filter_isErrorItem_def)

lemma isErrorItem_item_val [simp]: "isErrorItem (item_val e)"
  by (auto simp: isErrorItem_def item_val_def split: option.split)

lemma isErrorItem_api_item [simp]: "isErrorItem e \<Longrightarrow> isErrorItem (api_item e)"
  using has_prop_get [of e "''field''"] by (auto simp: isErrorItem_def api_item_def)

text \<open>Reading an item back: what the public response says.\<close>

definition to_error_item :: "jsval \<Rightarrow> error_item" where
  "to_error_item v =
     \<lparr>ei_message = str_of (get_prop v ''message''), ei_code = str_of (get_prop v ''code''),
      ei_field = (if has_prop v ''field'' then Some (str_of (get_prop v ''field'')) else None)\<rparr>"

lemma to_error_item_item_val [simp]: "to_error_item (item_val e) = e"
  by (cases e) (auto simp: to_error_item_def item_val_def split: option.split)

lemma to_error_item_api_item [simp]: "isErrorItem e \<Longrightarrow> to_error_item (api_item e) = to_error_item e"
  using has_prop_get [of e "''field''"]
  by (auto simp: isErrorItem_def to_error_item_def api_item_def)

lemma getStructuredResponse_ApiError:
  assumes "es \<noteq> []" and "list_all isErrorItem es"
  shows "getStructuredResponse (JObj [(''errors'', JArr (map api_item es))]) = Some (map api_item es)"
  using assms by (simp add: getStructuredResponse_def filter_isErrorItem_same list_all_iff)

text \<open>The public response to an exception the gateway built from items: unchanged below 500.\<close>

lemma filter_ApiError:
  assumes "es \<noteq> []" and "list_all isErrorItem es" and "status < 500"
  shows "api_error_filter_catch (ApiError status es) = (num status, map api_item es)"
  using assms
  by (simp add: api_error_filter_catch_def ApiError_def getHttpStatus_def getErrorResponse_def
      getStructuredResponse_ApiError)

lemma httpStatusFromGrpcCode_range:
  "httpStatusFromGrpcCode c \<in> {400, 401, 403, 404, 409, 429, 500, 503}"
  by (simp add: httpStatusFromGrpcCode_def)

lemma getGrpcErrorResponse_items:
  "getGrpcErrorResponse e = Some es \<Longrightarrow> es \<noteq> [] \<and> list_all isErrorItem es"
  by (auto simp: getGrpcErrorResponse_def hasErrorItems_def Let_def
      split: if_splits option.splits jsval.splits)

text \<open>Whatever a gRPC call throws, the gateway throws an \<open>ApiError\<close> with at least one item.\<close>

lemma throwGatewayGrpcError_ApiError:
  "\<exists>status es. throwGatewayGrpcError e d = ApiError status es \<and>
     es \<noteq> [] \<and> list_all isErrorItem es \<and> status \<in> {400, 401, 403, 404, 409, 429, 500, 503}"
proof -
  have unavailable: ?thesis if "throwGatewayGrpcError e d = ApiError 503 [item_val service_unavailable_item]"
    using that by (intro exI [of _ 503] exI [of _ "[item_val service_unavailable_item]"]) simp
  show ?thesis
  proof (cases "isGrpcStatusError e")
    case True
    show ?thesis
    proof (cases "getGrpcErrorResponse e")
      case None
      show ?thesis
      proof (cases "\<exists>i. d = Some i \<and> num_of (get_prop (thrown_val e) ''code'') =
          num (status_number GRPC_INVALID_ARGUMENT)")
        case yes: True
        then obtain i where "throwGatewayGrpcError e d = ApiError 400 [item_val i]"
          using True None by (auto simp: throwGatewayGrpcError_def Let_def)
        then show ?thesis by (intro exI [of _ 400] exI [of _ "[item_val i]"]) simp
      next
        case False
        then show ?thesis
          using True None by (intro unavailable) (auto simp: throwGatewayGrpcError_def Let_def split: option.split)
      qed
    next
      case (Some es)
      then have "throwGatewayGrpcError e d =
          ApiError (httpStatusFromGrpcCode (num_of (get_prop (thrown_val e) ''code''))) es"
        using True by (simp add: throwGatewayGrpcError_def Let_def)
      with getGrpcErrorResponse_items [OF Some] httpStatusFromGrpcCode_range show ?thesis by blast
    qed
  next
    case False
    then show ?thesis by (intro unavailable) (simp add: throwGatewayGrpcError_def Let_def)
  qed
qed

end
