(* ===== verification/Error_Contract.thy ===== *)
theory Error_Contract
  imports Gateway_Errors
begin

text \<open>
  The error contract between identity and the gateway. Identity encodes error items as JSON in the
  details of a gRPC status (grpc-error.ts); the gateway decodes them. The locale states what
  the gateway relies on: every failure of a handler is a structured error with at least one
  item and public codes. It is interpreted on identity's error mappers.
\<close>

section \<open>Encoding\<close>

text \<open>\<open>JSON.stringify({ errors })\<close>.\<close>

definition item_text :: "error_item \<Rightarrow> string" where
  "item_text e =
     json_object ((''code'', json_quote (ei_code e)) #
       (case ei_field e of None \<Rightarrow> [] | Some f \<Rightarrow> [(''field'', json_quote f)]) @
       [(''message'', json_quote (ei_message e))])"

definition errors_json :: "error_item list \<Rightarrow> string" where
  "errors_json errors = json_object [(''errors'', json_array (map item_text errors))]"

text \<open>apps/identity/src/errors/grpc-error.ts: the RpcException with code and encoded details.\<close>

definition StructuredGrpcError :: "grpc_status \<Rightarrow> error_item list \<Rightarrow> thrown" where
  "StructuredGrpcError code errors =
     RpcException (JObj [(''code'', JNum (num (status_number code))), (''details'', JStr (errors_json errors))])"

lemma encodes_item: "encodes (item_val e) (item_text e)"
  unfolding item_val_def item_text_def
  by (rule encodes_object) (auto simp: encodes_string split: option.split)

lemma encodes_errors:
  "encodes (JObj [(''errors'', JArr (map item_val errors))]) (errors_json errors)"
  unfolding errors_json_def
  by (rule encodes_object)
    (auto simp: list_all2_map1 list_all2_map2 list.rel_refl encodes_item intro!: encodes_array)

lemma JSON_parse_errors_json:
  "JSON_parse (errors_json errors) = Some (JObj [(''errors'', JArr (map item_val errors))])"
  by (rule JSON_parse_encoded [OF encodes_errors])

section \<open>A codec for error details\<close>

text \<open>
  What the two services need of the encoding: the gateway reads the items identity wrote. The
  interface, then its instance on the code's own functions.
\<close>

locale error_codec =
  fixes encode :: "'i list \<Rightarrow> string" and decode :: "string \<Rightarrow> 'i list option"
  assumes decode_encode: "xs \<noteq> [] \<Longrightarrow> decode (encode xs) = Some xs"
begin

lemma encode_inject: "xs \<noteq> [] \<Longrightarrow> ys \<noteq> [] \<Longrightarrow> encode xs = encode ys \<longleftrightarrow> xs = ys"
  by (metis decode_encode option.inject)

lemma decode_image: "xs \<noteq> [] \<Longrightarrow> \<exists>ys. decode (encode xs) = Some ys \<and> length ys = length xs"
  by (simp add: decode_encode)

end

text \<open>The gateway's decoding of a details string.\<close>

definition decode_errors :: "string \<Rightarrow> error_item list option" where
  "decode_errors s =
     map_option (map to_error_item)
       (getGrpcErrorResponse (ErrorObject PlainError [(''details'', JStr s)]))"

interpretation details: error_codec errors_json decode_errors
proof
  fix xs :: "error_item list"
  assume "xs \<noteq> []"
  then show "decode_errors (errors_json xs) = Some xs"
    by (simp add: decode_errors_def getGrpcErrorResponse_def hasErrorItems_def JSON_parse_errors_json
        list_all_iff map_idI)
qed

section \<open>Delivery of a gRPC status\<close>

text \<open>
  The gRPC transport is not part of the repository. What the services rely on: the client's
  error carries the code and the details string of the RpcException the server threw.
\<close>

definition delivers_status :: "(thrown \<Rightarrow> thrown) \<Rightarrow> bool" where
  "delivers_status transport \<longleftrightarrow>
     (\<forall>code details.
        let v = thrown_val (transport (RpcException
                  (JObj [(''code'', JNum code), (''details'', JStr details)])))
        in is_object v \<and> has_prop v ''code'' \<and> get_prop v ''code'' = JNum code \<and>
           get_prop v ''details'' = JStr details)"

text \<open>A transport that does so: the error object of a gRPC client.\<close>

definition client_error :: "thrown \<Rightarrow> thrown" where
  "client_error e =
     (case e of
        RpcException v \<Rightarrow>
          ErrorObject PlainError
            [(''code'', get_prop v ''code''), (''details'', get_prop v ''details''),
             (''message'', get_prop v ''details'')]
      | _ \<Rightarrow> ErrorObject PlainError [(''code'', JNum (num 2)), (''details'', JStr ''Internal server error'')])"

lemma delivers_client_error: "delivers_status client_error"
  by (simp add: delivers_status_def client_error_def)

text \<open>The gateway's exception for a structured error of identity.\<close>

lemma throwGatewayGrpcError_structured:
  assumes tr: "delivers_status transport" and ne: "items \<noteq> []"
  shows "throwGatewayGrpcError (transport (StructuredGrpcError s items)) d =
    ApiError (httpStatusFromGrpcCode (num (status_number s))) (map item_val items)"
proof -
  define e where "e = transport (StructuredGrpcError s items)"
  from tr have v: "is_object (thrown_val e)" "has_prop (thrown_val e) ''code''"
    "get_prop (thrown_val e) ''code'' = JNum (num (status_number s))"
    "get_prop (thrown_val e) ''details'' = JStr (errors_json items)"
    by (simp_all add: e_def delivers_status_def StructuredGrpcError_def Let_def)
  from v ne have "getGrpcErrorResponse e = Some (map item_val items)"
    by (simp add: getGrpcErrorResponse_def hasErrorItems_def JSON_parse_errors_json list_all_iff)
  moreover from v have "isGrpcStatusError e" by (simp add: isGrpcStatusError_def)
  ultimately show ?thesis using v(3) by (simp add: throwGatewayGrpcError_def Let_def flip: e_def)
qed

section \<open>The interface\<close>

locale structured_error_source =
  fixes mapper :: "'e \<Rightarrow> thrown"
  assumes structured:
    "\<exists>s items. mapper e = StructuredGrpcError s items \<and> items \<noteq> [] \<and>
       (\<forall>i \<in> set items. ei_code i \<in> public_codes)"
begin

text \<open>The gateway turns such an error into an exception with the same items.\<close>

lemma gateway_exception:
  assumes "delivers_status transport"
  obtains s items where "mapper e = StructuredGrpcError s items" and "items \<noteq> []"
    and "\<forall>i \<in> set items. ei_code i \<in> public_codes"
    and "throwGatewayGrpcError (transport (mapper e)) d =
      ApiError (httpStatusFromGrpcCode (num (status_number s))) (map item_val items)"
  using structured [of e] throwGatewayGrpcError_structured [OF assms] by metis

text \<open>The public body never leaves the error contract, whichever error was mapped.\<close>

lemma public_response_codes:
  assumes "delivers_status transport"
  shows "\<forall>v \<in> set (snd (api_error_filter_catch (throwGatewayGrpcError (transport (mapper e)) d))).
    ei_code (to_error_item v) \<in> public_codes"
proof -
  from assms obtain s items where items: "items \<noteq> []" "\<forall>i \<in> set items. ei_code i \<in> public_codes"
    and eq: "throwGatewayGrpcError (transport (mapper e)) d =
      ApiError (httpStatusFromGrpcCode (num (status_number s))) (map item_val items)"
    by (rule gateway_exception)
  show ?thesis
  proof (cases "httpStatusFromGrpcCode (num (status_number s)) < 500")
    case True
    with items show ?thesis by (simp add: eq filter_ApiError list_all_iff)
  next
    case False
    then show ?thesis
      by (simp add: eq api_error_filter_catch_def ApiError_def getHttpStatus_def getErrorResponse_def
          message_item_def to_error_item_def toPublicErrorCode_public Let_def del: code_number.simps)
  qed
qed

end

end
