(* ===== verification/Gateway_Requests.thy ===== *)
theory Gateway_Requests
  imports Error_Contract
begin

text \<open>
  What the gateway reads from an HTTP request (apps/api-gateway/src): the gRPC metadata it builds
  from headers (identity/metadata), the declared request bodies (dtos) and the error it makes of
  a failed validation (errors/validation-error.ts).
\<close>

section \<open>Headers and metadata\<close>

text \<open>A header of a Node request: a string, or a list of strings; absent ones are \<open>None\<close>.\<close>

datatype header = HStr string | HArr "string list"

type_synonym headers = "string \<Rightarrow> header option"

text \<open>
  A \<open>Metadata\<close> object of grpc-js, as the \<open>set\<close> calls that succeeded on it, in their order. The
  library may refuse a key or a value: \<open>refuse k v\<close> is what \<open>set(k, v)\<close> throws, if it does.
\<close>

type_synonym metadata = "(string \<times> string) list"
type_synonym metadata_refusal = "string \<Rightarrow> string \<Rightarrow> thrown option"

definition metadata_set :: "metadata_refusal \<Rightarrow> metadata \<Rightarrow> string \<Rightarrow> string \<Rightarrow> thrown + metadata" where
  "metadata_set refuse md k v = (case refuse k v of Some e \<Rightarrow> Inl e | None \<Rightarrow> Inr (md @ [(k, v)]))"

section \<open>Headers of an authentication request\<close>

definition FORWARDED_AUTH_HEADERS :: "string list" where
  "FORWARDED_AUTH_HEADERS =
     [''origin'', ''referer'', ''sec-fetch-dest'', ''sec-fetch-mode'', ''sec-fetch-site'',
      ''user-agent'']"

text \<open>The loop of \<open>createAuthRequestMetadata\<close> over the remaining header names.\<close>

fun forward_headers :: "metadata_refusal \<Rightarrow> headers \<Rightarrow> metadata \<Rightarrow> string list \<Rightarrow> thrown + metadata" where
  "forward_headers refuse headers md [] = Inr md"
| "forward_headers refuse headers md (headerName # rest) =
     (case headers headerName of
        Some (HStr value) \<Rightarrow>
          (case metadata_set refuse md headerName value of
             Inl e \<Rightarrow> Inl e
           | Inr md' \<Rightarrow> forward_headers refuse headers md' rest)
      | _ \<Rightarrow> forward_headers refuse headers md rest)"

definition createAuthRequestMetadata :: "metadata_refusal \<Rightarrow> headers \<Rightarrow> thrown + metadata" where
  "createAuthRequestMetadata refuse headers =
     forward_headers refuse headers [] FORWARDED_AUTH_HEADERS"

section \<open>The session cookie\<close>

definition SESSION_COOKIE_NAME :: string where
  "SESSION_COOKIE_NAME = ''better-auth.session_token''"

text \<open>The loop of \<open>getCookieValue\<close> over the parts of the header.\<close>

fun find_cookie :: "string \<Rightarrow> string list \<Rightarrow> string option" where
  "find_cookie cookieName [] = None"
| "find_cookie cookieName (cookie # cookies) =
     (let parts = split_on CHR ''='' (js_trim cookie)
      in if hd parts = cookieName then Some (join ''='' (tl parts))
         else find_cookie cookieName cookies)"

definition getCookieValue :: "header option \<Rightarrow> string \<Rightarrow> string option" where
  "getCookieValue cookieHeader cookieName =
     (case cookieHeader of
        None \<Rightarrow> None
      | Some h \<Rightarrow>
          (let cookieValue = (case h of HStr s \<Rightarrow> s | HArr parts \<Rightarrow> join '';'' parts)
           in if cookieValue = [] then None
              else find_cookie cookieName (split_on CHR '';'' cookieValue)))"

definition createSessionRequestMetadata :: "metadata_refusal \<Rightarrow> headers \<Rightarrow> thrown + metadata" where
  "createSessionRequestMetadata refuse headers =
     (case getCookieValue (headers ''cookie'') SESSION_COOKIE_NAME of
        Some sessionCookieValue \<Rightarrow>
          metadata_set refuse [] ''cookie'' (SESSION_COOKIE_NAME @ ''='' @ sessionCookieValue)
      | None \<Rightarrow> Inr [])"

section \<open>Validation errors\<close>

text \<open>
  The part of a class-validator error that the code reads: the property, and the messages of the
  failed constraints by name.
\<close>

record ValidationError =
  property :: string
  constraints :: "(string \<times> string) list option"

definition getValidationMessage :: "ValidationError \<Rightarrow> string" where
  "getValidationMessage validationError =
     (case map snd (case constraints validationError of None \<Rightarrow> [] | Some cs \<Rightarrow> cs) of
        [] \<Rightarrow> ''Request data is invalid.''
      | m # _ \<Rightarrow> m)"

definition getValidationCode :: "string \<Rightarrow> string" where
  "getValidationCode field =
     (if field = ''name'' then public_code INVALID_NAME
      else if field = ''email'' then public_code INVALID_EMAIL
      else if field = ''password'' then public_code INVALID_PASSWORD
      else if field = ''title'' then public_code INVALID_TITLE
      else if field = ''price'' then public_code INVALID_PRICE
      else public_code INVALID_ARGUMENT)"

definition toErrorItem :: "ValidationError \<Rightarrow> error_item" where
  "toErrorItem validationError =
     (let isUnexpectedField =
        (case constraints validationError of
           None \<Rightarrow> False | Some cs \<Rightarrow> ''whitelistValidation'' \<in> fst ` set cs)
      in \<lparr>ei_message =
            (if isUnexpectedField then ''Unexpected field.'' else getValidationMessage validationError),
          ei_code =
            (if isUnexpectedField then public_code INVALID_ARGUMENT
             else getValidationCode (property validationError)),
          ei_field = Some (property validationError)\<rparr>)"

definition createValidationApiError :: "ValidationError list \<Rightarrow> thrown" where
  "createValidationApiError validationErrors =
     ApiError 400 (map (\<lambda>e. item_val (toErrorItem e)) validationErrors)"

section \<open>Declared request bodies\<close>

text \<open>The constraints a DTO declares on its properties; class-validator enforces them.\<close>

datatype rule =
    IsString string
  | IsNotEmpty string
  | IsEmail string
  | Length nat nat string
  | IsInt string
  | Min int string
  | Max int string
  | IsUUID string string

type_synonym dto_rules = "(string \<times> rule list) list"

definition MAX_TICKET_PRICE :: int where
  "MAX_TICKET_PRICE = max_safe_integer"

definition SignInDto :: dto_rules where
  "SignInDto =
     [(''email'', [IsEmail ''Email must be valid'']),
      (''password'',
        [IsString ''Password must be a string'',
         Length 8 128 ''Password must be between 8 and 128 characters''])]"

definition SignUpDto :: dto_rules where
  "SignUpDto =
     [(''name'', [IsString ''Name must be a string'', IsNotEmpty ''You must supply a name'']),
      (''email'', [IsEmail ''Email must be valid'']),
      (''password'',
        [IsString ''Password must be a string'',
         Length 8 128 ''Password must be between 8 and 128 characters''])]"

definition VerifyEmailDto :: dto_rules where
  "VerifyEmailDto = [(''token'', [IsNotEmpty ''You must supply a verification token''])]"

definition CreateTicketDto :: dto_rules where
  "CreateTicketDto =
     [(''title'', [IsString ''Title must be a string'', IsNotEmpty ''Title is required.'']),
      (''price'',
        [IsInt ''Price must be an integer.'', Min 1 ''Price must be a positive integer.'',
         Max MAX_TICKET_PRICE ''Price exceeds the maximum supported amount.''])]"

definition UpdateTicketDto :: dto_rules where
  "UpdateTicketDto = CreateTicketDto"

definition CreateOrderDto :: dto_rules where
  "CreateOrderDto = [(''ticketId'', [IsUUID ''4'' ''Ticket ID must be a valid UUID.''])]"

definition CreatePaymentDto :: dto_rules where
  "CreatePaymentDto =
     [(''orderId'',
        [IsNotEmpty ''Order ID is required.'', IsUUID ''4'' ''Order ID must be a valid UUID.''])]"

section \<open>What crosses to identity\<close>

text \<open>The value of a header that is one string.\<close>

definition header_string :: "headers \<Rightarrow> string \<Rightarrow> string option" where
  "header_string headers n = (case headers n of Some (HStr v) \<Rightarrow> Some v | _ \<Rightarrow> None)"

fun forwarded :: "headers \<Rightarrow> string list \<Rightarrow> metadata" where
  "forwarded headers [] = []"
| "forwarded headers (n # ns) =
     (case header_string headers n of
        None \<Rightarrow> forwarded headers ns | Some v \<Rightarrow> (n, v) # forwarded headers ns)"

lemma forward_headers_step:
  "forward_headers refuse headers md (n # ns) =
     (case header_string headers n of
        None \<Rightarrow> forward_headers refuse headers md ns
      | Some v \<Rightarrow> (case refuse n v of
                     Some e \<Rightarrow> Inl e
                   | None \<Rightarrow> forward_headers refuse headers (md @ [(n, v)]) ns))"
  by (simp add: header_string_def metadata_set_def split: option.split header.split)

lemma forward_headers_eq:
  "forward_headers refuse headers md ns =
     (case find (\<lambda>c. refuse (fst c) (snd c) \<noteq> None) (forwarded headers ns) of
        None \<Rightarrow> Inr (md @ forwarded headers ns)
      | Some c \<Rightarrow> Inl (the (refuse (fst c) (snd c))))"
proof (induction ns arbitrary: md)
  case (Cons n ns)
  then show ?case
    by (cases "header_string headers n"; cases "refuse n (the (header_string headers n))")
      (simp_all add: forward_headers_step del: forward_headers.simps cong: option.case_cong)
qed simp

lemma forward_headers_Inr:
  "forward_headers refuse headers md ns = Inr md' \<Longrightarrow> md' = md @ forwarded headers ns"
  by (simp add: forward_headers_eq split: option.splits)

lemma createAuthRequestMetadata_Inr:
  "createAuthRequestMetadata refuse headers = Inr md \<Longrightarrow> md = forwarded headers FORWARDED_AUTH_HEADERS"
  unfolding createAuthRequestMetadata_def by (drule forward_headers_Inr) simp

lemma forwarded_keys: "(k, v) \<in> set (forwarded headers ns) \<longleftrightarrow> k \<in> set ns \<and> header_string headers k = Some v"
  by (induction ns) (auto split: option.splits)

lemma map_of_forwarded:
  "map_of (forwarded headers ns) k = (if k \<in> set ns then header_string headers k else None)"
  by (induction ns) (auto split: option.splits)

lemma find_cookie_no_semicolon:
  "find_cookie n cs = Some v \<Longrightarrow> \<forall>c \<in> set cs. CHR '';'' \<notin> set c \<Longrightarrow> CHR '';'' \<notin> set v"
proof (induction n cs rule: find_cookie.induct)
  case (2 n c cs)
  have no: "CHR '';'' \<notin> set w" if "w \<in> set (split_on CHR ''='' (js_trim c))" for w
    using 2(3) split_on_chars [OF that] js_trim_set [of c] by auto
  have "CHR '';'' \<notin> set (join ''='' (tl (split_on CHR ''='' (js_trim c))))"
  proof
    assume "CHR '';'' \<in> set (join ''='' (tl (split_on CHR ''='' (js_trim c))))"
    moreover have "set (join ''='' ws) \<subseteq> insert CHR ''='' (\<Union> (set ` set ws))" for ws
      by (induction "''=''" ws rule: join.induct) auto
    ultimately obtain w where "w \<in> set (tl (split_on CHR ''='' (js_trim c)))" "CHR '';'' \<in> set w"
      by fastforce
    with no show False by (meson list.set_sel(2) split_on_nonempty)
  qed
  with 2 show ?case by (auto simp: Let_def split: if_splits)
qed simp

lemma getCookieValue_no_semicolon:
  assumes "getCookieValue h n = Some v"
  shows "CHR '';'' \<notin> set v"
proof -
  from assms obtain t where "find_cookie n (split_on CHR '';'' t) = Some v"
    by (auto simp: getCookieValue_def Let_def split: option.splits if_splits)
  then show ?thesis by (rule find_cookie_no_semicolon) (blast dest: split_on_no_sep)
qed

lemma createSessionRequestMetadata_cases:
  "createSessionRequestMetadata refuse headers = Inr md \<Longrightarrow>
     md = (case getCookieValue (headers ''cookie'') SESSION_COOKIE_NAME of
             None \<Rightarrow> []
           | Some v \<Rightarrow> [(''cookie'', SESSION_COOKIE_NAME @ ''='' @ v)])"
  by (auto simp: createSessionRequestMetadata_def metadata_set_def split: option.splits)

section \<open>A cookie header as a map\<close>

text \<open>The pairs a browser sends, as RFC 6265 writes them: \<open>n1=v1; n2=v2\<close>.\<close>

definition cookie_text :: "string \<times> string \<Rightarrow> string" where
  "cookie_text c = fst c @ ''='' @ snd c"

definition cookie_header :: "(string \<times> string) list \<Rightarrow> string" where
  "cookie_header cs = join ''; '' (map cookie_text cs)"

definition cookie_ok :: "string \<times> string \<Rightarrow> bool" where
  "cookie_ok c \<longleftrightarrow>
     fst c \<noteq> [] \<and> \<not> js_space (hd (fst c)) \<and> CHR ''='' \<notin> set (fst c) \<and> CHR '';'' \<notin> set (fst c) \<and>
     CHR '';'' \<notin> set (snd c) \<and> (snd c = [] \<or> \<not> js_space (last (snd c)))"

lemma cookie_text_trim: "cookie_ok c \<Longrightarrow> js_trim (cookie_text c) = cookie_text c"
  by (rule js_trim_id) (auto simp: cookie_ok_def cookie_text_def js_space_def)

lemma cookie_text_no_semicolon: "cookie_ok c \<Longrightarrow> CHR '';'' \<notin> set (cookie_text c)"
  by (auto simp: cookie_ok_def cookie_text_def)

lemma cookie_text_split:
  "cookie_ok c \<Longrightarrow> split_on CHR ''='' (cookie_text c) = fst c # split_on CHR ''='' (snd c)"
  by (simp add: cookie_ok_def cookie_text_def split_on_append_sep split_on_single)

lemma split_cookie_header:
  "cs \<noteq> [] \<Longrightarrow> \<forall>c \<in> set cs. cookie_ok c \<Longrightarrow>
     split_on CHR '';'' (cookie_header cs) =
     cookie_text (hd cs) # map (\<lambda>c. CHR '' '' # cookie_text c) (tl cs)"
proof (induction cs)
  case (Cons c cs)
  show ?case
  proof (cases cs)
    case Nil
    with Cons show ?thesis by (simp add: cookie_header_def split_on_single cookie_text_no_semicolon)
  next
    case (Cons d ds)
    have "split_on CHR '';'' (cookie_header (c # cs)) =
        cookie_text c # split_on CHR '';'' (CHR '' '' # cookie_header cs)"
      using Cons.prems Cons
      by (simp add: cookie_header_def split_on_append_sep split_on_single cookie_text_no_semicolon)
    also have "split_on CHR '';'' (CHR '' '' # cookie_header cs) =
        (CHR '' '' # cookie_text (hd cs)) # map (\<lambda>c. CHR '' '' # cookie_text c) (tl cs)"
      using Cons.IH Cons.prems Cons by simp
    finally show ?thesis using Cons by simp
  qed
qed simp

lemma find_cookie_map_of:
  "list_all2 (\<lambda>t c. js_trim t = cookie_text c \<and> cookie_ok c) ts cs \<Longrightarrow>
     find_cookie n ts = map_of cs n"
proof (induction ts cs rule: list_all2_induct)
  case (Cons t ts c cs)
  then show ?case by (cases c) (auto simp: Let_def cookie_text_split)
qed simp

lemma getCookieValue_map_of:
  assumes "\<forall>c \<in> set cs. cookie_ok c"
  shows "getCookieValue (Some (HStr (cookie_header cs))) n = map_of cs n"
proof (cases cs)
  case Nil
  then show ?thesis by (simp add: getCookieValue_def cookie_header_def)
next
  case (Cons c ds)
  then have "cookie_header cs \<noteq> []"
    using assms by (cases ds) (auto simp: cookie_header_def cookie_text_def cookie_ok_def)
  moreover have "list_all2 (\<lambda>t c. js_trim t = cookie_text c \<and> cookie_ok c)
      (split_on CHR '';'' (cookie_header cs)) cs"
    using split_cookie_header [of cs] assms Cons
    by (auto simp: list_all2_map1 cookie_text_trim js_trim_space_Cons js_space_def
        intro!: list.rel_refl_strong)
  ultimately show ?thesis by (simp add: getCookieValue_def find_cookie_map_of)
qed

section \<open>Validation responses\<close>

lemma validation_response:
  assumes "es \<noteq> []"
  shows "api_error_filter_catch (createValidationApiError es) =
    (num 400, map (\<lambda>e. api_item (item_val (toErrorItem e))) es)"
  using assms by (simp add: createValidationApiError_def filter_ApiError list_all_iff o_def)

lemma toErrorItem_public: "ei_code (toErrorItem e) \<in> public_codes"
  by (simp add: toErrorItem_def getValidationCode_def public_code_in Let_def
      del: code_number.simps)

end
