(* ===== verification/Js_Dates.thy ===== *)
theory Js_Dates
  imports Js_Values
begin

text \<open>
  Calendar dates: \<open>Date.prototype.toISOString\<close> on a time value, by the year, month and day of the
  proleptic Gregorian calendar as ECMAScript defines them.
\<close>

section \<open>Years\<close>

text \<open>The number of the first day of a year, counted from 1 January 1970.\<close>

definition day_from_year :: "int \<Rightarrow> int" where
  "day_from_year y =
     365 * (y - 1970) + (y - 1969) div 4 - (y - 1901) div 100 + (y - 1601) div 400"

definition leap_year :: "int \<Rightarrow> bool" where
  "leap_year y \<longleftrightarrow> 4 dvd y \<and> (\<not> 100 dvd y \<or> 400 dvd y)"

text \<open>The year of a day: an estimate from the mean year, corrected by at most one.\<close>

definition year_from_day :: "int \<Rightarrow> int" where
  "year_from_day d =
     (let y = 1970 + d * 400 div 146097
      in if d < day_from_year y then y - 1
         else if day_from_year (y + 1) \<le> d then y + 1 else y)"

lemma div_between:
  assumes "0 < (k :: int)"
  shows "a - k + 1 \<le> k * (a div k)" and "k * (a div k) \<le> a"
  using assms mult_div_mod_eq [of k a] pos_mod_bound [of k a] pos_mod_sign [of k a] by linarith+

lemmas div_4 = div_between [where k = 4, OF zero_less_numeral]
lemmas div_100 = div_between [where k = 100, OF zero_less_numeral]
lemmas div_400 = div_between [where k = 400, OF zero_less_numeral]
lemmas div_146097 = div_between [where k = 146097, OF zero_less_numeral]

text \<open>The first day of a year is within two days of the mean.\<close>

lemma day_from_year_near:
  "146097 * (y - 1970) - 800 \<le> 400 * day_from_year y"
  "400 * day_from_year y \<le> 146097 * (y - 1970) + 800"
proof -
  define a b c where "a = (y - 1969) div 4" and "b = (y - 1901) div 100" and "c = (y - 1601) div 400"
  note bounds = div_4 [of "y - 1969", folded a_def] div_100 [of "y - 1901", folded b_def]
    div_400 [of "y - 1601", folded c_def]
  have "day_from_year y = 365 * (y - 1970) + a - b + c"
    by (simp only: day_from_year_def a_def b_def c_def)
  with bounds show "146097 * (y - 1970) - 800 \<le> 400 * day_from_year y"
    "400 * day_from_year y \<le> 146097 * (y - 1970) + 800" by (simp_all add: algebra_simps)
qed

lemma year_from_day:
  "day_from_year (year_from_day d) \<le> d \<and> d < day_from_year (year_from_day d + 1)"
proof -
  define q where "q = d * 400 div 146097"
  define y where "y = 1970 + q"
  have b: "146097 * (y - 1970) \<le> 400 * d" "400 * d < 146097 * (y - 1969)"
    using div_146097 [of "d * 400", folded q_def] unfolding y_def by (simp_all add: algebra_simps)
  have below: "day_from_year (y - 1) \<le> d"
    using day_from_year_near(2) [of "y - 1"] b(1) by (simp add: algebra_simps)
  have above: "d < day_from_year (y + 2)"
    using day_from_year_near(1) [of "y + 2"] b(2) by (simp add: algebra_simps)
  have "year_from_day d = (if d < day_from_year y then y - 1
      else if day_from_year (y + 1) \<le> d then y + 1 else y)"
    unfolding year_from_day_def Let_def y_def q_def ..
  with below above show ?thesis by (simp add: add.commute)
qed

section \<open>Months and days\<close>

definition month_lengths :: "int \<Rightarrow> int list" where
  "month_lengths y =
     [31, if leap_year y then 29 else 28, 31, 30, 31, 30, 31, 31, 30, 31, 30, 31]"

text \<open>The month, from 1, and the day of the month of a day of the year, from 0.\<close>

fun month_day :: "int list \<Rightarrow> int \<Rightarrow> int \<Rightarrow> int \<times> int" where
  "month_day (l # ls) m d = (if d < l \<or> ls = [] then (m, d + 1) else month_day ls (m + 1) (d - l))"
| "month_day [] m d = (m, d + 1)"

section \<open>Text\<close>

definition pad :: "nat \<Rightarrow> int \<Rightarrow> string" where
  "pad w n = (let s = show_nat (nat n) in replicate (w - length s) CHR ''0'' @ s)"

definition iso_year :: "int \<Rightarrow> string" where
  "iso_year y =
     (if 0 \<le> y \<and> y \<le> 9999 then pad 4 y
      else (if y < 0 then ''-'' else ''+'') @ pad 6 \<bar>y\<bar>)"

text \<open>\<open>toISOString\<close>: a \<open>RangeError\<close> for an invalid date.\<close>

definition toISOString :: "jsdate \<Rightarrow> thrown + string" where
  "toISOString date =
     (case date of
        None \<Rightarrow> Inl (new_error RangeError ''Invalid time value'')
      | Some t \<Rightarrow>
          (let day = t div 86400000; ms = t mod 86400000; y = year_from_day day;
               md = month_day (month_lengths y) 1 (day - day_from_year y)
           in Inr (iso_year y @ ''-'' @ pad 2 (fst md) @ ''-'' @ pad 2 (snd md) @ ''T'' @
                   pad 2 (ms div 3600000) @ '':'' @ pad 2 (ms div 60000 mod 60) @ '':'' @
                   pad 2 (ms div 1000 mod 60) @ ''.'' @ pad 3 (ms mod 1000) @ ''Z'')))"

lemma toISOString_Inl: "toISOString date = Inl e \<longleftrightarrow>
    date = None \<and> e = new_error RangeError ''Invalid time value''"
  by (auto simp: toISOString_def Let_def split: option.splits)

lemma toISOString_Some: "\<exists>s. toISOString (Some t) = Inr s"
  by (simp add: toISOString_def Let_def)

end
