(* ===== verification/Gateway_Calls.thy ===== *)
theory Gateway_Calls
  imports Gateway_Requests Js_Dates
begin

text \<open>
  The outside world of the gateway: the messages it exchanges with the gRPC services
  (identity.types.ts, tickets.types.ts, orders.types.ts, payments.types.ts), the calls it makes,
  and the environment that answers them. Then the interface every service method of the gateway
  keeps: it fails only with an error of the public contract.

  Requests are the objects the code builds. Responses are records of the declared interfaces;
  a message-valued or timestamp field that the client library leaves out when it is unset is an
  option, and a read through an absent one raises the \<open>TypeError\<close> of the language.
\<close>

section \<open>Messages\<close>

datatype seconds_value = SecString string | SecNumber jsnum | SecBigInt int

record Timestamp =
  ts_seconds :: "seconds_value option"
  ts_nanos :: "jsnum option"

record SignUpResponse =
  sur_userId :: string
  sur_email :: string

record IdentitySignInResponse =
  isr_userId :: string
  isr_name :: string
  isr_email :: string
  isr_emailVerified :: bool
  isr_sessionToken :: string
  isr_sessionExpiresAt :: "Timestamp option"

record IdentityCurrentUserResponse =
  icu_userId :: string
  icu_name :: string
  icu_email :: string
  icu_emailVerified :: bool

record AuthenticatedUser =
  user_id :: string
  user_name :: string
  user_email :: string
  user_emailVerified :: bool

record CurrentUserResponse =
  cur_user :: AuthenticatedUser

record SignInResponse =
  sir_user :: AuthenticatedUser
  sir_session_expiresAt :: string

record VerifyEmailResponse =
  ver_verified :: bool

record Ticket =
  tk_id :: string
  tk_title :: string
  tk_price :: jsnum
  tk_userId :: string

record TicketResponse =
  tr_ticket :: "Ticket option"

record ListTicketsResponse =
  ltr_tickets :: "Ticket list option"

record OrderGrpcResponse =
  og_expiresAt :: "Timestamp option"
  og_id :: string
  og_status :: "int option"
  og_ticketId :: string
  og_userId :: string

record CreateOrderGrpcResponse = OrderGrpcResponse +
  cog_created :: bool

record OrderMessage =
  om_order :: "OrderGrpcResponse option"

record ListOrdersGrpcResponse =
  log_orders :: "OrderGrpcResponse list option"

record OrderResponse =
  or_expiresAt :: string
  or_id :: string
  or_status :: string
  or_ticketId :: string
  or_userId :: string

record OrderCreationResult =
  ocr_created :: bool
  ocr_order :: OrderResponse

record PaymentResponse =
  pr_id :: string
  pr_orderId :: string

record CreatePaymentGrpcResponse =
  cpg_created :: bool
  cpg_payment :: "PaymentResponse option"

record PaymentCreationResult =
  pcr_created :: bool
  pcr_payment :: PaymentResponse

section \<open>Calls and their answers\<close>

record cookie_options =
  co_encode :: "string \<Rightarrow> string"
  co_expires :: jsdate
  co_httpOnly :: bool
  co_path :: string
  co_sameSite :: string
  co_secure :: bool

datatype gateway_call =
    IdentitySignUp jsval
  | IdentitySignIn jsval metadata
  | IdentitySignOut jsval metadata
  | IdentityCurrentUser jsval metadata
  | IdentityVerifyEmail jsval
  | TicketsCreate jsval
  | TicketsUpdate jsval
  | TicketsGet jsval
  | TicketsList jsval
  | OrdersCancel jsval
  | OrdersCreate jsval
  | OrdersGet jsval
  | OrdersList jsval
  | PaymentsCreate jsval
  | ResponseCookie string string cookie_options
  | ResponseStatus int

type_synonym 'a gateway = "(gateway_call, thrown, 'a) io"
type_synonym 'a answer = "gateway_call list \<Rightarrow> thrown + 'a"

text \<open>
  The gRPC stubs, the HTTP response object, the metadata class and the validator are not part of
  the repository. An environment gives what each of them answers.
\<close>

record gateway_env =
  grpc_signUp :: "jsval \<Rightarrow> SignUpResponse answer"
  grpc_signIn :: "jsval \<Rightarrow> metadata \<Rightarrow> IdentitySignInResponse answer"
  grpc_signOut :: "jsval \<Rightarrow> metadata \<Rightarrow> unit answer"
  grpc_currentUser :: "jsval \<Rightarrow> metadata \<Rightarrow> IdentityCurrentUserResponse answer"
  grpc_verifyEmail :: "jsval \<Rightarrow> VerifyEmailResponse answer"
  grpc_createTicket :: "jsval \<Rightarrow> Ticket answer"
  grpc_updateTicket :: "jsval \<Rightarrow> TicketResponse answer"
  grpc_getTicket :: "jsval \<Rightarrow> TicketResponse answer"
  grpc_listTickets :: "jsval \<Rightarrow> ListTicketsResponse answer"
  grpc_cancelOrder :: "jsval \<Rightarrow> OrderMessage answer"
  grpc_createOrder :: "jsval \<Rightarrow> CreateOrderGrpcResponse answer"
  grpc_getOrder :: "jsval \<Rightarrow> OrderMessage answer"
  grpc_listOrders :: "jsval \<Rightarrow> ListOrdersGrpcResponse answer"
  grpc_createPayment :: "jsval \<Rightarrow> CreatePaymentGrpcResponse answer"
  response_cookie :: "string \<Rightarrow> string \<Rightarrow> cookie_options \<Rightarrow> unit answer"
  refuse_metadata :: metadata_refusal
  validate_body :: "dto_rules \<Rightarrow> jsval \<Rightarrow> ValidationError list + jsval"
  process_env :: "string \<Rightarrow> string option"

text \<open>Reading a field of a message that may be absent.\<close>

definition deref :: "'m option \<Rightarrow> string \<Rightarrow> thrown + 'm" where
  "deref m field =
     (case m of
        Some x \<Rightarrow> Inr x
      | None \<Rightarrow> Inl (new_error TypeError
          (''Cannot read properties of undefined (reading '' @ [CHR 0x27] @ field @ [CHR 0x27] @ '')'')))"

section \<open>The public response\<close>

text \<open>What the HTTP layer answers for a handler: its value, or the response of the exception filter.\<close>

definition respond :: "'a gateway \<Rightarrow> gateway_call list \<Rightarrow> ((jsnum \<times> jsval list) + 'a) \<times> gateway_call list" where
  "respond m h = (case m h of (Inl e, h') \<Rightarrow> (Inl (api_error_filter_catch e), h') | (Inr x, h') \<Rightarrow> (Inr x, h'))"

definition public_statuses :: "int set" where
  "public_statuses = {400, 401, 403, 404, 409, 429, 500, 503}"

definition api_failure :: "thrown \<Rightarrow> bool" where
  "api_failure e \<longleftrightarrow>
     (\<exists>status es. e = ApiError status es \<and> es \<noteq> [] \<and> list_all isErrorItem es \<and> status \<in> public_statuses)"

lemma api_failure_throwGatewayGrpcError [simp]: "api_failure (throwGatewayGrpcError e d)"
  using throwGatewayGrpcError_ApiError [of e d] by (auto simp: api_failure_def public_statuses_def)

text \<open>The masked body of a response with status 500 or more.\<close>

definition masked_body :: "int \<Rightarrow> jsval list" where
  "masked_body status =
     (if status = 503 \<or> status = 502
      then [message_item ''A required service is unavailable.'' (public_code SERVICE_UNAVAILABLE)]
      else [message_item ''An unexpected error occurred.'' (public_code INTERNAL_ERROR)])"

lemma filter_masked:
  assumes "500 \<le> status"
  shows "api_error_filter_catch (ApiError status es) = (num status, masked_body status)"
  using assms
  by (auto simp: api_error_filter_catch_def ApiError_def getHttpStatus_def getErrorResponse_def
      masked_body_def Let_def simp del: code_number.simps)

lemma filter_other_error:
  "api_error_filter_catch (RpcException v) = (num 500, masked_body 500)"
  "api_error_filter_catch (ErrorObject c kvs) = (num 500, masked_body 500)"
  "api_error_filter_catch (ThrownValue v) = (num 500, masked_body 500)"
  by (simp_all add: api_error_filter_catch_def getHttpStatus_def getErrorResponse_def
      masked_body_def Let_def del: code_number.simps)

lemma isErrorItem_message_item [simp]: "isErrorItem (message_item m c)"
  by (simp add: isErrorItem_def message_item_def)

lemma masked_body_items: "masked_body s \<noteq> []" "list_all isErrorItem (masked_body s)"
  by (simp_all add: masked_body_def del: code_number.simps)

lemma public_statuses_cases: "status \<in> public_statuses \<Longrightarrow> status < 500 \<or> status \<in> {500, 503}"
  by (auto simp: public_statuses_def)

section \<open>The contract of a service method\<close>

text \<open>
  A method of a gateway service: whatever its backend does, it fails only with an \<open>ApiError\<close> of
  a public status, and it calls no backend but its own.
\<close>

locale gateway_method =
  fixes run :: "'r \<Rightarrow> 'a gateway" and mine :: "gateway_call \<Rightarrow> bool"
  assumes failure: "run r h = (Inl e, h') \<Longrightarrow> api_failure e"
    and calls: "io_emits mine (run r)"
begin

text \<open>The public response to a failed method: an error body, masked from 500 on.\<close>

lemma public_response:
  assumes "respond (run r) h = (Inl (status, items), h')"
  shows "\<exists>s \<in> public_statuses. status = num s \<and> items \<noteq> [] \<and> list_all isErrorItem items \<and>
    (500 \<le> s \<longrightarrow> items = masked_body s)"
proof -
  from assms obtain e where run: "run r h = (Inl e, h')"
    and out: "api_error_filter_catch e = (status, items)"
    by (auto simp: respond_def split: prod.splits sum.splits)
  from failure [OF run] obtain s es where e: "e = ApiError s es" "es \<noteq> []" "list_all isErrorItem es"
    and s: "s \<in> public_statuses" by (auto simp: api_failure_def)
  show ?thesis
  proof (cases "s < 500")
    case True
    with e out filter_ApiError [OF e(2,3) True] have "status = num s" "items = map api_item es" by auto
    with e s True show ?thesis by (intro bexI [of _ s]) (auto simp: list_all_iff)
  next
    case False
    with e out filter_masked [of s es] have "status = num s" "items = masked_body s" by auto
    with s masked_body_items show ?thesis by (intro bexI [of _ s]) auto
  qed
qed

text \<open>Calls that are not the method's own stay as they were.\<close>

lemma other_calls_kept: "(\<And>c. mine c \<Longrightarrow> \<not> Q c) \<Longrightarrow> filter Q (snd (run r h)) = filter Q h"
  by (rule io_emits_filter [OF calls])

end

text \<open>
  The two shapes of the methods: a call and a translation of its answer inside \<open>try\<close>, whose
  \<open>catch\<close> block throws what \<open>throwGatewayGrpcError\<close> makes of the error.
\<close>

definition try_grpc :: "'a gateway \<Rightarrow> error_item option \<Rightarrow> 'a gateway" where
  "try_grpc m item = io_catch m (\<lambda>e. io_throw (throwGatewayGrpcError e item))"

lemma try_grpc_failure: "try_grpc m item h = (Inl e, h') \<Longrightarrow> api_failure e"
  by (auto simp: try_grpc_def io_catch_def io_throw_def split: prod.splits sum.splits)

lemma try_grpc_emits [io_rules]: "io_emits P m \<Longrightarrow> io_emits P (try_grpc m item)"
  unfolding try_grpc_def by (rule io_emits_catch) (auto intro: io_rules)

lemma try_grpc_Inr: "try_grpc m item h = (Inr x, h') \<longleftrightarrow> m h = (Inr x, h')"
  by (auto simp: try_grpc_def io_catch_def io_throw_def split: prod.splits sum.splits)

lemma try_grpc_Inl:
  "m h = (Inl e, h') \<Longrightarrow> try_grpc m item h = (Inl (throwGatewayGrpcError e item), h')"
  by (simp add: try_grpc_def io_catch_def io_throw_def)

lemma gateway_method_try_grpc:
  assumes "\<And>r. io_emits mine (m r)"
  shows "gateway_method (\<lambda>r. try_grpc (m r) item) mine"
  by unfold_locales (auto intro: try_grpc_failure try_grpc_emits assms)

end
