(* ===== verification/Gateway_Auth.thy ===== *)
theory Gateway_Auth
  imports Gateway_Calls
begin

text \<open>
  Authentication in the gateway (apps/api-gateway/src/identity): the service that calls identity,
  the session guard and the current-user decorator that protect the other routes, and the
  controller with its cookie.
\<close>

section \<open>AuthService\<close>

definition invalid_argument :: "string \<Rightarrow> error_item" where
  "invalid_argument m =
     \<lparr>ei_message = m, ei_code = public_code INVALID_ARGUMENT, ei_field = None\<rparr>"

definition AuthService_signUp :: "gateway_env \<Rightarrow> jsval \<Rightarrow> SignUpResponse gateway" where
  "AuthService_signUp E request =
     try_grpc (io_call (IdentitySignUp request) (grpc_signUp E request))
       (Some (invalid_argument ''Signup data is invalid.''))"

definition AuthService_signIn :: "gateway_env \<Rightarrow> jsval \<Rightarrow> headers \<Rightarrow> IdentitySignInResponse gateway" where
  "AuthService_signIn E request headers =
     try_grpc
       (io_bind (io_of_result (createAuthRequestMetadata (refuse_metadata E) headers))
          (\<lambda>metadata. io_call (IdentitySignIn request metadata) (grpc_signIn E request metadata)))
       (Some (invalid_argument ''Signin data is invalid.''))"

definition AuthService_signOut :: "gateway_env \<Rightarrow> headers \<Rightarrow> unit gateway" where
  "AuthService_signOut E headers =
     try_grpc
       (io_bind (io_of_result (createSessionRequestMetadata (refuse_metadata E) headers))
          (\<lambda>metadata. io_call (IdentitySignOut (JObj []) metadata) (grpc_signOut E (JObj []) metadata)))
       None"

definition toCurrentUserResponse :: "IdentityCurrentUserResponse \<Rightarrow> CurrentUserResponse" where
  "toCurrentUserResponse response =
     \<lparr>cur_user =
        \<lparr>user_id = icu_userId response, user_name = icu_name response,
         user_email = icu_email response, user_emailVerified = icu_emailVerified response\<rparr>\<rparr>"

definition AuthService_currentUser :: "gateway_env \<Rightarrow> headers \<Rightarrow> CurrentUserResponse gateway" where
  "AuthService_currentUser E headers =
     try_grpc
       (io_bind (io_of_result (createSessionRequestMetadata (refuse_metadata E) headers))
          (\<lambda>metadata.
             io_bind
               (io_call (IdentityCurrentUser (JObj []) metadata) (grpc_currentUser E (JObj []) metadata))
               (\<lambda>response. io_return (toCurrentUserResponse response))))
       None"

definition AuthService_verifyEmail :: "gateway_env \<Rightarrow> jsval \<Rightarrow> VerifyEmailResponse gateway" where
  "AuthService_verifyEmail E request =
     try_grpc (io_call (IdentityVerifyEmail request) (grpc_verifyEmail E request)) None"

section \<open>Requests, the guard and the decorator\<close>

text \<open>authenticated-request.ts.\<close>

record AuthenticatedRequest =
  req_headers :: headers
  req_user :: "AuthenticatedUser option"

text \<open>session-auth.guard.ts: the outcome, and the request with its user set.\<close>

definition SessionAuthGuard_canActivate ::
    "gateway_env \<Rightarrow> AuthenticatedRequest \<Rightarrow> (bool \<times> AuthenticatedRequest) gateway" where
  "SessionAuthGuard_canActivate E request =
     io_bind (AuthService_currentUser E (req_headers request))
       (\<lambda>currentUser. io_return (True, request\<lparr>req_user := Some (cur_user currentUser)\<rparr>))"

text \<open>current-user.decorator.ts, with the response Nest gives an \<open>UnauthorizedException\<close>.\<close>

definition UnauthorizedException :: thrown where
  "UnauthorizedException =
     HttpException (num 401)
       (JObj [(''message'', JStr ''Unauthorized''), (''statusCode'', JNum (num 401))])"

definition CurrentUser :: "AuthenticatedRequest \<Rightarrow> thrown + AuthenticatedUser" where
  "CurrentUser request =
     (case req_user request of None \<Rightarrow> Inl UnauthorizedException | Some user \<Rightarrow> Inr user)"

text \<open>
  A route under \<open>@UseGuards(SessionAuthGuard)\<close>: the guard runs before the parameters are resolved
  and before the handler; a guard that answers false is the framework's 403.
\<close>

definition ForbiddenException :: thrown where
  "ForbiddenException =
     HttpException (num 403)
       (JObj [(''message'', JStr ''Forbidden resource''), (''error'', JStr ''Forbidden''),
              (''statusCode'', JNum (num 403))])"

definition guarded ::
    "gateway_env \<Rightarrow> AuthenticatedRequest \<Rightarrow> (AuthenticatedRequest \<Rightarrow> 'a gateway) \<Rightarrow> 'a gateway" where
  "guarded E request handler =
     io_bind (SessionAuthGuard_canActivate E request)
       (\<lambda>(ok, request'). if ok then handler request' else io_throw ForbiddenException)"

text \<open>
  The global \<open>ValidationPipe\<close> of app.bootstrap.ts on a body or query: the validator's errors go
  through its exception factory.
\<close>

definition validated :: "gateway_env \<Rightarrow> dto_rules \<Rightarrow> jsval \<Rightarrow> jsval gateway" where
  "validated E rules value =
     (case validate_body E rules value of
        Inl validationErrors \<Rightarrow> io_throw (createValidationApiError validationErrors)
      | Inr dto \<Rightarrow> io_return dto)"

section \<open>AuthController\<close>

text \<open>\<open>toDate\<close> of auth.controller.ts. An absent field reads as \<open>undefined\<close>, whose number is \<open>NaN\<close>.\<close>

fun seconds_number :: "seconds_value option \<Rightarrow> jsnum" where
  "seconds_number None = NaN"
| "seconds_number (Some (SecString s)) = js_Number s"
| "seconds_number (Some (SecNumber n)) = n"
| "seconds_number (Some (SecBigInt i)) = fl (of_int i)"

definition nanos_number :: "jsnum option \<Rightarrow> jsnum" where
  "nanos_number n = (case n of None \<Rightarrow> NaN | Some x \<Rightarrow> x)"

definition toDate :: "Timestamp option \<Rightarrow> thrown + jsdate" where
  "toDate timestamp =
     (case deref timestamp ''seconds'' of
        Inl e \<Rightarrow> Inl e
      | Inr t \<Rightarrow>
          Inr (newDate (js_add (js_mul_pos (seconds_number (ts_seconds t)) 1000)
                 (js_div_pos (nanos_number (ts_nanos t)) 1000000))))"

text \<open>The options of the session cookie, for both the value and its removal.\<close>

definition session_cookie_options :: "gateway_env \<Rightarrow> jsdate \<Rightarrow> cookie_options" where
  "session_cookie_options E expires =
     \<lparr>co_encode = (\<lambda>value. value), co_expires = expires, co_httpOnly = True, co_path = ''/'',
      co_sameSite = ''lax'', co_secure = (process_env E ''NODE_ENV'' = Some ''production'')\<rparr>"

definition set_cookie :: "gateway_env \<Rightarrow> string \<Rightarrow> string \<Rightarrow> cookie_options \<Rightarrow> unit gateway" where
  "set_cookie E name value options =
     io_call (ResponseCookie name value options) (response_cookie E name value options)"

definition AuthController_signUp :: "gateway_env \<Rightarrow> jsval \<Rightarrow> SignUpResponse gateway" where
  "AuthController_signUp E body = io_bind (validated E SignUpDto body) (AuthService_signUp E)"

definition AuthController_signIn :: "gateway_env \<Rightarrow> jsval \<Rightarrow> headers \<Rightarrow> SignInResponse gateway" where
  "AuthController_signIn E body headers =
     io_bind (validated E SignInDto body) (\<lambda>dto.
     io_bind (AuthService_signIn E dto headers) (\<lambda>result.
     io_bind (io_of_result (toDate (isr_sessionExpiresAt result))) (\<lambda>expiresAt.
     io_bind (set_cookie E SESSION_COOKIE_NAME (isr_sessionToken result)
                (session_cookie_options E expiresAt)) (\<lambda>_.
     io_bind (io_of_result (toISOString expiresAt)) (\<lambda>expires.
     io_return
       \<lparr>sir_user =
          \<lparr>user_id = isr_userId result, user_name = isr_name result, user_email = isr_email result,
           user_emailVerified = isr_emailVerified result\<rparr>,
        sir_session_expiresAt = expires\<rparr>)))))"

definition AuthController_signOut :: "gateway_env \<Rightarrow> headers \<Rightarrow> unit gateway" where
  "AuthController_signOut E headers =
     io_seq (AuthService_signOut E headers)
       (set_cookie E SESSION_COOKIE_NAME [] (session_cookie_options E (Some 0)))"

definition AuthController_currentUser :: "gateway_env \<Rightarrow> headers \<Rightarrow> CurrentUserResponse gateway" where
  "AuthController_currentUser E headers = AuthService_currentUser E headers"

definition AuthController_verifyEmail :: "gateway_env \<Rightarrow> jsval \<Rightarrow> VerifyEmailResponse gateway" where
  "AuthController_verifyEmail E query =
     io_bind (validated E VerifyEmailDto query) (AuthService_verifyEmail E)"

section \<open>The service keeps the contract of a gateway method\<close>

fun identity_call :: "gateway_call \<Rightarrow> bool" where
  "identity_call (IdentitySignUp _) = True"
| "identity_call (IdentitySignIn _ _) = True"
| "identity_call (IdentitySignOut _ _) = True"
| "identity_call (IdentityCurrentUser _ _) = True"
| "identity_call (IdentityVerifyEmail _) = True"
| "identity_call _ = False"

lemma AuthService_emits [io_rules]:
  "io_emits identity_call (AuthService_signUp E r)"
  "io_emits identity_call (AuthService_signIn E r hs)"
  "io_emits identity_call (AuthService_signOut E hs)"
  "io_emits identity_call (AuthService_currentUser E hs)"
  "io_emits identity_call (AuthService_verifyEmail E r)"
  by (auto simp: AuthService_signUp_def AuthService_signIn_def AuthService_signOut_def
      AuthService_currentUser_def AuthService_verifyEmail_def intro!: io_rules)

lemma AuthService_failure:
  "AuthService_signUp E r h = (Inl e, h') \<Longrightarrow> api_failure e"
  "AuthService_signIn E r hs h = (Inl e, h') \<Longrightarrow> api_failure e"
  "AuthService_signOut E hs h = (Inl e, h') \<Longrightarrow> api_failure e"
  "AuthService_currentUser E hs h = (Inl e, h') \<Longrightarrow> api_failure e"
  "AuthService_verifyEmail E r h = (Inl e, h') \<Longrightarrow> api_failure e"
  by (auto simp: AuthService_signUp_def AuthService_signIn_def AuthService_signOut_def
      AuthService_currentUser_def AuthService_verifyEmail_def intro: try_grpc_failure)

interpretation auth_signUp: gateway_method "AuthService_signUp E" identity_call for E
  by unfold_locales (auto intro: AuthService_failure AuthService_emits)

interpretation auth_signIn: gateway_method "\<lambda>r. AuthService_signIn E (fst r) (snd r)" identity_call for E
  by unfold_locales (auto intro: AuthService_failure AuthService_emits)

interpretation auth_signOut: gateway_method "AuthService_signOut E" identity_call for E
  by unfold_locales (auto intro: AuthService_failure AuthService_emits)

interpretation auth_currentUser: gateway_method "AuthService_currentUser E" identity_call for E
  by unfold_locales (auto intro: AuthService_failure AuthService_emits)

interpretation auth_verifyEmail: gateway_method "AuthService_verifyEmail E" identity_call for E
  by unfold_locales (auto intro: AuthService_failure AuthService_emits)

section \<open>What the guard does\<close>

text \<open>The user identity knows the request's session by, at a point of the history.\<close>

definition session_user ::
    "gateway_env \<Rightarrow> headers \<Rightarrow> gateway_call list \<Rightarrow> thrown + AuthenticatedUser" where
  "session_user E headers h =
     (case createSessionRequestMetadata (refuse_metadata E) headers of
        Inl e \<Rightarrow> Inl e
      | Inr md \<Rightarrow>
          (case grpc_currentUser E (JObj []) md h of
             Inl e \<Rightarrow> Inl e
           | Inr r \<Rightarrow> Inr (cur_user (toCurrentUserResponse r))))"

text \<open>The call the guard makes.\<close>

definition session_lookup :: "gateway_env \<Rightarrow> headers \<Rightarrow> gateway_call list" where
  "session_lookup E headers =
     (case createSessionRequestMetadata (refuse_metadata E) headers of
        Inl e \<Rightarrow> [] | Inr md \<Rightarrow> [IdentityCurrentUser (JObj []) md])"

lemma AuthService_currentUser_eq:
  "AuthService_currentUser E headers h =
     ((case session_user E headers h of
         Inl e \<Rightarrow> Inl (throwGatewayGrpcError e None) | Inr u \<Rightarrow> Inr \<lparr>cur_user = u\<rparr>),
      h @ session_lookup E headers)"
  by (auto simp: AuthService_currentUser_def session_user_def session_lookup_def try_grpc_def
      toCurrentUserResponse_def io_simps split: sum.split)

lemma guarded_eq:
  "guarded E request k h =
     (case session_user E (req_headers request) h of
        Inl e \<Rightarrow> (Inl (throwGatewayGrpcError e None), h @ session_lookup E (req_headers request))
      | Inr u \<Rightarrow> k (request\<lparr>req_user := Some u\<rparr>) (h @ session_lookup E (req_headers request)))"
  by (simp add: guarded_def SessionAuthGuard_canActivate_def io_bind_def io_return_def
      AuthService_currentUser_eq split: sum.split)

lemma CurrentUser_set [simp]:
  "CurrentUser (request\<lparr>req_user := Some u\<rparr>) = Inr u"
  "CurrentUser \<lparr>req_headers = hs, req_user = Some u\<rparr> = Inr u"
  by (simp_all add: CurrentUser_def)

lemma session_lookup_identity: "list_all identity_call (session_lookup E headers)"
  by (simp add: session_lookup_def split: sum.split)

text \<open>A guarded handler runs only with a session, and makes only the calls it makes for that user.\<close>

lemma guarded_calls:
  assumes "\<And>u. io_emits (P u) (k (request\<lparr>req_user := Some u\<rparr>))"
  shows "\<exists>t. snd (guarded E request k h) = h @ session_lookup E (req_headers request) @ t \<and>
    (case session_user E (req_headers request) h of Inl _ \<Rightarrow> t = [] | Inr u \<Rightarrow> list_all (P u) t)"
proof (cases "session_user E (req_headers request) h")
  case (Inr u)
  with io_emitsD [OF assms, of u "h @ session_lookup E (req_headers request)"]
  show ?thesis by (simp add: guarded_eq)
qed (simp add: guarded_eq)

section \<open>Timestamps\<close>

text \<open>The moment of a timestamp, for whole milliseconds after the epoch.\<close>

lemma toDate_milliseconds:
  assumes "0 \<le> t" and "t \<le> max_time"
    and "seconds_number (ts_seconds ts) = num (t div 1000)"
    and "ts_nanos ts = Some (num (t mod 1000 * 1000000))"
  shows "toDate (Some ts) = Inr (Some t)"
proof -
  have b: "t div 1000 \<le> 8640000000000" "0 \<le> t div 1000" "0 \<le> t mod 1000" "t mod 1000 < 1000"
    using assms(1,2) by (simp_all add: max_time_def)
  have "fl (of_int (t div 1000) * 1000) = fl (of_int (t div 1000 * 1000))" by simp
  also have "\<dots> = num (t div 1000 * 1000)" using b by (intro fl_int) simp
  finally have s: "js_mul_pos (num (t div 1000)) 1000 = num (t div 1000 * 1000)" by simp
  have "fl (of_int (t mod 1000 * 1000000) / 1000000) = fl (of_int (t mod 1000))" by simp
  also have "\<dots> = num (t mod 1000)" using b by (intro fl_int) simp
  finally have n: "js_div_pos (num (t mod 1000 * 1000000)) 1000000 = num (t mod 1000)" by simp
  have "fl (of_int (t div 1000 * 1000) + of_int (t mod 1000)) = fl (of_int t)"
    by (metis div_mult_mod_eq of_int_add)
  also have "\<dots> = num t" using assms(1,2) by (intro fl_int) (simp add: max_time_def)
  finally have "js_add (num (t div 1000 * 1000)) (num (t mod 1000)) = num t" by simp
  then show ?thesis
    using assms s n newDate_int [of t]
    by (simp only: toDate_def deref_def option.case sum.case nanos_number_def)
qed

text \<open>A timestamp whose nanoseconds are left out has no date.\<close>

lemma toDate_no_nanos: "ts_nanos ts = None \<Longrightarrow> toDate (Some ts) = Inr None"
proof -
  have "js_add x NaN = NaN" for x by (cases x) simp_all
  then show "ts_nanos ts = None \<Longrightarrow> ?thesis" by (simp add: toDate_def deref_def nanos_number_def)
qed

end
