(* ===== verification/Gateway_Trading.thy ===== *)
theory Gateway_Trading
  imports Gateway_Auth
begin

text \<open>
  Tickets, orders and payments in the gateway (apps/api-gateway/src/tickets, orders, payments): the
  services that call the Go backends, the conversion of their answers, and the guarded controllers.
\<close>

section \<open>Objects\<close>

text \<open>The own enumerable properties that a spread \<open>{...v}\<close> copies.\<close>

fun spread :: "jsval \<Rightarrow> (string \<times> jsval) list" where
  "spread (JObj kvs) = kvs"
| "spread (JArr es) = zip (map show_nat [0..<length es]) es"
| "spread (JStr s) = zip (map show_nat [0..<length s]) (map (\<lambda>c. JStr [c]) s)"
| "spread _ = []"

text \<open>Member access \<open>v.k\<close>: an error on \<open>undefined\<close> and \<open>null\<close>.\<close>

definition member :: "jsval \<Rightarrow> string \<Rightarrow> thrown + jsval" where
  "member v k =
     (if v = JUndef \<or> v = JNull
      then Inl (new_error TypeError (''Cannot read properties of '' @
             (if v = JNull then ''null'' else ''undefined'') @ '' (reading '' @ [CHR 0x27] @ k @ [CHR 0x27] @ '')''))
      else Inr (get_prop v k))"

section \<open>TicketsService\<close>

definition TicketsService_createTicket :: "gateway_env \<Rightarrow> jsval \<Rightarrow> string \<Rightarrow> Ticket gateway" where
  "TicketsService_createTicket E request userId =
     try_grpc
       (let r = JObj (obj_set (spread request) ''userId'' (JStr userId))
        in io_call (TicketsCreate r) (grpc_createTicket E r))
       (Some (invalid_argument ''Ticket data is invalid.''))"

definition TicketsService_listTickets :: "gateway_env \<Rightarrow> Ticket list gateway" where
  "TicketsService_listTickets E =
     try_grpc
       (io_bind (io_call (TicketsList (JObj [])) (grpc_listTickets E (JObj [])))
          (\<lambda>response. io_return (case ltr_tickets response of None \<Rightarrow> [] | Some ts \<Rightarrow> ts)))
       None"

definition TicketsService_updateTicket ::
    "gateway_env \<Rightarrow> string \<Rightarrow> jsval \<Rightarrow> string \<Rightarrow> Ticket option gateway" where
  "TicketsService_updateTicket E ticket_id request userId =
     try_grpc
       (let r = JObj (obj_set (obj_set (spread request) ''id'' (JStr ticket_id)) ''userId'' (JStr userId))
        in io_bind (io_call (TicketsUpdate r) (grpc_updateTicket E r))
             (\<lambda>response. io_return (tr_ticket response)))
       (Some (invalid_argument ''Ticket data is invalid.''))"

definition TicketsService_getTicket :: "gateway_env \<Rightarrow> string \<Rightarrow> Ticket option gateway" where
  "TicketsService_getTicket E ticket_id =
     try_grpc
       (let r = JObj [(''id'', JStr ticket_id)]
        in io_bind (io_call (TicketsGet r) (grpc_getTicket E r))
             (\<lambda>response. io_return (tr_ticket response)))
       None"

section \<open>OrdersService\<close>

text \<open>The generated enum (protogen/ts/orders/v1/orders_pb.ts).\<close>

datatype GrpcOrderStatus = ORDER_UNSPECIFIED | CREATED | CANCELED | AWAITING_PAYMENT | COMPLETE

fun order_status_number :: "GrpcOrderStatus \<Rightarrow> int" where
  "order_status_number ORDER_UNSPECIFIED = 0"
| "order_status_number CREATED = 1"
| "order_status_number CANCELED = 2"
| "order_status_number AWAITING_PAYMENT = 3"
| "order_status_number COMPLETE = 4"

definition toOrderStatus :: "int option \<Rightarrow> thrown + string" where
  "toOrderStatus status =
     (if status = Some (order_status_number CREATED) then Inr ''Created''
      else if status = Some (order_status_number CANCELED) then Inr ''Canceled''
      else if status = Some (order_status_number AWAITING_PAYMENT) then Inr ''AwaitingPayment''
      else if status = Some (order_status_number COMPLETE) then Inr ''Complete''
      else Inl (new_error PlainError
        (''Unsupported order status: '' @ (case status of None \<Rightarrow> ''undefined'' | Some n \<Rightarrow> show_int n))))"

text \<open>The copy of \<open>toDate\<close> in orders.service.ts.\<close>

definition orders_toDate :: "Timestamp option \<Rightarrow> thrown + jsdate" where
  "orders_toDate timestamp =
     (case deref timestamp ''seconds'' of
        Inl e \<Rightarrow> Inl e
      | Inr t \<Rightarrow>
          Inr (newDate (js_add (js_mul_pos (seconds_number (ts_seconds t)) 1000)
                 (js_div_pos (nanos_number (ts_nanos t)) 1000000))))"

text \<open>The fields of the literal are evaluated in order: the date first, then the status.\<close>

definition toOrderResponse :: "('a OrderGrpcResponse_scheme) option \<Rightarrow> thrown + OrderResponse" where
  "toOrderResponse response =
     (case deref response ''expiresAt'' of
        Inl e \<Rightarrow> Inl e
      | Inr r \<Rightarrow>
          (case orders_toDate (og_expiresAt r) of
             Inl e \<Rightarrow> Inl e
           | Inr date \<Rightarrow>
               (case toISOString date of
                  Inl e \<Rightarrow> Inl e
                | Inr expiresAt \<Rightarrow>
                    (case toOrderStatus (og_status r) of
                       Inl e \<Rightarrow> Inl e
                     | Inr status \<Rightarrow>
                         Inr \<lparr>or_expiresAt = expiresAt, or_id = og_id r, or_status = status,
                              or_ticketId = og_ticketId r, or_userId = og_userId r\<rparr>))))"

text \<open>\<open>orders.map(toOrderResponse)\<close>: the first failing element ends it.\<close>

fun map_orders :: "OrderGrpcResponse list \<Rightarrow> thrown + OrderResponse list" where
  "map_orders [] = Inr []"
| "map_orders (order # orders) =
     (case toOrderResponse (Some order) of
        Inl e \<Rightarrow> Inl e
      | Inr r \<Rightarrow> (case map_orders orders of Inl e \<Rightarrow> Inl e | Inr rs \<Rightarrow> Inr (r # rs)))"

definition toCreateOrderResponse :: "CreateOrderGrpcResponse \<Rightarrow> thrown + OrderCreationResult" where
  "toCreateOrderResponse response =
     (case toOrderResponse (Some response) of
        Inl e \<Rightarrow> Inl e
      | Inr order \<Rightarrow> Inr \<lparr>ocr_created = cog_created response, ocr_order = order\<rparr>)"

definition toCancelOrderResponse :: "OrderMessage \<Rightarrow> thrown + OrderResponse" where
  "toCancelOrderResponse response = toOrderResponse (om_order response)"

definition toListOrdersResponse :: "ListOrdersGrpcResponse \<Rightarrow> thrown + OrderResponse list" where
  "toListOrdersResponse response =
     map_orders (case log_orders response of None \<Rightarrow> [] | Some orders \<Rightarrow> orders)"

definition toGetOrderResponse :: "OrderMessage \<Rightarrow> thrown + OrderResponse" where
  "toGetOrderResponse response = toOrderResponse (om_order response)"

definition order_request :: "string \<Rightarrow> jsval \<Rightarrow> string \<Rightarrow> jsval" where
  "order_request key v userId = JObj [(key, v), (''userId'', JStr userId)]"

definition OrdersService_cancelOrder :: "gateway_env \<Rightarrow> string \<Rightarrow> string \<Rightarrow> OrderResponse gateway" where
  "OrdersService_cancelOrder E order_id userId =
     try_grpc
       (let r = order_request ''orderId'' (JStr order_id) userId
        in io_bind (io_call (OrdersCancel r) (grpc_cancelOrder E r))
             (\<lambda>response. io_of_result (toCancelOrderResponse response)))
       (Some (invalid_argument ''Order ID is invalid.''))"

definition OrdersService_createOrder ::
    "gateway_env \<Rightarrow> jsval \<Rightarrow> string \<Rightarrow> OrderCreationResult gateway" where
  "OrdersService_createOrder E ticketId userId =
     try_grpc
       (let r = order_request ''ticketId'' ticketId userId
        in io_bind (io_call (OrdersCreate r) (grpc_createOrder E r))
             (\<lambda>response. io_of_result (toCreateOrderResponse response)))
       (Some (invalid_argument ''Order data is invalid.''))"

definition OrdersService_listOrders :: "gateway_env \<Rightarrow> string \<Rightarrow> OrderResponse list gateway" where
  "OrdersService_listOrders E userId =
     try_grpc
       (let r = JObj [(''userId'', JStr userId)]
        in io_bind (io_call (OrdersList r) (grpc_listOrders E r))
             (\<lambda>response. io_of_result (toListOrdersResponse response)))
       (Some \<lparr>ei_message = ''Unable to retrieve orders.'',
              ei_code = public_code INTERNAL_ERROR, ei_field = None\<rparr>)"

definition OrdersService_getOrder :: "gateway_env \<Rightarrow> string \<Rightarrow> string \<Rightarrow> OrderResponse gateway" where
  "OrdersService_getOrder E order_id userId =
     try_grpc
       (let r = order_request ''orderId'' (JStr order_id) userId
        in io_bind (io_call (OrdersGet r) (grpc_getOrder E r))
             (\<lambda>response. io_of_result (toGetOrderResponse response)))
       (Some (invalid_argument ''Order ID is invalid.''))"

section \<open>PaymentsService\<close>

definition toPaymentResponse :: "PaymentResponse option \<Rightarrow> thrown + PaymentResponse" where
  "toPaymentResponse response =
     (case deref response ''id'' of
        Inl e \<Rightarrow> Inl e
      | Inr r \<Rightarrow> Inr \<lparr>pr_id = pr_id r, pr_orderId = pr_orderId r\<rparr>)"

definition PaymentsService_createPayment ::
    "gateway_env \<Rightarrow> jsval \<Rightarrow> string \<Rightarrow> PaymentCreationResult gateway" where
  "PaymentsService_createPayment E orderId userId =
     try_grpc
       (let r = order_request ''orderId'' orderId userId
        in io_bind (io_call (PaymentsCreate r) (grpc_createPayment E r))
             (\<lambda>response.
                io_of_result
                  (case toPaymentResponse (cpg_payment response) of
                     Inl e \<Rightarrow> Inl e
                   | Inr p \<Rightarrow> Inr \<lparr>pcr_created = cpg_created response, pcr_payment = p\<rparr>)))
       (Some (invalid_argument ''Order ID is invalid.''))"

section \<open>Controllers\<close>

definition set_status :: "int \<Rightarrow> unit gateway" where
  "set_status s = io_call (ResponseStatus s) (\<lambda>_. Inr ())"

definition TicketsController_listTickets :: "gateway_env \<Rightarrow> Ticket list gateway" where
  "TicketsController_listTickets E = TicketsService_listTickets E"

definition TicketsController_getTicket :: "gateway_env \<Rightarrow> string \<Rightarrow> Ticket option gateway" where
  "TicketsController_getTicket E ticket_id = TicketsService_getTicket E ticket_id"

definition TicketsController_updateTicket ::
    "gateway_env \<Rightarrow> AuthenticatedRequest \<Rightarrow> string \<Rightarrow> jsval \<Rightarrow> Ticket option gateway" where
  "TicketsController_updateTicket E request ticket_id body =
     guarded E request (\<lambda>request.
       io_bind (validated E UpdateTicketDto body) (\<lambda>dto.
       io_bind (io_of_result (CurrentUser request)) (\<lambda>user.
         TicketsService_updateTicket E ticket_id dto (user_id user))))"

definition TicketsController_createTicket ::
    "gateway_env \<Rightarrow> AuthenticatedRequest \<Rightarrow> jsval \<Rightarrow> Ticket gateway" where
  "TicketsController_createTicket E request body =
     guarded E request (\<lambda>request.
       io_bind (validated E CreateTicketDto body) (\<lambda>dto.
       io_bind (io_of_result (CurrentUser request)) (\<lambda>user.
         TicketsService_createTicket E dto (user_id user))))"

definition OrdersController_createOrder ::
    "gateway_env \<Rightarrow> AuthenticatedRequest \<Rightarrow> jsval \<Rightarrow> OrderResponse gateway" where
  "OrdersController_createOrder E request body =
     guarded E request (\<lambda>request.
       io_bind (validated E CreateOrderDto body) (\<lambda>dto.
       io_bind (io_of_result (CurrentUser request)) (\<lambda>user.
       io_bind (io_of_result (member dto ''ticketId'')) (\<lambda>ticketId.
       io_bind (OrdersService_createOrder E ticketId (user_id user)) (\<lambda>result.
       io_seq (set_status (if ocr_created result then 201 else 200))
         (io_return (ocr_order result)))))))"

definition OrdersController_cancelOrder ::
    "gateway_env \<Rightarrow> AuthenticatedRequest \<Rightarrow> string \<Rightarrow> OrderResponse gateway" where
  "OrdersController_cancelOrder E request order_id =
     guarded E request (\<lambda>request.
       io_bind (io_of_result (CurrentUser request)) (\<lambda>user.
         OrdersService_cancelOrder E order_id (user_id user)))"

definition OrdersController_listOrders ::
    "gateway_env \<Rightarrow> AuthenticatedRequest \<Rightarrow> OrderResponse list gateway" where
  "OrdersController_listOrders E request =
     guarded E request (\<lambda>request.
       io_bind (io_of_result (CurrentUser request)) (\<lambda>user.
         OrdersService_listOrders E (user_id user)))"

definition OrdersController_getOrder ::
    "gateway_env \<Rightarrow> AuthenticatedRequest \<Rightarrow> string \<Rightarrow> OrderResponse gateway" where
  "OrdersController_getOrder E request order_id =
     guarded E request (\<lambda>request.
       io_bind (io_of_result (CurrentUser request)) (\<lambda>user.
         OrdersService_getOrder E order_id (user_id user)))"

definition PaymentsController_createPayment ::
    "gateway_env \<Rightarrow> AuthenticatedRequest \<Rightarrow> jsval \<Rightarrow> PaymentResponse gateway" where
  "PaymentsController_createPayment E request body =
     guarded E request (\<lambda>request.
       io_bind (validated E CreatePaymentDto body) (\<lambda>dto.
       io_bind (io_of_result (CurrentUser request)) (\<lambda>user.
       io_bind (io_of_result (member dto ''orderId'')) (\<lambda>orderId.
       io_bind (PaymentsService_createPayment E orderId (user_id user)) (\<lambda>result.
       io_seq (set_status (if pcr_created result then 201 else 200))
         (io_return (pcr_payment result)))))))"

section \<open>The services keep the contract of a gateway method\<close>

fun tickets_call :: "gateway_call \<Rightarrow> bool" where
  "tickets_call (TicketsCreate _) = True"
| "tickets_call (TicketsUpdate _) = True"
| "tickets_call (TicketsGet _) = True"
| "tickets_call (TicketsList _) = True"
| "tickets_call _ = False"

fun orders_call :: "gateway_call \<Rightarrow> bool" where
  "orders_call (OrdersCreate _) = True"
| "orders_call (OrdersCancel _) = True"
| "orders_call (OrdersGet _) = True"
| "orders_call (OrdersList _) = True"
| "orders_call _ = False"

fun payments_call :: "gateway_call \<Rightarrow> bool" where
  "payments_call (PaymentsCreate _) = True"
| "payments_call _ = False"

text \<open>The request object of a call that acts for a user.\<close>

fun user_payload :: "gateway_call \<Rightarrow> jsval option" where
  "user_payload (TicketsCreate r) = Some r"
| "user_payload (TicketsUpdate r) = Some r"
| "user_payload (OrdersCreate r) = Some r"
| "user_payload (OrdersCancel r) = Some r"
| "user_payload (OrdersGet r) = Some r"
| "user_payload (OrdersList r) = Some r"
| "user_payload (PaymentsCreate r) = Some r"
| "user_payload _ = None"

definition acts_for :: "string \<Rightarrow> gateway_call \<Rightarrow> bool" where
  "acts_for uid c \<longleftrightarrow>
     (case user_payload c of None \<Rightarrow> True | Some r \<Rightarrow> get_prop r ''userId'' = JStr uid)"

lemmas service_defs =
  TicketsService_createTicket_def TicketsService_updateTicket_def TicketsService_getTicket_def
  TicketsService_listTickets_def OrdersService_createOrder_def OrdersService_cancelOrder_def
  OrdersService_getOrder_def OrdersService_listOrders_def PaymentsService_createPayment_def

lemma service_failure:
  "TicketsService_createTicket E r u h = (Inl e, h') \<Longrightarrow> api_failure e"
  "TicketsService_updateTicket E i r u h = (Inl e, h') \<Longrightarrow> api_failure e"
  "TicketsService_getTicket E i h = (Inl e, h') \<Longrightarrow> api_failure e"
  "TicketsService_listTickets E h = (Inl e, h') \<Longrightarrow> api_failure e"
  "OrdersService_createOrder E t u h = (Inl e, h') \<Longrightarrow> api_failure e"
  "OrdersService_cancelOrder E i u h = (Inl e, h') \<Longrightarrow> api_failure e"
  "OrdersService_getOrder E i u h = (Inl e, h') \<Longrightarrow> api_failure e"
  "OrdersService_listOrders E u h = (Inl e, h') \<Longrightarrow> api_failure e"
  "PaymentsService_createPayment E t u h = (Inl e, h') \<Longrightarrow> api_failure e"
  by (auto simp: service_defs intro: try_grpc_failure)

lemma service_emits:
  "io_emits (\<lambda>c. tickets_call c \<and> acts_for u c) (TicketsService_createTicket E r u)"
  "io_emits (\<lambda>c. tickets_call c \<and> acts_for u c) (TicketsService_updateTicket E i r u)"
  "io_emits tickets_call (TicketsService_getTicket E i)"
  "io_emits tickets_call (TicketsService_listTickets E)"
  "io_emits (\<lambda>c. orders_call c \<and> acts_for u c) (OrdersService_createOrder E t u)"
  "io_emits (\<lambda>c. orders_call c \<and> acts_for u c) (OrdersService_cancelOrder E i u)"
  "io_emits (\<lambda>c. orders_call c \<and> acts_for u c) (OrdersService_getOrder E i u)"
  "io_emits (\<lambda>c. orders_call c \<and> acts_for u c) (OrdersService_listOrders E u)"
  "io_emits (\<lambda>c. payments_call c \<and> acts_for u c) (PaymentsService_createPayment E t u)"
  by (auto simp: service_defs Let_def acts_for_def order_request_def map_of_obj_set intro!: io_rules)

interpretation tickets_create: gateway_method
    "\<lambda>r. TicketsService_createTicket E (fst r) (snd r)" tickets_call for E
  by unfold_locales (auto intro: service_failure io_emits_mono [OF service_emits(1)])

interpretation tickets_update: gateway_method
    "\<lambda>r. TicketsService_updateTicket E (fst r) (fst (snd r)) (snd (snd r))" tickets_call for E
  by unfold_locales (auto intro: service_failure io_emits_mono [OF service_emits(2)])

interpretation tickets_get: gateway_method "TicketsService_getTicket E" tickets_call for E
  by unfold_locales (auto intro: service_failure service_emits)

interpretation tickets_list: gateway_method "\<lambda>_. TicketsService_listTickets E" tickets_call for E
  by unfold_locales (auto intro: service_failure service_emits)

interpretation orders_create: gateway_method
    "\<lambda>r. OrdersService_createOrder E (fst r) (snd r)" orders_call for E
  by unfold_locales (auto intro: service_failure io_emits_mono [OF service_emits(5)])

interpretation orders_cancel: gateway_method
    "\<lambda>r. OrdersService_cancelOrder E (fst r) (snd r)" orders_call for E
  by unfold_locales (auto intro: service_failure io_emits_mono [OF service_emits(6)])

interpretation orders_get: gateway_method
    "\<lambda>r. OrdersService_getOrder E (fst r) (snd r)" orders_call for E
  by unfold_locales (auto intro: service_failure io_emits_mono [OF service_emits(7)])

interpretation orders_list: gateway_method "OrdersService_listOrders E" orders_call for E
  by unfold_locales (auto intro: service_failure io_emits_mono [OF service_emits(8)])

interpretation payments_create: gateway_method
    "\<lambda>r. PaymentsService_createPayment E (fst r) (snd r)" payments_call for E
  by unfold_locales (auto intro: service_failure io_emits_mono [OF service_emits(9)])

end
