(* ===== verification/Protogen_Orders.thy ===== *)
theory Protogen_Orders
  imports Proto_Descriptor Gateway_Trading
begin

text \<open>
  The generated messages, events and service of orders (protogen/ts/orders/v1).
\<close>

section \<open>The status enum\<close>

fun order_status_name :: "GrpcOrderStatus \<Rightarrow> string" where
  "order_status_name ORDER_UNSPECIFIED = ''UNSPECIFIED''"
| "order_status_name CREATED = ''CREATED''"
| "order_status_name CANCELED = ''CANCELED''"
| "order_status_name AWAITING_PAYMENT = ''AWAITING_PAYMENT''"
| "order_status_name COMPLETE = ''COMPLETE''"

definition OrderStatus_enum :: ts_enum where
  "OrderStatus_enum = \<lparr>te_name = ''orders.v1.OrderStatus'', te_members =
     map (\<lambda>s. (order_status_name s, order_status_number s, ''ORDER_STATUS_'' @ order_status_name s))
       [ORDER_UNSPECIFIED, CREATED, CANCELED, AWAITING_PAYMENT, COMPLETE]\<rparr>"

section \<open>orders/v1/orders_pb.ts\<close>

definition CreateOrderRequest_message :: ts_message where
  "CreateOrderRequest_message = \<lparr>tm_name = ''orders.v1.CreateOrderRequest'', tm_fields =
     [ts_member ''ticketId'' False TsString Implicit PString ''ticket_id'' 1,
      ts_member ''userId'' False TsString Implicit PString ''user_id'' 2]\<rparr>"

definition CreateOrderResponse_message :: ts_message where
  "CreateOrderResponse_message = \<lparr>tm_name = ''orders.v1.CreateOrderResponse'', tm_fields =
     [ts_member ''id'' False TsString Implicit PString ''id'' 1,
      ts_member ''expiresAt'' True (TsRef ''Timestamp'') Implicit (PMessage ''google.protobuf.Timestamp'') ''expires_at'' 2,
      ts_member ''userId'' False TsString Implicit PString ''user_id'' 3,
      ts_member ''ticketId'' False TsString Implicit PString ''ticket_id'' 4,
      ts_member ''status'' False (TsRef ''OrderStatus'') Implicit (PEnum ''orders.v1.OrderStatus'') ''status'' 5,
      ts_member ''created'' False TsBoolean Implicit PBool ''created'' 6]\<rparr>"

definition CancelOrderRequest_message :: ts_message where
  "CancelOrderRequest_message = \<lparr>tm_name = ''orders.v1.CancelOrderRequest'', tm_fields =
     [ts_member ''orderId'' False TsString Implicit PString ''order_id'' 1,
      ts_member ''userId'' False TsString Implicit PString ''user_id'' 2]\<rparr>"

definition CancelOrderResponse_message :: ts_message where
  "CancelOrderResponse_message = \<lparr>tm_name = ''orders.v1.CancelOrderResponse'', tm_fields =
     [ts_member ''order'' True (TsRef ''Order'') Implicit (PMessage ''orders.v1.Order'') ''order'' 1]\<rparr>"

definition GetOrderRequest_message :: ts_message where
  "GetOrderRequest_message = \<lparr>tm_name = ''orders.v1.GetOrderRequest'', tm_fields =
     [ts_member ''orderId'' False TsString Implicit PString ''order_id'' 1,
      ts_member ''userId'' False TsString Implicit PString ''user_id'' 2]\<rparr>"

definition GetOrderResponse_message :: ts_message where
  "GetOrderResponse_message = \<lparr>tm_name = ''orders.v1.GetOrderResponse'', tm_fields =
     [ts_member ''order'' True (TsRef ''Order'') Implicit (PMessage ''orders.v1.Order'') ''order'' 1]\<rparr>"

definition ListOrdersRequest_message :: ts_message where
  "ListOrdersRequest_message = \<lparr>tm_name = ''orders.v1.ListOrdersRequest'', tm_fields =
     [ts_member ''userId'' False TsString Implicit PString ''user_id'' 1]\<rparr>"

definition ListOrdersResponse_message :: ts_message where
  "ListOrdersResponse_message = \<lparr>tm_name = ''orders.v1.ListOrdersResponse'', tm_fields =
     [ts_member ''orders'' False (TsArray (TsRef ''Order'')) Repeated (PMessage ''orders.v1.Order'') ''orders'' 1]\<rparr>"

definition Order_message :: ts_message where
  "Order_message = \<lparr>tm_name = ''orders.v1.Order'', tm_fields =
     [ts_member ''id'' False TsString Implicit PString ''id'' 1,
      ts_member ''expiresAt'' True (TsRef ''Timestamp'') Implicit (PMessage ''google.protobuf.Timestamp'') ''expires_at'' 2,
      ts_member ''userId'' False TsString Implicit PString ''user_id'' 3,
      ts_member ''ticketId'' False TsString Implicit PString ''ticket_id'' 4,
      ts_member ''status'' False (TsRef ''OrderStatus'') Implicit (PEnum ''orders.v1.OrderStatus'') ''status'' 5]\<rparr>"

definition OrdersService_methods :: ts_service where
  "OrdersService_methods = \<lparr>tv_name = ''orders.v1.OrdersService'', tv_methods =
     [(''cancelOrder'', \<lparr>pr_name = ''CancelOrder'', pr_input = tm_name CancelOrderRequest_message, pr_output = tm_name CancelOrderResponse_message\<rparr>),
      (''createOrder'', \<lparr>pr_name = ''CreateOrder'', pr_input = tm_name CreateOrderRequest_message, pr_output = tm_name CreateOrderResponse_message\<rparr>),
      (''getOrder'', \<lparr>pr_name = ''GetOrder'', pr_input = tm_name GetOrderRequest_message, pr_output = tm_name GetOrderResponse_message\<rparr>),
      (''listOrders'', \<lparr>pr_name = ''ListOrders'', pr_input = tm_name ListOrdersRequest_message, pr_output = tm_name ListOrdersResponse_message\<rparr>)]\<rparr>"

definition file_orders_v1_orders :: string where
  "file_orders_v1_orders =
    ''ChZvcmRlcnMvdjEvb3JkZXJzLnByb3RvEglvcmRlcnMudjEiOAoSQ3JlYXRlT3JkZXJSZXF1ZXN0EhEKCXRpY2tldF9pZBgBIAEoCRIPCgd1c2VyX2lkGAIgASgJIq4BChNDcmVhdGVPcmRlclJlc3BvbnNlEgoKAmlkGAEgASgJEi4KCmV4cGlyZXNfYXQYAiABKAsyGi5nb29nbGUucHJvdG9idWYuVGltZXN0YW1wEg8KB3VzZXJfaWQYAyABKAkSEQoJdGlja2V0X2lkGAQgASgJEiYKBnN0YXR1cxgFIAEoDjIWLm9yZGVycy52MS5PcmRlclN0YXR1cxIPCgdjcmVhdGVkGAYgASgIIjcKEkNhbmNlbE9yZGVyUmVxdWVzdBIQCghvcmRlcl9pZBgBIAEoCRIPCgd1c2VyX2lkGAIgASgJIjYKE0NhbmNlbE9yZGVyUmVzcG9uc2USHwoFb3JkZXIYASABKAsyEC5vcmRlcnMudjEuT3JkZXIiNAoPR2V0T3JkZXJSZXF1ZXN0EhAKCG9yZGVyX2lkGAEgASgJEg8KB3VzZXJfaWQYAiABKAkiMwoQR2V0T3JkZXJSZXNwb25zZRIfCgVvcmRlchgBIAEoCzIQLm9yZGVycy52MS5PcmRlciIkChFMaXN0T3JkZXJzUmVxdWVzdBIPCgd1c2VyX2lkGAEgASgJIjYKEkxpc3RPcmRlcnNSZXNwb25zZRIgCgZvcmRlcnMYASADKAsyEC5vcmRlcnMudjEuT3JkZXIijwEKBU9yZGVyEgoKAmlkGAEgASgJEi4KCmV4cGlyZXNfYXQYAiABKAsyGi5nb29nbGUucHJvdG9idWYuVGltZXN0YW1wEg8KB3VzZXJfaWQYAyABKAkSEQoJdGlja2V0X2lkGAQgASgJEiYKBnN0YXR1cxgFIAEoDjIWLm9yZGVycy52MS5PcmRlclN0YXR1cyqeAQoLT3JkZXJTdGF0dXMSHAoYT1JERVJfU1RBVFVTX1VOU1BFQ0lGSUVEEAASGAoUT1JERVJfU1RBVFVTX0NSRUFURUQQARIZChVPUkRFUl9TVEFUVVNfQ0FOQ0VMRUQQAhIhCh1PUkRFUl9TVEFUVVNfQVdBSVRJTkdfUEFZTUVOVBADEhkKFU9SREVSX1NUQVRVU19DT01QTEVURRAEMrsCCg1PcmRlcnNTZXJ2aWNlEkwKC0NhbmNlbE9yZGVyEh0ub3JkZXJzLnYxLkNhbmNlbE9yZGVyUmVxdWVzdBoeLm9yZGVycy52MS5DYW5jZWxPcmRlclJlc3BvbnNlEkwKC0NyZWF0ZU9yZGVyEh0ub3JkZXJzLnYxLkNyZWF0ZU9yZGVyUmVxdWVzdBoeLm9yZGVycy52MS5DcmVhdGVPcmRlclJlc3BvbnNlEkMKCEdldE9yZGVyEhoub3JkZXJzLnYxLkdldE9yZGVyUmVxdWVzdBobLm9yZGVycy52MS5HZXRPcmRlclJlc3BvbnNlEkkKCkxpc3RPcmRlcnMSHC5vcmRlcnMudjEuTGlzdE9yZGVyc1JlcXVlc3QaHS5vcmRlcnMudjEuTGlzdE9yZGVyc1Jlc3BvbnNlQjZaNHBvbHlnbG90LXRpY2tldGluZy12MS9wcm90b2dlbi9nby9vcmRlcnMvdjE7b3JkZXJzdjFiBnByb3RvMw''"

definition CreateOrderRequestSchema :: "proto_message option" where
  "CreateOrderRequestSchema = messageDesc (fileDesc file_orders_v1_orders) 0"

definition CreateOrderResponseSchema :: "proto_message option" where
  "CreateOrderResponseSchema = messageDesc (fileDesc file_orders_v1_orders) 1"

definition CancelOrderRequestSchema :: "proto_message option" where
  "CancelOrderRequestSchema = messageDesc (fileDesc file_orders_v1_orders) 2"

definition CancelOrderResponseSchema :: "proto_message option" where
  "CancelOrderResponseSchema = messageDesc (fileDesc file_orders_v1_orders) 3"

definition GetOrderRequestSchema :: "proto_message option" where
  "GetOrderRequestSchema = messageDesc (fileDesc file_orders_v1_orders) 4"

definition GetOrderResponseSchema :: "proto_message option" where
  "GetOrderResponseSchema = messageDesc (fileDesc file_orders_v1_orders) 5"

definition ListOrdersRequestSchema :: "proto_message option" where
  "ListOrdersRequestSchema = messageDesc (fileDesc file_orders_v1_orders) 6"

definition ListOrdersResponseSchema :: "proto_message option" where
  "ListOrdersResponseSchema = messageDesc (fileDesc file_orders_v1_orders) 7"

definition OrderSchema :: "proto_message option" where
  "OrderSchema = messageDesc (fileDesc file_orders_v1_orders) 8"

definition OrderStatusSchema :: "proto_enum option" where
  "OrderStatusSchema = enumDesc (fileDesc file_orders_v1_orders) 0"

definition OrdersService :: "proto_service option" where
  "OrdersService = serviceDesc (fileDesc file_orders_v1_orders) 0"

text \<open>The descriptor is the one of the declarations, with the rules on their fields.\<close>

lemmas orders_v1_orders_declared =
  CreateOrderRequest_message_def CreateOrderResponse_message_def CancelOrderRequest_message_def CancelOrderResponse_message_def GetOrderRequest_message_def GetOrderResponse_message_def ListOrdersRequest_message_def ListOrdersResponse_message_def Order_message_def OrderStatus_enum_def OrdersService_methods_def

lemma orders_v1_orders_read:
  "fileDesc file_orders_v1_orders = Some
     \<lparr>pd_package = ''orders.v1'',
      pd_messages =
       [described [] CreateOrderRequest_message,
        described [] CreateOrderResponse_message,
        described [] CancelOrderRequest_message,
        described [] CancelOrderResponse_message,
        described [] GetOrderRequest_message,
        described [] GetOrderResponse_message,
        described [] ListOrdersRequest_message,
        described [] ListOrdersResponse_message,
        described [] Order_message],
      pd_enums = [described_enum OrderStatus_enum], pd_services = [\<lparr>ps_name = tv_name OrdersService_methods, ps_methods = map snd (tv_methods OrdersService_methods)\<rparr>]\<rparr>"
  by (simp add: fileDesc_def file_orders_v1_orders_def descriptor_simps decode_simps orders_v1_orders_declared cong: decode_congs)

definition orders_v1_orders_schemas :: "(proto_message option \<times> ts_message) list" where
  "orders_v1_orders_schemas =
    [(CreateOrderRequestSchema, CreateOrderRequest_message),
     (CreateOrderResponseSchema, CreateOrderResponse_message),
     (CancelOrderRequestSchema, CancelOrderRequest_message),
     (CancelOrderResponseSchema, CancelOrderResponse_message),
     (GetOrderRequestSchema, GetOrderRequest_message),
     (GetOrderResponseSchema, GetOrderResponse_message),
     (ListOrdersRequestSchema, ListOrdersRequest_message),
     (ListOrdersResponseSchema, ListOrdersResponse_message),
     (OrderSchema, Order_message)]"

lemma orders_v1_orders_agree: "list_all schema_agrees orders_v1_orders_schemas"
  by (simp add: orders_v1_orders_schemas_def schema_agrees_def messageDesc_def part_def orders_v1_orders_read generated_simps decode_simps orders_v1_orders_declared
      CreateOrderRequestSchema_def CreateOrderResponseSchema_def CancelOrderRequestSchema_def CancelOrderResponseSchema_def GetOrderRequestSchema_def GetOrderResponseSchema_def ListOrdersRequestSchema_def ListOrdersResponseSchema_def OrderSchema_def)

lemma OrderStatus_agrees: "map_option generated_enum OrderStatusSchema = Some OrderStatus_enum"
  by (simp add: OrderStatusSchema_def enumDesc_def part_def orders_v1_orders_read generated_enum_def described_enum_def localName_def
      sharedPrefix_def upper_def lower_def decode_simps orders_v1_orders_declared)

lemma OrdersService_agrees: "map_option generated_service OrdersService = Some OrdersService_methods"
  by (simp add: OrdersService_def serviceDesc_def part_def orders_v1_orders_read generated_service_def methodName_def lower_def decode_simps OrdersService_methods_def)

section \<open>orders/v1/events_pb.ts\<close>

definition OrderCreated_message :: ts_message where
  "OrderCreated_message = \<lparr>tm_name = ''orders.v1.OrderCreated'', tm_fields =
     [ts_member ''eventId'' False TsString Implicit PString ''event_id'' 1,
      ts_member ''occurredAt'' True (TsRef ''Timestamp'') Implicit (PMessage ''google.protobuf.Timestamp'') ''occurred_at'' 2,
      ts_member ''orderId'' False TsString Implicit PString ''order_id'' 3,
      ts_member ''orderStatus'' False (TsRef ''OrderStatus'') Implicit (PEnum ''orders.v1.OrderStatus'') ''order_status'' 4,
      ts_member ''userId'' False TsString Implicit PString ''user_id'' 5,
      ts_member ''expiresAt'' True (TsRef ''Timestamp'') Implicit (PMessage ''google.protobuf.Timestamp'') ''expires_at'' 6,
      ts_member ''ticket'' True (TsRef ''OrderTicket'') Implicit (PMessage ''orders.v1.OrderTicket'') ''ticket'' 7,
      ts_member ''aggregateVersion'' False TsBigint Implicit PInt64 ''aggregate_version'' 8]\<rparr>"

definition OrderTicket_message :: ts_message where
  "OrderTicket_message = \<lparr>tm_name = ''orders.v1.OrderTicket'', tm_fields =
     [ts_member ''id'' False TsString Implicit PString ''id'' 1,
      ts_member ''price'' False TsBigint Implicit PInt64 ''price'' 2]\<rparr>"

definition OrderCanceled_message :: ts_message where
  "OrderCanceled_message = \<lparr>tm_name = ''orders.v1.OrderCanceled'', tm_fields =
     [ts_member ''eventId'' False TsString Implicit PString ''event_id'' 1,
      ts_member ''occurredAt'' True (TsRef ''Timestamp'') Implicit (PMessage ''google.protobuf.Timestamp'') ''occurred_at'' 2,
      ts_member ''orderId'' False TsString Implicit PString ''order_id'' 3,
      ts_member ''ticket'' True (TsRef ''OrderCanceledTicket'') Implicit (PMessage ''orders.v1.OrderCanceledTicket'') ''ticket'' 4,
      ts_member ''aggregateVersion'' False TsBigint Implicit PInt64 ''aggregate_version'' 5]\<rparr>"

definition OrderCanceledTicket_message :: ts_message where
  "OrderCanceledTicket_message = \<lparr>tm_name = ''orders.v1.OrderCanceledTicket'', tm_fields =
     [ts_member ''id'' False TsString Implicit PString ''id'' 1]\<rparr>"

definition file_orders_v1_events :: string where
  "file_orders_v1_events =
    ''ChZvcmRlcnMvdjEvZXZlbnRzLnByb3RvEglvcmRlcnMudjEilQIKDE9yZGVyQ3JlYXRlZBIQCghldmVudF9pZBgBIAEoCRIvCgtvY2N1cnJlZF9hdBgCIAEoCzIaLmdvb2dsZS5wcm90b2J1Zi5UaW1lc3RhbXASEAoIb3JkZXJfaWQYAyABKAkSLAoMb3JkZXJfc3RhdHVzGAQgASgOMhYub3JkZXJzLnYxLk9yZGVyU3RhdHVzEg8KB3VzZXJfaWQYBSABKAkSLgoKZXhwaXJlc19hdBgGIAEoCzIaLmdvb2dsZS5wcm90b2J1Zi5UaW1lc3RhbXASJgoGdGlja2V0GAcgASgLMhYub3JkZXJzLnYxLk9yZGVyVGlja2V0EhkKEWFnZ3JlZ2F0ZV92ZXJzaW9uGAggASgDIigKC09yZGVyVGlja2V0EgoKAmlkGAEgASgJEg0KBXByaWNlGAIgASgDIq8BCg1PcmRlckNhbmNlbGVkEhAKCGV2ZW50X2lkGAEgASgJEi8KC29jY3VycmVkX2F0GAIgASgLMhouZ29vZ2xlLnByb3RvYnVmLlRpbWVzdGFtcBIQCghvcmRlcl9pZBgDIAEoCRIuCgZ0aWNrZXQYBCABKAsyHi5vcmRlcnMudjEuT3JkZXJDYW5jZWxlZFRpY2tldBIZChFhZ2dyZWdhdGVfdmVyc2lvbhgFIAEoAyIhChNPcmRlckNhbmNlbGVkVGlja2V0EgoKAmlkGAEgASgJQjZaNHBvbHlnbG90LXRpY2tldGluZy12MS9wcm90b2dlbi9nby9vcmRlcnMvdjE7b3JkZXJzdjFiBnByb3RvMw''"

definition OrderCreatedSchema :: "proto_message option" where
  "OrderCreatedSchema = messageDesc (fileDesc file_orders_v1_events) 0"

definition OrderTicketSchema :: "proto_message option" where
  "OrderTicketSchema = messageDesc (fileDesc file_orders_v1_events) 1"

definition OrderCanceledSchema :: "proto_message option" where
  "OrderCanceledSchema = messageDesc (fileDesc file_orders_v1_events) 2"

definition OrderCanceledTicketSchema :: "proto_message option" where
  "OrderCanceledTicketSchema = messageDesc (fileDesc file_orders_v1_events) 3"

text \<open>The descriptor is the one of the declarations, with the rules on their fields.\<close>

lemmas orders_v1_events_declared =
  OrderCreated_message_def OrderTicket_message_def OrderCanceled_message_def OrderCanceledTicket_message_def

lemma orders_v1_events_read:
  "fileDesc file_orders_v1_events = Some
     \<lparr>pd_package = ''orders.v1'',
      pd_messages =
       [described [] OrderCreated_message,
        described [] OrderTicket_message,
        described [] OrderCanceled_message,
        described [] OrderCanceledTicket_message],
      pd_enums = [], pd_services = []\<rparr>"
  by (simp add: fileDesc_def file_orders_v1_events_def descriptor_simps decode_simps orders_v1_events_declared cong: decode_congs)

definition orders_v1_events_schemas :: "(proto_message option \<times> ts_message) list" where
  "orders_v1_events_schemas =
    [(OrderCreatedSchema, OrderCreated_message),
     (OrderTicketSchema, OrderTicket_message),
     (OrderCanceledSchema, OrderCanceled_message),
     (OrderCanceledTicketSchema, OrderCanceledTicket_message)]"

lemma orders_v1_events_agree: "list_all schema_agrees orders_v1_events_schemas"
  by (simp add: orders_v1_events_schemas_def schema_agrees_def messageDesc_def part_def orders_v1_events_read generated_simps decode_simps orders_v1_events_declared
      OrderCreatedSchema_def OrderTicketSchema_def OrderCanceledSchema_def OrderCanceledTicketSchema_def)

end
