(* ===== verification/Protogen_Payments.thy ===== *)
theory Protogen_Payments
  imports Proto_Descriptor
begin

text \<open>
  The generated messages and the service of payments (protogen/ts/payments/v1/payments_pb.ts).
\<close>

section \<open>payments/v1/payments_pb.ts\<close>

definition CreatePaymentRequest_message :: ts_message where
  "CreatePaymentRequest_message = \<lparr>tm_name = ''payments.v1.CreatePaymentRequest'', tm_fields =
     [ts_member ''orderId'' False TsString Implicit PString ''order_id'' 1,
      ts_member ''userId'' False TsString Implicit PString ''user_id'' 2]\<rparr>"

definition CreatePaymentResponse_message :: ts_message where
  "CreatePaymentResponse_message = \<lparr>tm_name = ''payments.v1.CreatePaymentResponse'', tm_fields =
     [ts_member ''payment'' True (TsRef ''Payment'') Implicit (PMessage ''payments.v1.Payment'') ''payment'' 1,
      ts_member ''created'' False TsBoolean Implicit PBool ''created'' 2]\<rparr>"

definition Payment_message :: ts_message where
  "Payment_message = \<lparr>tm_name = ''payments.v1.Payment'', tm_fields =
     [ts_member ''id'' False TsString Implicit PString ''id'' 1,
      ts_member ''orderId'' False TsString Implicit PString ''order_id'' 2]\<rparr>"

definition PaymentCreated_message :: ts_message where
  "PaymentCreated_message = \<lparr>tm_name = ''payments.v1.PaymentCreated'', tm_fields =
     [ts_member ''eventId'' False TsString Implicit PString ''event_id'' 1,
      ts_member ''occurredAt'' True (TsRef ''Timestamp'') Implicit (PMessage ''google.protobuf.Timestamp'') ''occurred_at'' 2,
      ts_member ''paymentId'' False TsString Implicit PString ''payment_id'' 3,
      ts_member ''orderId'' False TsString Implicit PString ''order_id'' 4]\<rparr>"

definition PaymentSucceeded_message :: ts_message where
  "PaymentSucceeded_message = \<lparr>tm_name = ''payments.v1.PaymentSucceeded'', tm_fields =
     [ts_member ''eventId'' False TsString Implicit PString ''event_id'' 1,
      ts_member ''occurredAt'' True (TsRef ''Timestamp'') Implicit (PMessage ''google.protobuf.Timestamp'') ''occurred_at'' 2,
      ts_member ''paymentId'' False TsString Implicit PString ''payment_id'' 3,
      ts_member ''orderId'' False TsString Implicit PString ''order_id'' 4]\<rparr>"

definition PaymentFailed_message :: ts_message where
  "PaymentFailed_message = \<lparr>tm_name = ''payments.v1.PaymentFailed'', tm_fields =
     [ts_member ''eventId'' False TsString Implicit PString ''event_id'' 1,
      ts_member ''occurredAt'' True (TsRef ''Timestamp'') Implicit (PMessage ''google.protobuf.Timestamp'') ''occurred_at'' 2,
      ts_member ''paymentId'' False TsString Implicit PString ''payment_id'' 3,
      ts_member ''orderId'' False TsString Implicit PString ''order_id'' 4]\<rparr>"

definition PaymentsService_methods :: ts_service where
  "PaymentsService_methods = \<lparr>tv_name = ''payments.v1.PaymentsService'', tv_methods =
     [(''createPayment'', \<lparr>pr_name = ''CreatePayment'', pr_input = tm_name CreatePaymentRequest_message, pr_output = tm_name CreatePaymentResponse_message\<rparr>)]\<rparr>"

definition file_payments_v1_payments :: string where
  "file_payments_v1_payments =
    ''ChpwYXltZW50cy92MS9wYXltZW50cy5wcm90bxILcGF5bWVudHMudjEiOQoUQ3JlYXRlUGF5bWVudFJlcXVlc3QSEAoIb3JkZXJfaWQYASABKAkSDwoHdXNlcl9pZBgCIAEoCSJPChVDcmVhdGVQYXltZW50UmVzcG9uc2USJQoHcGF5bWVudBgBIAEoCzIULnBheW1lbnRzLnYxLlBheW1lbnQSDwoHY3JlYXRlZBgCIAEoCCInCgdQYXltZW50EgoKAmlkGAEgASgJEhAKCG9yZGVyX2lkGAIgASgJInkKDlBheW1lbnRDcmVhdGVkEhAKCGV2ZW50X2lkGAEgASgJEi8KC29jY3VycmVkX2F0GAIgASgLMhouZ29vZ2xlLnByb3RvYnVmLlRpbWVzdGFtcBISCgpwYXltZW50X2lkGAMgASgJEhAKCG9yZGVyX2lkGAQgASgJInsKEFBheW1lbnRTdWNjZWVkZWQSEAoIZXZlbnRfaWQYASABKAkSLwoLb2NjdXJyZWRfYXQYAiABKAsyGi5nb29nbGUucHJvdG9idWYuVGltZXN0YW1wEhIKCnBheW1lbnRfaWQYAyABKAkSEAoIb3JkZXJfaWQYBCABKAkieAoNUGF5bWVudEZhaWxlZBIQCghldmVudF9pZBgBIAEoCRIvCgtvY2N1cnJlZF9hdBgCIAEoCzIaLmdvb2dsZS5wcm90b2J1Zi5UaW1lc3RhbXASEgoKcGF5bWVudF9pZBgDIAEoCRIQCghvcmRlcl9pZBgEIAEoCTJpCg9QYXltZW50c1NlcnZpY2USVgoNQ3JlYXRlUGF5bWVudBIhLnBheW1lbnRzLnYxLkNyZWF0ZVBheW1lbnRSZXF1ZXN0GiIucGF5bWVudHMudjEuQ3JlYXRlUGF5bWVudFJlc3BvbnNlQjpaOHBvbHlnbG90LXRpY2tldGluZy12MS9wcm90b2dlbi9nby9wYXltZW50cy92MTtwYXltZW50c3YxYgZwcm90bzM''"

definition CreatePaymentRequestSchema :: "proto_message option" where
  "CreatePaymentRequestSchema = messageDesc (fileDesc file_payments_v1_payments) 0"

definition CreatePaymentResponseSchema :: "proto_message option" where
  "CreatePaymentResponseSchema = messageDesc (fileDesc file_payments_v1_payments) 1"

definition PaymentSchema :: "proto_message option" where
  "PaymentSchema = messageDesc (fileDesc file_payments_v1_payments) 2"

definition PaymentCreatedSchema :: "proto_message option" where
  "PaymentCreatedSchema = messageDesc (fileDesc file_payments_v1_payments) 3"

definition PaymentSucceededSchema :: "proto_message option" where
  "PaymentSucceededSchema = messageDesc (fileDesc file_payments_v1_payments) 4"

definition PaymentFailedSchema :: "proto_message option" where
  "PaymentFailedSchema = messageDesc (fileDesc file_payments_v1_payments) 5"

definition PaymentsService :: "proto_service option" where
  "PaymentsService = serviceDesc (fileDesc file_payments_v1_payments) 0"

text \<open>The descriptor is the one of the declarations, with the rules on their fields.\<close>

lemmas payments_v1_payments_declared =
  CreatePaymentRequest_message_def CreatePaymentResponse_message_def Payment_message_def PaymentCreated_message_def PaymentSucceeded_message_def PaymentFailed_message_def PaymentsService_methods_def

lemma payments_v1_payments_read:
  "fileDesc file_payments_v1_payments = Some
     \<lparr>pd_package = ''payments.v1'',
      pd_messages =
       [described [] CreatePaymentRequest_message,
        described [] CreatePaymentResponse_message,
        described [] Payment_message,
        described [] PaymentCreated_message,
        described [] PaymentSucceeded_message,
        described [] PaymentFailed_message],
      pd_enums = [], pd_services = [\<lparr>ps_name = tv_name PaymentsService_methods, ps_methods = map snd (tv_methods PaymentsService_methods)\<rparr>]\<rparr>"
  by (simp add: fileDesc_def file_payments_v1_payments_def descriptor_simps decode_simps payments_v1_payments_declared cong: decode_congs)

definition payments_v1_payments_schemas :: "(proto_message option \<times> ts_message) list" where
  "payments_v1_payments_schemas =
    [(CreatePaymentRequestSchema, CreatePaymentRequest_message),
     (CreatePaymentResponseSchema, CreatePaymentResponse_message),
     (PaymentSchema, Payment_message),
     (PaymentCreatedSchema, PaymentCreated_message),
     (PaymentSucceededSchema, PaymentSucceeded_message),
     (PaymentFailedSchema, PaymentFailed_message)]"

lemma payments_v1_payments_agree: "list_all schema_agrees payments_v1_payments_schemas"
  by (simp add: payments_v1_payments_schemas_def schema_agrees_def messageDesc_def part_def payments_v1_payments_read generated_simps decode_simps payments_v1_payments_declared
      CreatePaymentRequestSchema_def CreatePaymentResponseSchema_def PaymentSchema_def PaymentCreatedSchema_def PaymentSucceededSchema_def PaymentFailedSchema_def)

lemma PaymentsService_agrees: "map_option generated_service PaymentsService = Some PaymentsService_methods"
  by (simp add: PaymentsService_def serviceDesc_def part_def payments_v1_payments_read generated_service_def methodName_def lower_def decode_simps PaymentsService_methods_def)

end
