(* ===== verification/Protogen_Common.thy ===== *)
theory Protogen_Common
  imports Proto_Descriptor Public_Errors
begin

text \<open>
  The generated error messages and error codes (protogen/ts/common/v1/error_pb.ts), and the event of expiration
  (protogen/ts/expiration/v1/events_pb.ts).
\<close>

section \<open>The error codes\<close>

definition ErrorCode_enum :: ts_enum where
  "ErrorCode_enum = \<lparr>te_name = ''common.v1.ErrorCode'', te_members =
     map (\<lambda>c. (code_name c, code_number c, ''ERROR_CODE_'' @ code_name c)) enum_class.enum\<rparr>"

section \<open>common/v1/error_pb.ts\<close>

definition Error_message :: ts_message where
  "Error_message = \<lparr>tm_name = ''common.v1.Error'', tm_fields =
     [ts_member ''message'' False TsString Implicit PString ''message'' 1,
      ts_member ''code'' False TsString Implicit PString ''code'' 2,
      ts_member ''field'' True TsString Explicit PString ''field'' 3]\<rparr>"

definition ErrorResponse_message :: ts_message where
  "ErrorResponse_message = \<lparr>tm_name = ''common.v1.ErrorResponse'', tm_fields =
     [ts_member ''errors'' False (TsArray (TsRef ''Error'')) Repeated (PMessage ''common.v1.Error'') ''errors'' 1]\<rparr>"

definition file_common_v1_error :: string where
  "file_common_v1_error =
    ''ChVjb21tb24vdjEvZXJyb3IucHJvdG8SCWNvbW1vbi52MSJECgVFcnJvchIPCgdtZXNzYWdlGAEgASgJEgwKBGNvZGUYAiABKAkSEgoFZmllbGQYAyABKAlIAIgBAUIICgZfZmllbGQiMQoNRXJyb3JSZXNwb25zZRIgCgZlcnJvcnMYASADKAsyEC5jb21tb24udjEuRXJyb3IqpQQKCUVycm9yQ29kZRIaChZFUlJPUl9DT0RFX1VOU1BFQ0lGSUVEEAASHwobRVJST1JfQ09ERV9JTlZBTElEX0FSR1VNRU5UEAESGwoXRVJST1JfQ09ERV9JTlZBTElEX05BTUUQAhIcChhFUlJPUl9DT0RFX0lOVkFMSURfRU1BSUwQAxIfChtFUlJPUl9DT0RFX0lOVkFMSURfUEFTU1dPUkQQBBIcChhFUlJPUl9DT0RFX0lOVkFMSURfVElUTEUQBRIcChhFUlJPUl9DT0RFX0lOVkFMSURfUFJJQ0UQBhIiCh5FUlJPUl9DT0RFX0lOVkFMSURfQ1JFREVOVElBTFMQBxIhCh1FUlJPUl9DT0RFX0VNQUlMX05PVF9WRVJJRklFRBAIEikKJUVSUk9SX0NPREVfSU5WQUxJRF9WRVJJRklDQVRJT05fVE9LRU4QCRIdChlFUlJPUl9DT0RFX0FMUkVBRFlfRVhJU1RTEAoSHgoaRVJST1JfQ09ERV9VTkFVVEhFTlRJQ0FURUQQCxIYChRFUlJPUl9DT0RFX0ZPUkJJRERFThAMEhgKFEVSUk9SX0NPREVfTk9UX0ZPVU5EEA0SGwoXRVJST1JfQ09ERV9SQVRFX0xJTUlURUQQDhIiCh5FUlJPUl9DT0RFX1NFUlZJQ0VfVU5BVkFJTEFCTEUQDxIdChlFUlJPUl9DT0RFX0lOVEVSTkFMX0VSUk9SEBBCNlo0cG9seWdsb3QtdGlja2V0aW5nLXYxL3Byb3RvZ2VuL2dvL2NvbW1vbi92MTtjb21tb252MWIGcHJvdG8z''"

definition ErrorSchema :: "proto_message option" where
  "ErrorSchema = messageDesc (fileDesc file_common_v1_error) 0"

definition ErrorResponseSchema :: "proto_message option" where
  "ErrorResponseSchema = messageDesc (fileDesc file_common_v1_error) 1"

definition ErrorCodeSchema :: "proto_enum option" where
  "ErrorCodeSchema = enumDesc (fileDesc file_common_v1_error) 0"

text \<open>The descriptor is the one of the declarations, with the rules on their fields.\<close>

lemmas common_v1_error_declared =
  Error_message_def ErrorResponse_message_def ErrorCode_enum_def enum_ErrorCode_def

lemma common_v1_error_read:
  "fileDesc file_common_v1_error = Some
     \<lparr>pd_package = ''common.v1'',
      pd_messages =
       [described [] Error_message,
        described [] ErrorResponse_message],
      pd_enums = [described_enum ErrorCode_enum], pd_services = []\<rparr>"
  by (simp add: fileDesc_def file_common_v1_error_def descriptor_simps decode_simps common_v1_error_declared cong: decode_congs)

definition common_v1_error_schemas :: "(proto_message option \<times> ts_message) list" where
  "common_v1_error_schemas =
    [(ErrorSchema, Error_message),
     (ErrorResponseSchema, ErrorResponse_message)]"

lemma common_v1_error_agree: "list_all schema_agrees common_v1_error_schemas"
  by (simp add: common_v1_error_schemas_def schema_agrees_def messageDesc_def part_def common_v1_error_read generated_simps decode_simps common_v1_error_declared
      ErrorSchema_def ErrorResponseSchema_def)

lemma ErrorCode_agrees: "map_option generated_enum ErrorCodeSchema = Some ErrorCode_enum"
  by (simp add: ErrorCodeSchema_def enumDesc_def part_def common_v1_error_read generated_enum_def described_enum_def localName_def
      sharedPrefix_def upper_def lower_def decode_simps common_v1_error_declared)

section \<open>expiration/v1/events_pb.ts\<close>

definition ExpirationComplete_message :: ts_message where
  "ExpirationComplete_message = \<lparr>tm_name = ''expiration.v1.ExpirationComplete'', tm_fields =
     [ts_member ''eventId'' False TsString Implicit PString ''event_id'' 1,
      ts_member ''occurredAt'' True (TsRef ''Timestamp'') Implicit (PMessage ''google.protobuf.Timestamp'') ''occurred_at'' 2,
      ts_member ''orderId'' False TsString Implicit PString ''order_id'' 3]\<rparr>"

definition file_expiration_v1_events :: string where
  "file_expiration_v1_events =
    ''ChpleHBpcmF0aW9uL3YxL2V2ZW50cy5wcm90bxINZXhwaXJhdGlvbi52MSJpChJFeHBpcmF0aW9uQ29tcGxldGUSEAoIZXZlbnRfaWQYASABKAkSLwoLb2NjdXJyZWRfYXQYAiABKAsyGi5nb29nbGUucHJvdG9idWYuVGltZXN0YW1wEhAKCG9yZGVyX2lkGAMgASgJQj5aPHBvbHlnbG90LXRpY2tldGluZy12MS9wcm90b2dlbi9nby9leHBpcmF0aW9uL3YxO2V4cGlyYXRpb252MWIGcHJvdG8z''"

definition ExpirationCompleteSchema :: "proto_message option" where
  "ExpirationCompleteSchema = messageDesc (fileDesc file_expiration_v1_events) 0"

text \<open>The descriptor is the one of the declarations, with the rules on their fields.\<close>

lemmas expiration_v1_events_declared =
  ExpirationComplete_message_def

lemma expiration_v1_events_read:
  "fileDesc file_expiration_v1_events = Some
     \<lparr>pd_package = ''expiration.v1'',
      pd_messages =
       [described [] ExpirationComplete_message],
      pd_enums = [], pd_services = []\<rparr>"
  by (simp add: fileDesc_def file_expiration_v1_events_def descriptor_simps decode_simps expiration_v1_events_declared cong: decode_congs)

definition expiration_v1_events_schemas :: "(proto_message option \<times> ts_message) list" where
  "expiration_v1_events_schemas =
    [(ExpirationCompleteSchema, ExpirationComplete_message)]"

lemma expiration_v1_events_agree: "list_all schema_agrees expiration_v1_events_schemas"
  by (simp add: expiration_v1_events_schemas_def schema_agrees_def messageDesc_def part_def expiration_v1_events_read generated_simps decode_simps expiration_v1_events_declared
      ExpirationCompleteSchema_def)

end
