(* ===== verification/Protogen.thy ===== *)
theory Protogen
  imports Protogen_Identity Protogen_Tickets Protogen_Orders Protogen_Payments Protogen_Common
begin

text \<open>
  All generated Protobuf code of the services (src/protogen/ts without the vendored buf/validate): every schema with its
  declaration. That they agree is shown file by file.
\<close>

definition all_schemas :: "(proto_message option \<times> ts_message) list" where
  "all_schemas =
     identity_v1_identity_schemas @ tickets_v1_tickets_schemas @ tickets_v1_events_schemas @ orders_v1_orders_schemas @
     orders_v1_events_schemas @ payments_v1_payments_schemas @ common_v1_error_schemas @ expiration_v1_events_schemas"

text \<open>The error codes that the services compute with are the values of the embedded descriptor.\<close>

lemma ErrorCode_values:
  "map_option pe_values ErrorCodeSchema =
     Some (map (\<lambda>c. (''ERROR_CODE_'' @ code_name c, code_number c)) enum_class.enum)"
  by (simp add: ErrorCodeSchema_def enumDesc_def part_def common_v1_error_read described_enum_def ErrorCode_enum_def comp_def)

end
