(* ===== verification/Gateway_App.thy ===== *)
theory Gateway_App
  imports Gateway_Trading
begin

text \<open>
  The gateway as one application: its start-up configuration (app/app.bootstrap.ts), the routes of
  its controllers, its request metrics (observability/prometheus.ts, main.ts), and what holds of
  every route.
\<close>

section \<open>Configuration\<close>

record pipe_options =
  po_exceptionFactory :: "ValidationError list \<Rightarrow> thrown"
  po_forbidNonWhitelisted :: bool
  po_stopAtFirstError :: bool
  po_transform :: bool
  po_whitelist :: bool

record app_config =
  ac_globalPrefix :: string
  ac_cors_credentials :: bool
  ac_cors_origin :: string
  ac_filter :: "thrown \<Rightarrow> jsnum \<times> jsval list"
  ac_pipe :: pipe_options

text \<open>\<open>process.env.NAME ?? default\<close>.\<close>

definition env_or :: "(string \<Rightarrow> string option) \<Rightarrow> string \<Rightarrow> string \<Rightarrow> string" where
  "env_or env name dflt = (case env name of None \<Rightarrow> dflt | Some v \<Rightarrow> v)"

definition createApiGatewayApplication :: "(string \<Rightarrow> string option) \<Rightarrow> app_config" where
  "createApiGatewayApplication env =
     \<lparr>ac_globalPrefix = ''api'',
      ac_cors_credentials = True,
      ac_cors_origin = env_or env ''TICKETING_USER_APP_ORIGIN'' ''http://localhost:3001'',
      ac_filter = api_error_filter_catch,
      ac_pipe =
        \<lparr>po_exceptionFactory = createValidationApiError, po_forbidNonWhitelisted = True,
         po_stopAtFirstError = True, po_transform = True, po_whitelist = True\<rparr>\<rparr>"

text \<open>The gRPC clients the modules register: name, package, proto file and address.\<close>

record grpc_client =
  gc_name :: string
  gc_package :: string
  gc_protoPath :: string
  gc_includeDirs :: "string list"
  gc_numbers :: "string list"
  gc_url :: string

definition IDENTITY_GRPC_CLIENT :: string where "IDENTITY_GRPC_CLIENT = ''IDENTITY_GRPC_CLIENT''"

definition TICKETS_GRPC_CLIENT :: string where "TICKETS_GRPC_CLIENT = ''TICKETS_GRPC_CLIENT''"

definition ORDERS_GRPC_CLIENT :: string where "ORDERS_GRPC_CLIENT = ''ORDERS_GRPC_CLIENT''"

definition PAYMENTS_GRPC_CLIENT :: string where "PAYMENTS_GRPC_CLIENT = ''PAYMENTS_GRPC_CLIENT''"

text \<open>The loader options that ask for JavaScript numbers.\<close>

definition TICKETS_GRPC_LOADER_OPTIONS :: "string list" where
  "TICKETS_GRPC_LOADER_OPTIONS = [''longs'']"

definition ORDERS_GRPC_LOADER_OPTIONS :: "string list" where
  "ORDERS_GRPC_LOADER_OPTIONS = [''enums'', ''longs'']"

definition PAYMENTS_GRPC_LOADER_OPTIONS :: "string list" where
  "PAYMENTS_GRPC_LOADER_OPTIONS = [''enums'', ''longs'']"

text \<open>The working directory is an argument: \<open>join(process.cwd(), p)\<close> for a plain relative \<open>p\<close>.\<close>

definition under :: "string \<Rightarrow> string \<Rightarrow> string" where
  "under cwd p = cwd @ ''/'' @ p"

definition IdentityModule_client :: "(string \<Rightarrow> string option) \<Rightarrow> string \<Rightarrow> grpc_client" where
  "IdentityModule_client env cwd =
     \<lparr>gc_name = IDENTITY_GRPC_CLIENT, gc_package = ''identity.v1'',
      gc_protoPath = under cwd ''proto/identity/v1/identity.proto'',
      gc_includeDirs = [under cwd ''proto'', under cwd ''proto-deps''], gc_numbers = [],
      gc_url = env_or env ''IDENTITY_GRPC_URL'' ''localhost:50051''\<rparr>"

definition TicketsModule_client :: "(string \<Rightarrow> string option) \<Rightarrow> string \<Rightarrow> grpc_client" where
  "TicketsModule_client env cwd =
     \<lparr>gc_name = TICKETS_GRPC_CLIENT, gc_package = ''tickets.v1'',
      gc_protoPath = under cwd ''proto/tickets/v1/tickets.proto'',
      gc_includeDirs = [under cwd ''proto''], gc_numbers = TICKETS_GRPC_LOADER_OPTIONS,
      gc_url = env_or env ''TICKETS_GRPC_URL'' ''localhost:50052''\<rparr>"

definition OrdersModule_client :: "(string \<Rightarrow> string option) \<Rightarrow> string \<Rightarrow> grpc_client" where
  "OrdersModule_client env cwd =
     \<lparr>gc_name = ORDERS_GRPC_CLIENT, gc_package = ''orders.v1'',
      gc_protoPath = under cwd ''proto/orders/v1/orders.proto'',
      gc_includeDirs = [under cwd ''proto''], gc_numbers = ORDERS_GRPC_LOADER_OPTIONS,
      gc_url = env_or env ''ORDERS_GRPC_URL'' ''localhost:50053''\<rparr>"

definition PaymentsModule_client :: "(string \<Rightarrow> string option) \<Rightarrow> string \<Rightarrow> grpc_client" where
  "PaymentsModule_client env cwd =
     \<lparr>gc_name = PAYMENTS_GRPC_CLIENT, gc_package = ''payments.v1'',
      gc_protoPath = under cwd ''proto/payments/v1/payments.proto'',
      gc_includeDirs = [under cwd ''proto''], gc_numbers = PAYMENTS_GRPC_LOADER_OPTIONS,
      gc_url = env_or env ''PAYMENTS_GRPC_URL'' ''localhost:50054''\<rparr>"

section \<open>Routes\<close>

datatype route =
    SignUp jsval
  | SignIn jsval
  | SignOut
  | GetCurrentUser
  | VerifyEmail jsval
  | ListTickets
  | GetTicket string
  | UpdateTicket string jsval
  | CreateTicket jsval
  | CreateOrder jsval
  | CancelOrder string
  | ListOrders
  | GetOrder string
  | CreatePayment jsval

text \<open>A handler without its value.\<close>

definition done_with :: "'a gateway \<Rightarrow> unit gateway" where
  "done_with m = io_bind m (\<lambda>_. io_return ())"

fun run_route :: "gateway_env \<Rightarrow> headers \<Rightarrow> route \<Rightarrow> unit gateway" where
  "run_route E hs (SignUp body) = done_with (AuthController_signUp E body)"
| "run_route E hs (SignIn body) = done_with (AuthController_signIn E body hs)"
| "run_route E hs SignOut = done_with (AuthController_signOut E hs)"
| "run_route E hs GetCurrentUser = done_with (AuthController_currentUser E hs)"
| "run_route E hs (VerifyEmail query) = done_with (AuthController_verifyEmail E query)"
| "run_route E hs ListTickets = done_with (TicketsController_listTickets E)"
| "run_route E hs (GetTicket i) = done_with (TicketsController_getTicket E i)"
| "run_route E hs (UpdateTicket i body) =
     done_with (TicketsController_updateTicket E \<lparr>req_headers = hs, req_user = None\<rparr> i body)"
| "run_route E hs (CreateTicket body) =
     done_with (TicketsController_createTicket E \<lparr>req_headers = hs, req_user = None\<rparr> body)"
| "run_route E hs (CreateOrder body) =
     done_with (OrdersController_createOrder E \<lparr>req_headers = hs, req_user = None\<rparr> body)"
| "run_route E hs (CancelOrder i) =
     done_with (OrdersController_cancelOrder E \<lparr>req_headers = hs, req_user = None\<rparr> i)"
| "run_route E hs ListOrders =
     done_with (OrdersController_listOrders E \<lparr>req_headers = hs, req_user = None\<rparr>)"
| "run_route E hs (GetOrder i) =
     done_with (OrdersController_getOrder E \<lparr>req_headers = hs, req_user = None\<rparr> i)"
| "run_route E hs (CreatePayment body) =
     done_with (PaymentsController_createPayment E \<lparr>req_headers = hs, req_user = None\<rparr> body)"

section \<open>Metrics\<close>

datatype TrafficSource = K6 | Other

text \<open>\<open>timingSafeEqual\<close> of Node: byte equality, and an error for buffers of unequal length.\<close>

definition timingSafeEqual :: "nat list \<Rightarrow> nat list \<Rightarrow> thrown + bool" where
  "timingSafeEqual a b =
     (if length a \<noteq> length b
      then Inl (new_error RangeError ''Input buffers must have the same byte length'')
      else Inr (a = b))"

definition trafficSourceFor :: "header option \<Rightarrow> string \<Rightarrow> thrown + TrafficSource" where
  "trafficSourceFor suppliedToken configuredToken =
     (if configuredToken = [] then Inr Other
      else case suppliedToken of
             Some (HStr token) \<Rightarrow>
               (let supplied = utf8 token; configured = utf8 configuredToken
                in if length supplied \<noteq> length configured then Inr Other
                   else (case timingSafeEqual supplied configured of
                           Inl e \<Rightarrow> Inl e | Inr same \<Rightarrow> Inr (if same then K6 else Other)))
           | _ \<Rightarrow> Inr Other)"

record metric_labels =
  ml_method :: string
  ml_route :: string
  ml_status :: string
  ml_traffic_source :: TrafficSource

record gateway_metrics =
  gm_requests :: "metric_labels \<Rightarrow> nat"
  gm_duration :: "metric_labels \<Rightarrow> jsnum list"

definition observeRequest ::
    "gateway_metrics \<Rightarrow> string \<Rightarrow> string \<Rightarrow> nat \<Rightarrow> jsnum \<Rightarrow> TrafficSource \<Rightarrow> gateway_metrics" where
  "observeRequest metrics req_method req_route status durationSeconds trafficSource =
     (let labels = \<lparr>ml_method = req_method, ml_route = req_route, ml_status = show_nat status,
                    ml_traffic_source = trafficSource\<rparr>
      in metrics
           \<lparr>gm_requests := (gm_requests metrics)(labels := gm_requests metrics labels + 1),
            gm_duration := (gm_duration metrics)(labels := gm_duration metrics labels @ [durationSeconds])\<rparr>)"

text \<open>The listener that main.ts installs for the end of a response.\<close>

definition on_finish ::
    "string \<Rightarrow> gateway_metrics \<Rightarrow> string \<Rightarrow> jsval \<Rightarrow> nat \<Rightarrow> jsnum \<Rightarrow> headers \<Rightarrow> thrown + gateway_metrics" where
  "on_finish loadTestMetricsToken metrics req_method route_path statusCode elapsed hs =
     (let req_route = (if is_string route_path then str_of route_path else ''unmatched'')
      in case trafficSourceFor (hs ''x-ticketing-load-test-token'') loadTestMetricsToken of
           Inl e \<Rightarrow> Inl e
         | Inr source \<Rightarrow>
             Inr (observeRequest metrics req_method req_route statusCode (js_div_pos elapsed 1000) source))"

text \<open>The metrics server: the status and body of its answer, the body being the registry's text.\<close>

definition metrics_server :: "string \<Rightarrow> string \<Rightarrow> string \<Rightarrow> int \<times> string option \<times> string" where
  "metrics_server url contentType registry_text =
     (if url \<noteq> ''/metrics'' then (404, None, []) else (200, Some contentType, registry_text))"

section \<open>Failures of a route\<close>

text \<open>An error whose public response is an error body of the contract, masked from 500 on.\<close>

definition public_failure :: "thrown \<Rightarrow> bool" where
  "public_failure e \<longleftrightarrow>
     (\<exists>s items. api_error_filter_catch e = (num s, items) \<and> s \<in> public_statuses \<and> items \<noteq> [] \<and>
        list_all isErrorItem items \<and> (500 \<le> s \<longrightarrow> items = masked_body s))"

fun not_http :: "thrown \<Rightarrow> bool" where
  "not_http (HttpException _ _) = False"
| "not_http _ = True"

lemma public_failure_api: "api_failure e \<Longrightarrow> public_failure e"
proof -
  assume "api_failure e"
  then obtain s es where e: "e = ApiError s es" "es \<noteq> []" "list_all isErrorItem es"
    and s: "s \<in> public_statuses" by (auto simp: api_failure_def)
  show ?thesis
  proof (cases "s < 500")
    case True
    with e s filter_ApiError [OF e(2,3) True] show ?thesis
      by (auto simp: public_failure_def list_all_iff intro!: exI [of _ s])
  next
    case False
    with e s filter_masked [of s es] masked_body_items [of s] show ?thesis
      by (auto simp: public_failure_def intro!: exI [of _ s])
  qed
qed

lemma public_failure_not_http: "not_http e \<Longrightarrow> public_failure e"
  using masked_body_items [of 500]
  by (cases e) (auto simp: public_failure_def filter_other_error public_statuses_def intro!: exI [of _ 500])

lemma public_failure_validation: "public_failure (createValidationApiError es)"
proof (cases "es = []")
  case True
  have "api_error_filter_catch (createValidationApiError []) =
      (num 400, [message_item ''Request failed.'' (public_code INVALID_ARGUMENT)])"
    by (simp add: createValidationApiError_def ApiError_def api_error_filter_catch_def getHttpStatus_def
        getErrorResponse_def getStructuredResponse_def getMessages_def getCodeForStatus_def Let_def
        del: code_number.simps)
  with True show ?thesis by (auto simp: public_failure_def public_statuses_def intro!: exI [of _ 400])
next
  case False
  then show ?thesis
    by (intro public_failure_api)
      (auto simp: api_failure_def createValidationApiError_def public_statuses_def list_all_iff
        intro!: exI [of _ 400] exI [of _ "map (\<lambda>e. item_val (toErrorItem e)) es"])
qed

definition fails_public :: "'a gateway \<Rightarrow> bool" where
  "fails_public m \<longleftrightarrow> (\<forall>h e h'. m h = (Inl e, h') \<longrightarrow> public_failure e)"

lemma fails_public_bind:
  "fails_public m \<Longrightarrow> (\<And>x. fails_public (f x)) \<Longrightarrow> fails_public (io_bind m f)"
  unfolding fails_public_def io_bind_def by (auto split: prod.splits sum.splits)

lemma fails_public_return: "fails_public (io_return x)"
  by (simp add: fails_public_def io_return_def)

lemma fails_public_of_result: "(\<And>e. r = Inl e \<Longrightarrow> not_http e) \<Longrightarrow> fails_public (io_of_result r)"
  by (auto simp: fails_public_def io_of_result_def intro: public_failure_not_http)

lemma fails_public_call: "(\<And>h e. f h = Inl e \<Longrightarrow> not_http e) \<Longrightarrow> fails_public (io_call c f)"
  by (auto simp: fails_public_def io_call_def intro: public_failure_not_http)

lemma fails_public_service:
  "fails_public (AuthService_signUp E r)" "fails_public (AuthService_signIn E r hs)"
  "fails_public (AuthService_signOut E hs)" "fails_public (AuthService_currentUser E hs)"
  "fails_public (AuthService_verifyEmail E r)"
  "fails_public (TicketsService_createTicket E r u)" "fails_public (TicketsService_updateTicket E i r u)"
  "fails_public (TicketsService_getTicket E i)" "fails_public (TicketsService_listTickets E)"
  "fails_public (OrdersService_createOrder E v u)" "fails_public (OrdersService_cancelOrder E i u)"
  "fails_public (OrdersService_getOrder E i u)" "fails_public (OrdersService_listOrders E u)"
  "fails_public (PaymentsService_createPayment E v u)"
  by (auto simp: fails_public_def intro: public_failure_api AuthService_failure service_failure)

lemma fails_public_validated: "fails_public (validated E rules v)"
  by (auto simp: fails_public_def validated_def io_throw_def io_return_def
      intro: public_failure_validation split: sum.splits)

lemma fails_public_guarded:
  "(\<And>u. fails_public (k (r\<lparr>req_user := Some u\<rparr>))) \<Longrightarrow> fails_public (guarded E r k)"
  unfolding fails_public_def
  by (auto simp: guarded_eq intro: public_failure_api split: sum.splits)

lemma not_http_member: "member v k = Inl e \<Longrightarrow> not_http e"
  by (auto simp: member_def new_error_def split: if_splits)

lemma not_http_toDate: "toDate ts = Inl e \<Longrightarrow> not_http e"
  by (auto simp: toDate_def deref_def new_error_def split: option.splits)

lemma not_http_toISOString: "toISOString d = Inl e \<Longrightarrow> not_http e"
  by (simp add: toISOString_Inl new_error_def)

lemmas fails_public_rules =
  fails_public_bind fails_public_return fails_public_of_result fails_public_call
  fails_public_service fails_public_validated fails_public_guarded

text \<open>What Express documents of \<open>res.cookie\<close>: it throws \<open>TypeError\<close>s, never an HTTP exception.\<close>

definition cookie_errors_plain :: "gateway_env \<Rightarrow> bool" where
  "cookie_errors_plain E \<longleftrightarrow> (\<forall>n v opts h e. response_cookie E n v opts h = Inl e \<longrightarrow> not_http e)"

lemma fails_public_set_cookie: "cookie_errors_plain E \<Longrightarrow> fails_public (set_cookie E n v opts)"
  unfolding set_cookie_def cookie_errors_plain_def by (rule fails_public_call) auto

lemma fails_public_route: "cookie_errors_plain E \<Longrightarrow> fails_public (run_route E hs r)"
  by (cases r)
    (auto simp: done_with_def AuthController_signUp_def AuthController_signIn_def
      AuthController_signOut_def AuthController_currentUser_def AuthController_verifyEmail_def
      TicketsController_listTickets_def TicketsController_getTicket_def
      TicketsController_updateTicket_def TicketsController_createTicket_def
      OrdersController_createOrder_def OrdersController_cancelOrder_def OrdersController_listOrders_def
      OrdersController_getOrder_def PaymentsController_createPayment_def set_status_def
      intro!: fails_public_rules fails_public_set_cookie
      intro: not_http_member not_http_toDate not_http_toISOString)

section \<open>Guarded routes\<close>

fun is_guarded :: "route \<Rightarrow> bool" where
  "is_guarded (UpdateTicket _ _) = True"
| "is_guarded (CreateTicket _) = True"
| "is_guarded (CreateOrder _) = True"
| "is_guarded (CancelOrder _) = True"
| "is_guarded ListOrders = True"
| "is_guarded (GetOrder _) = True"
| "is_guarded (CreatePayment _) = True"
| "is_guarded _ = False"

lemma io_emits_validated: "io_emits P (validated E rules v)"
  by (auto simp: validated_def io_emits_throw io_emits_return split: sum.split)

lemma done_with_snd: "snd (done_with m h) = snd (m h)"
  by (auto simp: done_with_def io_bind_def io_return_def split: prod.split sum.split)

lemma service_acts_for:
  "io_emits (acts_for u) (TicketsService_createTicket E r u)"
  "io_emits (acts_for u) (TicketsService_updateTicket E i r u)"
  "io_emits (acts_for u) (OrdersService_createOrder E v u)"
  "io_emits (acts_for u) (OrdersService_cancelOrder E i u)"
  "io_emits (acts_for u) (OrdersService_getOrder E i u)"
  "io_emits (acts_for u) (OrdersService_listOrders E u)"
  "io_emits (acts_for u) (PaymentsService_createPayment E v u)"
  by (rule io_emits_mono [OF service_emits(1)] io_emits_mono [OF service_emits(2)]
      io_emits_mono [OF service_emits(5)] io_emits_mono [OF service_emits(6)]
      io_emits_mono [OF service_emits(7)] io_emits_mono [OF service_emits(8)]
      io_emits_mono [OF service_emits(9)], simp)+

lemma set_status_acts: "io_emits (acts_for u) (set_status s)"
  by (simp add: set_status_def acts_for_def io_emits_call)

section \<open>Validated bodies\<close>

text \<open>
  What class-validator documents of the decorators the DTOs use, on a property's value; the two
  pattern checks, of addresses and of UUIDs, are arguments.
\<close>

fun rule_holds :: "(jsval \<Rightarrow> bool) \<Rightarrow> (string \<Rightarrow> jsval \<Rightarrow> bool) \<Rightarrow> rule \<Rightarrow> jsval \<Rightarrow> bool" where
  "rule_holds email uuid (IsString _) v = is_string v"
| "rule_holds email uuid (IsNotEmpty _) v = (v \<noteq> JStr [] \<and> v \<noteq> JNull \<and> v \<noteq> JUndef)"
| "rule_holds email uuid (IsEmail _) v = email v"
| "rule_holds email uuid (Length a b _) v = (is_string v \<and> a \<le> length (str_of v) \<and> length (str_of v) \<le> b)"
| "rule_holds email uuid (IsInt _) v = (is_number v \<and> js_isInteger (num_of v))"
| "rule_holds email uuid (Min m _) v = (is_number v \<and> js_less_eq (num m) (num_of v))"
| "rule_holds email uuid (Max m _) v = (is_number v \<and> js_less_eq (num_of v) (num m))"
| "rule_holds email uuid (IsUUID version _) v = uuid version v"

definition enforces_rules :: "(jsval \<Rightarrow> bool) \<Rightarrow> (string \<Rightarrow> jsval \<Rightarrow> bool) \<Rightarrow> gateway_env \<Rightarrow> bool" where
  "enforces_rules email uuid E \<longleftrightarrow>
     (\<forall>rules v dto. validate_body E rules v = Inr dto \<longrightarrow>
        (\<exists>kvs. dto = JObj kvs) \<and>
        (\<forall>(p, rs) \<in> set rules. \<forall>r \<in> set rs. rule_holds email uuid r (get_prop dto p)))"

text \<open>A ticket body as the tickets service may see it.\<close>

definition valid_ticket_body :: "jsval \<Rightarrow> bool" where
  "valid_ticket_body v \<longleftrightarrow>
     (\<exists>title price. get_prop v ''title'' = JStr title \<and> title \<noteq> [] \<and>
        get_prop v ''price'' = JNum (num price) \<and> 1 \<le> price \<and> price \<le> MAX_TICKET_PRICE)"

lemma integer_in_range:
  assumes "is_number v" "js_isInteger (num_of v)"
    "js_less_eq (num a) (num_of v)" "js_less_eq (num_of v) (num b)"
  shows "\<exists>i. v = JNum (num i) \<and> a \<le> i \<and> i \<le> b"
proof -
  from assms(1,2) obtain x where v: "v = JNum (Fin x)" and x: "of_int \<lfloor>x\<rfloor> = x"
    by (auto simp: is_number_iff js_isInteger_def split: jsnum.splits)
  from assms(3,4) v have "of_int a \<le> x" "x \<le> of_int b"
    by (auto simp: js_less_eq_def js_num_eq_def)
  with x have "a \<le> \<lfloor>x\<rfloor>" "\<lfloor>x\<rfloor> \<le> b" by (simp add: le_floor_iff, linarith)
  with v x show ?thesis by metis
qed

lemma valid_ticket_dto:
  assumes "enforces_rules email uuid E" and "validate_body E CreateTicketDto v = Inr dto"
  shows "valid_ticket_body dto"
proof -
  from assms have "\<forall>(p, rs) \<in> set CreateTicketDto. \<forall>r \<in> set rs. rule_holds email uuid r (get_prop dto p)"
    unfolding enforces_rules_def by blast
  then have rules:
    "is_string (get_prop dto ''title'')" "get_prop dto ''title'' \<noteq> JStr []"
    "is_number (get_prop dto ''price'')" "js_isInteger (num_of (get_prop dto ''price''))"
    "js_less_eq (num 1) (num_of (get_prop dto ''price''))"
    "js_less_eq (num_of (get_prop dto ''price'')) (num MAX_TICKET_PRICE)"
    by (simp_all add: CreateTicketDto_def)
  note rules(1,2)
  moreover from rules(3-6) have
    "\<exists>i. get_prop dto ''price'' = JNum (num i) \<and> 1 \<le> i \<and> i \<le> MAX_TICKET_PRICE"
    by (rule integer_in_range)
  ultimately show ?thesis by (auto simp: valid_ticket_body_def is_string_iff)
qed

lemma valid_ticket_body_userId:
  "valid_ticket_body (JObj kvs) \<Longrightarrow> k \<noteq> ''title'' \<Longrightarrow> k \<noteq> ''price'' \<Longrightarrow> valid_ticket_body (JObj (obj_set kvs k v))"
  by (simp add: valid_ticket_body_def map_of_obj_set)

section \<open>A sample environment\<close>

text \<open>
  Concrete answers of the outside world, on which the properties with hypotheses are applied: identity knows
  one session, the validator enforces the rules, the tickets service cannot list.
\<close>

definition sample_validate :: "dto_rules \<Rightarrow> jsval \<Rightarrow> ValidationError list + jsval" where
  "sample_validate rules v =
     (case v of
        JObj kvs \<Rightarrow>
          if \<forall>(p, rs) \<in> set rules. \<forall>r \<in> set rs. rule_holds is_string (\<lambda>_. is_string) r (get_prop v p)
          then Inr v else Inl [\<lparr>property = ''body'', constraints = None\<rparr>]
      | _ \<Rightarrow> Inl [\<lparr>property = ''body'', constraints = None\<rparr>])"

definition sample_session :: metadata where
  "sample_session = [(''cookie'', ''better-auth.session_token=t1'')]"

definition sample_failure :: thrown where
  "sample_failure = new_error PlainError ''connect ECONNREFUSED''"

definition sample_order :: OrderGrpcResponse where
  "sample_order =
     \<lparr>og_expiresAt = Some \<lparr>ts_seconds = Some (SecNumber (num 1700000000)), ts_nanos = None\<rparr>,
      og_id = ''o1'', og_status = Some 1, og_ticketId = ''t1'', og_userId = ''u1''\<rparr>"

definition sample_env :: gateway_env where
  "sample_env =
     \<lparr>grpc_signUp = (\<lambda>_ _. Inl sample_failure),
      grpc_signIn = (\<lambda>_ _ _. Inr \<lparr>isr_userId = ''u1'', isr_name = ''Ada'', isr_email = ''a@b.c'',
        isr_emailVerified = True, isr_sessionToken = ''t1'',
        isr_sessionExpiresAt = Some \<lparr>ts_seconds = Some (SecNumber (num 1700000000)),
          ts_nanos = Some (num 0)\<rparr>\<rparr>),
      grpc_signOut = (\<lambda>_ _ _. Inr ()),
      grpc_currentUser = (\<lambda>_ md _.
        if md = sample_session
        then Inr \<lparr>icu_userId = ''u1'', icu_name = ''Ada'', icu_email = ''a@b.c'', icu_emailVerified = True\<rparr>
        else Inl sample_failure),
      grpc_verifyEmail = (\<lambda>_ _. Inr \<lparr>ver_verified = True\<rparr>),
      grpc_createTicket = (\<lambda>_ _. Inr \<lparr>tk_id = ''k1'', tk_title = ''Show'', tk_price = num 20, tk_userId = ''u1''\<rparr>),
      grpc_updateTicket = (\<lambda>_ _. Inr \<lparr>tr_ticket = None\<rparr>),
      grpc_getTicket = (\<lambda>_ _. Inr \<lparr>tr_ticket = None\<rparr>),
      grpc_listTickets = (\<lambda>_ _. Inl sample_failure),
      grpc_cancelOrder = (\<lambda>_ _. Inr \<lparr>om_order = None\<rparr>),
      grpc_createOrder = (\<lambda>_ _. Inl sample_failure),
      grpc_getOrder = (\<lambda>_ _. Inr \<lparr>om_order = Some sample_order\<rparr>),
      grpc_listOrders = (\<lambda>_ _. Inr \<lparr>log_orders = None\<rparr>),
      grpc_createPayment = (\<lambda>_ _. Inl sample_failure),
      response_cookie = (\<lambda>_ _ _ _. Inr ()),
      refuse_metadata = (\<lambda>_ _. None),
      validate_body = sample_validate,
      process_env = (\<lambda>_. None)\<rparr>"

definition sample_headers :: headers where
  "sample_headers n =
     (if n = ''cookie'' then Some (HStr ''theme=dark; better-auth.session_token=t1'') else None)"

definition sample_ticket :: jsval where
  "sample_ticket =
     JObj [(''title'', JStr ''Show''), (''price'', JNum (num 20)), (''userId'', JStr ''intruder'')]"

lemma sample_enforces: "enforces_rules is_string (\<lambda>_. is_string) sample_env"
  by (auto simp: enforces_rules_def sample_env_def sample_validate_def split: jsval.splits if_splits)

lemma sample_cookie: "cookie_errors_plain sample_env"
  by (simp add: cookie_errors_plain_def sample_env_def)

lemma sample_metadata: "createSessionRequestMetadata (refuse_metadata sample_env) sample_headers = Inr sample_session"
  by code_simp

lemma sample_lookup:
  "session_lookup sample_env sample_headers = [IdentityCurrentUser (JObj []) sample_session]"
  by (simp add: session_lookup_def sample_metadata)

lemma sample_user:
  "session_user sample_env sample_headers h =
     Inr \<lparr>user_id = ''u1'', user_name = ''Ada'', user_email = ''a@b.c'', user_emailVerified = True\<rparr>"
  by (simp add: session_user_def sample_metadata) (simp add: sample_env_def toCurrentUserResponse_def)

section \<open>Properties\<close>

text \<open>
  C6: Every failure of every route reaches the client as an error body of the contract: a
  status among 400, 401, 403, 404, 409, 429, 500 and 503, at least one item, every item well formed, and
  from 500 on a body that depends on the status alone, so nothing a backend said in a server error
  leaves the gateway.
\<close>

theorem route_failure_public:
  assumes "cookie_errors_plain E"
    and "respond (run_route E hs r) h = (Inl (status, items), h')"
  shows "\<exists>s \<in> public_statuses. status = num s \<and> items \<noteq> [] \<and> list_all isErrorItem items \<and>
    (500 \<le> s \<longrightarrow> items = masked_body s)"
proof -
  from assms(2) obtain e where "run_route E hs r h = (Inl e, h')"
    and out: "api_error_filter_catch e = (status, items)"
    by (auto simp: respond_def split: prod.splits sum.splits)
  with fails_public_route [OF assms(1)] have "public_failure e" unfolding fails_public_def by blast
  with out show ?thesis by (auto simp: public_failure_def)
qed

theorem route_failure_public_witness:
  "respond (run_route sample_env sample_headers ListTickets) [] =
     (Inl (num 503, masked_body 503), [TicketsList (JObj [])]) \<and>
   (\<exists>s \<in> public_statuses. num 503 = num s \<and> masked_body 503 \<noteq> [] \<and>
      list_all isErrorItem (masked_body 503) \<and> (500 \<le> s \<longrightarrow> masked_body 503 = masked_body s))"
proof -
  have eq: "respond (run_route sample_env sample_headers ListTickets) [] =
     (Inl (num 503, masked_body 503), [TicketsList (JObj [])])"
    by (simp add: respond_def done_with_def TicketsController_listTickets_def
        TicketsService_listTickets_def try_grpc_def io_simps sample_env_def sample_failure_def
        throwGatewayGrpcError_def isGrpcStatusError_def new_error_def filter_masked Let_def)
  from route_failure_public [OF sample_cookie eq] eq show ?thesis by blast
qed

text \<open>
  C3: A guarded route (changing tickets, every order route, payments) first looks the session up
  with identity. Without a session that identity accepts it makes no other call. With one, every
  request it sends to a backend carries the id of that session's user, whatever the body of the request says.
\<close>

theorem guarded_route_calls:
  assumes "is_guarded r"
  shows "\<exists>t. snd (run_route E hs r h) = h @ session_lookup E hs @ t \<and>
    (case session_user E hs h of Inl _ \<Rightarrow> t = [] | Inr u \<Rightarrow> list_all (acts_for (user_id u)) t)"
proof -
  have gen: "\<exists>t. snd (done_with (guarded E \<lparr>req_headers = hs, req_user = None\<rparr> k) h) =
      h @ session_lookup E hs @ t \<and>
      (case session_user E hs h of Inl _ \<Rightarrow> t = [] | Inr u \<Rightarrow> list_all (acts_for (user_id u)) t)"
    if "\<And>u. io_emits (acts_for (user_id u)) (k (\<lparr>req_headers = hs, req_user = None\<rparr>\<lparr>req_user := Some u\<rparr>))"
    for k :: "AuthenticatedRequest \<Rightarrow> 'x gateway"
    using guarded_calls [of "\<lambda>u. acts_for (user_id u)", OF that, of E h]
    by (simp add: done_with_snd)
  note defs = TicketsController_updateTicket_def TicketsController_createTicket_def
    OrdersController_createOrder_def OrdersController_cancelOrder_def OrdersController_listOrders_def
    OrdersController_getOrder_def PaymentsController_createPayment_def
  note rules = io_emits_bind io_emits_validated io_emits_of_result io_emits_return
    service_acts_for set_status_acts
  from assms show ?thesis
    by (cases r; simp add: defs) (rule gen; simp; intro rules)+
qed

theorem guarded_route_calls_witness:
  "is_guarded ListOrders \<and>
   (\<exists>t. snd (run_route sample_env sample_headers ListOrders []) =
      [IdentityCurrentUser (JObj []) sample_session] @ t \<and> list_all (acts_for ''u1'') t)"
  using guarded_route_calls [of ListOrders sample_env sample_headers "[]"]
  by (simp add: sample_lookup sample_user del: run_route.simps)

text \<open>
  C16: With a validator that enforces the declared rules, every ticket the gateway asks the tickets
  service to create has a non-empty title, an integer price between 1 and 2^53 - 1 (so that
  it is exact as a JavaScript number) and the id of the session's user.
\<close>

theorem created_ticket_valid:
  assumes "enforces_rules email uuid E"
    and "snd (TicketsController_createTicket E request body h) = h @ t"
    and "TicketsCreate r \<in> set t"
  shows "valid_ticket_body r \<and>
    (\<exists>u. session_user E (req_headers request) h = Inr u \<and> get_prop r ''userId'' = JStr (user_id u))"
proof (cases "session_user E (req_headers request) h")
  case (Inl e)
  with assms(2,3) session_lookup_identity [of E "req_headers request"] show ?thesis
    by (auto simp: TicketsController_createTicket_def guarded_eq list_all_iff)
next
  case (Inr u)
  show ?thesis
  proof (cases "validate_body E CreateTicketDto body")
    case (Inl es)
    with Inr assms(2,3) session_lookup_identity [of E "req_headers request"] show ?thesis
      by (auto simp: TicketsController_createTicket_def guarded_eq list_all_iff validated_def io_throw_def)
  next
    case dto: (Inr dto)
    with assms(1) obtain kvs where kvs: "dto = JObj kvs" unfolding enforces_rules_def by blast
    let ?r = "JObj (obj_set kvs ''userId'' (JStr (user_id u)))"
    have "t = session_lookup E (req_headers request) @ [TicketsCreate ?r]"
      using assms(2) Inr dto kvs
      by (auto simp: TicketsController_createTicket_def guarded_eq validated_def
          TicketsService_createTicket_def try_grpc_def io_catch_def io_call_def io_throw_def Let_def
          split: sum.splits)
    with assms(3) session_lookup_identity [of E "req_headers request"] have "r = ?r"
      by (auto simp: list_all_iff)
    with valid_ticket_dto [OF assms(1) dto] kvs Inr show ?thesis
      by (auto simp: valid_ticket_body_userId map_of_obj_set)
  qed
qed

theorem created_ticket_valid_witness:
  "valid_ticket_body (JObj (obj_set (spread sample_ticket) ''userId'' (JStr ''u1''))) \<and>
   get_prop (JObj (obj_set (spread sample_ticket) ''userId'' (JStr ''u1''))) ''userId'' = JStr ''u1''"
proof -
  let ?r = "JObj (obj_set (spread sample_ticket) ''userId'' (JStr ''u1''))"
  have val: "validate_body sample_env CreateTicketDto sample_ticket = Inr sample_ticket"
    by (simp add: sample_env_def sample_validate_def sample_ticket_def CreateTicketDto_def
        js_isInteger_def js_less_eq_def js_num_eq_def MAX_TICKET_PRICE_def max_safe_integer_def)
  have "snd (TicketsController_createTicket sample_env
      \<lparr>req_headers = sample_headers, req_user = None\<rparr> sample_ticket []) =
      [] @ [IdentityCurrentUser (JObj []) sample_session, TicketsCreate ?r]"
    by (simp add: TicketsController_createTicket_def guarded_eq sample_user sample_lookup validated_def val)
      (simp add: TicketsService_createTicket_def try_grpc_def io_simps sample_env_def Let_def)
  from created_ticket_valid [OF sample_enforces this, of ?r] show ?thesis
    by (simp add: sample_user)
qed

text \<open>
  A request counts as load-test traffic exactly when a load-test token is configured and the
  request supplies that token as a single header value; the comparison never fails.
\<close>

theorem trafficSourceFor_exact:
  "trafficSourceFor supplied configured =
     Inr (if configured \<noteq> [] \<and> supplied = Some (HStr configured) then K6 else Other)"
  by (auto simp: trafficSourceFor_def timingSafeEqual_def Let_def split: option.splits header.splits)

end
