(* ===== verification/Request_Types.thy ===== *)
theory Request_Types
  imports Protogen Gateway_App
begin

text \<open>
  The gateway's requests against the Protobuf services: the method each call of a stub is, and what it means that a request
  object is of the method's declared input type.
\<close>

section \<open>The method of a call\<close>

fun call_method :: "gateway_call \<Rightarrow> (ts_service \<times> string \<times> jsval) option" where
  "call_method (IdentitySignUp r) = Some (IdentityService_methods, ''signUp'', r)"
| "call_method (IdentitySignIn r _) = Some (IdentityService_methods, ''signIn'', r)"
| "call_method (IdentitySignOut r _) = Some (IdentityService_methods, ''signOut'', r)"
| "call_method (IdentityCurrentUser r _) = Some (IdentityService_methods, ''currentUser'', r)"
| "call_method (IdentityVerifyEmail r) = Some (IdentityService_methods, ''verifyEmail'', r)"
| "call_method (TicketsCreate r) = Some (TicketsService_methods, ''createTicket'', r)"
| "call_method (TicketsUpdate r) = Some (TicketsService_methods, ''updateTicket'', r)"
| "call_method (TicketsGet r) = Some (TicketsService_methods, ''getTicket'', r)"
| "call_method (TicketsList r) = Some (TicketsService_methods, ''listTickets'', r)"
| "call_method (OrdersCancel r) = Some (OrdersService_methods, ''cancelOrder'', r)"
| "call_method (OrdersCreate r) = Some (OrdersService_methods, ''createOrder'', r)"
| "call_method (OrdersGet r) = Some (OrdersService_methods, ''getOrder'', r)"
| "call_method (OrdersList r) = Some (OrdersService_methods, ''listOrders'', r)"
| "call_method (PaymentsCreate r) = Some (PaymentsService_methods, ''createPayment'', r)"
| "call_method (ResponseCookie _ _ _) = None"
| "call_method (ResponseStatus _) = None"

definition message_named :: "string \<Rightarrow> ts_message option" where
  "message_named name = find (\<lambda>t. tm_name t = name) (map snd all_schemas)"

definition method_input :: "ts_service \<Rightarrow> string \<Rightarrow> ts_message option" where
  "method_input s m = Option.bind (map_of (tv_methods s) m) (\<lambda>r. message_named (pr_input r))"

lemmas all_messages = all_schemas_def identity_v1_identity_schemas_def tickets_v1_tickets_schemas_def
  tickets_v1_events_schemas_def orders_v1_orders_schemas_def orders_v1_events_schemas_def payments_v1_payments_schemas_def
  common_v1_error_schemas_def expiration_v1_events_schemas_def

lemmas all_declared = identity_v1_identity_declared tickets_v1_tickets_declared tickets_v1_events_declared
  orders_v1_orders_declared orders_v1_events_declared payments_v1_payments_declared

lemma method_inputs:
  "method_input IdentityService_methods ''signUp'' = Some SignUpRequest_message"
  "method_input IdentityService_methods ''signIn'' = Some SignInRequest_message"
  "method_input IdentityService_methods ''signOut'' = Some SignOutRequest_message"
  "method_input IdentityService_methods ''currentUser'' = Some CurrentUserRequest_message"
  "method_input IdentityService_methods ''verifyEmail'' = Some VerifyEmailRequest_message"
  "method_input TicketsService_methods ''createTicket'' = Some CreateTicketRequest_message"
  "method_input TicketsService_methods ''updateTicket'' = Some UpdateTicketRequest_message"
  "method_input TicketsService_methods ''getTicket'' = Some GetTicketRequest_message"
  "method_input TicketsService_methods ''listTickets'' = Some ListTicketsRequest_message"
  "method_input OrdersService_methods ''cancelOrder'' = Some CancelOrderRequest_message"
  "method_input OrdersService_methods ''createOrder'' = Some CreateOrderRequest_message"
  "method_input OrdersService_methods ''getOrder'' = Some GetOrderRequest_message"
  "method_input OrdersService_methods ''listOrders'' = Some ListOrdersRequest_message"
  "method_input PaymentsService_methods ''createPayment'' = Some CreatePaymentRequest_message"
  by (simp_all add: method_input_def message_named_def all_messages all_declared)

section \<open>Requests of a type\<close>

text \<open>A value for a member: the gRPC client takes a number for an \<open>int64\<close>, which is exact when it is a safe integer.\<close>

fun fits :: "ts_type \<Rightarrow> jsval \<Rightarrow> bool" where
  "fits TsString v = is_string v"
| "fits TsBoolean v = (case v of JBool _ \<Rightarrow> True | _ \<Rightarrow> False)"
| "fits TsBigint v = (is_number v \<and> js_isSafeInteger (num_of v))"
| "fits (TsRef _) v = is_object v"
| "fits (TsArray _) v = (case v of JArr _ \<Rightarrow> True | _ \<Rightarrow> False)"

definition conforms :: "ts_message \<Rightarrow> jsval \<Rightarrow> bool" where
  "conforms t v =
     (case v of
        JObj kvs \<Rightarrow> list_all (\<lambda>(k, _). k \<in> tf_name ` set (tm_fields t)) kvs \<and>
          list_all (\<lambda>f. fits (tf_type f) (get_prop v (tf_name f))) (tm_fields t)
      | _ \<Rightarrow> False)"

definition well_typed :: "gateway_call \<Rightarrow> bool" where
  "well_typed c =
     (case call_method c of
        None \<Rightarrow> True
      | Some (s, m, r) \<Rightarrow> (case method_input s m of None \<Rightarrow> False | Some t \<Rightarrow> conforms t r))"

end
