(* ===== verification/Request_Properties.thy ===== *)
theory Request_Properties
  imports Request_Types
begin

text \<open>
  Every gRPC request of the gateway is of its method's input type, when the validation pipe does what class-validator and
  NestJS document.
\<close>

section \<open>What the validation pipe promises\<close>

definition validates :: "(jsval \<Rightarrow> bool) \<Rightarrow> (string \<Rightarrow> jsval \<Rightarrow> bool) \<Rightarrow> gateway_env \<Rightarrow> bool" where
  "validates email uuid E \<longleftrightarrow>
     enforces_rules email uuid E \<and>
     (\<forall>rules v kvs. validate_body E rules v = Inr (JObj kvs) \<longrightarrow> fst ` set kvs \<subseteq> fst ` set rules) \<and>
     (\<forall>v. email v \<longrightarrow> is_string v) \<and> (\<forall>version v. uuid version v \<longrightarrow> is_string v)"

lemma validates_dto:
  assumes "validates email uuid E" and "validate_body E rules v = Inr dto"
  shows "\<exists>kvs. dto = JObj kvs \<and> fst ` set kvs \<subseteq> fst ` set rules"
    and "(p, rs) \<in> set rules \<Longrightarrow> r \<in> set rs \<Longrightarrow> rule_holds email uuid r (get_prop dto p)"
proof -
  have enforced: "(\<exists>kvs. dto = JObj kvs) \<and> (\<forall>(p, rs) \<in> set rules. \<forall>r \<in> set rs. rule_holds email uuid r (get_prop dto p))"
    using assms unfolding validates_def enforces_rules_def by simp
  then obtain kvs where kvs: "dto = JObj kvs" by blast
  with assms have "fst ` set kvs \<subseteq> fst ` set rules" unfolding validates_def by simp
  with kvs show "\<exists>kvs. dto = JObj kvs \<and> fst ` set kvs \<subseteq> fst ` set rules" by blast
  assume "(p, rs) \<in> set rules" "r \<in> set rs"
  with enforced show "rule_holds email uuid r (get_prop dto p)" by fastforce
qed

section \<open>Calls of a route\<close>

lemma emits_validated:
  assumes "\<And>dto. validate_body E rules v = Inr dto \<Longrightarrow> io_emits P (k dto)"
  shows "io_emits P (io_bind (validated E rules v) k)"
proof (cases "validate_body E rules v")
  case (Inl e)
  then show ?thesis by (simp add: validated_def io_emits_throw)
next
  case (Inr dto)
  then show ?thesis using assms [OF Inr] by (simp add: validated_def)
qed

lemma emits_guarded:
  assumes "\<And>md. P (IdentityCurrentUser (JObj []) md)" and "\<And>request. io_emits P (k request)"
  shows "io_emits P (guarded E request k)"
proof -
  have user: "io_emits P (AuthService_currentUser E hs)" for hs
    unfolding AuthService_currentUser_def by (intro io_rules) (rule assms(1))
  show ?thesis
    unfolding guarded_def SessionAuthGuard_canActivate_def
    by (intro io_emits_bind io_emits_return user) (auto intro: io_rules assms(2))
qed

lemma member_string:
  assumes "is_string (get_prop dto k)"
  shows "io_bind (io_of_result (member dto k)) f = f (get_prop dto k)"
  using assms by (cases dto) (simp_all add: member_def io_bind_of_result)

lemma emits_member:
  assumes "io_emits P (f (get_prop dto k))"
  shows "io_emits P (io_bind (io_of_result (member dto k)) f)"
  using assms by (auto simp: member_def io_bind_of_result io_emits_throw)

section \<open>Request objects\<close>

lemma conforms_dto:
  assumes "fst ` set kvs \<subseteq> tf_name ` set (tm_fields t)"
    and "list_all (\<lambda>f. fits (tf_type f) (get_prop (JObj kvs) (tf_name f))) (tm_fields t)"
  shows "conforms t (JObj kvs)"
  using assms by (force simp: conforms_def list_all_iff)

lemmas message_fields = all_declared ts_member_def

text \<open>The request of a validated body, with the properties the services add to it.\<close>

lemma conforms_signUp:
  assumes "validates email uuid E" and "validate_body E SignUpDto v = Inr dto"
  shows "conforms SignUpRequest_message dto"
proof -
  obtain kvs where dto: "dto = JObj kvs" and keys: "fst ` set kvs \<subseteq> fst ` set SignUpDto"
    using validates_dto(1) [OF assms] by blast
  have strings: "\<And>v. email v \<Longrightarrow> is_string v" using assms(1) by (simp add: validates_def)
  have "is_string (get_prop dto ''name'')" "is_string (get_prop dto ''email'')" "is_string (get_prop dto ''password'')"
    using validates_dto(2) [OF assms] strings by (force simp: SignUpDto_def)+
  with keys show ?thesis unfolding dto by (intro conforms_dto) (simp_all add: message_fields SignUpDto_def)
qed

lemma conforms_signIn:
  assumes "validates email uuid E" and "validate_body E SignInDto v = Inr dto"
  shows "conforms SignInRequest_message dto"
proof -
  obtain kvs where dto: "dto = JObj kvs" and keys: "fst ` set kvs \<subseteq> fst ` set SignInDto"
    using validates_dto(1) [OF assms] by blast
  have strings: "\<And>v. email v \<Longrightarrow> is_string v" using assms(1) by (simp add: validates_def)
  have "is_string (get_prop dto ''email'')" "is_string (get_prop dto ''password'')"
    using validates_dto(2) [OF assms] strings by (force simp: SignInDto_def)+
  with keys show ?thesis unfolding dto by (intro conforms_dto) (simp_all add: message_fields SignInDto_def)
qed

lemma conforms_verifyEmail:
  assumes "validates email uuid E" and "validate_body E VerifyEmailDto v = Inr dto"
    and "is_string (get_prop dto ''token'')"
  shows "conforms VerifyEmailRequest_message dto"
proof -
  obtain kvs where dto: "dto = JObj kvs" and keys: "fst ` set kvs \<subseteq> fst ` set VerifyEmailDto"
    using validates_dto(1) [OF assms(1,2)] by blast
  with assms(3) show ?thesis unfolding dto by (intro conforms_dto) (simp_all add: message_fields VerifyEmailDto_def)
qed

text \<open>A validated ticket.\<close>

lemma ticket_dto:
  assumes "validates email uuid E" and "validate_body E CreateTicketDto v = Inr dto"
  obtains kvs where "dto = JObj kvs" "fst ` set kvs \<subseteq> {''title'', ''price''}"
    "fits TsString (get_prop dto ''title'')" "fits TsBigint (get_prop dto ''price'')"
proof -
  obtain kvs where dto: "dto = JObj kvs" and keys: "fst ` set kvs \<subseteq> fst ` set CreateTicketDto"
    using validates_dto(1) [OF assms] by blast
  have valid: "valid_ticket_body dto"
    using valid_ticket_dto [OF _ assms(2)] assms(1) unfolding validates_def by blast
  then have "fits TsString (get_prop dto ''title'')" "fits TsBigint (get_prop dto ''price'')"
    by (auto simp: valid_ticket_body_def js_isSafeInteger_def js_isInteger_def MAX_TICKET_PRICE_def max_safe_integer_def)
  with dto keys show ?thesis by (intro that [of kvs]) (auto simp: CreateTicketDto_def)
qed

lemma obj_set_keys: "fst ` set (obj_set kvs k v) = insert k (fst ` set kvs)"
  by (induction kvs k v rule: obj_set.induct) auto

lemma conforms_createTicket:
  assumes "validates email uuid E" and "validate_body E CreateTicketDto v = Inr dto"
  shows "conforms CreateTicketRequest_message (JObj (obj_set (spread dto) ''userId'' (JStr u)))"
proof -
  from ticket_dto [OF assms] obtain kvs where dto: "dto = JObj kvs" "fst ` set kvs \<subseteq> {''title'', ''price''}"
    "fits TsString (get_prop dto ''title'')" "fits TsBigint (get_prop dto ''price'')" by blast
  then show ?thesis
    by (simp, intro conforms_dto) (auto simp: message_fields obj_set_keys map_of_obj_set)
qed

lemma conforms_updateTicket:
  assumes "validates email uuid E" and "validate_body E UpdateTicketDto v = Inr dto"
  shows "conforms UpdateTicketRequest_message
    (JObj (obj_set (obj_set (spread dto) ''id'' (JStr i)) ''userId'' (JStr u)))"
proof -
  from ticket_dto [OF assms(1) assms(2) [unfolded UpdateTicketDto_def]] obtain kvs where
    dto: "dto = JObj kvs" "fst ` set kvs \<subseteq> {''title'', ''price''}"
    "fits TsString (get_prop dto ''title'')" "fits TsBigint (get_prop dto ''price'')" by blast
  then show ?thesis
    by (simp, intro conforms_dto) (auto simp: message_fields obj_set_keys map_of_obj_set)
qed

lemma order_ids:
  assumes "validates email uuid E"
  shows "validate_body E CreateOrderDto v = Inr dto \<Longrightarrow> is_string (get_prop dto ''ticketId'')"
    and "validate_body E CreatePaymentDto v = Inr dto \<Longrightarrow> is_string (get_prop dto ''orderId'')"
proof -
  have strings: "\<And>version v. uuid version v \<Longrightarrow> is_string v" using assms by (simp add: validates_def)
  show "is_string (get_prop dto ''ticketId'')" if "validate_body E CreateOrderDto v = Inr dto"
    using validates_dto(2) [OF assms that] strings by (force simp: CreateOrderDto_def)
  show "is_string (get_prop dto ''orderId'')" if "validate_body E CreatePaymentDto v = Inr dto"
    using validates_dto(2) [OF assms that] strings by (force simp: CreatePaymentDto_def)
qed

section \<open>Every request of every route\<close>

text \<open>
  The one exception: \<open>VerifyEmailDto\<close> asks of a token only that it is not empty, so that a repeated query parameter, an
  array, passes the validation.
\<close>

definition request_ok :: "gateway_call \<Rightarrow> bool" where
  "request_ok c \<longleftrightarrow> well_typed c \<or> (\<exists>dto. c = IdentityVerifyEmail dto \<and> \<not> is_string (get_prop dto ''token''))"

lemma request_ok_if:
  "call_method c = Some (s, m, r) \<Longrightarrow> method_input s m = Some t \<Longrightarrow> conforms t r \<Longrightarrow> request_ok c"
  "call_method c = None \<Longrightarrow> request_ok c"
  by (simp_all add: request_ok_def well_typed_def)

lemmas request_rules = request_ok_if(1) [OF _ method_inputs(1)] request_ok_if(1) [OF _ method_inputs(2)]
  request_ok_if(1) [OF _ method_inputs(3)] request_ok_if(1) [OF _ method_inputs(4)]
  request_ok_if(1) [OF _ method_inputs(5)] request_ok_if(1) [OF _ method_inputs(6)]
  request_ok_if(1) [OF _ method_inputs(7)] request_ok_if(1) [OF _ method_inputs(8)]
  request_ok_if(1) [OF _ method_inputs(9)] request_ok_if(1) [OF _ method_inputs(10)]
  request_ok_if(1) [OF _ method_inputs(11)] request_ok_if(1) [OF _ method_inputs(12)]
  request_ok_if(1) [OF _ method_inputs(13)] request_ok_if(1) [OF _ method_inputs(14)]

lemma request_ok_plain [simp]:
  "request_ok (IdentitySignOut (JObj []) md)" "request_ok (IdentityCurrentUser (JObj []) md)"
  "request_ok (TicketsList (JObj []))" "request_ok (TicketsGet (JObj [(''id'', JStr i)]))"
  "request_ok (OrdersList (JObj [(''userId'', JStr u)]))"
  "request_ok (OrdersCancel (order_request ''orderId'' (JStr i) u))"
  "request_ok (OrdersGet (order_request ''orderId'' (JStr i) u))"
  "is_string v \<Longrightarrow> request_ok (OrdersCreate (order_request ''ticketId'' v u))"
  "is_string v \<Longrightarrow> request_ok (PaymentsCreate (order_request ''orderId'' v u))"
  "request_ok (ResponseCookie n w options)" "request_ok (ResponseStatus k)"
proof -
  show "request_ok (IdentitySignOut (JObj []) md)" "request_ok (IdentityCurrentUser (JObj []) md)"
    "request_ok (TicketsList (JObj []))" "request_ok (TicketsGet (JObj [(''id'', JStr i)]))"
    "request_ok (OrdersList (JObj [(''userId'', JStr u)]))"
    by (rule request_rules(3) request_rules(4) request_rules(9) request_rules(8) request_rules(13), simp,
        simp add: conforms_def message_fields)+
  show "request_ok (OrdersCancel (order_request ''orderId'' (JStr i) u))"
    "request_ok (OrdersGet (order_request ''orderId'' (JStr i) u))"
    by (rule request_rules(10) request_rules(12), simp, simp add: conforms_def message_fields order_request_def)+
  show "request_ok (OrdersCreate (order_request ''ticketId'' v u))" if "is_string v"
    using that by - (rule request_rules(11), simp, simp add: order_request_def conforms_def message_fields)
  show "request_ok (PaymentsCreate (order_request ''orderId'' v u))" if "is_string v"
    using that by - (rule request_rules(14), simp, simp add: order_request_def conforms_def message_fields)
qed (simp_all add: request_ok_if(2))

lemma request_ok_dto:
  assumes "validates email uuid E"
  shows "validate_body E SignUpDto v = Inr dto \<Longrightarrow> request_ok (IdentitySignUp dto)"
    "validate_body E SignInDto v = Inr dto \<Longrightarrow> request_ok (IdentitySignIn dto md)"
    "validate_body E VerifyEmailDto v = Inr dto \<Longrightarrow> request_ok (IdentityVerifyEmail dto)"
    "validate_body E CreateTicketDto v = Inr dto \<Longrightarrow>
       request_ok (TicketsCreate (JObj (obj_set (spread dto) ''userId'' (JStr u))))"
    "validate_body E UpdateTicketDto v = Inr dto \<Longrightarrow>
       request_ok (TicketsUpdate (JObj (obj_set (obj_set (spread dto) ''id'' (JStr i)) ''userId'' (JStr u))))"
    "validate_body E CreateOrderDto v = Inr dto \<Longrightarrow>
       request_ok (OrdersCreate (order_request ''ticketId'' (get_prop dto ''ticketId'') u))"
    "validate_body E CreatePaymentDto v = Inr dto \<Longrightarrow>
       request_ok (PaymentsCreate (order_request ''orderId'' (get_prop dto ''orderId'') u))"
proof -
  show "request_ok (IdentitySignUp dto)" if "validate_body E SignUpDto v = Inr dto"
    using conforms_signUp [OF assms that] by (intro request_rules(1)) simp_all
  show "request_ok (IdentitySignIn dto md)" if "validate_body E SignInDto v = Inr dto"
    using conforms_signIn [OF assms that] by (intro request_rules(2)) simp_all
  show "request_ok (IdentityVerifyEmail dto)" if "validate_body E VerifyEmailDto v = Inr dto"
    using conforms_verifyEmail [OF assms that] by (auto simp: request_ok_def well_typed_def method_inputs)
  show "request_ok (TicketsCreate (JObj (obj_set (spread dto) ''userId'' (JStr u))))"
    if "validate_body E CreateTicketDto v = Inr dto"
    using conforms_createTicket [OF assms that] by (intro request_rules(6)) simp_all
  show "request_ok (TicketsUpdate (JObj (obj_set (obj_set (spread dto) ''id'' (JStr i)) ''userId'' (JStr u))))"
    if "validate_body E UpdateTicketDto v = Inr dto"
    using conforms_updateTicket [OF assms that] by (intro request_rules(7)) simp_all
qed (simp_all add: order_ids [OF assms])

lemmas service_steps = AuthService_signUp_def AuthService_signIn_def AuthService_signOut_def AuthService_currentUser_def
  AuthService_verifyEmail_def TicketsService_createTicket_def TicketsService_updateTicket_def TicketsService_getTicket_def
  TicketsService_listTickets_def OrdersService_createOrder_def OrdersService_cancelOrder_def OrdersService_getOrder_def
  OrdersService_listOrders_def PaymentsService_createPayment_def Let_def

lemmas controller_steps = AuthController_signUp_def AuthController_signIn_def AuthController_signOut_def
  AuthController_currentUser_def AuthController_verifyEmail_def TicketsController_listTickets_def
  TicketsController_getTicket_def TicketsController_updateTicket_def TicketsController_createTicket_def
  OrdersController_createOrder_def OrdersController_cancelOrder_def OrdersController_listOrders_def
  OrdersController_getOrder_def PaymentsController_createPayment_def set_cookie_def set_status_def

lemmas emits_steps = emits_validated emits_guarded emits_member

lemma route_emits_ok:
  assumes "validates email uuid E"
  shows "io_emits request_ok (run_route E hs r)"
  by (cases r)
    (auto simp: done_with_def controller_steps service_steps
      intro!: emits_steps io_rules request_ok_dto [OF assms] split del: if_split)

section \<open>A validator that keeps its promises\<close>

definition whitelisting_validate :: "dto_rules \<Rightarrow> jsval \<Rightarrow> ValidationError list + jsval" where
  "whitelisting_validate rules v =
     (case v of
        JObj kvs \<Rightarrow>
          if fst ` set kvs \<subseteq> fst ` set rules then sample_validate rules v
          else Inl [\<lparr>property = ''body'', constraints = None\<rparr>]
      | _ \<Rightarrow> sample_validate rules v)"

definition plain_ticket :: jsval where
  "plain_ticket = JObj [(''title'', JStr ''Show''), (''price'', JNum (num 20))]"

definition whitelisting_env :: gateway_env where
  "whitelisting_env = sample_env\<lparr>validate_body := whitelisting_validate\<rparr>"

lemma whitelisting_validates: "validates is_string (\<lambda>_. is_string) whitelisting_env"
  by (auto simp: validates_def enforces_rules_def whitelisting_env_def whitelisting_validate_def sample_validate_def
      split: jsval.splits if_splits intro: rev_image_eqI)

lemma whitelisting_lookup:
  "session_lookup whitelisting_env sample_headers = [IdentityCurrentUser (JObj []) sample_session]"
  using sample_lookup by (simp add: session_lookup_def whitelisting_env_def)

lemma whitelisting_user:
  "session_user whitelisting_env sample_headers h =
     Inr \<lparr>user_id = ''u1'', user_name = ''Ada'', user_email = ''a@b.c'', user_emailVerified = True\<rparr>"
  by (simp add: session_user_def whitelisting_env_def sample_metadata) (simp add: sample_env_def toCurrentUserResponse_def)

section \<open>Property\<close>

text \<open>
  C12: Whatever a client sends to whatever route, every gRPC call the gateway makes for it has a request of
  the input type that the generated service declares for the method: exactly the declared members, each with a value of
  its type, an \<open>int64\<close> being a safe integer. The one exception is the token of an e-mail verification, of which
  \<open>VerifyEmailDto\<close> asks only that it is not empty: a repeated query parameter arrives as an array and is sent on.
\<close>

theorem requests_conform:
  assumes "validates email uuid E" and "snd (run_route E hs r h) = h @ calls" and "c \<in> set calls"
  shows "well_typed c \<or> (\<exists>dto. c = IdentityVerifyEmail dto \<and> \<not> is_string (get_prop dto ''token''))"
proof -
  obtain t where "snd (run_route E hs r h) = h @ t" "list_all request_ok t"
    using io_emitsD [OF route_emits_ok [OF assms(1)]] by blast
  with assms(2,3) have "request_ok c" by (simp add: list_all_iff)
  then show ?thesis by (simp add: request_ok_def)
qed

theorem requests_conform_witness:
  "\<exists>c calls. snd (run_route whitelisting_env sample_headers (CreateTicket plain_ticket) []) =
      IdentityCurrentUser (JObj []) sample_session # c # calls \<and>
    c = TicketsCreate (JObj [(''title'', JStr ''Show''), (''price'', JNum (num 20)), (''userId'', JStr ''u1'')]) \<and>
    (well_typed c \<or> (\<exists>dto. c = IdentityVerifyEmail dto \<and> \<not> is_string (get_prop dto ''token'')))"
proof -
  let ?c = "TicketsCreate (JObj [(''title'', JStr ''Show''), (''price'', JNum (num 20)), (''userId'', JStr ''u1'')])"
  have valid: "validate_body whitelisting_env CreateTicketDto plain_ticket =
      Inr plain_ticket"
    by (simp add: whitelisting_env_def whitelisting_validate_def sample_validate_def plain_ticket_def CreateTicketDto_def
        MAX_TICKET_PRICE_def max_safe_integer_def js_isInteger_def js_less_eq_def js_num_eq_def)
  have run: "snd (run_route whitelisting_env sample_headers (CreateTicket plain_ticket) []) =
      [] @ [IdentityCurrentUser (JObj []) sample_session, ?c]"
    by (simp add: done_with_def io_bind_def TicketsController_createTicket_def guarded_eq whitelisting_user
        whitelisting_lookup validated_def valid)
      (simp add: plain_ticket_def TicketsService_createTicket_def try_grpc_def io_simps whitelisting_env_def sample_env_def
        set_status_def Let_def)
  have "?c \<in> set [IdentityCurrentUser (JObj []) sample_session, ?c]" by simp
  from requests_conform [OF whitelisting_validates run this] run show ?thesis by auto
qed

end
