(* ===== verification/Gateway_Properties.thy ===== *)
theory Gateway_Properties
  imports Gateway_App
begin

text \<open>
  What the gateway lets through and how it converts it: cookies and headers on the way to
  identity, validation errors on the way back, the session cookie, and the answers of the order
  service.
\<close>

section \<open>Towards identity\<close>

text \<open>
  C24: The cookie parser reads a browser's cookie header as the map it denotes: for any list of
  well-formed cookies, identity is sent the value of the session cookie (the first one of that
  name) and nothing else, and nothing at all when there is none.
\<close>

theorem session_metadata_of_cookies:
  assumes "\<forall>c \<in> set cs. cookie_ok c"
    and "headers ''cookie'' = Some (HStr (cookie_header cs))"
    and "\<And>v. refuse ''cookie'' v = None"
  shows "createSessionRequestMetadata refuse headers =
    Inr (case map_of cs SESSION_COOKIE_NAME of
           None \<Rightarrow> []
         | Some v \<Rightarrow> [(''cookie'', SESSION_COOKIE_NAME @ ''='' @ v)])"
  using assms
  by (simp add: createSessionRequestMetadata_def getCookieValue_map_of metadata_set_def
      split: option.split)

theorem session_metadata_of_cookies_witness:
  "createSessionRequestMetadata (\<lambda>_ _. None) sample_headers =
     Inr [(''cookie'', SESSION_COOKIE_NAME @ ''='' @ ''t1'')]"
proof -
  let ?cs = "[(''theme'', ''dark''), (SESSION_COOKIE_NAME, ''t1'')]"
  have "\<forall>c \<in> set ?cs. cookie_ok c" by (simp add: cookie_ok_def SESSION_COOKIE_NAME_def js_space_def)
  moreover have "sample_headers ''cookie'' = Some (HStr (cookie_header ?cs))"
    by (simp add: sample_headers_def cookie_header_def cookie_text_def SESSION_COOKIE_NAME_def)
  ultimately have "createSessionRequestMetadata (\<lambda>_ _. None) sample_headers =
      Inr (case map_of ?cs SESSION_COOKIE_NAME of None \<Rightarrow> []
           | Some v \<Rightarrow> [(''cookie'', SESSION_COOKIE_NAME @ ''='' @ v)])"
    by (rule session_metadata_of_cookies) simp
  then show ?thesis by (simp add: SESSION_COOKIE_NAME_def)
qed

text \<open>
  Whatever the headers are, the metadata for a session lookup or a sign-out is empty or one
  \<open>cookie\<close> entry for the session cookie, whose value holds no second cookie.
\<close>

theorem session_metadata_isolated:
  assumes "createSessionRequestMetadata refuse headers = Inr md"
  shows "md = [] \<or> (\<exists>v. md = [(''cookie'', SESSION_COOKIE_NAME @ ''='' @ v)] \<and> CHR '';'' \<notin> set v)"
  using createSessionRequestMetadata_cases [OF assms] getCookieValue_no_semicolon
  by (auto split: option.splits)

theorem session_metadata_isolated_witness:
  "[(''cookie'', ''better-auth.session_token=t1'')] = ([] :: metadata) \<or>
   (\<exists>v. [(''cookie'', ''better-auth.session_token=t1'')] = [(''cookie'', SESSION_COOKIE_NAME @ ''='' @ v)] \<and>
      CHR '';'' \<notin> set v)"
  using session_metadata_isolated [OF sample_metadata [unfolded sample_session_def]] .

text \<open>
  C26: The metadata of a sign-in request holds exactly the allowlisted headers that the client sent
  as one value, with that value; cookies, authorization and every other header stay behind.
\<close>

theorem auth_metadata_allowlist:
  assumes "createAuthRequestMetadata refuse headers = Inr md"
  shows "map_of md k = (if k \<in> set FORWARDED_AUTH_HEADERS then header_string headers k else None) \<and>
    (\<forall>(n, v) \<in> set md. n \<in> {''origin'', ''referer'', ''sec-fetch-dest'', ''sec-fetch-mode'',
       ''sec-fetch-site'', ''user-agent''} \<and> headers n = Some (HStr v))"
proof -
  have md: "md = forwarded headers FORWARDED_AUTH_HEADERS"
    by (rule createAuthRequestMetadata_Inr [OF assms])
  have "\<forall>(n, v) \<in> set md. n \<in> set FORWARDED_AUTH_HEADERS \<and> headers n = Some (HStr v)"
    by (auto simp: md forwarded_keys header_string_def split: option.splits header.splits)
  moreover have "set FORWARDED_AUTH_HEADERS = {''origin'', ''referer'', ''sec-fetch-dest'',
      ''sec-fetch-mode'', ''sec-fetch-site'', ''user-agent''}" by (simp add: FORWARDED_AUTH_HEADERS_def)
  ultimately show ?thesis by (simp only: md map_of_forwarded)
qed

theorem auth_metadata_allowlist_witness:
  "map_of [(''origin'', ''https://app'')] ''cookie'' = (None :: string option)"
proof -
  let ?hs = "[''origin'' \<mapsto> HStr ''https://app'', ''cookie'' \<mapsto> HStr ''secret'']"
  have "createAuthRequestMetadata (\<lambda>_ _. None) ?hs = Inr [(''origin'', ''https://app'')]"
    by (simp add: createAuthRequestMetadata_def FORWARDED_AUTH_HEADERS_def metadata_set_def)
  from auth_metadata_allowlist [OF this, of "''cookie''"] show ?thesis
    by (simp add: FORWARDED_AUTH_HEADERS_def)
qed

section \<open>Validation errors\<close>

text \<open>
  C39: A failed validation is answered with status 400 and one item per invalid property, in order, that
  names the property and carries a public code: \<open>INVALID_ARGUMENT\<close> for a property the body must
  not have, otherwise the code of the property, with the first constraint's message.
\<close>

theorem validation_failure_response:
  assumes "es \<noteq> []"
  shows "fst (api_error_filter_catch (createValidationApiError es)) = num 400 \<and>
    map to_error_item (snd (api_error_filter_catch (createValidationApiError es))) = map toErrorItem es \<and>
    (\<forall>e \<in> set es. ei_code (toErrorItem e) \<in> public_codes \<and> ei_field (toErrorItem e) = Some (property e))"
  using assms
  by (simp add: validation_response toErrorItem_public)
    (simp add: toErrorItem_def Let_def)

theorem validation_failure_response_witness:
  "map to_error_item (snd (api_error_filter_catch (createValidationApiError
     [\<lparr>property = ''price'', constraints = Some [(''isInt'', ''Price must be an integer.'')]\<rparr>,
      \<lparr>property = ''extra'', constraints = Some [(''whitelistValidation'', ''no'')]\<rparr>]))) =
   [\<lparr>ei_message = ''Price must be an integer.'', ei_code = ''INVALID_PRICE'', ei_field = Some ''price''\<rparr>,
    \<lparr>ei_message = ''Unexpected field.'', ei_code = ''INVALID_ARGUMENT'', ei_field = Some ''extra''\<rparr>]"
proof -
  let ?es = "[\<lparr>property = ''price'', constraints = Some [(''isInt'', ''Price must be an integer.'')]\<rparr>,
      \<lparr>property = ''extra'', constraints = Some [(''whitelistValidation'', ''no'')]\<rparr>]"
  have "map toErrorItem ?es =
    [\<lparr>ei_message = ''Price must be an integer.'', ei_code = ''INVALID_PRICE'', ei_field = Some ''price''\<rparr>,
     \<lparr>ei_message = ''Unexpected field.'', ei_code = ''INVALID_ARGUMENT'', ei_field = Some ''extra''\<rparr>]"
    by code_simp
  with validation_failure_response [of ?es] show ?thesis by simp
qed

section \<open>Sessions\<close>

text \<open>
  A successful sign-in made exactly two calls: identity's sign-in with the validated body and the
  forwarded headers, then one cookie with the session's token and expiry, hidden from scripts and
  secure in production. The answer shows identity's user and the same expiry.
\<close>

lemma signIn_calls:
  assumes "AuthController_signIn E body hs h = (Inr response, h')"
  shows "\<exists>dto md result t.
    validate_body E SignInDto body = Inr dto \<and>
    createAuthRequestMetadata (refuse_metadata E) hs = Inr md \<and>
    grpc_signIn E dto md h = Inr result \<and>
    toDate (isr_sessionExpiresAt result) = Inr (Some t) \<and>
    h' = h @ [IdentitySignIn dto md,
              ResponseCookie SESSION_COOKIE_NAME (isr_sessionToken result)
                \<lparr>co_encode = (\<lambda>v. v), co_expires = Some t, co_httpOnly = True, co_path = ''/'',
                 co_sameSite = ''lax'', co_secure = (process_env E ''NODE_ENV'' = Some ''production'')\<rparr>] \<and>
    user_id (sir_user response) = isr_userId result \<and>
    toISOString (Some t) = Inr (sir_session_expiresAt response)"
proof -
  from assms obtain dto where dto: "validate_body E SignInDto body = Inr dto"
    by (auto simp: AuthController_signIn_def validated_def split: sum.splits)
      (auto simp: io_throw_def)
  obtain md where md: "createAuthRequestMetadata (refuse_metadata E) hs = Inr md"
    using assms dto
    by (cases "createAuthRequestMetadata (refuse_metadata E) hs")
      (auto simp: AuthController_signIn_def validated_def AuthService_signIn_def try_grpc_def io_simps)
  obtain result where result: "grpc_signIn E dto md h = Inr result"
    using assms dto md
    by (cases "grpc_signIn E dto md h")
      (auto simp: AuthController_signIn_def validated_def AuthService_signIn_def try_grpc_def io_simps)
  have run: "AuthController_signIn E body hs h =
      io_bind (io_of_result (toDate (isr_sessionExpiresAt result))) (\<lambda>expiresAt.
      io_bind (set_cookie E SESSION_COOKIE_NAME (isr_sessionToken result)
                 (session_cookie_options E expiresAt)) (\<lambda>_.
      io_bind (io_of_result (toISOString expiresAt)) (\<lambda>expires.
      io_return
        \<lparr>sir_user =
           \<lparr>user_id = isr_userId result, user_name = isr_name result, user_email = isr_email result,
            user_emailVerified = isr_emailVerified result\<rparr>,
         sir_session_expiresAt = expires\<rparr>))) (h @ [IdentitySignIn dto md])"
    using dto md result
    by (simp add: AuthController_signIn_def validated_def AuthService_signIn_def try_grpc_def
        io_bind_def [of "io_catch _ _"] io_catch_def io_call_def)
  obtain d where d: "toDate (isr_sessionExpiresAt result) = Inr d"
    using assms run by (cases "toDate (isr_sessionExpiresAt result)") (auto simp: io_throw_def)
  obtain t where t: "d = Some t"
    using assms run d by (cases d) (auto simp: set_cookie_def io_simps toISOString_def split: sum.splits)
  show ?thesis
    using assms run d t dto md result
    by (auto simp: set_cookie_def io_simps session_cookie_options_def
        split: sum.splits)
qed

lemma signIn_sample:
  "\<exists>response h'. AuthController_signIn sample_env
      (JObj [(''email'', JStr ''a@b.c''), (''password'', JStr ''password1'')]) Map.empty [] = (Inr response, h') \<and>
    user_id (sir_user response) = ''u1'' \<and>
    sir_session_expiresAt response = ''2023-11-14T22:13:20.000Z'' \<and> length h' = 2"
proof -
  let ?body = "JObj [(''email'', JStr ''a@b.c''), (''password'', JStr ''password1'')]"
  have val: "validate_body sample_env SignInDto ?body = Inr ?body"
    by (simp add: sample_env_def sample_validate_def SignInDto_def)
  have md: "createAuthRequestMetadata (refuse_metadata sample_env) Map.empty = Inr []"
    by (simp add: createAuthRequestMetadata_def FORWARDED_AUTH_HEADERS_def)
  have date: "toDate (Some \<lparr>ts_seconds = Some (SecNumber (num 1700000000)), ts_nanos = Some (num 0)\<rparr>) =
      Inr (Some 1700000000000)"
    by (rule toDate_milliseconds) (simp_all add: max_time_def)
  have iso: "toISOString (Some 1700000000000) = Inr ''2023-11-14T22:13:20.000Z''" by code_simp
  have "\<exists>response h'. AuthController_signIn sample_env ?body Map.empty [] = (Inr response, h')"
    using date iso
    by (simp add: AuthController_signIn_def validated_def val AuthService_signIn_def md try_grpc_def)
      (simp add: io_simps sample_env_def set_cookie_def)
  then obtain response h' where run: "AuthController_signIn sample_env ?body Map.empty [] = (Inr response, h')"
    by blast
  from signIn_calls [OF run] val md date iso run show ?thesis
    by (auto simp: sample_env_def)
qed



section \<open>Orders and payments\<close>

text \<open>An error the conversions raise is no gRPC status: the gateway answers 503.\<close>

abbreviation unavailable :: thrown where
  "unavailable \<equiv> ApiError 503 [item_val service_unavailable_item]"

lemma throwGatewayGrpcError_new_error [simp]: "throwGatewayGrpcError (new_error c m) d = unavailable"
  by (simp add: throwGatewayGrpcError_def isGrpcStatusError_def new_error_def Let_def)

lemma toOrderStatus_Inl: "toOrderStatus s = Inl e \<Longrightarrow> \<exists>m. e = new_error PlainError m"
  by (auto simp: toOrderStatus_def split: if_splits)

lemma toOrderResponse_Inl: "toOrderResponse r = Inl e \<Longrightarrow> \<exists>c m. e = new_error c m"
  by (auto simp: toOrderResponse_def orders_toDate_def deref_def toISOString_Inl
      split: option.splits sum.splits dest!: toOrderStatus_Inl)

lemma map_orders_Inl: "map_orders os = Inl e \<Longrightarrow> \<exists>c m. e = new_error c m"
proof (induction os)
  case (Cons x xs)
  then show ?case by (auto split: sum.splits dest: toOrderResponse_Inl)
qed simp

lemma map_orders_Inr:
  "map_orders os = Inr rs \<longleftrightarrow> map (\<lambda>x. toOrderResponse (Some x)) os = map Inr rs"
proof (induction os arbitrary: rs)
  case (Cons x xs)
  then show ?case by (cases rs, auto split: sum.splits) blast
qed auto

lemma orders_toDate_same: "orders_toDate = toDate"
  by (simp add: fun_eq_iff orders_toDate_def toDate_def)



text \<open>
  An order created through the gateway: one request to the order service with the validated
  ticket id, then status 201 when the service says it created the order and 200 when it returned an
  existing one.
\<close>

theorem createOrder_status:
  assumes "OrdersController_createOrder E request body h = (Inr order, h')"
  shows "\<exists>u dto reply r. session_user E (req_headers request) h = Inr u \<and>
    validate_body E CreateOrderDto body = Inr dto \<and>
    r = JObj [(''ticketId'', get_prop dto ''ticketId''), (''userId'', JStr (user_id u))] \<and>
    grpc_createOrder E r (h @ session_lookup E (req_headers request)) = Inr reply \<and>
    h' = h @ session_lookup E (req_headers request) @
      [OrdersCreate r, ResponseStatus (if cog_created reply then 201 else 200)] \<and>
    or_id order = og_id reply \<and> or_ticketId order = og_ticketId reply"
proof -
  let ?h = "h @ session_lookup E (req_headers request)"
  from assms obtain u where u: "session_user E (req_headers request) h = Inr u"
    by (auto simp: OrdersController_createOrder_def guarded_eq split: sum.splits)
  with assms obtain dto where dto: "validate_body E CreateOrderDto body = Inr dto"
    by (cases "validate_body E CreateOrderDto body")
      (auto simp: OrdersController_createOrder_def guarded_eq validated_def io_throw_def)
  define r where "r = JObj [(''ticketId'', get_prop dto ''ticketId''), (''userId'', JStr (user_id u))]"
  have run: "OrdersController_createOrder E request body h =
      io_bind (io_of_result (member dto ''ticketId'')) (\<lambda>ticketId.
      io_bind (OrdersService_createOrder E ticketId (user_id u)) (\<lambda>result.
      io_seq (set_status (if ocr_created result then 201 else 200)) (io_return (ocr_order result)))) ?h"
    using u dto by (simp add: OrdersController_createOrder_def guarded_eq validated_def)
  with assms have m: "member dto ''ticketId'' = Inr (get_prop dto ''ticketId'')"
    by (auto simp: member_def io_throw_def split: if_splits)
  from run m assms obtain reply where reply: "grpc_createOrder E r ?h = Inr reply"
    by (cases "grpc_createOrder E r ?h")
      (auto simp: OrdersService_createOrder_def order_request_def try_grpc_def io_simps Let_def r_def
        simp flip: append_assoc)
  obtain res where res: "toCreateOrderResponse reply = Inr res"
    using run m assms reply
    by (cases "toCreateOrderResponse reply")
      (auto simp: OrdersService_createOrder_def order_request_def try_grpc_def io_simps Let_def r_def
        simp flip: append_assoc)
  have "h' = ?h @ [OrdersCreate r, ResponseStatus (if ocr_created res then 201 else 200)]"
    "order = ocr_order res"
    using run m assms reply res
    by (auto simp: OrdersService_createOrder_def order_request_def try_grpc_def io_simps Let_def r_def
        set_status_def simp flip: append_assoc)
  moreover have "ocr_created res = cog_created reply" "or_id (ocr_order res) = og_id reply"
    "or_ticketId (ocr_order res) = og_ticketId reply"
    using res by (auto simp: toCreateOrderResponse_def toOrderResponse_def deref_def split: sum.splits)
  ultimately show ?thesis using u dto reply r_def by auto
qed

theorem createOrder_status_witness:
  "\<exists>order h'. OrdersController_createOrder
      (sample_env\<lparr>grpc_createOrder := \<lambda>_ _. Inr
         \<lparr>og_expiresAt = Some \<lparr>ts_seconds = Some (SecNumber (num 1700000000)), ts_nanos = Some (num 5000000)\<rparr>,
          og_id = ''o1'', og_status = Some 1, og_ticketId = ''t1'', og_userId = ''u1'', cog_created = True\<rparr>\<rparr>)
      \<lparr>req_headers = sample_headers, req_user = None\<rparr> (JObj [(''ticketId'', JStr ''t1'')]) [] = (Inr order, h') \<and>
    last h' = ResponseStatus 201 \<and> or_id order = ''o1''"
proof -
  let ?reply = "\<lparr>og_expiresAt = Some \<lparr>ts_seconds = Some (SecNumber (num 1700000000)), ts_nanos = Some (num 5000000)\<rparr>,
      og_id = ''o1'', og_status = Some 1, og_ticketId = ''t1'', og_userId = ''u1'', cog_created = True\<rparr>"
  let ?E = "sample_env\<lparr>grpc_createOrder := \<lambda>_ _. Inr ?reply\<rparr>"
  let ?req = "\<lparr>req_headers = sample_headers, req_user = None\<rparr>"
  let ?body = "JObj [(''ticketId'', JStr ''t1'')]"
  have val: "validate_body sample_env CreateOrderDto ?body = Inr ?body"
    by (simp add: sample_env_def sample_validate_def CreateOrderDto_def)
  have user: "session_user (sample_env\<lparr>grpc_createOrder := f\<rparr>) sample_headers h =
      session_user sample_env sample_headers h" for f h
    by (simp add: session_user_def split: sum.split)
  have look: "session_lookup (sample_env\<lparr>grpc_createOrder := f\<rparr>) sample_headers =
      session_lookup sample_env sample_headers" for f
    by (simp add: session_lookup_def)
  obtain s where s: "toISOString (Some 1700000000005) = Inr s" using toISOString_Some by blast
  have date: "toDate (og_expiresAt ?reply) = Inr (Some 1700000000005)"
    using toDate_milliseconds [of 1700000000005 "\<lparr>ts_seconds = Some (SecNumber (num 1700000000)), ts_nanos = Some (num 5000000)\<rparr>"]
    by (simp add: max_time_def)
  have "\<exists>order h'. OrdersController_createOrder ?E ?req ?body [] = (Inr order, h')"
    using s date
    by (simp add: OrdersController_createOrder_def guarded_eq user sample_user look sample_lookup
        validated_def val member_def OrdersService_createOrder_def try_grpc_def io_simps Let_def
        set_status_def toCreateOrderResponse_def toOrderResponse_def deref_def orders_toDate_same
        toOrderStatus_def)
  then obtain order h' where run: "OrdersController_createOrder ?E ?req ?body [] = (Inr order, h')"
    by blast
  from createOrder_status [OF run] have "last h' = ResponseStatus 201 \<and> or_id order = ''o1''" by auto
  with run show ?thesis by blast
qed

text \<open>
  The list of a user's orders is all or nothing: it holds every order the service returned,
  converted and in order, and if one order cannot be converted (an unknown status, a missing or
  invalid expiry) the whole request is answered as an unavailable service.
\<close>

theorem listOrders_all_or_nothing:
  assumes "grpc_listOrders E (JObj [(''userId'', JStr u)]) h = Inr reply"
  shows "fst (OrdersService_listOrders E u h) =
    (let rs = map (\<lambda>x. toOrderResponse (Some x)) (case log_orders reply of None \<Rightarrow> [] | Some xs \<Rightarrow> xs)
     in if list_all result_ok rs then Inr (map projr rs) else Inl unavailable)"
proof -
  let ?os = "case log_orders reply of None \<Rightarrow> [] | Some xs \<Rightarrow> xs"
  let ?rs = "map (\<lambda>x. toOrderResponse (Some x)) ?os"
  have run: "fst (OrdersService_listOrders E u h) =
      (case map_orders ?os of
         Inl e \<Rightarrow> Inl (throwGatewayGrpcError e (Some \<lparr>ei_message = ''Unable to retrieve orders.'',
           ei_code = public_code INTERNAL_ERROR, ei_field = None\<rparr>))
       | Inr rs \<Rightarrow> Inr rs)"
    using assms
    by (simp add: OrdersService_listOrders_def try_grpc_def io_simps Let_def toListOrdersResponse_def
        del: code_number.simps split: sum.split)
  show ?thesis
  proof (cases "map_orders ?os")
    case (Inl e)
    then have "\<not> list_all result_ok ?rs"
    proof (rule contrapos_pn)
      assume "list_all result_ok ?rs"
      then have "?rs = map Inr (map projr ?rs)" by (auto simp: list_all_iff result_ok_iff map_idI)
      then show "map_orders ?os \<noteq> Inl e" by (simp only: map_orders_Inr [symmetric]) simp
    qed
    with Inl run map_orders_Inl [OF Inl] show ?thesis by (auto simp: Let_def simp del: code_number.simps)
  next
    case (Inr rs)
    then have "?rs = map Inr rs" by (simp only: map_orders_Inr)
    with Inr run show ?thesis by (simp add: Let_def list_all_iff comp_def del: code_number.simps)
  qed
qed

theorem listOrders_all_or_nothing_witness:
  "fst (OrdersService_listOrders
      (sample_env\<lparr>grpc_listOrders := \<lambda>_ _. Inr \<lparr>log_orders = Some [sample_order\<lparr>og_expiresAt := None\<rparr>]\<rparr>\<rparr>)
      ''u1'' []) = Inl unavailable"
  by (subst listOrders_all_or_nothing [where reply = "\<lparr>log_orders = Some [sample_order\<lparr>og_expiresAt := None\<rparr>]\<rparr>"])
    (simp_all add: toOrderResponse_def deref_def orders_toDate_def)

text \<open>
  A timestamp that falls on a whole second has no nanoseconds on the wire, and the client
  library leaves a field out that has its default value. The gateway then reads \<open>undefined\<close>, the
  date is invalid, and an order in perfect health is answered as an unavailable service.
\<close>

theorem whole_second_expiry_unavailable:
  assumes "grpc_getOrder E (JObj [(''orderId'', JStr i), (''userId'', JStr u)]) h = Inr \<lparr>om_order = Some x\<rparr>"
    and "og_expiresAt x = Some ts" and "ts_nanos ts = None"
  shows "fst (OrdersService_getOrder E i u h) = Inl unavailable"
  using assms toDate_no_nanos [of ts]
  by (simp add: OrdersService_getOrder_def order_request_def try_grpc_def io_simps Let_def
      toGetOrderResponse_def toOrderResponse_def deref_def orders_toDate_same toISOString_def)

theorem whole_second_expiry_unavailable_witness:
  "fst (OrdersService_getOrder sample_env ''o1'' ''u1'' []) = Inl unavailable"
  by (rule whole_second_expiry_unavailable [where x = sample_order and
        ts = "\<lparr>ts_seconds = Some (SecNumber (num 1700000000)), ts_nanos = None\<rparr>"])
    (simp_all add: sample_env_def sample_order_def)

end
