(* ===== verification/Identity_Errors.thy ===== *)
theory Identity_Errors
  imports Error_Contract
begin

text \<open>
  Identity's errors (apps/identity/src/identity/mappers): the items of each operation and the
  mapping of whatever Better Auth throws to a structured gRPC error. Every mapper is an instance of
  the error contract.
\<close>

section \<open>Items\<close>

abbreviation plain_item :: "ErrorCode \<Rightarrow> string \<Rightarrow> error_item" where
  "plain_item c m \<equiv> \<lparr>ei_message = m, ei_code = identity_code c, ei_field = None\<rparr>"

abbreviation field_item :: "ErrorCode \<Rightarrow> string \<Rightarrow> string \<Rightarrow> error_item" where
  "field_item c f m \<equiv> \<lparr>ei_message = m, ei_code = identity_code c, ei_field = Some f\<rparr>"

text \<open>signup-errors.ts.\<close>

definition createInvalidNameError :: error_item where
  "createInvalidNameError = field_item INVALID_NAME ''name'' ''Name is required.''"

definition createInvalidEmailError :: error_item where
  "createInvalidEmailError = field_item INVALID_EMAIL ''email'' ''Email must be valid.''"

definition createInvalidPasswordError :: error_item where
  "createInvalidPasswordError =
     field_item INVALID_PASSWORD ''password'' ''Password must be between 8 and 128 characters.''"

definition createInvalidArgumentError :: error_item where
  "createInvalidArgumentError = plain_item INVALID_ARGUMENT ''Signup data is invalid.''"

definition createEmailAlreadyExistsError :: error_item where
  "createEmailAlreadyExistsError =
     field_item ALREADY_EXISTS ''email'' ''A user with this email already exists.''"

definition createSignupValidationInternalError :: error_item where
  "createSignupValidationInternalError =
     plain_item INTERNAL_ERROR ''Unable to validate signup data.''"

definition createSignupInternalError :: error_item where
  "createSignupInternalError = plain_item INTERNAL_ERROR ''Unable to complete signup.''"

text \<open>signin-errors.ts.\<close>

definition createEmailNotVerifiedError :: error_item where
  "createEmailNotVerifiedError =
     plain_item EMAIL_NOT_VERIFIED ''Verify your email before signing in.''"

definition createInvalidCredentialsError :: error_item where
  "createInvalidCredentialsError =
     plain_item INVALID_CREDENTIALS ''Email or password is incorrect.''"

definition createSigninInternalError :: error_item where
  "createSigninInternalError = plain_item INTERNAL_ERROR ''Unable to complete signin.''"

definition createSigninValidationInternalError :: error_item where
  "createSigninValidationInternalError =
     plain_item INTERNAL_ERROR ''Unable to validate signin data.''"

text \<open>signout-errors.ts and current-user-errors.ts.\<close>

definition createSignOutInternalError :: error_item where
  "createSignOutInternalError = plain_item INTERNAL_ERROR ''Unable to complete signout.''"

definition createCurrentUserUnauthenticatedError :: error_item where
  "createCurrentUserUnauthenticatedError =
     plain_item UNAUTHENTICATED ''Authentication is required.''"

definition createCurrentUserInternalError :: error_item where
  "createCurrentUserInternalError =
     plain_item INTERNAL_ERROR ''Unable to get the current user.''"

text \<open>
  protovalidate-violation.mapper.ts: by the field path of the violation, which the library's
  \<open>pathToString\<close> computes.
\<close>

definition mapProtovalidateViolation :: "string \<Rightarrow> error_item" where
  "mapProtovalidateViolation path =
     (if path = ''name'' then createInvalidNameError
      else if path = ''email'' then createInvalidEmailError
      else if path = ''password'' then createInvalidPasswordError
      else createInvalidArgumentError)"

section \<open>Reading an external error\<close>

text \<open>The string \<open>error.body.code\<close>, when there is one.\<close>

definition body_code :: "thrown \<Rightarrow> string option" where
  "body_code error =
     (let v = thrown_val error; body = get_prop v ''body''
      in if is_object v \<and> has_prop v ''body'' \<and> is_object body \<and> has_prop body ''code'' \<and>
            is_string (get_prop body ''code'')
         then Some (str_of (get_prop body ''code'')) else None)"

text \<open>The string \<open>error.code\<close>, when there is one.\<close>

definition own_code :: "thrown \<Rightarrow> string option" where
  "own_code error =
     (let v = thrown_val error
      in if is_object v \<and> has_prop v ''code'' \<and> is_string (get_prop v ''code'')
         then Some (str_of (get_prop v ''code'')) else None)"

text \<open>The three copies of \<open>getExternalErrorCode\<close> differ in what they look at, and in its order.\<close>

definition signup_getExternalErrorCode :: "thrown \<Rightarrow> string option" where
  "signup_getExternalErrorCode error = body_code error"

definition signin_getExternalErrorCode :: "thrown \<Rightarrow> string option" where
  "signin_getExternalErrorCode error =
     (case body_code error of Some c \<Rightarrow> Some c | None \<Rightarrow> own_code error)"

definition verify_getExternalErrorCode :: "thrown \<Rightarrow> string option" where
  "verify_getExternalErrorCode error =
     (case own_code error of Some c \<Rightarrow> Some c | None \<Rightarrow> body_code error)"

definition hasNumericStatusCode :: "thrown \<Rightarrow> bool" where
  "hasNumericStatusCode error \<longleftrightarrow>
     (let v = thrown_val error
      in is_object v \<and> has_prop v ''statusCode'' \<and> is_number (get_prop v ''statusCode''))"

definition hasNumericStatus :: "thrown \<Rightarrow> bool" where
  "hasNumericStatus error \<longleftrightarrow>
     (let v = thrown_val error
      in is_object v \<and> has_prop v ''status'' \<and> is_number (get_prop v ''status''))"

definition getHttpStatusCode :: "thrown \<Rightarrow> jsnum option" where
  "getHttpStatusCode error =
     (if hasNumericStatusCode error then Some (num_of (get_prop (thrown_val error) ''statusCode''))
      else if hasNumericStatus error then Some (num_of (get_prop (thrown_val error) ''status''))
      else None)"

section \<open>The mappers\<close>

text \<open>better-auth-error.mapper.ts.\<close>

definition getGrpcStatusCode :: "thrown \<Rightarrow> grpc_status" where
  "getGrpcStatusCode error =
     (case getHttpStatusCode error of
        Some statusCode \<Rightarrow>
          if statusCode = num 409 then GRPC_ALREADY_EXISTS
          else if js_less_eq (num 400) statusCode \<and> js_less statusCode (num 500)
          then GRPC_INVALID_ARGUMENT
          else INTERNAL
      | None \<Rightarrow> INTERNAL)"

definition getErrorItem :: "thrown \<Rightarrow> error_item" where
  "getErrorItem error =
     (let errorCode = signup_getExternalErrorCode error
      in if errorCode = Some ''INVALID_EMAIL'' then createInvalidEmailError
         else if errorCode = Some ''INVALID_PASSWORD'' \<or> errorCode = Some ''PASSWORD_TOO_SHORT'' \<or>
                 errorCode = Some ''PASSWORD_TOO_LONG''
         then createInvalidPasswordError
         else if getHttpStatusCode error = Some (num 409) then createEmailAlreadyExistsError
         else if getHttpStatusCode error \<noteq> None then createInvalidArgumentError
         else createSignupInternalError)"

definition mapBetterAuthError :: "thrown \<Rightarrow> thrown" where
  "mapBetterAuthError error = StructuredGrpcError (getGrpcStatusCode error) [getErrorItem error]"

text \<open>better-auth-signin-error.mapper.ts.\<close>

definition mapBetterAuthSignInError :: "thrown \<Rightarrow> thrown" where
  "mapBetterAuthSignInError error =
     (let errorCode = signin_getExternalErrorCode error
      in if errorCode = Some ''EMAIL_NOT_VERIFIED''
         then StructuredGrpcError GRPC_UNAUTHENTICATED [createEmailNotVerifiedError]
         else if errorCode = Some ''INVALID_EMAIL_OR_PASSWORD''
         then StructuredGrpcError GRPC_UNAUTHENTICATED [createInvalidCredentialsError]
         else StructuredGrpcError INTERNAL [createSigninInternalError])"

text \<open>better-auth-signout-error.mapper.ts.\<close>

definition mapBetterAuthSignOutError :: "unit \<Rightarrow> thrown" where
  "mapBetterAuthSignOutError _ = StructuredGrpcError INTERNAL [createSignOutInternalError]"

text \<open>email-verification-error.mapper.ts.\<close>

definition hasVerificationErrorCode :: "thrown \<Rightarrow> bool" where
  "hasVerificationErrorCode error \<longleftrightarrow>
     (let code = verify_getExternalErrorCode error
      in code = Some ''INVALID_TOKEN'' \<or> code = Some ''TOKEN_EXPIRED'')"

definition mapEmailVerificationError :: "thrown \<Rightarrow> thrown" where
  "mapEmailVerificationError error =
     (if hasVerificationErrorCode error
      then StructuredGrpcError GRPC_UNAUTHENTICATED
        [plain_item INVALID_VERIFICATION_TOKEN ''The email verification link is invalid or has expired.'']
      else StructuredGrpcError INTERNAL [plain_item INTERNAL_ERROR ''Unable to verify email.''])"

lemmas item_defs =
  createInvalidNameError_def createInvalidEmailError_def createInvalidPasswordError_def
  createInvalidArgumentError_def createEmailAlreadyExistsError_def
  createSignupValidationInternalError_def createSignupInternalError_def
  createEmailNotVerifiedError_def createInvalidCredentialsError_def createSigninInternalError_def
  createSigninValidationInternalError_def createSignOutInternalError_def
  createCurrentUserUnauthenticatedError_def createCurrentUserInternalError_def

section \<open>Every mapper keeps the error contract\<close>

lemma item_codes_public:
  "ei_code createInvalidNameError \<in> public_codes" "ei_code createInvalidEmailError \<in> public_codes"
  "ei_code createInvalidPasswordError \<in> public_codes" "ei_code createInvalidArgumentError \<in> public_codes"
  "ei_code createEmailAlreadyExistsError \<in> public_codes"
  "ei_code createSignupValidationInternalError \<in> public_codes"
  "ei_code createSignupInternalError \<in> public_codes"
  "ei_code createEmailNotVerifiedError \<in> public_codes"
  "ei_code createInvalidCredentialsError \<in> public_codes"
  "ei_code createSigninInternalError \<in> public_codes"
  "ei_code createSigninValidationInternalError \<in> public_codes"
  "ei_code createSignOutInternalError \<in> public_codes"
  "ei_code createCurrentUserUnauthenticatedError \<in> public_codes"
  "ei_code createCurrentUserInternalError \<in> public_codes"
  by (simp_all add: item_defs public_code_in del: code_number.simps)

lemma getErrorItem_public: "ei_code (getErrorItem e) \<in> public_codes"
  by (simp add: getErrorItem_def Let_def item_codes_public)

lemma mapProtovalidateViolation_public: "ei_code (mapProtovalidateViolation p) \<in> public_codes"
  by (simp add: mapProtovalidateViolation_def item_codes_public)

lemma structured_single:
  assumes "ei_code i \<in> public_codes"
  shows "\<exists>s' items. StructuredGrpcError s [i] = StructuredGrpcError s' items \<and> items \<noteq> [] \<and>
    (\<forall>j \<in> set items. ei_code j \<in> public_codes)"
  by (rule exI [of _ s], rule exI [of _ "[i]"]) (simp add: assms)

interpretation signup_mapper: structured_error_source mapBetterAuthError
  by unfold_locales
    (simp add: mapBetterAuthError_def structured_single [OF getErrorItem_public])

interpretation signin_mapper: structured_error_source mapBetterAuthSignInError
  by unfold_locales
    (simp add: mapBetterAuthSignInError_def Let_def structured_single [OF item_codes_public(8)]
       structured_single [OF item_codes_public(9)] structured_single [OF item_codes_public(10)])

interpretation signout_mapper: structured_error_source mapBetterAuthSignOutError
  by unfold_locales
    (simp add: mapBetterAuthSignOutError_def structured_single [OF item_codes_public(12)])

lemma mapEmailVerificationError_structured:
  "\<exists>s i. mapEmailVerificationError e = StructuredGrpcError s [i] \<and> ei_code i \<in> public_codes"
proof (cases "hasVerificationErrorCode e")
  case True
  show ?thesis
    by (rule exI [of _ GRPC_UNAUTHENTICATED],
        rule exI [of _ "plain_item INVALID_VERIFICATION_TOKEN
          ''The email verification link is invalid or has expired.''"])
      (use True in \<open>simp add: mapEmailVerificationError_def public_code_in del: code_number.simps\<close>)
next
  case False
  show ?thesis
    by (rule exI [of _ INTERNAL],
        rule exI [of _ "plain_item INTERNAL_ERROR ''Unable to verify email.''"])
      (use False in \<open>simp add: mapEmailVerificationError_def public_code_in del: code_number.simps\<close>)
qed

interpretation verification_mapper: structured_error_source mapEmailVerificationError
  by unfold_locales (metis mapEmailVerificationError_structured structured_single)

end
