(* ===== verification/Identity_Headers.thy ===== *)
theory Identity_Headers
  imports Identity_Errors Gateway_Requests
begin

text \<open>
  Headers in identity (apps/identity/src/identity): the Web \<open>Headers\<close> object that Better Auth is
  called with, built from the incoming gRPC metadata (headers), and the session cookie read from the
  \<open>Headers\<close> it answers with (session-cookie.ts).
\<close>

section \<open>Incoming metadata and Web headers\<close>

datatype metadata_value = MdString string | MdBuffer "nat list"

text \<open>\<open>metadata.get(key)\<close> of grpc-js: the values of the key, none when it is absent.\<close>

type_synonym server_metadata = "string \<Rightarrow> metadata_value list"

type_synonym web_headers = "(string \<times> string) list"

text \<open>
  \<open>Headers.set\<close> of the Fetch standard, for the names the code uses (valid and in lower case): the
  value loses its leading and trailing HTTP white space; one that still has NUL, CR or LF
  is refused; the name's value is replaced.
\<close>

definition http_space :: "char \<Rightarrow> bool" where
  "http_space c \<longleftrightarrow> of_char c \<in> {9, 10, 13, 32 :: nat}"

definition http_strip :: "string \<Rightarrow> string" where
  "http_strip s = rev (dropWhile http_space (rev (dropWhile http_space s)))"

definition headers_set :: "web_headers \<Rightarrow> string \<Rightarrow> string \<Rightarrow> thrown + web_headers" where
  "headers_set hs name value =
     (let v = http_strip value
      in if \<exists>c \<in> set v. of_char c \<in> {0, 10, 13 :: nat}
         then Inl (new_error TypeError (''Headers.set: '' @ name @ '' is an invalid header value.''))
         else Inr (assoc_set hs name v))"

section \<open>Request headers\<close>

fun isString :: "metadata_value \<Rightarrow> bool" where
  "isString (MdString _) = True"
| "isString (MdBuffer _) = False"

fun string_value :: "metadata_value \<Rightarrow> string" where
  "string_value (MdString s) = s"
| "string_value (MdBuffer _) = []"

text \<open>\<open>metadata.get(name).find(isString)\<close>.\<close>

definition first_string :: "server_metadata \<Rightarrow> string \<Rightarrow> string option" where
  "first_string metadata name = map_option string_value (find isString (metadata name))"

text \<open>session-request-headers.ts.\<close>

definition createSessionRequestHeaders :: "server_metadata \<Rightarrow> thrown + web_headers" where
  "createSessionRequestHeaders metadata =
     (case first_string metadata ''cookie'' of
        Some cookie \<Rightarrow> headers_set [] ''cookie'' cookie
      | None \<Rightarrow> Inr [])"

text \<open>signin-request-headers.ts, with the loop over the remaining names.\<close>

definition identity_FORWARDED_AUTH_HEADERS :: "string list" where
  "identity_FORWARDED_AUTH_HEADERS =
     [''origin'', ''referer'', ''sec-fetch-dest'', ''sec-fetch-mode'', ''sec-fetch-site'',
      ''user-agent'']"

fun restore_headers :: "server_metadata \<Rightarrow> web_headers \<Rightarrow> string list \<Rightarrow> thrown + web_headers" where
  "restore_headers metadata hs [] = Inr hs"
| "restore_headers metadata hs (headerName # rest) =
     (case first_string metadata headerName of
        Some value \<Rightarrow>
          (case headers_set hs headerName value of
             Inl e \<Rightarrow> Inl e
           | Inr hs' \<Rightarrow> restore_headers metadata hs' rest)
      | None \<Rightarrow> restore_headers metadata hs rest)"

definition createAuthRequestHeaders :: "server_metadata \<Rightarrow> thrown + web_headers" where
  "createAuthRequestHeaders metadata = restore_headers metadata [] identity_FORWARDED_AUTH_HEADERS"

section \<open>The session cookie of an answer\<close>

definition identity_SESSION_COOKIE_NAME :: string where
  "identity_SESSION_COOKIE_NAME = ''better-auth.session_token''"

text \<open>
  A response's headers as the code reads them: \<open>getSetCookie\<close> where the runtime has it, and
  \<open>get('set-cookie')\<close>.
\<close>

record response_headers =
  rh_getSetCookie :: "string list option"
  rh_get_set_cookie :: "string option"

definition getSetCookieHeaders :: "response_headers \<Rightarrow> string list" where
  "getSetCookieHeaders headers =
     (case rh_getSetCookie headers of
        Some values \<Rightarrow> values
      | None \<Rightarrow>
          (case rh_get_set_cookie headers of
             Some v \<Rightarrow> if v = [] then [] else [v]
           | None \<Rightarrow> []))"

definition extractSessionCookieValue :: "response_headers \<Rightarrow> string option" where
  "extractSessionCookieValue headers =
     (case find (\<lambda>value. startsWith value (identity_SESSION_COOKIE_NAME @ ''='')) (getSetCookieHeaders headers) of
        None \<Rightarrow> None
      | Some sessionCookie \<Rightarrow>
          (let cookieValue = drop (length identity_SESSION_COOKIE_NAME + 1) sessionCookie
           in case indexOf cookieValue CHR '';'' of
                None \<Rightarrow> Some cookieValue
              | Some separatorIndex \<Rightarrow> Some (take separatorIndex cookieValue)))"

section \<open>Facts\<close>

lemma http_strip_subset: "set (http_strip s) \<subseteq> set s"
  by (auto simp: http_strip_def dest!: set_dropWhileD)

lemma http_strip_id:
  assumes "s \<noteq> []" and "\<not> http_space (hd s)" and "\<not> http_space (last s)"
  shows "http_strip s = s"
proof -
  have "dropWhile http_space s = s" "dropWhile http_space (rev s) = rev s"
    using assms by (simp_all add: dropWhile_eq_self_iff hd_rev)
  then show ?thesis by (simp add: http_strip_def)
qed

text \<open>A value without NUL, CR and LF is accepted, and only stripped.\<close>

definition header_safe :: "string \<Rightarrow> bool" where
  "header_safe v \<longleftrightarrow> (\<forall>c \<in> set v. of_char c \<notin> {0, 10, 13 :: nat})"

lemma headers_set_safe: "header_safe v \<Longrightarrow> headers_set hs n v = Inr (assoc_set hs n (http_strip v))"
  using http_strip_subset [of v] by (auto simp: headers_set_def header_safe_def Let_def)

lemma restore_headers_Inr:
  "restore_headers md hs names = Inr hs' \<Longrightarrow>
     map_of hs' k = (if k \<in> set names \<and> first_string md k \<noteq> None
                     then map_option http_strip (first_string md k) else map_of hs k)"
proof (induction names arbitrary: hs)
  case (Cons n ns)
  show ?case
  proof (cases "first_string md n")
    case None
    with Cons.IH [of hs] Cons.prems show ?thesis by auto
  next
    case (Some v)
    with Cons.prems have set: "headers_set hs n v = Inr (assoc_set hs n (http_strip v))"
      and rest: "restore_headers md (assoc_set hs n (http_strip v)) ns = Inr hs'"
      by (auto simp: headers_set_def Let_def split: sum.splits if_splits)
    from Cons.IH [OF rest] Some show ?thesis by (auto simp: map_of_assoc_set)
  qed
qed simp

lemma restore_headers_safe:
  "\<forall>n \<in> set names. \<forall>v. first_string md n = Some v \<longrightarrow> header_safe v \<Longrightarrow>
     \<exists>hs'. restore_headers md hs names = Inr hs'"
proof (induction names arbitrary: hs)
  case (Cons n ns)
  then show ?case by (cases "first_string md n") (simp_all add: headers_set_safe)
qed simp

text \<open>Better Auth's cookie for a token, with its attributes after the first semicolon.\<close>

lemma extractSessionCookieValue_found:
  assumes "getSetCookieHeaders hs = before @ (identity_SESSION_COOKIE_NAME @ ''='' @ token @ attrs) # after"
    and "\<forall>v \<in> set before. \<not> startsWith v (identity_SESSION_COOKIE_NAME @ ''='')"
    and "CHR '';'' \<notin> set token" and "attrs = [] \<or> hd attrs = CHR '';''"
  shows "extractSessionCookieValue hs = Some token"
proof -
  let ?p = "identity_SESSION_COOKIE_NAME @ ''=''"
  have "startsWith (?p @ (token @ attrs)) ?p" by (rule startsWith_append)
  then have f: "find (\<lambda>v. startsWith v ?p) (getSetCookieHeaders hs) = Some (?p @ token @ attrs)"
    using assms(1,2)
    by (auto simp: find_Some_iff_dropWhile dropWhile_append3 dropWhile_append)
  have d: "drop (length identity_SESSION_COOKIE_NAME + 1) (?p @ token @ attrs) = token @ attrs" by simp
  have tw: "takeWhile (\<lambda>x. x \<noteq> CHR '';'') (token @ attrs) = token"
    using assms(3,4) by (cases attrs) (auto simp: takeWhile_append takeWhile_eq_all_conv)
  have "(case indexOf (token @ attrs) CHR '';'' of
      None \<Rightarrow> Some (token @ attrs) | Some n \<Rightarrow> Some (take n (token @ attrs))) = Some token"
  proof (cases "indexOf (token @ attrs) CHR '';''")
    case None
    then have "CHR '';'' \<notin> set attrs" unfolding indexOf_None by simp
    with assms(4) have "attrs = []" by (cases attrs) auto
    with None show ?thesis by simp
  next
    case (Some n)
    with take_indexOf [OF Some] tw show ?thesis by simp
  qed
  with f d show ?thesis by (simp add: extractSessionCookieValue_def Let_def)
qed

end
