(* ===== verification/Identity_Service.thy ===== *)
theory Identity_Service
  imports Identity_Headers Js_Dates
begin

text \<open>
  The identity service (apps/identity/src/identity/identity.service.ts and identity.controller.ts):
  validation, the calls to Better Auth, and the responses. Better Auth, the Protovalidate validator and the
  database are outside the repository: an environment gives their answers.
\<close>

section \<open>Messages and the environment\<close>

record identity_timestamp =
  its_seconds :: string
  its_nanos :: jsnum

record identity_SignUpResponse =
  is_userId :: string
  is_email :: string

record identity_SignInResponse =
  ir_userId :: string
  ir_name :: string
  ir_email :: string
  ir_emailVerified :: bool
  ir_sessionToken :: string
  ir_sessionExpiresAt :: identity_timestamp

record identity_CurrentUserResponse =
  ic_userId :: string
  ic_name :: string
  ic_email :: string
  ic_emailVerified :: bool

text \<open>The user of a Better Auth answer, and the answer of \<open>signInEmail\<close> with its headers.\<close>

record auth_user =
  au_id :: string
  au_name :: string
  au_email :: string
  au_emailVerified :: bool

record sign_in_result =
  si_headers :: response_headers
  si_token :: string
  si_user :: auth_user

text \<open>The validator's verdict: the paths of the violated fields when the message is invalid.\<close>

datatype proto_result = ProtoValid | ProtoInvalid "string list" | ProtoError

datatype identity_call =
    SignUpEmail jsval
  | SignInEmail jsval web_headers
  | SignOutSession web_headers
  | GetSession web_headers
  | VerifyEmailToken jsval
  | PoolQuery string "string list"
  | PoolEnd

type_synonym 'a identity = "(identity_call, thrown, 'a) io"
type_synonym 'a id_answer = "identity_call list \<Rightarrow> thrown + 'a"

record identity_env =
  ba_signUpEmail :: "jsval \<Rightarrow> auth_user id_answer"
  ba_signInEmail :: "jsval \<Rightarrow> web_headers \<Rightarrow> sign_in_result id_answer"
  ba_signOut :: "web_headers \<Rightarrow> unit id_answer"
  ba_getSession :: "web_headers \<Rightarrow> auth_user option id_answer"
  ba_verifyEmail :: "jsval \<Rightarrow> unit id_answer"
  pool_query :: "string \<Rightarrow> string list \<Rightarrow> jsdate list id_answer"
  validate_signUp :: "jsval \<Rightarrow> proto_result"
  validate_signIn :: "jsval \<Rightarrow> proto_result"

section \<open>Validation\<close>

datatype validation_result = Valid | Invalid "error_item list" | ValidationFailed

definition validation_result_of :: "proto_result \<Rightarrow> validation_result" where
  "validation_result_of result =
     (case result of
        ProtoValid \<Rightarrow> Valid
      | ProtoInvalid violations \<Rightarrow> Invalid (map mapProtovalidateViolation violations)
      | ProtoError \<Rightarrow> ValidationFailed)"

definition validateSignUpRequest :: "identity_env \<Rightarrow> jsval \<Rightarrow> validation_result" where
  "validateSignUpRequest E request = validation_result_of (validate_signUp E request)"

definition validateSignInRequest :: "identity_env \<Rightarrow> jsval \<Rightarrow> validation_result" where
  "validateSignInRequest E request = validation_result_of (validate_signIn E request)"

section \<open>Timestamps and the session's expiry\<close>

text \<open>\<open>String(n)\<close> of a number that is an integer or \<open>NaN\<close>.\<close>

fun number_text :: "jsnum \<Rightarrow> string" where
  "number_text (Fin x) = show_int \<lfloor>x\<rfloor>"
| "number_text PosInf = ''Infinity''"
| "number_text NegInf = ''-Infinity''"
| "number_text NaN = ''NaN''"

definition toTimestamp :: "jsdate \<Rightarrow> identity_timestamp" where
  "toTimestamp value =
     (let milliseconds = getTime value
      in \<lparr>its_seconds = number_text (js_floor (js_div_pos milliseconds 1000)),
          its_nanos =
            (case value of None \<Rightarrow> NaN | Some t \<Rightarrow> num (js_rem t 1000 * 1000000))\<rparr>)"

text \<open>auth.factory.ts: the first row's \<open>expiresAt\<close>, else null.\<close>

definition getSessionExpiry :: "identity_env \<Rightarrow> string \<Rightarrow> string \<Rightarrow> jsdate option identity" where
  "getSessionExpiry E sessionToken userId =
     (let sql = ''SELECT ''@ [CHR 0x22] @ ''expiresAt'' @ [CHR 0x22] @ '' FROM '' @ [CHR 0x22] @ ''session'' @
                [CHR 0x22] @ '' WHERE token = $1 AND '' @ [CHR 0x22] @ ''userId'' @ [CHR 0x22] @ '' = $2''
      in io_bind (io_call (PoolQuery sql [sessionToken, userId]) (pool_query E sql [sessionToken, userId]))
           (\<lambda>rows. io_return (case rows of [] \<Rightarrow> None | expiresAt # _ \<Rightarrow> Some expiresAt)))"

section \<open>IdentityService\<close>

definition IdentityService_signUp :: "identity_env \<Rightarrow> jsval \<Rightarrow> identity_SignUpResponse identity" where
  "IdentityService_signUp E request =
     (case validateSignUpRequest E request of
        Invalid errors \<Rightarrow> io_throw (StructuredGrpcError GRPC_INVALID_ARGUMENT errors)
      | ValidationFailed \<Rightarrow>
          io_throw (StructuredGrpcError INTERNAL [createSignupValidationInternalError])
      | Valid \<Rightarrow>
          io_catch
            (io_bind (io_call (SignUpEmail request) (ba_signUpEmail E request))
               (\<lambda>user. io_return \<lparr>is_userId = au_id user, is_email = au_email user\<rparr>))
            (\<lambda>error. io_throw (mapBetterAuthError error)))"

definition IdentityService_signIn ::
    "identity_env \<Rightarrow> jsval \<Rightarrow> server_metadata \<Rightarrow> identity_SignInResponse identity" where
  "IdentityService_signIn E request metadata =
     (case validateSignInRequest E request of
        Invalid errors \<Rightarrow> io_throw (StructuredGrpcError GRPC_INVALID_ARGUMENT errors)
      | ValidationFailed \<Rightarrow>
          io_throw (StructuredGrpcError INTERNAL [createSigninValidationInternalError])
      | Valid \<Rightarrow>
          io_catch
            (io_bind (io_of_result (createAuthRequestHeaders metadata)) (\<lambda>headers.
             io_bind (io_call (SignInEmail request headers) (ba_signInEmail E request headers))
               (\<lambda>signInResult.
                  case extractSessionCookieValue (si_headers signInResult) of
                    None \<Rightarrow> io_throw (new_error PlainError
                              ''Better Auth did not return the created session cookie.'')
                  | Some sessionCookieValue \<Rightarrow>
                      if sessionCookieValue = []
                      then io_throw (new_error PlainError
                             ''Better Auth did not return the created session cookie.'')
                      else
                        io_bind (getSessionExpiry E (si_token signInResult) (au_id (si_user signInResult)))
                          (\<lambda>expiry.
                             case expiry of
                               None \<Rightarrow> io_throw (new_error PlainError
                                         ''Better Auth did not return the created session.'')
                             | Some sessionExpiresAt \<Rightarrow>
                                 io_return
                                   \<lparr>ir_userId = au_id (si_user signInResult),
                                    ir_name = au_name (si_user signInResult),
                                    ir_email = au_email (si_user signInResult),
                                    ir_emailVerified = au_emailVerified (si_user signInResult),
                                    ir_sessionToken = sessionCookieValue,
                                    ir_sessionExpiresAt = toTimestamp sessionExpiresAt\<rparr>))))
            (\<lambda>error. io_throw (mapBetterAuthSignInError error)))"

definition IdentityService_signOut :: "identity_env \<Rightarrow> server_metadata \<Rightarrow> unit identity" where
  "IdentityService_signOut E metadata =
     io_catch
       (io_bind (io_of_result (createSessionRequestHeaders metadata)) (\<lambda>headers.
        io_bind (io_call (SignOutSession headers) (ba_signOut E headers)) (\<lambda>_. io_return ())))
       (\<lambda>_. io_throw (mapBetterAuthSignOutError ()))"

definition IdentityService_currentUser ::
    "identity_env \<Rightarrow> server_metadata \<Rightarrow> identity_CurrentUserResponse identity" where
  "IdentityService_currentUser E metadata =
     io_bind
       (io_catch
          (io_bind (io_of_result (createSessionRequestHeaders metadata)) (\<lambda>headers.
             io_call (GetSession headers) (ba_getSession E headers)))
          (\<lambda>_. io_throw (StructuredGrpcError INTERNAL [createCurrentUserInternalError])))
       (\<lambda>currentSession.
          case currentSession of
            None \<Rightarrow> io_throw (StructuredGrpcError GRPC_UNAUTHENTICATED [createCurrentUserUnauthenticatedError])
          | Some user \<Rightarrow>
              io_return \<lparr>ic_userId = au_id user, ic_name = au_name user, ic_email = au_email user,
                         ic_emailVerified = au_emailVerified user\<rparr>)"

definition IdentityService_verifyEmail :: "identity_env \<Rightarrow> jsval \<Rightarrow> bool identity" where
  "IdentityService_verifyEmail E request =
     io_catch
       (io_bind (io_call (VerifyEmailToken (get_prop request ''token''))
                   (ba_verifyEmail E (get_prop request ''token'')))
          (\<lambda>_. io_return True))
       (\<lambda>error. io_throw (mapEmailVerificationError error))"

section \<open>IdentityController\<close>

text \<open>The gRPC methods of identity.controller.ts, as requests and answers of one type.\<close>

datatype identity_request =
    RpcSignUp jsval
  | RpcSignIn jsval server_metadata
  | RpcSignOut server_metadata
  | RpcCurrentUser server_metadata
  | RpcVerifyEmail jsval

datatype identity_reply =
    SignedUp identity_SignUpResponse
  | SignedIn identity_SignInResponse
  | SignedOut
  | UserFound identity_CurrentUserResponse
  | Verified bool

fun IdentityController_handle :: "identity_env \<Rightarrow> identity_request \<Rightarrow> identity_reply identity" where
  "IdentityController_handle E (RpcSignUp request) =
     io_bind (IdentityService_signUp E request) (\<lambda>r. io_return (SignedUp r))"
| "IdentityController_handle E (RpcSignIn request metadata) =
     io_bind (IdentityService_signIn E request metadata) (\<lambda>r. io_return (SignedIn r))"
| "IdentityController_handle E (RpcSignOut metadata) =
     io_bind (IdentityService_signOut E metadata) (\<lambda>_. io_return SignedOut)"
| "IdentityController_handle E (RpcCurrentUser metadata) =
     io_bind (IdentityService_currentUser E metadata) (\<lambda>r. io_return (UserFound r))"
| "IdentityController_handle E (RpcVerifyEmail request) =
     io_bind (IdentityService_verifyEmail E request) (\<lambda>v. io_return (Verified v))"

end
