(* ===== verification/Identity_App.thy ===== *)
theory Identity_App
  imports Identity_Service
begin

text \<open>
  The rest of identity (apps/identity/src): the Better Auth configuration (auth), the e-mail sender,
  shutdown and migration, the gRPC server's options (app) and the request metrics
  (observability/prometheus.ts).
\<close>

section \<open>Configuration\<close>

definition requiredEnvironmentVariable :: "(string \<Rightarrow> string option) \<Rightarrow> string \<Rightarrow> thrown + string" where
  "requiredEnvironmentVariable env name =
     (case env name of
        None \<Rightarrow> Inl (new_error PlainError (name @ '' must be configured.''))
      | Some value \<Rightarrow>
          if value = [] then Inl (new_error PlainError (name @ '' must be configured.'')) else Inr value)"

text \<open>Sequencing of computations that may throw.\<close>

definition res_bind :: "'e + 'a \<Rightarrow> ('a \<Rightarrow> 'e + 'b) \<Rightarrow> 'e + 'b" where
  "res_bind r f = (case r of Inl e \<Rightarrow> Inl e | Inr x \<Rightarrow> f x)"

record email_sender =
  es_host :: string
  es_port :: jsnum
  es_secure :: bool
  es_from :: string

definition createEmailSender :: "(string \<Rightarrow> string option) \<Rightarrow> thrown + email_sender" where
  "createEmailSender env =
     res_bind (requiredEnvironmentVariable env ''SMTP_HOST'') (\<lambda>host.
     res_bind (requiredEnvironmentVariable env ''SMTP_PORT'') (\<lambda>port.
     res_bind (requiredEnvironmentVariable env ''SMTP_FROM'') (\<lambda>sender.
       Inr \<lparr>es_host = host, es_port = js_Number port, es_secure = False, es_from = sender\<rparr>)))"

record mail =
  mail_from :: string
  mail_subject :: string
  mail_text :: string
  mail_to :: string

definition sendVerificationEmail :: "email_sender \<Rightarrow> string \<Rightarrow> string \<Rightarrow> mail" where
  "sendVerificationEmail sender recipient verificationUrl =
     \<lparr>mail_from = es_from sender,
      mail_subject = ''Verify your Polyglot Ticketing email address'',
      mail_text = ''Verify your email address: '' @ verificationUrl,
      mail_to = recipient\<rparr>"

record auth_config =
  cfg_connectionString :: string
  cfg_session_cookie :: string
  cfg_baseURL :: string
  cfg_autoSignIn :: bool
  cfg_enabled :: bool
  cfg_requireEmailVerification :: bool
  cfg_sendOnSignIn :: bool
  cfg_sendOnSignUp :: bool
  cfg_sender :: email_sender
  cfg_secret :: string
  cfg_trustedOrigins :: "string list"

definition createIdentityAuthContext :: "(string \<Rightarrow> string option) \<Rightarrow> thrown + auth_config" where
  "createIdentityAuthContext env =
     res_bind (requiredEnvironmentVariable env ''DATABASE_URL'') (\<lambda>connectionString.
     res_bind (createEmailSender env) (\<lambda>emailSender.
     res_bind (requiredEnvironmentVariable env ''BETTER_AUTH_URL'') (\<lambda>baseURL.
     res_bind (requiredEnvironmentVariable env ''BETTER_AUTH_SECRET'') (\<lambda>secret.
       Inr \<lparr>cfg_connectionString = connectionString,
            cfg_session_cookie = ''better-auth.session_token'',
            cfg_baseURL = baseURL,
            cfg_autoSignIn = False,
            cfg_enabled = True,
            cfg_requireEmailVerification = True,
            cfg_sendOnSignIn = False,
            cfg_sendOnSignUp = True,
            cfg_sender = emailSender,
            cfg_secret = secret,
            cfg_trustedOrigins =
              [case env ''TICKETING_USER_APP_ORIGIN'' of
                 None \<Rightarrow> ''http://localhost:3001'' | Some v \<Rightarrow> v]\<rparr>))))"

text \<open>auth.lifecycle.ts, and migrate-identity-database.ts with the library's migrations as an argument.\<close>

definition onApplicationShutdown :: "unit id_answer \<Rightarrow> unit identity" where
  "onApplicationShutdown pool_end = io_call PoolEnd pool_end"

definition migrateIdentityDatabase ::
    "(string \<Rightarrow> string option) \<Rightarrow> (auth_config \<Rightarrow> unit identity) \<Rightarrow> unit id_answer \<Rightarrow> unit identity" where
  "migrateIdentityDatabase env migrate pool_end =
     io_bind (io_of_result (createIdentityAuthContext env)) (\<lambda>identityAuthContext.
       io_finally (migrate identityAuthContext) (io_call PoolEnd pool_end))"

text \<open>app.bootstrap.ts: the options of the gRPC server.\<close>

record grpc_server =
  gs_includeDirs :: "string list"
  gs_package :: string
  gs_protoPath :: string
  gs_url :: string

definition createIdentityMicroservice :: "string \<Rightarrow> jsnum \<Rightarrow> grpc_server" where
  "createIdentityMicroservice cwd grpcPort =
     \<lparr>gs_includeDirs = [cwd @ ''/proto'', cwd @ ''/proto-deps''],
      gs_package = ''identity.v1'',
      gs_protoPath = cwd @ ''/proto/identity/v1/identity.proto'',
      gs_url = ''0.0.0.0:'' @ number_text grpcPort\<rparr>"

section \<open>Metrics\<close>

definition grpc_codes :: "string list" where
  "grpc_codes =
     [''OK'', ''Canceled'', ''Unknown'', ''InvalidArgument'', ''DeadlineExceeded'', ''NotFound'',
      ''AlreadyExists'', ''PermissionDenied'', ''ResourceExhausted'', ''FailedPrecondition'',
      ''Aborted'', ''OutOfRange'', ''Unimplemented'', ''Internal'', ''Unavailable'', ''DataLoss'',
      ''Unauthenticated'']"

text \<open>The result is \<open>None\<close> where the array read gives \<open>undefined\<close>: a number that is no index.\<close>

definition grpcCode :: "jsnum option \<Rightarrow> string option" where
  "grpcCode code =
     (case code of
        None \<Rightarrow> Some ''Unknown''
      | Some n \<Rightarrow>
          if js_less n (num 0) \<or> js_less_eq (num (int (length grpc_codes))) n then Some ''Unknown''
          else (case n of
                  Fin x \<Rightarrow> if js_isInteger n then Some (grpc_codes ! nat \<lfloor>x\<rfloor>) else None
                | _ \<Rightarrow> None))"

record identity_metrics =
  im_requests :: "string \<times> string option \<Rightarrow> nat"
  im_duration :: "string \<times> string option \<Rightarrow> jsnum list"

definition identity_observeRequest ::
    "identity_metrics \<Rightarrow> string \<Rightarrow> string option \<Rightarrow> jsnum \<Rightarrow> identity_metrics" where
  "identity_observeRequest metrics rpc code durationSeconds =
     metrics\<lparr>im_requests := (im_requests metrics)((rpc, code) := im_requests metrics (rpc, code) + 1),
             im_duration := (im_duration metrics)((rpc, code) := im_duration metrics (rpc, code) @ [durationSeconds])\<rparr>"

text \<open>
  The interceptor around a handler's outcome: the code of an error is its own \<open>code\<close> property, a
  number or absent. The outcome passes through; the request is observed once it has settled.
\<close>

definition error_code :: "thrown \<Rightarrow> jsnum option" where
  "error_code error =
     (case get_prop (thrown_val error) ''code'' of JNum n \<Rightarrow> Some n | _ \<Rightarrow> None)"

definition GrpcMetricsInterceptor_intercept ::
    "identity_metrics \<Rightarrow> string \<Rightarrow> thrown + 'a \<Rightarrow> jsnum \<Rightarrow> (thrown + 'a) \<times> identity_metrics" where
  "GrpcMetricsInterceptor_intercept metrics rpc result elapsed =
     (let code = (case result of Inl error \<Rightarrow> grpcCode (error_code error) | Inr _ \<Rightarrow> Some ''OK'')
      in (result, identity_observeRequest metrics rpc code (js_div_pos elapsed 1000)))"

section \<open>Failures of identity\<close>

definition structured :: "thrown \<Rightarrow> bool" where
  "structured e \<longleftrightarrow>
     (\<exists>s items. e = StructuredGrpcError s items \<and> items \<noteq> [] \<and>
        (\<forall>i \<in> set items. ei_code i \<in> public_codes))"

text \<open>What Protovalidate documents: an invalid verdict lists at least one violation.\<close>

definition reports_violations :: "identity_env \<Rightarrow> bool" where
  "reports_violations E \<longleftrightarrow>
     (\<forall>r. validate_signUp E r \<noteq> ProtoInvalid [] \<and> validate_signIn E r \<noteq> ProtoInvalid [])"

lemma structured_mappers [simp]:
  "structured (mapBetterAuthError e)" "structured (mapBetterAuthSignInError e)"
  "structured (mapBetterAuthSignOutError u)" "structured (mapEmailVerificationError e)"
  unfolding structured_def
  by (rule signup_mapper.structured signin_mapper.structured signout_mapper.structured
      verification_mapper.structured)+

lemma structured_item: "ei_code i \<in> public_codes \<Longrightarrow> structured (StructuredGrpcError s [i])"
  unfolding structured_def by (rule structured_single)

lemma structured_violations: "ps \<noteq> [] \<Longrightarrow> structured (StructuredGrpcError s (map mapProtovalidateViolation ps))"
  by (auto simp: structured_def mapProtovalidateViolation_public
      intro!: exI [of _ s] exI [of _ "map mapProtovalidateViolation ps"])

lemmas structured_own =
  structured_item [OF item_codes_public(6)] structured_item [OF item_codes_public(11)]
  structured_item [OF item_codes_public(13)] structured_item [OF item_codes_public(14)]

definition fails_structured :: "'a identity \<Rightarrow> bool" where
  "fails_structured m \<longleftrightarrow> (\<forall>h e h'. m h = (Inl e, h') \<longrightarrow> structured e)"

lemma fails_structured_catch:
  "(\<And>e. structured (f e)) \<Longrightarrow> fails_structured (io_catch m (\<lambda>e. io_throw (f e)))"
  by (auto simp: fails_structured_def io_catch_def io_throw_def split: prod.splits sum.splits)

lemma fails_structured_throw: "structured e \<Longrightarrow> fails_structured (io_throw e)"
  by (simp add: fails_structured_def io_throw_def)

lemma fails_structured_bind:
  "fails_structured m \<Longrightarrow> (\<And>x. fails_structured (f x)) \<Longrightarrow> fails_structured (io_bind m f)"
  unfolding fails_structured_def io_bind_def by (auto split: prod.splits sum.splits)

lemma fails_structured_return: "fails_structured (io_return x)"
  by (simp add: fails_structured_def io_return_def)

lemma fails_structured_service:
  assumes "reports_violations E"
  shows "fails_structured (IdentityService_signUp E r)" "fails_structured (IdentityService_signIn E r md)"
    "fails_structured (IdentityService_signOut E md)" "fails_structured (IdentityService_currentUser E md)"
    "fails_structured (IdentityService_verifyEmail E r)"
proof -
  note rules = fails_structured_catch fails_structured_throw fails_structured_bind fails_structured_return
    structured_mappers structured_own structured_violations
  show "fails_structured (IdentityService_signUp E r)" "fails_structured (IdentityService_signIn E r md)"
    using assms
    by (auto simp: IdentityService_signUp_def IdentityService_signIn_def validateSignUpRequest_def
        validateSignInRequest_def validation_result_of_def reports_violations_def
        intro!: rules split: proto_result.split)
  show "fails_structured (IdentityService_signOut E md)" "fails_structured (IdentityService_verifyEmail E r)"
    unfolding IdentityService_signOut_def IdentityService_verifyEmail_def by (intro rules)+
  show "fails_structured (IdentityService_currentUser E md)"
    unfolding IdentityService_currentUser_def by (intro rules) (auto intro!: rules split: option.split)
qed

end
