(* ===== verification/Identity_Properties.thy ===== *)
theory Identity_Properties
  imports Identity_App
begin

text \<open>What identity guarantees to the gateway and to its operators.\<close>

section \<open>A sample environment\<close>

definition sample_auth_user :: auth_user where
  "sample_auth_user = \<lparr>au_id = ''u1'', au_name = ''Ada'', au_email = ''a@b.c'', au_emailVerified = True\<rparr>"

definition sample_identity :: identity_env where
  "sample_identity =
     \<lparr>ba_signUpEmail = (\<lambda>_ _. Inl (ErrorObject PlainError [(''statusCode'', JNum (num 409))])),
      ba_signInEmail = (\<lambda>_ _ _. Inr
        \<lparr>si_headers = \<lparr>rh_getSetCookie = Some [''theme=dark'', ''better-auth.session_token=t1; Path=/''],
                       rh_get_set_cookie = None\<rparr>,
         si_token = ''k1'', si_user = sample_auth_user\<rparr>),
      ba_signOut = (\<lambda>_ _. Inr ()),
      ba_getSession = (\<lambda>hs _. Inr (if hs = [(''cookie'', ''better-auth.session_token=t1'')]
                                 then Some sample_auth_user else None)),
      ba_verifyEmail = (\<lambda>_ _. Inr ()),
      pool_query = (\<lambda>_ _ _. Inr [Some 1700000000005]),
      validate_signUp = (\<lambda>_. ProtoValid),
      validate_signIn = (\<lambda>_. ProtoValid)\<rparr>"

lemma sample_reports: "reports_violations sample_identity"
  by (simp add: reports_violations_def sample_identity_def)

section \<open>Properties\<close>

text \<open>
  Whatever Better Auth or the validator does, every failed gRPC method of identity rejects with
  a structured error: an RpcException whose details are the JSON of at least one item, each with a
  public code.
\<close>

theorem identity_failures_structured:
  assumes "reports_violations E" and "IdentityController_handle E r h = (Inl e, h')"
  shows "\<exists>s items. e = StructuredGrpcError s items \<and> items \<noteq> [] \<and>
    (\<forall>i \<in> set items. ei_code i \<in> public_codes)"
proof -
  note rules = fails_structured_bind fails_structured_service [OF assms(1)] fails_structured_return
  have "fails_structured (IdentityController_handle E r)"
    by (cases r) (auto intro!: rules)
  with assms(2) have "structured e" unfolding fails_structured_def by blast
  then show ?thesis by (simp add: structured_def)
qed

theorem identity_failures_structured_witness:
  "\<exists>e h'. IdentityController_handle sample_identity (RpcSignUp (JObj [])) [] = (Inl e, h') \<and>
     (\<exists>s items. e = StructuredGrpcError s items \<and> items \<noteq> [] \<and> (\<forall>i \<in> set items. ei_code i \<in> public_codes))"
proof -
  have "\<exists>e h'. IdentityController_handle sample_identity (RpcSignUp (JObj [])) [] = (Inl e, h')"
    by (simp add: IdentityService_signUp_def validateSignUpRequest_def validation_result_of_def
        sample_identity_def io_simps)
  then obtain e h' where run: "IdentityController_handle sample_identity (RpcSignUp (JObj [])) [] = (Inl e, h')"
    by blast
  with identity_failures_structured [OF sample_reports run] show ?thesis by blast
qed

lemma identity_signIn_calls:
  assumes "IdentityService_signIn E request md h = (Inr r, h')"
  shows "\<exists>headers result sql expiry rows.
    validate_signIn E request = ProtoValid \<and>
    createAuthRequestHeaders md = Inr headers \<and>
    ba_signInEmail E request headers h = Inr result \<and>
    extractSessionCookieValue (si_headers result) = Some (ir_sessionToken r) \<and> ir_sessionToken r \<noteq> [] \<and>
    pool_query E sql [si_token result, au_id (si_user result)] (h @ [SignInEmail request headers]) =
      Inr (expiry # rows) \<and>
    ir_sessionExpiresAt r = toTimestamp expiry \<and> ir_userId r = au_id (si_user result) \<and>
    h' = h @ [SignInEmail request headers, PoolQuery sql [si_token result, au_id (si_user result)]]"
proof -
  from assms have v: "validate_signIn E request = ProtoValid"
    by (auto simp: IdentityService_signIn_def validateSignInRequest_def validation_result_of_def io_throw_def
        split: proto_result.splits)
  then obtain headers where hs: "createAuthRequestHeaders md = Inr headers"
    using assms
    by (cases "createAuthRequestHeaders md")
      (auto simp: IdentityService_signIn_def validateSignInRequest_def validation_result_of_def io_throw_def)
  obtain result where res: "ba_signInEmail E request headers h = Inr result"
    using assms v hs
    by (cases "ba_signInEmail E request headers h")
      (auto simp: IdentityService_signIn_def validateSignInRequest_def validation_result_of_def io_simps)
  obtain token where tok: "extractSessionCookieValue (si_headers result) = Some token" "token \<noteq> []"
    using assms v hs res
    by (cases "extractSessionCookieValue (si_headers result)")
      (auto simp: IdentityService_signIn_def validateSignInRequest_def validation_result_of_def io_simps
        split: if_splits)
  then show ?thesis
    using assms v hs res
    by (auto simp: IdentityService_signIn_def validateSignInRequest_def validation_result_of_def
        getSessionExpiry_def Let_def io_simps split: sum.splits list.splits)
qed

text \<open>
  C34: A sign-in succeeds only after Better Auth accepted the credentials with the restored headers and the
  database returned the session Better Auth created, for its token and its user. The answer has
  the non-empty value of Better Auth's session cookie and the expiry of that row.
\<close>

theorem identity_signIn_session:
  assumes "IdentityService_signIn E request md h = (Inr r, h')"
  shows "\<exists>headers result sql expiry rows.
    validate_signIn E request = ProtoValid \<and>
    createAuthRequestHeaders md = Inr headers \<and>
    ba_signInEmail E request headers h = Inr result \<and>
    extractSessionCookieValue (si_headers result) = Some (ir_sessionToken r) \<and> ir_sessionToken r \<noteq> [] \<and>
    pool_query E sql [si_token result, au_id (si_user result)] (h @ [SignInEmail request headers]) =
      Inr (expiry # rows) \<and>
    ir_sessionExpiresAt r = toTimestamp expiry \<and> ir_userId r = au_id (si_user result) \<and>
    h' = h @ [SignInEmail request headers, PoolQuery sql [si_token result, au_id (si_user result)]]"
  using assms by (rule identity_signIn_calls)

theorem identity_signIn_session_witness:
  "\<exists>r h'. IdentityService_signIn sample_identity (JObj []) (\<lambda>_. []) [] = (Inr r, h') \<and>
     ir_sessionToken r = ''t1'' \<and> length h' = 2"
proof -
  have hs: "createAuthRequestHeaders (\<lambda>_. []) = Inr []"
    by (simp add: createAuthRequestHeaders_def identity_FORWARDED_AUTH_HEADERS_def first_string_def)
  have tok: "extractSessionCookieValue \<lparr>rh_getSetCookie = Some [''theme=dark'', ''better-auth.session_token=t1; Path=/''],
      rh_get_set_cookie = None\<rparr> = Some ''t1''" by code_simp
  have "\<exists>r h'. IdentityService_signIn sample_identity (JObj []) (\<lambda>_. []) [] = (Inr r, h')"
    by (simp add: IdentityService_signIn_def validateSignInRequest_def validation_result_of_def
        getSessionExpiry_def Let_def io_simps hs sample_identity_def tok)
  then obtain r h' where run: "IdentityService_signIn sample_identity (JObj []) (\<lambda>_. []) [] = (Inr r, h')"
    by blast
  from identity_signIn_session [OF run] run hs tok show ?thesis
    by (auto simp: sample_identity_def)
qed

text \<open>
  A sign-in that Better Auth rejects has one of three public outcomes: an unverified address and
  wrong credentials are unauthenticated, anything else is an internal error that says nothing of its cause.
\<close>

theorem signIn_error_outcomes:
  "mapBetterAuthSignInError e \<in>
     {StructuredGrpcError GRPC_UNAUTHENTICATED [createEmailNotVerifiedError],
      StructuredGrpcError GRPC_UNAUTHENTICATED [createInvalidCredentialsError],
      StructuredGrpcError INTERNAL [createSigninInternalError]} \<and>
   (mapBetterAuthSignInError e = StructuredGrpcError GRPC_UNAUTHENTICATED [createInvalidCredentialsError] \<longleftrightarrow>
      signin_getExternalErrorCode e = Some ''INVALID_EMAIL_OR_PASSWORD'')"
proof -
  have ne: "StructuredGrpcError GRPC_UNAUTHENTICATED [createEmailNotVerifiedError] \<noteq>
      StructuredGrpcError GRPC_UNAUTHENTICATED [createInvalidCredentialsError]"
    "StructuredGrpcError INTERNAL [createSigninInternalError] \<noteq>
      StructuredGrpcError GRPC_UNAUTHENTICATED [createInvalidCredentialsError]"
    by (simp_all add: StructuredGrpcError_def details.encode_inject createEmailNotVerifiedError_def
        createInvalidCredentialsError_def)
  then show ?thesis by (simp add: mapBetterAuthSignInError_def Let_def)
qed

text \<open>
  When Better Auth fails with a server error during sign-up, identity answers with the status
  \<open>INTERNAL\<close> but the item of a client error, "Signup data is invalid.".
\<close>

theorem signUp_server_error_item:
  assumes "getHttpStatusCode e = Some (num n)" and "500 \<le> n"
    and "signup_getExternalErrorCode e = None"
  shows "mapBetterAuthError e = StructuredGrpcError INTERNAL [createInvalidArgumentError]"
  using assms
  by (simp add: mapBetterAuthError_def getGrpcStatusCode_def getErrorItem_def js_less_eq_def js_num_eq_def)

theorem signUp_server_error_item_witness:
  "mapBetterAuthError (ErrorObject PlainError [(''statusCode'', JNum (num 503))]) =
     StructuredGrpcError INTERNAL [createInvalidArgumentError]"
  by (rule signUp_server_error_item [where n = 503])
    (simp_all add: getHttpStatusCode_def hasNumericStatusCode_def signup_getExternalErrorCode_def
      body_code_def Let_def)

text \<open>
  The metrics label of a failed request is always \<open>Unknown\<close>: the interceptor reads \<open>error.code\<close>,
  and a structured error keeps its code one level deeper, although \<open>grpcCode\<close> knows the name of
  every status.
\<close>

theorem metrics_label_unknown:
  "snd (GrpcMetricsInterceptor_intercept m rpc (Inl (StructuredGrpcError s items) :: thrown + 'a) elapsed) =
     identity_observeRequest m rpc (Some ''Unknown'') (js_div_pos elapsed 1000) \<and>
   grpcCode (Some (num (status_number s))) = Some (grpc_codes ! nat (status_number s))"
  by (cases s)
    (simp_all add: GrpcMetricsInterceptor_intercept_def error_code_def StructuredGrpcError_def grpcCode_def
      grpc_codes_def js_less_eq_def js_num_eq_def js_isInteger_def)

text \<open>
  A migration ends the connection pool it opened, whether the migrations succeed or fail, as its
  last call.
\<close>

theorem migration_ends_pool:
  assumes "createIdentityAuthContext env = Inr cfg"
  shows "snd (migrateIdentityDatabase env migrate pool_end h) = snd (migrate cfg h) @ [PoolEnd]"
  using assms
  by (auto simp: migrateIdentityDatabase_def io_finally_def io_call_def split: prod.split sum.split)

theorem migration_ends_pool_witness:
  "snd (migrateIdentityDatabase (\<lambda>_. Some ''x'') (\<lambda>_. io_throw (new_error PlainError ''no'')) (\<lambda>_. Inr ()) []) =
     [PoolEnd]"
proof -
  have "\<exists>cfg. createIdentityAuthContext (\<lambda>_. Some ''x'') = Inr cfg"
    by (simp add: createIdentityAuthContext_def createEmailSender_def res_bind_def
        requiredEnvironmentVariable_def)
  then obtain cfg where "createIdentityAuthContext (\<lambda>_. Some ''x'') = Inr cfg" by blast
  from migration_ends_pool [OF this, of "\<lambda>_. io_throw (new_error PlainError ''no'')" "\<lambda>_. Inr ()" "[]"]
  show ?thesis by (simp add: io_throw_def)
qed

lemma requiredEnvironmentVariable_Inr:
  "requiredEnvironmentVariable env n = Inr v \<longleftrightarrow> env n = Some v \<and> v \<noteq> []"
  by (auto simp: requiredEnvironmentVariable_def split: option.split)

lemma res_bind_Inr: "res_bind r f = Inr x \<longleftrightarrow> (\<exists>y. r = Inr y \<and> f y = Inr x)"
  by (auto simp: res_bind_def split: sum.split)

text \<open>
  Identity starts exactly when each of its six required environment variables is set and not
  empty.
\<close>

theorem identity_starts_iff_configured:
  "result_ok (createIdentityAuthContext env) \<longleftrightarrow>
     list_all (\<lambda>n. env n \<noteq> None \<and> env n \<noteq> Some [])
       [''DATABASE_URL'', ''SMTP_HOST'', ''SMTP_PORT'', ''SMTP_FROM'', ''BETTER_AUTH_URL'', ''BETTER_AUTH_SECRET'']"
  unfolding result_ok_iff createIdentityAuthContext_def createEmailSender_def res_bind_Inr
    requiredEnvironmentVariable_Inr
  by auto

end
