(* ===== verification/Session_Flow.thy ===== *)
theory Session_Flow
  imports Gateway_Properties Identity_Properties
begin

text \<open>
  Identity behind the gateway: what the gRPC connection between the two services does, and the
  facts about a session on its way through both.
\<close>

section \<open>The connection\<close>

text \<open>
  What grpc-js documents of metadata: the server reads the value the client set under a key, and no
  value under a key the client did not set. The user agent, which the client library sends as its own, is left out.
\<close>

definition delivers_metadata :: "(metadata \<Rightarrow> server_metadata) \<Rightarrow> bool" where
  "delivers_metadata deliver \<longleftrightarrow>
     (\<forall>md k. distinct (map fst md) \<longrightarrow> k \<noteq> ''user-agent'' \<longrightarrow>
        deliver md k = (case map_of md k of None \<Rightarrow> [] | Some v \<Rightarrow> [MdString v]))"

definition plain_delivery :: "metadata \<Rightarrow> server_metadata" where
  "plain_delivery md k = (case map_of md k of None \<Rightarrow> [] | Some v \<Rightarrow> [MdString v])"

lemma delivers_plain: "delivers_metadata plain_delivery"
  by (simp add: delivers_metadata_def plain_delivery_def)

text \<open>The gateway's view of identity's answers.\<close>

definition user_reply :: "identity_CurrentUserResponse \<Rightarrow> IdentityCurrentUserResponse" where
  "user_reply r =
     \<lparr>icu_userId = ic_userId r, icu_name = ic_name r, icu_email = ic_email r,
      icu_emailVerified = ic_emailVerified r\<rparr>"

text \<open>
  The timestamp as the gateway's client gets it: identity's handler sets both fields of the message and its encoder
  writes both, the seconds as text.
\<close>

definition timestamp_reply :: "identity_timestamp \<Rightarrow> Timestamp" where
  "timestamp_reply t = \<lparr>ts_seconds = Some (SecString (its_seconds t)), ts_nanos = Some (its_nanos t)\<rparr>"

text \<open>The gateway's \<open>currentUser\<close> stub is answered by identity, at some point of identity's history.\<close>

definition current_user_backed ::
    "gateway_env \<Rightarrow> identity_env \<Rightarrow> (thrown \<Rightarrow> thrown) \<Rightarrow> (metadata \<Rightarrow> server_metadata) \<Rightarrow> bool" where
  "current_user_backed E I transport deliver \<longleftrightarrow>
     (\<forall>md h. \<exists>hi. grpc_currentUser E (JObj []) md h =
        (case fst (IdentityService_currentUser I (deliver md) hi) of
           Inl e \<Rightarrow> Inl (transport e) | Inr r \<Rightarrow> Inr (user_reply r)))"

section \<open>Session requests\<close>

lemma first_string_delivered:
  assumes "delivers_metadata deliver" and "distinct (map fst md)" and "k \<noteq> ''user-agent''"
  shows "first_string (deliver md) k = map_of md k"
  using assms by (simp add: delivers_metadata_def first_string_def split: option.split)

lemma session_headers_none:
  assumes "delivers_metadata deliver"
  shows "createSessionRequestHeaders (deliver []) = Inr []"
  using first_string_delivered [OF assms, of "[]" "''cookie''"] by (simp add: createSessionRequestHeaders_def)

lemma session_headers_cookie:
  assumes "delivers_metadata deliver" and "header_safe v" and "http_strip v = v"
  shows "createSessionRequestHeaders (deliver [(''cookie'', v)]) = Inr [(''cookie'', v)]"
  using first_string_delivered [OF assms(1), of "[(''cookie'', v)]" "''cookie''"] assms(2,3)
  by (simp add: createSessionRequestHeaders_def headers_set_safe)

text \<open>A guarded route whose session lookup fails.\<close>

lemma guarded_route_denied:
  assumes "is_guarded r" and "session_user E hs h = Inl e"
  shows "run_route E hs r h = (Inl (throwGatewayGrpcError e None), h @ session_lookup E hs)"
  using assms
  by (cases r)
    (simp_all add: done_with_def TicketsController_updateTicket_def TicketsController_createTicket_def
      OrdersController_createOrder_def OrdersController_cancelOrder_def OrdersController_listOrders_def
      OrdersController_getOrder_def PaymentsController_createPayment_def io_bind_def guarded_eq)

lemma currentUser_no_session:
  assumes "delivers_metadata deliver" and "\<And>h. ba_getSession I [] h = Inr None"
  shows "fst (IdentityService_currentUser I (deliver []) h) =
    Inl (StructuredGrpcError GRPC_UNAUTHENTICATED [createCurrentUserUnauthenticatedError])"
  using assms by (simp add: IdentityService_currentUser_def session_headers_none io_simps)

section \<open>Timestamps\<close>

lemma show_int_nonneg: "0 \<le> i \<Longrightarrow> show_int i = show_nat (nat i)"
  by (simp add: show_int_def)

lemma toTimestamp_nonneg:
  assumes "0 \<le> t" and "t \<le> max_time"
  shows "toTimestamp (Some t) =
    \<lparr>its_seconds = show_nat (nat (t div 1000)), its_nanos = num (t mod 1000 * 1000000)\<rparr>"
  using assms
  by (simp add: toTimestamp_def floor_div_1000 js_rem_nonneg show_int_nonneg del: js_div_pos.simps)

lemma seconds_number_shown:
  assumes "0 \<le> t" and "t \<le> max_time"
  shows "seconds_number (Some (SecString (show_nat (nat (t div 1000))))) = num (t div 1000)"
proof -
  have b: "0 \<le> t div 1000" "t div 1000 \<le> 8640000000000" using assms by (simp_all add: max_time_def)
  then have "int (nat (t div 1000)) < 2 ^ 53" by simp
  from js_Number_show_nat [OF this] b show ?thesis by simp
qed

text \<open>The quotient and the number that the last millisecond of 1969 needs.\<close>

lemma rat_exp_thousandth: "rat_exp (1 / 1000) = - 10"
proof -
  have "quotient_of (1 / 1000) = (1, 1000)" "bitlen 1000 = 10" "bitlen 1 = 1" by code_simp+
  moreover have "\<not> (2 :: rat) powi - 9 \<le> 1 / 1000" by code_simp
  ultimately show ?thesis by (simp add: rat_exp_def Let_def)
qed

lemma floor_minus_thousandth: "js_floor (fl (- (1/1000))) = num (- 1)"
proof -
  let ?m = "round_half_even (- (2 ^ 62) / 1000)"
  have u: "ulp_exp (- (1/1000)) = - 62" by (simp add: ulp_exp_def rat_exp_thousandth)
  have m: "- (2 ^ 62) \<le> ?m" "?m \<le> - 1"
    by (rule round_half_even_lower, simp) (rule round_half_even_upper, simp)
  have p: "(2 :: rat) powi - 62 = 1 / 2 ^ 62" by (simp add: power_int_def field_simps)
  let ?v = "of_int ?m * (1 / 2 ^ 62) :: rat"
  have "(of_int (- (2 ^ 62)) :: rat) \<le> of_int ?m" "of_int ?m \<le> (of_int (- 1) :: rat)"
    using m by (simp_all only: of_int_le_iff)
  then have v: "- 1 \<le> ?v" "?v < 0" by simp_all
  have "- (1 / 1000) / (2 powi ulp_exp (- (1/1000))) = (- (2 ^ 62) / 1000 :: rat)" unfolding u p by simp
  then have "fl (- (1/1000)) = Fin ?v"
    using v unfolding fl_def Let_def by (simp only: u p) simp
  moreover have "\<lfloor>?v\<rfloor> = - 1" using v by (intro floor_unique) simp_all
  ultimately show ?thesis by simp
qed

lemma js_Number_minus_one: "js_Number ''-1'' = num (- 1)"
proof -
  have "read_decimal ''1'' = Some 1" by code_simp
  moreover have "radix_of ''-1'' = None" by code_simp
  moreover have "js_trim ''-1'' = ''-1''" by code_simp
  ultimately show ?thesis using fl_int [of "- 1"] by (simp add: js_Number_def startsWith_def)
qed

end
