(* ===== verification/Stress_Script.thy ===== *)
theory Stress_Script
  imports Js_Json
begin

text \<open>
  The ticket stress script (scripts/stress/tickets.js): it creates tickets through the gateway, updates each twice and
  then reads all of them back. Modelled whole: configuration, requests, checks, the two loops and the report. The
  HTTP client, URL resolution, the random run id and the text of a number are an environment.
\<close>

section \<open>Errors\<close>

text \<open>An \<open>Error\<close> with its cause, the script's own error class, and a thrown value that is no error.\<close>

datatype stress_thrown =
    JsError string "stress_thrown option"
  | StressRequestError string nat jsval
  | NotAnError jsval

fun findStressRequestError :: "stress_thrown \<Rightarrow> stress_thrown option" where
  "findStressRequestError (StressRequestError message status body) =
     Some (StressRequestError message status body)"
| "findStressRequestError (JsError message (Some cause)) = findStressRequestError cause"
| "findStressRequestError (JsError message None) = None"
| "findStressRequestError (NotAnError v) = None"

text \<open>\<open>JSON.stringify\<close>, \<open>None\<close> for \<open>undefined\<close>, with the text of a finite number as an argument.\<close>

fun json_text :: "(jsnum \<Rightarrow> string) \<Rightarrow> jsval \<Rightarrow> string option" where
  "json_text shown JUndef = None"
| "json_text shown JNull = Some ''null''"
| "json_text shown (JBool b) = Some (if b then ''true'' else ''false'')"
| "json_text shown (JNum n) = Some (case n of Fin _ \<Rightarrow> shown n | _ \<Rightarrow> ''null'')"
| "json_text shown (JStr s) = Some (json_quote s)"
| "json_text shown (JArr vs) =
     Some (json_array (map (\<lambda>v. case json_text shown v of None \<Rightarrow> ''null'' | Some t \<Rightarrow> t) vs))"
| "json_text shown (JObj kvs) =
     Some (json_object (concat (map (\<lambda>kv. case json_text shown (snd kv) of
                                           None \<Rightarrow> [] | Some t \<Rightarrow> [(fst kv, t)]) kvs)))"

definition template_json :: "(jsnum \<Rightarrow> string) \<Rightarrow> jsval \<Rightarrow> string" where
  "template_json shown v = (case json_text shown v of None \<Rightarrow> ''undefined'' | Some t \<Rightarrow> t)"

fun errorMessage :: "(jsnum \<Rightarrow> string) \<Rightarrow> stress_thrown \<Rightarrow> string" where
  "errorMessage shown (JsError message cause) = message"
| "errorMessage shown (StressRequestError message status body) = message"
| "errorMessage shown (NotAnError v) = js_String shown v"

section \<open>Calls and the environment\<close>

record stress_request =
  rq_method :: "string option"
  rq_body :: "string option"
  rq_headers :: "(string \<times> string) list"

record stress_response =
  rs_status :: nat
  rs_text :: "stress_thrown + string"

datatype stress_call =
    Fetch string stress_request
  | ConsoleLog string
  | ConsoleWarn string
  | ConsoleError string
  | SetProcessEnv string string
  | SetExitCode nat

type_synonym 'a stress = "(stress_call, stress_thrown, 'a) io"

record stress_env =
  sx_fetch :: "string \<Rightarrow> stress_request \<Rightarrow> stress_call list \<Rightarrow> stress_thrown + stress_response"
  sx_env :: "string \<Rightarrow> string option"
  sx_resolve :: "string \<Rightarrow> string \<Rightarrow> string option"
  sx_uuid :: "stress_call list \<Rightarrow> string"
  sx_show :: "jsnum \<Rightarrow> string"

definition say :: "stress_call \<Rightarrow> unit stress" where
  "say c = io_call c (\<lambda>_. Inr ())"

section \<open>Configuration\<close>

definition DEFAULT_BASE_URL :: string where "DEFAULT_BASE_URL = ''http://localhost:3000''"

definition DEFAULT_LIMIT :: nat where "DEFAULT_LIMIT = 200"

definition INITIAL_PRICE :: nat where "INITIAL_PRICE = 5"

definition FIRST_UPDATE_PRICE :: nat where "FIRST_UPDATE_PRICE = 10"

definition FINAL_UPDATE_PRICE :: nat where "FINAL_UPDATE_PRICE = 15"

definition PROGRESS_INTERVAL :: nat where "PROGRESS_INTERVAL = 25"

definition readPositiveInteger :: "string option \<Rightarrow> nat \<Rightarrow> stress_thrown + nat" where
  "readPositiveInteger value fallback =
     (case value of
        None \<Rightarrow> Inr fallback
      | Some v \<Rightarrow>
          if js_trim v = [] then Inr fallback
          else (let parsedValue = js_Number v
                in case parsedValue of
                     Fin x \<Rightarrow>
                       if \<not> js_isSafeInteger parsedValue \<or> js_less_eq parsedValue (num 0)
                       then Inl (JsError ''STRESS_LIMIT must be a positive integer'' None)
                       else Inr (nat \<lfloor>x\<rfloor>)
                   | _ \<Rightarrow> Inl (JsError ''STRESS_LIMIT must be a positive integer'' None)))"

record stress_config =
  sc_cookie :: string
  sc_insecureTls :: bool
  sc_limit :: nat
  sc_ticketsUrl :: string

text \<open>The cookie is a literal of the source; its emptiness check can never fail.\<close>

definition stress_cookie :: string where
  "stress_cookie =
     ''better-auth.session_token=bzdz3AQKnZhcRUQI3wbAtdHg1bArV1N5.gbiMV9eRFvIZo8T58oZkv%2B7b8jmQgZu09SiJoRK6FWM%3D''"

text \<open>\<open>s.replace(/\/$/, '')\<close>.\<close>

definition strip_slash :: "string \<Rightarrow> string" where
  "strip_slash s = (if s \<noteq> [] \<and> last s = CHR ''/'' then butlast s else s)"

definition readConfig :: "stress_env \<Rightarrow> stress_thrown + stress_config" where
  "readConfig X =
     (if stress_cookie = [] then Inl (JsError ''STRESS_COOKIE is required'' None)
      else
        (let baseUrl = (case sx_env X ''STRESS_BASE_URL'' of None \<Rightarrow> DEFAULT_BASE_URL | Some u \<Rightarrow> u)
         in case sx_resolve X ''/api/tickets'' baseUrl of
              None \<Rightarrow> Inl (JsError ''STRESS_BASE_URL must be a valid URL'' None)
            | Some url \<Rightarrow>
                (case readPositiveInteger (sx_env X ''STRESS_LIMIT'') DEFAULT_LIMIT of
                   Inl e \<Rightarrow> Inl e
                 | Inr limit \<Rightarrow>
                     Inr \<lparr>sc_cookie = stress_cookie,
                          sc_insecureTls = (sx_env X ''STRESS_INSECURE_TLS'' = Some ''1''),
                          sc_limit = limit, sc_ticketsUrl = strip_slash url\<rparr>)))"

section \<open>Requests\<close>

text \<open>The headers of a request: the script's two, then those of the options over them.\<close>

definition with_headers :: "stress_config \<Rightarrow> stress_request \<Rightarrow> stress_request" where
  "with_headers config options =
     options\<lparr>rq_headers :=
       foldl (\<lambda>hs (k, v). assoc_set hs k v) [(''accept'', ''application/json''), (''cookie'', sc_cookie config)]
         (rq_headers options)\<rparr>"

definition response_body :: "string \<Rightarrow> jsval" where
  "response_body rawBody =
     (if rawBody = [] then JUndef
      else case JSON_parse rawBody of None \<Rightarrow> JStr rawBody | Some v \<Rightarrow> v)"

definition requestJson ::
    "stress_env \<Rightarrow> stress_config \<Rightarrow> string \<Rightarrow> stress_request \<Rightarrow> (jsval \<times> nat) stress" where
  "requestJson X config url options =
     (let request = with_headers config options
      in io_bind
           (io_catch (io_call (Fetch url request) (sx_fetch X url request))
              (\<lambda>error. io_throw (JsError (''Request to '' @ url @ '' failed: '' @ errorMessage (sx_show X) error)
                                  (Some error))))
           (\<lambda>response.
              io_bind (io_of_result (rs_text response)) (\<lambda>rawBody.
                (let body = response_body rawBody; status = rs_status response
                 in if \<not> (200 \<le> status \<and> status < 300)
                    then io_throw (StressRequestError (''Request to '' @ url @ '' returned '' @ show_nat status)
                                     status body)
                    else io_return (body, status)))))"

definition assertStatus :: "nat \<Rightarrow> nat \<Rightarrow> string \<Rightarrow> unit stress" where
  "assertStatus status expectedStatus action =
     (if status \<noteq> expectedStatus
      then io_throw (JsError (action @ '' returned '' @ show_nat status @ ''; expected '' @ show_nat expectedStatus) None)
      else io_return ())"

record stress_ticket =
  st_id :: string
  st_price :: nat
  st_title :: string

definition ticket_matches :: "jsval \<Rightarrow> stress_ticket \<Rightarrow> bool" where
  "ticket_matches ticket expected \<longleftrightarrow>
     is_object ticket \<and> get_prop ticket ''id'' = JStr (st_id expected) \<and>
     get_prop ticket ''price'' = JNum (num (int (st_price expected))) \<and>
     get_prop ticket ''title'' = JStr (st_title expected)"

definition assertTicket :: "stress_env \<Rightarrow> jsval \<Rightarrow> stress_ticket \<Rightarrow> string \<Rightarrow> unit stress" where
  "assertTicket X ticket expected action =
     (if \<not> ticket_matches ticket expected
      then io_throw (JsError (action @ '' returned an unexpected ticket: '' @ template_json (sx_show X) ticket) None)
      else io_return ())"

text \<open>\<open>encodeURIComponent\<close>: unreserved characters, and two upper-case hex digits for every other UTF-8 byte.\<close>

definition uri_unreserved :: "char \<Rightarrow> bool" where
  "uri_unreserved c \<longleftrightarrow>
     (let n = (of_char c :: nat)
      in 48 \<le> n \<and> n \<le> 57 \<or> 65 \<le> n \<and> n \<le> 90 \<or> 97 \<le> n \<and> n \<le> 122) \<or>
     c \<in> {CHR ''-'', CHR ''_'', CHR ''.'', CHR ''!'', CHR ''~'', CHR ''*'', CHR 0x27, CHR ''('', CHR '')''}"

definition upper_hex :: "nat \<Rightarrow> char" where
  "upper_hex d = char_of (if d < 10 then 48 + d else 55 + d)"

definition encodeURIComponent :: "string \<Rightarrow> string" where
  "encodeURIComponent s =
     concat (map (\<lambda>c. if uri_unreserved c then [c]
                      else concat (map (\<lambda>b. [CHR ''%'', upper_hex (b div 16), upper_hex (b mod 16)]) (utf8_char c))) s)"

definition ticketUrl :: "string \<Rightarrow> string \<Rightarrow> string" where
  "ticketUrl ticketsUrl ticketId = ticketsUrl @ ''/'' @ encodeURIComponent ticketId"

text \<open>\<open>JSON.stringify({ price, title })\<close> with the options of a request that sends it.\<close>

definition ticket_body :: "nat \<Rightarrow> string \<Rightarrow> string" where
  "ticket_body price title = json_object [(''price'', show_nat price), (''title'', json_quote title)]"

definition send_options :: "string \<Rightarrow> nat \<Rightarrow> string \<Rightarrow> stress_request" where
  "send_options verb price title =
     \<lparr>rq_method = Some verb, rq_body = Some (ticket_body price title),
      rq_headers = [(''content-type'', ''application/json'')]\<rparr>"

definition read_options :: stress_request where
  "read_options = \<lparr>rq_method = None, rq_body = None, rq_headers = []\<rparr>"

definition createTicket :: "stress_env \<Rightarrow> stress_config \<Rightarrow> string \<Rightarrow> string stress" where
  "createTicket X config title =
     io_bind (requestJson X config (sc_ticketsUrl config) (send_options ''POST'' INITIAL_PRICE title))
       (\<lambda>(body, status).
          io_seq (assertStatus status 201 ''Ticket creation'')
            (if \<not> is_object body \<or> \<not> is_string (get_prop body ''id'') \<or> get_prop body ''id'' = JStr []
             then io_throw (JsError (''Ticket creation returned an unexpected response: '' @
                              template_json (sx_show X) body) None)
             else io_return (str_of (get_prop body ''id''))))"

definition updateTicket ::
    "stress_env \<Rightarrow> stress_config \<Rightarrow> string \<Rightarrow> string \<Rightarrow> nat \<Rightarrow> string \<Rightarrow> unit stress" where
  "updateTicket X config ticketId title price action =
     io_bind (requestJson X config (ticketUrl (sc_ticketsUrl config) ticketId) (send_options ''PUT'' price title))
       (\<lambda>(body, status).
          io_seq (assertStatus status 200 action)
            (assertTicket X body \<lparr>st_id = ticketId, st_price = price, st_title = title\<rparr> action))"

definition base_title :: "string \<Rightarrow> nat \<Rightarrow> string" where
  "base_title runId iteration = ''stress-ticket-'' @ runId @ ''-'' @ show_nat (iteration + 1)"

definition runCycle :: "stress_env \<Rightarrow> stress_config \<Rightarrow> nat \<Rightarrow> string \<Rightarrow> stress_ticket stress" where
  "runCycle X config iteration runId =
     (let baseTitle = base_title runId iteration
      in io_bind (createTicket X config baseTitle) (\<lambda>ticketId.
           (let firstUpdateTitle = baseTitle @ ''-first-update''; finalTitle = baseTitle @ ''-second-update''
            in io_seq (updateTicket X config ticketId firstUpdateTitle FIRST_UPDATE_PRICE ''First ticket update'')
                 (io_seq (updateTicket X config ticketId finalTitle FINAL_UPDATE_PRICE ''Second ticket update'')
                    (io_return \<lparr>st_id = ticketId, st_price = FINAL_UPDATE_PRICE, st_title = finalTitle\<rparr>)))))"

definition verifyTicket :: "stress_env \<Rightarrow> stress_config \<Rightarrow> stress_ticket \<Rightarrow> unit stress" where
  "verifyTicket X config ticket =
     io_bind (requestJson X config (ticketUrl (sc_ticketsUrl config) (st_id ticket)) read_options)
       (\<lambda>(body, status).
          io_seq (assertStatus status 200 ''Final ticket retrieval'')
            (assertTicket X body ticket ''Final ticket retrieval''))"

section \<open>The run\<close>

definition progress :: "nat \<Rightarrow> nat \<Rightarrow> string \<Rightarrow> string \<Rightarrow> unit stress" where
  "progress index whole verb noun =
     io_when ((index + 1) mod PROGRESS_INTERVAL = 0 \<or> index + 1 = whole)
       (say (ConsoleLog (verb @ show_nat (index + 1) @ ''/'' @ show_nat whole @ noun)))"

definition failing_with :: "stress_env \<Rightarrow> string \<Rightarrow> nat \<Rightarrow> 'a stress \<Rightarrow> 'a stress" where
  "failing_with X what index m =
     io_catch m
       (\<lambda>error. io_throw (JsError (what @ show_nat (index + 1) @ '' failed: '' @ errorMessage (sx_show X) error)
                           (Some error)))"

text \<open>The two \<open>for\<close> loops: the first over the remaining cycles, the second over the remaining tickets.\<close>

fun run_cycles :: "stress_env \<Rightarrow> stress_config \<Rightarrow> string \<Rightarrow> nat \<Rightarrow> nat \<Rightarrow> stress_ticket list stress" where
  "run_cycles X config runId index 0 = io_return []"
| "run_cycles X config runId index (Suc remaining) =
     io_bind (failing_with X ''Cycle '' index (runCycle X config index runId)) (\<lambda>ticket.
     io_seq (progress index (sc_limit config) ''Completed '' '' ticket cycles'')
       (io_bind (run_cycles X config runId (index + 1) remaining) (\<lambda>tickets. io_return (ticket # tickets))))"

fun verify_all :: "stress_env \<Rightarrow> stress_config \<Rightarrow> nat \<Rightarrow> nat \<Rightarrow> stress_ticket list \<Rightarrow> unit stress" where
  "verify_all X config whole index [] = io_return ()"
| "verify_all X config whole index (ticket # tickets) =
     io_seq (failing_with X ''Verification '' index (verifyTicket X config ticket))
       (io_seq (progress index whole ''Verified '' '' tickets'')
          (verify_all X config whole (index + 1) tickets))"

definition stress_main :: "stress_env \<Rightarrow> unit stress" where
  "stress_main X =
     io_bind (io_of_result (readConfig X)) (\<lambda>config.
     io_seq (io_when (sc_insecureTls config)
               (io_seq (say (SetProcessEnv ''NODE_TLS_REJECT_UNAUTHORIZED'' ''0''))
                  (say (ConsoleWarn ''TLS certificate verification is disabled for this run.''))))
     (io_seq (say (ConsoleLog (''Running '' @ show_nat (sc_limit config) @
                '' sequential ticket create/update cycles against '' @ sc_ticketsUrl config)))
     (io_bind (io_read (sx_uuid X)) (\<lambda>runId.
      io_bind (run_cycles X config runId 0 (sc_limit config)) (\<lambda>finalTickets.
      io_seq (say (ConsoleLog (''Verifying '' @ show_nat (length finalTickets) @ '' final ticket states'')))
        (verify_all X config (length finalTickets) 0 finalTickets))))))"

definition stress_script :: "stress_env \<Rightarrow> unit stress" where
  "stress_script X =
     io_catch (io_seq (stress_main X) (say (ConsoleLog ''Ticket stress run complete'')))
       (\<lambda>error.
          io_seq (say (ConsoleError ''Ticket stress run failed''))
          (io_seq (say (ConsoleError (errorMessage (sx_show X) error)))
          (io_seq
             (case findStressRequestError error of
                Some (StressRequestError message status body) \<Rightarrow>
                  io_seq (say (ConsoleError (''Status: '' @ show_nat status)))
                    (say (ConsoleError (''Response: '' @ template_json (sx_show X) body)))
              | _ \<Rightarrow> io_return ())
             (say (SetExitCode 1)))))"

end
