(* ===== verification/Stress_Properties.thy ===== *)
theory Stress_Properties
  imports Stress_Script
begin

text \<open>
  What the stress script shows of the system it runs against: a run that succeeds has read every ticket back in its final
  state, a correct ticket server never fails it, and a failure is reported with the response that caused it.
\<close>

section \<open>The requests of a run\<close>

fun is_fetch :: "stress_call \<Rightarrow> bool" where
  "is_fetch (Fetch _ _) = True"
| "is_fetch _ = False"

definition create_call :: "stress_config \<Rightarrow> string \<Rightarrow> stress_call" where
  "create_call config title =
     Fetch (sc_ticketsUrl config) (with_headers config (send_options ''POST'' INITIAL_PRICE title))"

definition update_call :: "stress_config \<Rightarrow> string \<Rightarrow> nat \<Rightarrow> string \<Rightarrow> stress_call" where
  "update_call config i price title =
     Fetch (ticketUrl (sc_ticketsUrl config) i) (with_headers config (send_options ''PUT'' price title))"

definition read_call :: "stress_config \<Rightarrow> string \<Rightarrow> stress_call" where
  "read_call config i = Fetch (ticketUrl (sc_ticketsUrl config) i) (with_headers config read_options)"

lemma call_fetches [simp]:
  "is_fetch (create_call config title)" "is_fetch (update_call config i price title)"
  "is_fetch (read_call config i)"
  by (simp_all add: create_call_def update_call_def read_call_def)

text \<open>The three requests of the cycle with number \<open>k\<close> that made the ticket \<open>t\<close>, and the ticket it must be.\<close>

definition cycle_calls :: "stress_config \<Rightarrow> string \<Rightarrow> nat \<Rightarrow> stress_ticket \<Rightarrow> stress_call list" where
  "cycle_calls config runId k t =
     [create_call config (base_title runId k),
      update_call config (st_id t) 10 (base_title runId k @ ''-first-update''),
      update_call config (st_id t) 15 (base_title runId k @ ''-second-update'')]"

definition final_ticket :: "string \<Rightarrow> nat \<Rightarrow> stress_ticket \<Rightarrow> bool" where
  "final_ticket runId k t \<longleftrightarrow>
     st_id t \<noteq> [] \<and> st_price t = 15 \<and> st_title t = base_title runId k @ ''-second-update''"

text \<open>The server's answer to a request: its status and its body.\<close>

definition answers :: "stress_env \<Rightarrow> stress_config \<Rightarrow> string \<Rightarrow> stress_request \<Rightarrow> stress_call list \<Rightarrow> nat \<Rightarrow> jsval \<Rightarrow> bool" where
  "answers X config url options h status v \<longleftrightarrow>
     (\<exists>response raw. sx_fetch X url (with_headers config options) h = Inr response \<and>
        rs_status response = status \<and> rs_text response = Inr raw \<and> response_body raw = v)"

lemma requestJson_Inr:
  "requestJson X config url options h = (Inr (v, status), h') \<longleftrightarrow>
     answers X config url options h status v \<and> 200 \<le> status \<and> status < 300 \<and>
     h' = h @ [Fetch url (with_headers config options)]"
  by (auto simp: requestJson_def answers_def io_simps Let_def split: sum.splits if_splits)

lemma io_bind_Inr: "io_bind m f h = (Inr y, h') \<longleftrightarrow> (\<exists>x h1. m h = (Inr x, h1) \<and> f x h1 = (Inr y, h'))"
  by (auto simp: io_bind_def split: prod.splits sum.splits)

lemma request_then_Inr:
  "io_bind (requestJson X config url options) (\<lambda>(v, status). k v status) h = (Inr y, h') \<longleftrightarrow>
     (\<exists>v status. answers X config url options h status v \<and> 200 \<le> status \<and> status < 300 \<and>
        k v status (h @ [Fetch url (with_headers config options)]) = (Inr y, h'))"
  by (auto simp: io_bind_Inr requestJson_Inr)

lemma assertStatus_Inr: "assertStatus status expected action h = (Inr u, h') \<longleftrightarrow> status = expected \<and> h' = h"
  by (auto simp: assertStatus_def io_simps)

lemma assertTicket_Inr: "assertTicket X v t action h = (Inr u, h') \<longleftrightarrow> ticket_matches v t \<and> h' = h"
  by (auto simp: assertTicket_def io_simps)

lemma createTicket_Inr:
  "createTicket X config title h = (Inr i, h') \<longleftrightarrow>
     (\<exists>v. answers X config (sc_ticketsUrl config) (send_options ''POST'' INITIAL_PRICE title) h 201 v \<and>
        is_object v \<and> get_prop v ''id'' = JStr i \<and> i \<noteq> [] \<and> h' = h @ [create_call config title])"
  unfolding createTicket_def request_then_Inr
  by (auto simp: io_bind_Inr assertStatus_Inr io_throw_def io_return_def create_call_def is_string_iff)

lemma updateTicket_Inr:
  "updateTicket X config i title price action h = (Inr u, h') \<longleftrightarrow>
     (\<exists>v. answers X config (ticketUrl (sc_ticketsUrl config) i) (send_options ''PUT'' price title) h 200 v \<and>
        ticket_matches v \<lparr>st_id = i, st_price = price, st_title = title\<rparr> \<and>
        h' = h @ [update_call config i price title])"
  unfolding updateTicket_def request_then_Inr
  by (auto simp: io_bind_Inr assertStatus_Inr assertTicket_Inr update_call_def)

lemma verifyTicket_Inr:
  "verifyTicket X config t h = (Inr u, h') \<longleftrightarrow>
     (\<exists>v. answers X config (ticketUrl (sc_ticketsUrl config) (st_id t)) read_options h 200 v \<and>
        ticket_matches v t \<and> h' = h @ [read_call config (st_id t)])"
  unfolding verifyTicket_def request_then_Inr
  by (auto simp: io_bind_Inr assertStatus_Inr assertTicket_Inr read_call_def)

lemma failing_with_Inr: "failing_with X what k m h = (Inr x, h') \<longleftrightarrow> m h = (Inr x, h')"
  by (auto simp: failing_with_def io_catch_def io_throw_def split: prod.splits sum.splits)

lemma progress_runs:
  "\<exists>t. progress k whole verb noun h = (Inr (), h @ t) \<and> filter is_fetch t = []"
  by (auto simp: progress_def say_def io_simps)

lemma runCycle_Inr:
  assumes "runCycle X config k runId h = (Inr t, h')"
  shows "h' = h @ cycle_calls config runId k t \<and> final_ticket runId k t"
  using assms
  by (auto simp: runCycle_def Let_def io_bind_Inr createTicket_Inr updateTicket_Inr io_return_def
      cycle_calls_def final_ticket_def FIRST_UPDATE_PRICE_def FINAL_UPDATE_PRICE_def)

lemma run_cycles_Inr:
  assumes "run_cycles X config runId k n h = (Inr ts, h')"
  shows "length ts = n \<and> (\<forall>j < n. final_ticket runId (k + j) (ts ! j)) \<and>
    filter is_fetch h' = filter is_fetch h @
      concat (map (\<lambda>(j, t). cycle_calls config runId j t) (zip [k..<k + n] ts))"
  using assms
proof (induction n arbitrary: k h ts)
  case 0
  then show ?case by (simp add: io_return_def)
next
  case (Suc n)
  from Suc.prems obtain t h1 h2 ts' where
    cycle: "runCycle X config k runId h = (Inr t, h1)" and
    log: "progress k (sc_limit config) ''Completed '' '' ticket cycles'' h1 = (Inr (), h2)" and
    rest: "run_cycles X config runId (k + 1) n h2 = (Inr ts', h')" and ts: "ts = t # ts'"
    by (auto simp: io_bind_Inr failing_with_Inr io_return_def)
  from runCycle_Inr [OF cycle] progress_runs [of k "sc_limit config" "''Completed ''" "'' ticket cycles''" h1] log
  have h2: "filter is_fetch h2 = filter is_fetch h @ cycle_calls config runId k t" and t: "final_ticket runId k t"
    by (auto simp: cycle_calls_def)
  have "[k..<k + Suc n] = k # [k + 1..<k + 1 + n]" by (simp add: upt_rec)
  with Suc.IH [OF rest] h2 t ts show ?case by (auto simp: less_Suc_eq_0_disj)
qed

text \<open>A read among the calls that returned the ticket.\<close>

definition read_matches :: "stress_env \<Rightarrow> stress_config \<Rightarrow> stress_call list \<Rightarrow> stress_ticket \<Rightarrow> bool" where
  "read_matches X config h' t \<longleftrightarrow>
     (\<exists>h rest v. h' = h @ read_call config (st_id t) # rest \<and>
        answers X config (ticketUrl (sc_ticketsUrl config) (st_id t)) read_options h 200 v \<and> ticket_matches v t)"

lemma read_matches_append: "read_matches X config h t \<Longrightarrow> read_matches X config (h @ r) t"
  unfolding read_matches_def by fastforce

lemma verify_all_Inr:
  assumes "verify_all X config whole k ts h = (Inr u, h')"
  shows "\<exists>r. h' = h @ r \<and> filter is_fetch r = map (\<lambda>t. read_call config (st_id t)) ts \<and>
    list_all (read_matches X config h') ts"
  using assms
proof (induction ts arbitrary: k h)
  case (Cons t ts)
  from Cons.prems obtain h1 h2 where
    one: "verifyTicket X config t h = (Inr (), h1)" and
    log: "progress k whole ''Verified '' '' tickets'' h1 = (Inr (), h2)" and
    rest: "verify_all X config whole (k + 1) ts h2 = (Inr u, h')"
    by (auto simp: io_bind_Inr failing_with_Inr)
  from progress_runs [of k whole "''Verified ''" "'' tickets''" h1] log obtain p where
    p: "h2 = h1 @ p" "filter is_fetch p = []" by auto
  from one have h1: "h1 = h @ [read_call config (st_id t)]" and "read_matches X config h1 t"
    by (auto simp: verifyTicket_Inr read_matches_def)
  from Cons.IH [OF rest] obtain r where r: "h' = h2 @ r"
    "filter is_fetch r = map (\<lambda>t. read_call config (st_id t)) ts" "list_all (read_matches X config h') ts" by blast
  have "read_matches X config h' t"
    using read_matches_append [OF \<open>read_matches X config h1 t\<close>, of "p @ r"] p(1) r(1) by simp
  with h1 p r show ?case by (intro exI [of _ "read_call config (st_id t) # p @ r"]) simp
qed (simp add: io_return_def)

text \<open>A successful run, in its two phases.\<close>

lemma stress_main_Inr:
  assumes "readConfig X = Inr config" and "stress_main X h = (Inr u, h')"
  shows "\<exists>runId ts h1 h2 h3. filter is_fetch h1 = filter is_fetch h \<and>
    run_cycles X config runId 0 (sc_limit config) h1 = (Inr ts, h2) \<and>
    filter is_fetch h3 = filter is_fetch h2 \<and> verify_all X config (length ts) 0 ts h3 = (Inr u, h')"
proof -
  let ?warn = "if sc_insecureTls config
    then [SetProcessEnv ''NODE_TLS_REJECT_UNAUTHORIZED'' ''0'',
          ConsoleWarn ''TLS certificate verification is disabled for this run.''] else []"
  from assms obtain c runId ts h2 d where
    "run_cycles X config runId 0 (sc_limit config) (h @ ?warn @ [ConsoleLog c]) = (Inr ts, h2)"
    "verify_all X config (length ts) 0 ts (h2 @ [ConsoleLog d]) = (Inr u, h')"
    unfolding stress_main_def
    by (auto simp: io_bind_Inr io_when_def say_def io_call_def io_read_def io_of_result_def io_return_def
        split: if_splits)
  then show ?thesis
    by (intro exI [of _ runId] exI [of _ ts] exI [of _ "h @ ?warn @ [ConsoleLog c]"] exI [of _ h2]
        exI [of _ "h2 @ [ConsoleLog d]"]) simp
qed

text \<open>
  C27: A run of the stress script that succeeds has checked what it claims: it made exactly four requests per cycle, one
  creation and two updates of the ticket for each cycle in order, then one read of every ticket; and each read
  returned, with status 200, the ticket with its own id, the final price and the title of its second update.
\<close>

theorem stress_success_verified:
  assumes "readConfig X = Inr config" and "stress_main X [] = (Inr (), h')"
  shows "\<exists>runId ts. length ts = sc_limit config \<and>
    filter is_fetch h' =
      concat (map (\<lambda>(k, t). cycle_calls config runId k t) (zip [0..<sc_limit config] ts)) @
      map (\<lambda>t. read_call config (st_id t)) ts \<and>
    length (filter is_fetch h') = 4 * sc_limit config \<and>
    (\<forall>k < sc_limit config. final_ticket runId k (ts ! k) \<and> read_matches X config h' (ts ! k))"
proof -
  from stress_main_Inr [OF assms] obtain runId ts h1 h2 h3 where
    h1: "filter is_fetch h1 = []" and cycles: "run_cycles X config runId 0 (sc_limit config) h1 = (Inr ts, h2)"
    and h3: "filter is_fetch h3 = filter is_fetch h2"
    and verify: "verify_all X config (length ts) 0 ts h3 = (Inr (), h')" by auto
  let ?cycles = "concat (map (\<lambda>(k, t). cycle_calls config runId k t) (zip [0..<sc_limit config] ts))"
  from run_cycles_Inr [OF cycles] h1 have ts: "length ts = sc_limit config"
    "\<forall>j < sc_limit config. final_ticket runId j (ts ! j)" "filter is_fetch h2 = ?cycles" by simp_all
  with verify_all_Inr [OF verify] h3 have
    calls: "filter is_fetch h' = ?cycles @ map (\<lambda>t. read_call config (st_id t)) ts" by auto
  have "length (concat (map (\<lambda>(k, t). cycle_calls config runId k t) kts)) = 3 * length kts" for kts
    by (induction kts) (auto simp: cycle_calls_def)
  with ts(1) calls have "length (filter is_fetch h') = 4 * sc_limit config" by simp
  with ts calls verify_all_Inr [OF verify] show ?thesis
    by (intro exI [of _ runId] exI [of _ ts]) (auto simp: list_all_length)
qed

section \<open>A correct server\<close>

text \<open>No \<open>PUT\<close> to an address among the calls.\<close>

definition no_put :: "string \<Rightarrow> stress_call list \<Rightarrow> bool" where
  "no_put url h \<longleftrightarrow> (\<forall>r. Fetch url r \<in> set h \<longrightarrow> rq_method r \<noteq> Some ''PUT'')"

text \<open>The titles and prices that the gateway's rules for tickets accept.\<close>

definition acceptable_ticket :: "nat \<Rightarrow> string \<Rightarrow> bool" where
  "acceptable_ticket price title \<longleftrightarrow> title \<noteq> [] \<and> 1 \<le> price \<and> price < 2 ^ 53"

text \<open>
  A ticket server as the script sees one, with tickets that nobody orders meanwhile: a creation with an acceptable title is
  answered 201 with an id it may issue and whose address was not updated before, an acceptable update of such an id 200 with the
  ticket it made, and a read of it 200 with the ticket of the last acceptable update. Nothing is said of other requests, which
  the server may refuse.
\<close>

definition serves_tickets :: "stress_env \<Rightarrow> stress_config \<Rightarrow> (string \<Rightarrow> bool) \<Rightarrow> bool" where
  "serves_tickets X config issued \<longleftrightarrow>
     (\<forall>h title. acceptable_ticket INITIAL_PRICE title \<longrightarrow> (\<exists>v i. answers X config (sc_ticketsUrl config) (send_options ''POST'' INITIAL_PRICE title) h 201 v \<and>
        is_object v \<and> get_prop v ''id'' = JStr i \<and> i \<noteq> [] \<and> issued i \<and>
        no_put (ticketUrl (sc_ticketsUrl config) i) h)) \<and>
     (\<forall>h i price title. issued i \<longrightarrow> acceptable_ticket price title \<longrightarrow>
        (\<exists>v. answers X config (ticketUrl (sc_ticketsUrl config) i) (send_options ''PUT'' price title) h 200 v \<and>
           ticket_matches v \<lparr>st_id = i, st_price = price, st_title = title\<rparr>)) \<and>
     (\<forall>h t rest. issued (st_id t) \<longrightarrow> acceptable_ticket (st_price t) (st_title t) \<longrightarrow>
        no_put (ticketUrl (sc_ticketsUrl config) (st_id t)) rest \<longrightarrow>
        (\<exists>v. answers X config (ticketUrl (sc_ticketsUrl config) (st_id t)) read_options
               (h @ update_call config (st_id t) (st_price t) (st_title t) # rest) 200 v \<and> ticket_matches v t))"

text \<open>The last update of a ticket's address made the ticket.\<close>

definition last_put :: "stress_config \<Rightarrow> (string \<Rightarrow> bool) \<Rightarrow> stress_call list \<Rightarrow> stress_ticket \<Rightarrow> bool" where
  "last_put config issued h t \<longleftrightarrow> issued (st_id t) \<and> acceptable_ticket (st_price t) (st_title t) \<and>
     (\<exists>h1 h2. h = h1 @ update_call config (st_id t) (st_price t) (st_title t) # h2 \<and>
        no_put (ticketUrl (sc_ticketsUrl config) (st_id t)) h2)"

lemma no_put_append: "no_put url (h @ h') \<longleftrightarrow> no_put url h \<and> no_put url h'"
  by (auto simp: no_put_def)

lemma no_put_calls [simp]:
  "no_put url []" "no_put url (ConsoleLog c # h) = no_put url h"
  "no_put url (create_call config title # h) = no_put url h" "no_put url (read_call config i # h) = no_put url h"
  "no_put url (update_call config i p title # h) \<longleftrightarrow> ticketUrl (sc_ticketsUrl config) i \<noteq> url \<and> no_put url h"
  by (auto simp: no_put_def create_call_def read_call_def update_call_def with_headers_def send_options_def
      read_options_def)

lemma last_put_append:
  "last_put config issued h t \<Longrightarrow> no_put (ticketUrl (sc_ticketsUrl config) (st_id t)) h' \<Longrightarrow> last_put config issued (h @ h') t"
  unfolding last_put_def by (metis append_Cons append_assoc no_put_append)

lemma last_put_has: "last_put config issued h t \<Longrightarrow> \<not> no_put (ticketUrl (sc_ticketsUrl config) (st_id t)) h"
  by (auto simp: last_put_def no_put_append)

lemma progress_keeps:
  "\<exists>l. progress k whole verb noun h = (Inr (), h @ l) \<and> (\<forall>url. no_put url l)"
  by (auto simp: progress_def say_def io_simps)

lemma base_title_acceptable:
  "acceptable_ticket INITIAL_PRICE (base_title runId k)" "acceptable_ticket 10 (base_title runId k @ ''-first-update'')"
  "acceptable_ticket 15 (base_title runId k @ ''-second-update'')"
  by (simp_all add: acceptable_ticket_def INITIAL_PRICE_def base_title_def)

lemma runCycle_served:
  assumes "serves_tickets X config issued"
  shows "\<exists>t h'. runCycle X config k runId h = (Inr t, h') \<and> last_put config issued h' t \<and>
    (\<forall>t'. last_put config issued h t' \<longrightarrow> last_put config issued h' t')"
proof -
  let ?b = "base_title runId k"
  from assms obtain v i where create: "createTicket X config ?b h = (Inr i, h @ [create_call config ?b])"
    and fresh: "no_put (ticketUrl (sc_ticketsUrl config) i) h" and i: "issued i"
    unfolding serves_tickets_def createTicket_Inr using base_title_acceptable(1) [of runId k] by meson
  have update: "\<exists>u. updateTicket X config i title price action h0 = (Inr u, h0 @ [update_call config i price title])"
    if "acceptable_ticket price title" for title price action h0
    using assms that i unfolding serves_tickets_def updateTicket_Inr by blast
  let ?t = "\<lparr>st_id = i, st_price = 15, st_title = ?b @ ''-second-update''\<rparr>"
  let ?calls = "cycle_calls config runId k ?t"
  have "runCycle X config k runId h = (Inr ?t, h @ ?calls)"
    using create update [OF base_title_acceptable(2)] update [OF base_title_acceptable(3)]
    by (force simp: runCycle_def Let_def io_bind_Inr io_return_def cycle_calls_def FIRST_UPDATE_PRICE_def
        FINAL_UPDATE_PRICE_def)
  moreover have "last_put config issued (h @ ?calls) ?t"
    unfolding last_put_def cycle_calls_def
    by (rule conjI, simp add: i, rule conjI, simp add: base_title_acceptable) (intro exI [of _ "h @ [create_call config ?b,
      update_call config i 10 (?b @ ''-first-update'')]"] exI [of _ "[]"], simp)
  moreover have "last_put config issued (h @ ?calls) t'" if "last_put config issued h t'" for t'
  proof (rule last_put_append [OF that])
    have "ticketUrl (sc_ticketsUrl config) i \<noteq> ticketUrl (sc_ticketsUrl config) (st_id t')"
      using last_put_has [OF that] fresh by auto
    then show "no_put (ticketUrl (sc_ticketsUrl config) (st_id t')) ?calls" by (simp add: cycle_calls_def)
  qed
  ultimately show ?thesis by blast
qed

lemma run_cycles_served:
  assumes "serves_tickets X config issued"
  shows "\<exists>ts h'. run_cycles X config runId k n h = (Inr ts, h') \<and>
    (\<forall>t. t \<in> set ts \<or> last_put config issued h t \<longrightarrow> last_put config issued h' t)"
proof (induction n arbitrary: k h)
  case 0
  show ?case by (simp add: io_return_def)
next
  case (Suc n)
  from runCycle_served [OF assms] obtain t h1 where cycle: "runCycle X config k runId h = (Inr t, h1)"
    and put: "last_put config issued h1 t" "\<forall>t'. last_put config issued h t' \<longrightarrow> last_put config issued h1 t'" by blast
  obtain l where log: "progress k (sc_limit config) ''Completed '' '' ticket cycles'' h1 = (Inr (), h1 @ l)"
    and quiet: "\<forall>url. no_put url l" using progress_keeps by blast
  from Suc.IH [of "k + 1" "h1 @ l"] obtain ts h' where
    rest: "run_cycles X config runId (k + 1) n (h1 @ l) = (Inr ts, h')"
    and all: "\<forall>t. t \<in> set ts \<or> last_put config issued (h1 @ l) t \<longrightarrow> last_put config issued h' t" by blast
  have run: "run_cycles X config runId k (Suc n) h = (Inr (t # ts), h')"
    using cycle log rest by (simp add: io_bind_Inr failing_with_Inr io_return_def)
  have "last_put config issued h' t'" if "t' \<in> set (t # ts) \<or> last_put config issued h t'" for t'
    using that put all last_put_append [of config issued h1 _ l] quiet by auto
  with run show ?case by blast
qed

lemma verify_all_served:
  assumes "serves_tickets X config issued"
  shows "(\<forall>t \<in> set ts. last_put config issued h t) \<Longrightarrow> \<exists>h'. verify_all X config whole k ts h = (Inr (), h')"
proof (induction ts arbitrary: k h)
  case (Cons t ts)
  from Cons.prems have "last_put config issued h t" by simp
  then have "\<exists>u. verifyTicket X config t h = (Inr u, h @ [read_call config (st_id t)])"
    using assms unfolding serves_tickets_def verifyTicket_Inr last_put_def by blast
  moreover obtain l where log: "progress k whole ''Verified '' '' tickets'' (h @ [read_call config (st_id t)]) =
      (Inr (), (h @ [read_call config (st_id t)]) @ l)"
    and quiet: "\<forall>url. no_put url l" using progress_keeps by blast
  moreover have "\<forall>t' \<in> set ts. last_put config issued ((h @ [read_call config (st_id t)]) @ l) t'"
    using Cons.prems quiet by (auto intro!: last_put_append)
  from Cons.IH [OF this] obtain h' where
    "verify_all X config whole (k + 1) ts ((h @ [read_call config (st_id t)]) @ l) = (Inr (), h')" by blast
  ultimately show ?case by (simp add: io_bind_Inr failing_with_Inr)
qed (simp add: io_return_def)

lemma stress_main_served:
  assumes "readConfig X = Inr config" and "serves_tickets X config issued"
  shows "\<exists>h'. stress_main X [] = (Inr (), h')"
proof -
  let ?warn = "if sc_insecureTls config
    then [SetProcessEnv ''NODE_TLS_REJECT_UNAUTHORIZED'' ''0'',
          ConsoleWarn ''TLS certificate verification is disabled for this run.''] else []"
  let ?h = "?warn @ [ConsoleLog (''Running '' @ show_nat (sc_limit config) @
              '' sequential ticket create/update cycles against '' @ sc_ticketsUrl config)]"
  from run_cycles_served [OF assms(2)] obtain ts h2 where
    cycles: "run_cycles X config (sx_uuid X ?h) 0 (sc_limit config) ?h = (Inr ts, h2)"
    and put: "\<forall>t \<in> set ts. last_put config issued h2 t" by blast
  let ?h3 = "h2 @ [ConsoleLog (''Verifying '' @ show_nat (length ts) @ '' final ticket states'')]"
  have "\<forall>t \<in> set ts. last_put config issued ?h3 t" using put by (auto intro!: last_put_append)
  from verify_all_served [OF assms(2) this] obtain h' where
    "verify_all X config (length ts) 0 ts ?h3 = (Inr (), h')" by blast
  with cycles show ?thesis
    by (cases "sc_insecureTls config") (auto simp: stress_main_def assms(1) say_def io_simps)
qed


section \<open>A sample server\<close>

text \<open>It issues ids of the letter a, longer than every address it has seen, and answers from the calls made to it.\<close>

fun call_size :: "stress_call \<Rightarrow> nat" where
  "call_size (Fetch url _) = length url"
| "call_size _ = 0"

definition fresh_id :: "stress_call list \<Rightarrow> string" where
  "fresh_id h = replicate (Suc (sum_list (map call_size h))) CHR ''a''"

fun puts_to :: "string \<Rightarrow> stress_call \<Rightarrow> bool" where
  "puts_to url (Fetch u r) \<longleftrightarrow> u = url \<and> rq_method r = Some ''PUT''"
| "puts_to url _ \<longleftrightarrow> False"

fun sent_body :: "stress_call \<Rightarrow> string" where
  "sent_body (Fetch _ r) = (case rq_body r of None \<Rightarrow> [] | Some b \<Rightarrow> b)"
| "sent_body _ = []"

definition last_body :: "string \<Rightarrow> stress_call list \<Rightarrow> string" where
  "last_body url h = (case find (puts_to url) (rev h) of None \<Rightarrow> [] | Some c \<Rightarrow> sent_body c)"

text \<open>The text of the sent object with the id of the address in front.\<close>

definition ticket_reply :: "string \<Rightarrow> string \<Rightarrow> string" where
  "ticket_reply i body = ''{'' @ json_quote ''id'' @ '':'' @ json_quote i @ '','' @ tl body"

definition sample_fetch :: "string \<Rightarrow> stress_request \<Rightarrow> stress_call list \<Rightarrow> stress_thrown + stress_response" where
  "sample_fetch url r h =
     (let i = drop (Suc (length ''http://localhost:3000/api/tickets'')) url
      in if rq_method r = Some ''POST''
         then Inr \<lparr>rs_status = 201, rs_text = Inr (json_object [(''id'', json_quote (fresh_id h))])\<rparr>
         else if rq_method r = Some ''PUT''
         then Inr \<lparr>rs_status = 200, rs_text = Inr (ticket_reply i (sent_body (Fetch url r)))\<rparr>
         else Inr \<lparr>rs_status = 200, rs_text = Inr (ticket_reply i (last_body url h))\<rparr>)"

definition sample_stress :: stress_env where
  "sample_stress =
     \<lparr>sx_fetch = sample_fetch, sx_env = (\<lambda>_. None), sx_resolve = (\<lambda>path base. Some (base @ path)),
      sx_uuid = (\<lambda>_. ''r1''), sx_show = (\<lambda>_. ''0'')\<rparr>"

definition sample_stress_config :: stress_config where
  "sample_stress_config =
     \<lparr>sc_cookie = stress_cookie, sc_insecureTls = False, sc_limit = 200,
      sc_ticketsUrl = ''http://localhost:3000/api/tickets''\<rparr>"

definition letters_a :: "string \<Rightarrow> bool" where
  "letters_a i \<longleftrightarrow> set i \<subseteq> {CHR ''a''}"

lemma sample_stress_reads: "readConfig sample_stress = Inr sample_stress_config"
  by (simp add: readConfig_def sample_stress_def sample_stress_config_def stress_cookie_def DEFAULT_BASE_URL_def
      DEFAULT_LIMIT_def readPositiveInteger_def strip_slash_def)

lemma sample_url: "letters_a i \<Longrightarrow> ticketUrl (sc_ticketsUrl sample_stress_config) i =
    ''http://localhost:3000/api/tickets'' @ ''/'' @ i"
  by (induction i) (simp_all add: ticketUrl_def encodeURIComponent_def letters_a_def sample_stress_config_def
      uri_unreserved_def)

lemma ticket_reply_parses:
  assumes "price < 2 ^ 53"
  shows "response_body (ticket_reply i (ticket_body price title)) =
    JObj [(''id'', JStr i), (''price'', JNum (num (int price))), (''title'', JStr title)]"
proof -
  have eq: "ticket_reply i (ticket_body price title) =
      json_object [(''id'', json_quote i), (''price'', show_nat price), (''title'', json_quote title)]"
    by (simp add: ticket_reply_def ticket_body_def json_object_def)
  have "encodes (JObj [(''id'', JStr i), (''price'', JNum (num (int price))), (''title'', JStr title)])
      (json_object [(''id'', json_quote i), (''price'', show_nat price), (''title'', json_quote title)])"
    using encodes_nat [OF assms] by (intro encodes_object) (simp_all add: encodes_string)
  from JSON_parse_encoded [OF this] show ?thesis unfolding eq
    by (simp add: response_body_def) (simp add: json_object_def)
qed

lemma last_body_put:
  assumes "no_put url rest" and "puts_to url c"
  shows "last_body url (h @ c # rest) = sent_body c"
proof -
  have "find (puts_to url) (rev rest) = None"
  proof (subst find_None_iff, safe)
    fix d assume "d \<in> set (rev rest)" "puts_to url d"
    with assms(1) show False by (cases d) (auto simp: no_put_def)
  qed
  then have "find (puts_to url) (rev rest @ c # rev h) = Some c"
    using assms(2) by (simp add: find_append)
  then show ?thesis by (simp add: last_body_def)
qed

lemma sample_stress_serves: "serves_tickets sample_stress sample_stress_config letters_a"
proof -
  let ?url = "sc_ticketsUrl sample_stress_config"
  have fetch: "sx_fetch sample_stress = sample_fetch" by (simp add: sample_stress_def)
  have create: "answers sample_stress sample_stress_config ?url (send_options ''POST'' INITIAL_PRICE title) h 201
      (JObj [(''id'', JStr (fresh_id h))])" for h title
  proof -
    have "encodes (JObj [(''id'', JStr (fresh_id h))]) (json_object [(''id'', json_quote (fresh_id h))])"
      by (rule encodes_object) (simp_all add: encodes_string)
    from JSON_parse_encoded [OF this] show ?thesis
      by (simp add: answers_def fetch sample_fetch_def with_headers_def send_options_def response_body_def)
        (simp add: json_object_def)
  qed
  have fresh: "letters_a (fresh_id h)" "fresh_id h \<noteq> []" for h by (auto simp: letters_a_def fresh_id_def)
  have unseen: "no_put (ticketUrl ?url (fresh_id h)) h" for h
  proof -
    have "Fetch (ticketUrl ?url (fresh_id h)) r \<notin> set h" for r
    proof
      assume "Fetch (ticketUrl ?url (fresh_id h)) r \<in> set h"
      then have "length (ticketUrl ?url (fresh_id h)) \<le> sum_list (map call_size h)"
        using member_le_sum_list [of "call_size (Fetch (ticketUrl ?url (fresh_id h)) r)" "map call_size h"]
        by (force simp: image_iff)
      then show False by (simp add: sample_url [OF fresh(1)]) (simp add: fresh_id_def)
    qed
    then show ?thesis by (simp add: no_put_def)
  qed
  have matches: "ticket_matches (JObj [(''id'', JStr i), (''price'', JNum (num (int p))), (''title'', JStr t)])
      \<lparr>st_id = i, st_price = p, st_title = t\<rparr>" for i p t by (simp add: ticket_matches_def)
  have update: "answers sample_stress sample_stress_config (ticketUrl ?url i) (send_options ''PUT'' p t) h 200
      (JObj [(''id'', JStr i), (''price'', JNum (num (int p))), (''title'', JStr t)])"
    if "letters_a i" "p < 2 ^ 53" for h i p t
    using ticket_reply_parses [OF that(2), of i t]
    by (simp add: answers_def fetch sample_fetch_def with_headers_def send_options_def sample_url [OF that(1)])
  have read: "answers sample_stress sample_stress_config (ticketUrl ?url (st_id t)) read_options
      (h @ update_call sample_stress_config (st_id t) (st_price t) (st_title t) # rest) 200
      (JObj [(''id'', JStr (st_id t)), (''price'', JNum (num (int (st_price t)))), (''title'', JStr (st_title t))])"
    if "letters_a (st_id t)" "st_price t < 2 ^ 53" "no_put (ticketUrl ?url (st_id t)) rest" for h t rest
  proof -
    let ?c = "update_call sample_stress_config (st_id t) (st_price t) (st_title t)"
    have "puts_to (ticketUrl ?url (st_id t)) ?c" "sent_body ?c = ticket_body (st_price t) (st_title t)"
      by (simp_all add: update_call_def with_headers_def send_options_def)
    then have "last_body (ticketUrl ?url (st_id t)) (h @ ?c # rest) = ticket_body (st_price t) (st_title t)"
      using last_body_put [OF that(3), of ?c h] by simp
    then show ?thesis using ticket_reply_parses [OF that(2), of "st_id t" "st_title t"]
      by (simp add: answers_def fetch sample_fetch_def with_headers_def read_options_def sample_url [OF that(1)])
  qed
  show ?thesis
    unfolding serves_tickets_def
  proof (intro conjI allI impI)
    fix h title
    assume "acceptable_ticket INITIAL_PRICE title"
    show "\<exists>v i. answers sample_stress sample_stress_config ?url (send_options ''POST'' INITIAL_PRICE title) h 201 v \<and>
        is_object v \<and> get_prop v ''id'' = JStr i \<and> i \<noteq> [] \<and> letters_a i \<and> no_put (ticketUrl ?url i) h"
      by (intro exI [of _ "JObj [(''id'', JStr (fresh_id h))]"] exI [of _ "fresh_id h"])
        (simp add: create fresh unseen)
  next
    fix h i t and p :: nat
    assume "letters_a i" "acceptable_ticket p t"
    then have "letters_a i" "p < 2 ^ 53" by (simp_all add: acceptable_ticket_def)
    then show "\<exists>v. answers sample_stress sample_stress_config (ticketUrl ?url i) (send_options ''PUT'' p t) h 200 v \<and>
        ticket_matches v \<lparr>st_id = i, st_price = p, st_title = t\<rparr>"
      using update matches by blast
  next
    fix h rest and t :: stress_ticket
    assume "letters_a (st_id t)" "acceptable_ticket (st_price t) (st_title t)" "no_put (ticketUrl ?url (st_id t)) rest"
    then have "letters_a (st_id t)" "st_price t < 2 ^ 53" "no_put (ticketUrl ?url (st_id t)) rest"
      by (simp_all add: acceptable_ticket_def)
    then show "\<exists>v. answers sample_stress sample_stress_config (ticketUrl ?url (st_id t)) read_options
        (h @ update_call sample_stress_config (st_id t) (st_price t) (st_title t) # rest) 200 v \<and> ticket_matches v t"
      by (intro exI [of _ "JObj [(''id'', JStr (st_id t)), (''price'', JNum (num (int (st_price t)))),
            (''title'', JStr (st_title t))]"] conjI read) (simp_all add: ticket_matches_def)
  qed
qed


theorem stress_success_verified_witness:
  "\<exists>h'. stress_main sample_stress [] = (Inr (), h') \<and> length (filter is_fetch h') = 800"
proof -
  from stress_main_served [OF sample_stress_reads sample_stress_serves] obtain h' where
    run: "stress_main sample_stress [] = (Inr (), h')" by blast
  from stress_success_verified [OF sample_stress_reads run] run show ?thesis
    by (auto simp: sample_stress_config_def)
qed

section \<open>Failures\<close>

text \<open>The request error that a request's response explains: a status outside 200 to 299.\<close>

definition request_error :: "stress_env \<Rightarrow> string \<Rightarrow> stress_request \<Rightarrow> stress_call list \<Rightarrow> stress_thrown option" where
  "request_error X url r h =
     (case sx_fetch X url r h of
        Inl e \<Rightarrow> findStressRequestError e
      | Inr response \<Rightarrow>
          (case rs_text response of
             Inl e \<Rightarrow> findStressRequestError e
           | Inr raw \<Rightarrow>
               if 200 \<le> rs_status response \<and> rs_status response < 300 then None
               else Some (StressRequestError (''Request to '' @ url @ '' returned '' @ show_nat (rs_status response))
                            (rs_status response) (response_body raw))))"

text \<open>The failure \<open>e\<close> was that of the last call, a request, and is explained by its response.\<close>

definition explained :: "stress_env \<Rightarrow> stress_thrown \<Rightarrow> stress_call list \<Rightarrow> bool" where
  "explained X e h' \<longleftrightarrow>
     (\<exists>h url r. h' = h @ [Fetch url r] \<and> findStressRequestError e = request_error X url r h)"

definition fails_explained :: "stress_env \<Rightarrow> 'a stress \<Rightarrow> bool" where
  "fails_explained X m \<longleftrightarrow> (\<forall>h e h'. m h = (Inl e, h') \<longrightarrow> explained X e h')"

lemma fails_explained_bind:
  "fails_explained X m \<Longrightarrow> (\<And>x. fails_explained X (f x)) \<Longrightarrow> fails_explained X (io_bind m f)"
  by (auto simp: fails_explained_def io_bind_def split: prod.splits sum.splits)

lemma fails_explained_return: "fails_explained X (io_return x)"
  by (simp add: fails_explained_def io_return_def)

lemma fails_explained_request:
  assumes "\<And>v status h e h'. k (v, status) h = (Inl e, h') \<Longrightarrow> findStressRequestError e = None \<and> h' = h"
  shows "fails_explained X (io_bind (requestJson X config url options) k)"
  unfolding fails_explained_def
proof (intro allI impI)
  fix h e h'
  assume run: "io_bind (requestJson X config url options) k h = (Inl e, h')"
  let ?r = "with_headers config options"
  show "explained X e h'"
    unfolding explained_def
    by (rule exI [of _ h], rule exI [of _ url], rule exI [of _ ?r])
      (use run assms in \<open>auto simp: requestJson_def request_error_def io_simps Let_def
          split: sum.splits if_splits\<close>)
qed

lemma assert_fails:
  "assertStatus s x a h = (Inl e, h') \<Longrightarrow> findStressRequestError e = None \<and> h' = h"
  "assertTicket X v t a h = (Inl e, h') \<Longrightarrow> findStressRequestError e = None \<and> h' = h"
  by (auto simp: assertStatus_def assertTicket_def io_simps split: if_splits)

lemma fails_explained_operations:
  "fails_explained X (createTicket X config title)"
  "fails_explained X (updateTicket X config i title price action)"
  "fails_explained X (verifyTicket X config t)"
  unfolding createTicket_def updateTicket_def verifyTicket_def
  by (rule fails_explained_request,
      auto simp: io_bind_def io_throw_def io_return_def assertStatus_def assertTicket_def
        split: prod.splits sum.splits if_splits)+

lemma fails_explained_wrapped:
  assumes "fails_explained X m"
  shows "fails_explained X (failing_with X what k m)"
  using assms by (fastforce simp: fails_explained_def failing_with_def explained_def io_catch_def io_throw_def
      split: prod.splits sum.splits)

lemma fails_explained_progress: "fails_explained X (progress k whole verb noun)"
  by (auto simp: fails_explained_def progress_def say_def io_simps)

lemma fails_explained_runCycle: "fails_explained X (runCycle X config k runId)"
  unfolding runCycle_def Let_def
  by (intro fails_explained_bind fails_explained_operations fails_explained_return)

lemma fails_explained_cycles: "fails_explained X (run_cycles X config runId k n)"
  by (induction n arbitrary: k)
    (auto intro!: fails_explained_bind fails_explained_return fails_explained_wrapped fails_explained_runCycle
      fails_explained_progress)

lemma fails_explained_verify: "fails_explained X (verify_all X config whole k ts)"
  by (induction ts arbitrary: k)
    (auto intro!: fails_explained_bind fails_explained_return fails_explained_wrapped fails_explained_operations
      fails_explained_progress)

lemma fails_explained_say: "fails_explained X (say c)"
  by (simp add: fails_explained_def say_def io_call_def)

lemma stress_main_explained:
  assumes "readConfig X = Inr config"
  shows "fails_explained X (stress_main X)"
proof -
  have read: "fails_explained X (io_read f)" for f :: "stress_call list \<Rightarrow> 'b"
    by (simp add: fails_explained_def io_read_def)
  show ?thesis
    unfolding stress_main_def assms io_bind_of_result io_when_def
    by (intro fails_explained_bind fails_explained_cycles fails_explained_verify fails_explained_say read)
      (simp add: fails_explained_bind fails_explained_say fails_explained_return)
qed

text \<open>
  C30: A failed run stops at the request that failed and says why: no call follows that request but the report, the report
  has the status and the body of its response exactly when the response's status was outside 200 to 299, however often the
  error was wrapped on its way, and the exit code is 1.
\<close>

theorem stress_failure_reported:
  assumes "readConfig X = Inr config" and "stress_main X [] = (Inl e, h')"
  shows "\<exists>h url r. h' = h @ [Fetch url r] \<and>
    stress_script X [] = (Inr (), h' @
      [ConsoleError ''Ticket stress run failed'', ConsoleError (errorMessage (sx_show X) e)] @
      (case request_error X url r h of
         Some (StressRequestError message status body) \<Rightarrow>
           [ConsoleError (''Status: '' @ show_nat status),
            ConsoleError (''Response: '' @ template_json (sx_show X) body)]
       | _ \<Rightarrow> []) @ [SetExitCode 1])"
proof -
  from stress_main_explained [OF assms(1)] assms(2) obtain h url r where
    "h' = h @ [Fetch url r]" "findStressRequestError e = request_error X url r h"
    unfolding fails_explained_def explained_def by blast
  with assms(2) show ?thesis
    by (intro exI [of _ h] exI [of _ url] exI [of _ r])
      (auto simp: stress_script_def say_def io_simps split: option.split stress_thrown.split)
qed

text \<open>A server that is down for the first request.\<close>

definition down_stress :: stress_env where
  "down_stress = sample_stress\<lparr>sx_fetch := \<lambda>_ _ _. Inr \<lparr>rs_status = 503, rs_text = Inr []\<rparr>\<rparr>"

theorem stress_failure_reported_witness:
  "\<exists>h'. snd (stress_script down_stress []) = h' @ [ConsoleError ''Status: 503'', ConsoleError ''Response: undefined'', SetExitCode 1]"
proof -
  have config: "readConfig down_stress = Inr sample_stress_config"
    by (simp add: down_stress_def readConfig_def sample_stress_def sample_stress_config_def stress_cookie_def
        DEFAULT_BASE_URL_def DEFAULT_LIMIT_def readPositiveInteger_def strip_slash_def)
  have limit: "sc_limit sample_stress_config = 200" "\<not> sc_insecureTls sample_stress_config"
    by (simp_all add: sample_stress_config_def)
  have down: "sx_fetch down_stress = (\<lambda>_ _ _. Inr \<lparr>rs_status = 503, rs_text = Inr []\<rparr>)"
    by (simp add: down_stress_def)
  have "\<exists>e h'. run_cycles down_stress sample_stress_config runId 0 (Suc n) h = (Inl e, h')" for runId n h
    by (simp add: down failing_with_def runCycle_def createTicket_def requestJson_def io_simps Let_def)
  from this [of _ 199] have fails:
    "\<exists>e h'. run_cycles down_stress sample_stress_config runId 0 200 h = (Inl e, h')" for runId h by simp
  let ?h = "[ConsoleLog (''Running '' @ show_nat 200 @
      '' sequential ticket create/update cycles against '' @ sc_ticketsUrl sample_stress_config)]"
  from fails obtain e h' where
    "run_cycles down_stress sample_stress_config (sx_uuid down_stress ?h) 0 200 ?h = (Inl e, h')" by blast
  then have run: "stress_main down_stress [] = (Inl e, h')"
    by (simp add: stress_main_def config limit say_def io_simps)
  have shown: "show_nat 503 = ''503''" by code_simp
  have fetch: "request_error down_stress url r h =
      Some (StressRequestError (''Request to '' @ url @ '' returned 503'') 503 JUndef)" for url r h
    by (simp add: request_error_def down response_body_def shown)
  from stress_failure_reported [OF config run] have
    "snd (stress_script down_stress []) = h' @
      [ConsoleError ''Ticket stress run failed'', ConsoleError (errorMessage (sx_show down_stress) e)] @
      [ConsoleError ''Status: 503'', ConsoleError ''Response: undefined''] @ [SetExitCode 1]"
    by (simp add: fetch shown template_json_def)
  then show ?thesis by simp
qed

end
