(* ===== verification/Stress_Gateway.thy ===== *)
theory Stress_Gateway
  imports Stress_Properties Gateway_App
begin

text \<open>
  The stress script against the gateway: what the gateway's ticket routes do with the requests that a cycle of
  scripts/stress/tickets.js sends. What Express and NestJS make of an HTTP request is an argument, of which the theorem needs what
  they document of the two ticket routes.
\<close>

section \<open>Requests of the script at the routes\<close>

text \<open>\<open>decodeURIComponent\<close>, for text of Latin-1 characters; \<open>None\<close> where it throws or leaves Latin-1.\<close>

definition hex_value :: "char \<Rightarrow> nat option" where
  "hex_value c =
     (let n = of_char c
      in if 48 \<le> n \<and> n \<le> 57 then Some (n - 48)
         else if 65 \<le> n \<and> n \<le> 70 then Some (n - 55)
         else if 97 \<le> n \<and> n \<le> 102 then Some (n - 87) else None)"

fun percent_bytes :: "string \<Rightarrow> nat list option" where
  "percent_bytes [] = Some []"
| "percent_bytes (c # cs) =
     (if c = CHR ''%''
      then (case cs of
              a # b # rest \<Rightarrow>
                (case (hex_value a, hex_value b) of
                   (Some x, Some y) \<Rightarrow> map_option (Cons (16 * x + y)) (percent_bytes rest)
                 | _ \<Rightarrow> None)
            | _ \<Rightarrow> None)
      else map_option (append (utf8_char c)) (percent_bytes cs))"

fun utf8_text :: "nat list \<Rightarrow> string option" where
  "utf8_text [] = Some []"
| "utf8_text (b # bs) =
     (if b < 128 then map_option (Cons (char_of b)) (utf8_text bs)
      else if b = 194 \<or> b = 195
      then (case bs of
              c # cs \<Rightarrow>
                if 128 \<le> c \<and> c < 192 then map_option (Cons (char_of ((b - 192) * 64 + (c - 128)))) (utf8_text cs) else None
            | [] \<Rightarrow> None)
      else None)"

definition decodeURIComponent :: "string \<Rightarrow> string option" where
  "decodeURIComponent s = Option.bind (percent_bytes s) utf8_text"

lemma utf8_text_char: "utf8_text (utf8_char c @ bs) = map_option (Cons c) (utf8_text bs)"
proof -
  define n :: nat where "n = of_char c"
  have n: "n < 256" "char_of n = c" using of_char_bound [of c] by (simp_all add: n_def)
  show ?thesis
  proof (cases "n < 128")
    case False
    with n(1) have "n div 64 = 2 \<or> n div 64 = 3" by auto
    moreover have "n div 64 * 64 + n mod 64 = n" by simp
    ultimately show ?thesis using n False by (auto simp: utf8_char_def n_def [symmetric] Let_def)
  qed (use n in \<open>simp add: utf8_char_def n_def [symmetric] Let_def\<close>)
qed

lemma utf8_text_utf8: "utf8_text (utf8 s) = Some s"
  by (induction s) (simp_all add: utf8_def utf8_text_char)

lemma hex_value_upper: "d < 16 \<Longrightarrow> hex_value (upper_hex d) = Some d"
  by (auto simp: hex_value_def upper_hex_def Let_def of_char_of)

lemma percent_bytes_escaped:
  "\<forall>b \<in> set bs. b < 256 \<Longrightarrow>
     percent_bytes (concat (map (\<lambda>b. [CHR ''%'', upper_hex (b div 16), upper_hex (b mod 16)]) bs) @ r) =
       map_option (append bs) (percent_bytes r)"
  by (induction bs; cases "percent_bytes r") (auto simp: hex_value_upper)

lemma utf8_char_bytes: "\<forall>b \<in> set (utf8_char c). b < 256"
proof -
  have "(of_char c :: nat) div 64 < 4" using of_char_bound [of c] by (simp add: div_less_iff_less_mult)
  then have "(of_char c :: nat) div 64 \<le> 3" by simp
  moreover have "(of_char c :: nat) mod 64 \<le> 63" by (simp add: less_Suc_eq_le [symmetric])
  ultimately show ?thesis by (auto simp: utf8_char_def Let_def)
qed

lemma percent_bytes_encode: "percent_bytes (encodeURIComponent s) = Some (utf8 s)"
proof (induction s)
  case (Cons c s)
  have "c \<noteq> CHR ''%''" if "uri_unreserved c" using that by (auto simp: uri_unreserved_def Let_def)
  with Cons show ?case
    using percent_bytes_escaped [OF utf8_char_bytes, of c "encodeURIComponent s"]
    by (auto simp: encodeURIComponent_def utf8_def)
qed (simp add: encodeURIComponent_def utf8_def)

lemma decode_encode_component: "decodeURIComponent (encodeURIComponent i) = Some i"
  by (simp add: decodeURIComponent_def percent_bytes_encode utf8_text_utf8)

lemma upper_hex_unreserved: "d < 16 \<Longrightarrow> uri_unreserved (upper_hex d)"
  by (auto simp: uri_unreserved_def upper_hex_def Let_def of_char_of)

lemma encoded_characters: "\<forall>c \<in> set (encodeURIComponent i). uri_unreserved c \<or> c = CHR ''%''"
proof
  fix d assume "d \<in> set (encodeURIComponent i)"
  then have "uri_unreserved d \<or> d = CHR ''%'' \<or>
      (\<exists>c. \<exists>b \<in> set (utf8_char c). d = upper_hex (b div 16) \<or> d = upper_hex (b mod 16))"
    by (auto simp: encodeURIComponent_def split: if_splits)
  moreover have "b div 16 < 16" if "b \<in> set (utf8_char c)" for c b
    using that utf8_char_bytes [of c] by (auto simp: div_less_iff_less_mult)
  ultimately show "uri_unreserved d \<or> d = CHR ''%''" using upper_hex_unreserved by (metis mod_less_divisor zero_less_numeral)
qed

text \<open>
  What Express and NestJS document of the routes of tickets.controller.ts under the global prefix of app.bootstrap.ts: a
  \<open>POST\<close> to the collection and a \<open>PUT\<close> to one segment below it arrive at their handlers, the latter with the segment
  decoded by \<open>decodeURIComponent\<close>, if the content type says JSON and the text is a JSON object of at most the 100 kB of the body
  parser; the body is the parsed text and the cookie header the one that was sent. A segment of dots is no segment: URLs
  resolve it. Nothing is said of other requests.
\<close>

type_synonym http_routing = "string \<Rightarrow> stress_request \<Rightarrow> (headers \<times> route) option"

definition json_request :: "stress_request \<Rightarrow> jsval \<Rightarrow> bool" where
  "json_request r body \<longleftrightarrow>
     map_of (rq_headers r) ''content-type'' = Some ''application/json'' \<and>
     (\<exists>sent. rq_body r = Some sent \<and> length (utf8 sent) \<le> 102400 \<and> JSON_parse sent = Some body) \<and> is_object body"

definition arrives :: "http_routing \<Rightarrow> string \<Rightarrow> stress_request \<Rightarrow> route \<Rightarrow> bool" where
  "arrives http url r target \<longleftrightarrow>
     (\<exists>hs. http url r = Some (hs, target) \<and> hs ''cookie'' = map_option HStr (map_of (rq_headers r) ''cookie''))"

definition routes_tickets :: "string \<Rightarrow> http_routing \<Rightarrow> bool" where
  "routes_tickets origin http \<longleftrightarrow>
     (\<forall>r body. json_request r body \<longrightarrow>
        (rq_method r = Some ''POST'' \<longrightarrow> arrives http (origin @ ''/api/tickets'') r (CreateTicket body)) \<and>
        (\<forall>segment i. rq_method r = Some ''PUT'' \<longrightarrow> decodeURIComponent segment = Some i \<longrightarrow>
           i \<notin> {[], ''.'', ''..''} \<longrightarrow> (\<forall>c \<in> set segment. uri_unreserved c \<or> c = CHR ''%'') \<longrightarrow>
           arrives http (origin @ ''/api/tickets/'' @ segment) r (UpdateTicket i body)))"

text \<open>
  The other half of the validation pipe's contract: an object with no other properties than the decorated ones,
  whose properties keep all their rules, is accepted, with the same properties.
\<close>

definition accepts_valid :: "(jsval \<Rightarrow> bool) \<Rightarrow> (string \<Rightarrow> jsval \<Rightarrow> bool) \<Rightarrow> gateway_env \<Rightarrow> bool" where
  "accepts_valid email uuid E \<longleftrightarrow>
     (\<forall>rules kvs. fst ` set kvs \<subseteq> fst ` set rules \<longrightarrow>
        (\<forall>(p, rs) \<in> set rules. \<forall>r \<in> set rs. rule_holds email uuid r (get_prop (JObj kvs) p)) \<longrightarrow>
        (\<exists>dto. validate_body E rules (JObj kvs) = Inr (JObj dto) \<and> map_of dto = map_of kvs))"

definition ticket_fields :: "nat \<Rightarrow> string \<Rightarrow> (string \<times> jsval) list" where
  "ticket_fields price title = [(''price'', JNum (num (int price))), (''title'', JStr title)]"

lemma ticket_body_parses:
  assumes "price < 2 ^ 53"
  shows "JSON_parse (ticket_body price title) =
    Some (JObj (ticket_fields price title))"
  unfolding ticket_body_def ticket_fields_def
  using encodes_nat [OF assms] by (intro JSON_parse_encoded encodes_object) (simp_all add: encodes_string)

lemma sent_headers:
  "map_of (rq_headers (with_headers config (send_options verb price title))) ''content-type'' = Some ''application/json''"
  "map_of (rq_headers (with_headers config (send_options verb price title))) ''cookie'' = Some (sc_cookie config)"
  "rq_method (with_headers config (send_options verb price title)) = Some verb"
  "rq_body (with_headers config (send_options verb price title)) = Some (ticket_body price title)"
  by (simp_all add: with_headers_def send_options_def)

lemma sent_json:
  assumes "price < 2 ^ 53" and "length (utf8 (ticket_body price title)) \<le> 102400"
  shows "json_request (with_headers config (send_options verb price title)) (JObj (ticket_fields price title))"
  using assms by (simp add: json_request_def sent_headers ticket_body_parses)

lemma ticket_body_accepted:
  assumes "accepts_valid email uuid E" and "title \<noteq> []" and "1 \<le> price" and "price < 2 ^ 53"
  shows "\<exists>dto. validate_body E CreateTicketDto (JObj (ticket_fields price title)) =
      Inr (JObj dto) \<and> map_of dto = map_of (ticket_fields price title)"
proof -
  let ?kvs = "ticket_fields price title"
  have "rule_holds email uuid r (get_prop (JObj ?kvs) p)" if "(p, rs) \<in> set CreateTicketDto" "r \<in> set rs" for p rs r
    using that assms(2-4)
    by (auto simp: ticket_fields_def CreateTicketDto_def js_isInteger_def js_less_eq_def js_num_eq_def MAX_TICKET_PRICE_def
        max_safe_integer_def)
  moreover have "fst ` set ?kvs \<subseteq> fst ` set CreateTicketDto"
    by (simp add: ticket_fields_def CreateTicketDto_def)
  ultimately show ?thesis using assms(1) unfolding accepts_valid_def by blast
qed

lemma readConfig_cookie: "readConfig X = Inr config \<Longrightarrow> sc_cookie config = stress_cookie"
  by (auto simp: readConfig_def Let_def split: if_splits option.splits sum.splits)

lemma stress_metadata:
  assumes "hs ''cookie'' = Some (HStr stress_cookie)" and "\<And>v. refuse ''cookie'' v = None"
  shows "createSessionRequestMetadata refuse hs = Inr [(''cookie'', stress_cookie)]"
proof -
  have "createSessionRequestMetadata (\<lambda>_ _. None) (\<lambda>n. Some (HStr stress_cookie)) = Inr [(''cookie'', stress_cookie)]"
    by code_simp
  with assms show ?thesis
    by (simp add: createSessionRequestMetadata_def metadata_set_def split: option.splits)
qed

lemma stress_session:
  assumes "hs ''cookie'' = Some (HStr stress_cookie)" and "\<And>v. refuse_metadata E ''cookie'' v = None"
    and "grpc_currentUser E (JObj []) [(''cookie'', stress_cookie)] h = Inr r"
  shows "session_user E hs h = Inr (cur_user (toCurrentUserResponse r))"
    and "session_lookup E hs = [IdentityCurrentUser (JObj []) [(''cookie'', stress_cookie)]]"
  using assms(3) stress_metadata [where hs = hs and refuse = "refuse_metadata E", OF assms(1,2)]
  by (simp_all add: session_user_def session_lookup_def)

section \<open>The requests pass the gateway\<close>

text \<open>
  The three writes of a cycle are valid for the gateway: the create and the update route, given a request of the
  script as it arrives, look the script's session up and then make exactly the one backend request with the
  script's title and price, the session's user and, for an update, the ticket's id.
\<close>

definition ticket_request :: "jsval \<Rightarrow> nat \<Rightarrow> string \<Rightarrow> string \<Rightarrow> bool" where
  "ticket_request r price title userId \<longleftrightarrow>
     get_prop r ''price'' = JNum (num (int price)) \<and> get_prop r ''title'' = JStr title \<and>
     get_prop r ''userId'' = JStr userId"

lemma create_passes:
  assumes "accepts_valid email uuid E" and "title \<noteq> []" and "1 \<le> price" and "price < 2 ^ 53"
    and "session_user E hs h = Inr u"
  shows "\<exists>r. snd (TicketsController_createTicket E \<lparr>req_headers = hs, req_user = None\<rparr>
        (JObj (ticket_fields price title)) h) =
      h @ session_lookup E hs @ [TicketsCreate r] \<and> ticket_request r price title (user_id u)"
proof -
  obtain dto where dto: "validate_body E CreateTicketDto (JObj (ticket_fields price title)) =
      Inr (JObj dto)" and props: "map_of dto = map_of (ticket_fields price title)"
    using ticket_body_accepted [OF assms(1-4)] by blast
  show ?thesis
    using assms(5) props
    by (intro exI [of _ "JObj (obj_set dto ''userId'' (JStr (user_id u)))"])
      (simp add: TicketsController_createTicket_def guarded_eq validated_def dto TicketsService_createTicket_def
        try_grpc_def io_simps Let_def split: sum.split, simp add: ticket_request_def ticket_fields_def map_of_obj_set)
qed

lemma update_passes:
  assumes "accepts_valid email uuid E" and "title \<noteq> []" and "1 \<le> price" and "price < 2 ^ 53"
    and "session_user E hs h = Inr u"
  shows "\<exists>r. snd (TicketsController_updateTicket E \<lparr>req_headers = hs, req_user = None\<rparr> i
        (JObj (ticket_fields price title)) h) =
      h @ session_lookup E hs @ [TicketsUpdate r] \<and> ticket_request r price title (user_id u) \<and>
      get_prop r ''id'' = JStr i"
proof -
  obtain dto where dto: "validate_body E CreateTicketDto (JObj (ticket_fields price title)) =
      Inr (JObj dto)" and props: "map_of dto = map_of (ticket_fields price title)"
    using ticket_body_accepted [OF assms(1-4)] by blast
  show ?thesis
    using assms(5) props
    by (intro exI [of _ "JObj (obj_set (obj_set dto ''id'' (JStr i)) ''userId'' (JStr (user_id u)))"])
      (simp add: TicketsController_updateTicket_def UpdateTicketDto_def guarded_eq validated_def dto
        TicketsService_updateTicket_def try_grpc_def io_simps Let_def split: sum.split,
       simp add: ticket_request_def ticket_fields_def map_of_obj_set)
qed

text \<open>
  A request of the script that arrives at a route and has the gateway look up the script's cookie and then make one call.
\<close>

definition makes_call :: "gateway_env \<Rightarrow> http_routing \<Rightarrow> stress_call \<Rightarrow> gateway_call list \<Rightarrow> gateway_call \<Rightarrow> bool" where
  "makes_call E http sent h c \<longleftrightarrow>
     (\<exists>url r hs target. sent = Fetch url r \<and> http url r = Some (hs, target) \<and>
        snd (run_route E hs target h) = h @ [IdentityCurrentUser (JObj []) [(''cookie'', stress_cookie)], c])"

lemma body_length:
  "length (utf8 (ticket_body price (title @ sfx))) =
     length (utf8 (ticket_body price title)) + length (utf8 (concat (map json_escape sfx)))"
  by (simp add: ticket_body_def json_object_def json_quote_def utf8_def)

lemma create_arrives:
  assumes "accepts_valid email uuid E" and "\<And>v. refuse_metadata E ''cookie'' v = None"
    and "grpc_currentUser E (JObj []) [(''cookie'', stress_cookie)] h = Inr user"
    and "routes_tickets origin http" and "sc_ticketsUrl config = origin @ ''/api/tickets''" and "sc_cookie config = stress_cookie"
    and "acceptable_ticket INITIAL_PRICE title" and "length (utf8 (ticket_body INITIAL_PRICE title)) \<le> 102400"
  shows "\<exists>q. makes_call E http (create_call config title) h (TicketsCreate q) \<and>
    ticket_request q INITIAL_PRICE title (icu_userId user)"
proof -
  let ?r = "with_headers config (send_options ''POST'' INITIAL_PRICE title)"
  have ticket: "title \<noteq> []" "1 \<le> INITIAL_PRICE" "INITIAL_PRICE < 2 ^ 53"
    using assms(7) by (simp_all add: acceptable_ticket_def)
  have "arrives http (origin @ ''/api/tickets'') ?r (CreateTicket (JObj (ticket_fields INITIAL_PRICE title)))"
    using assms(4) sent_json [OF ticket(3) assms(8)] sent_headers(3) unfolding routes_tickets_def by blast
  then obtain hs where hs: "http (sc_ticketsUrl config) ?r = Some (hs, CreateTicket (JObj (ticket_fields INITIAL_PRICE title)))"
    "hs ''cookie'' = Some (HStr stress_cookie)"
    by (auto simp: arrives_def sent_headers assms(5,6))
  note session = stress_session [where hs = hs, OF hs(2) assms(2,3)]
  from create_passes [OF assms(1) ticket session(1)] obtain q where
    "snd (run_route E hs (CreateTicket (JObj (ticket_fields INITIAL_PRICE title))) h) =
      h @ [IdentityCurrentUser (JObj []) [(''cookie'', stress_cookie)], TicketsCreate q]"
    "ticket_request q INITIAL_PRICE title (icu_userId user)"
    by (auto simp: session(2) done_with_snd toCurrentUserResponse_def)
  with hs(1) show ?thesis unfolding makes_call_def create_call_def by blast
qed

lemma update_arrives:
  assumes "accepts_valid email uuid E" and "\<And>v. refuse_metadata E ''cookie'' v = None"
    and "grpc_currentUser E (JObj []) [(''cookie'', stress_cookie)] h = Inr user"
    and "routes_tickets origin http" and "sc_ticketsUrl config = origin @ ''/api/tickets''" and "sc_cookie config = stress_cookie"
    and "acceptable_ticket price title" and "length (utf8 (ticket_body price title)) \<le> 102400"
    and "i \<notin> {[], ''.'', ''..''}"
  shows "\<exists>q. makes_call E http (update_call config i price title) h (TicketsUpdate q) \<and>
    ticket_request q price title (icu_userId user) \<and> get_prop q ''id'' = JStr i"
proof -
  let ?r = "with_headers config (send_options ''PUT'' price title)"
  have ticket: "title \<noteq> []" "1 \<le> price" "price < 2 ^ 53"
    using assms(7) by (simp_all add: acceptable_ticket_def)
  have "arrives http (origin @ ''/api/tickets/'' @ encodeURIComponent i) ?r (UpdateTicket i (JObj (ticket_fields price title)))"
    using assms(4,9) sent_json [OF ticket(3) assms(8)] sent_headers(3) decode_encode_component [of i]
      encoded_characters [of i] unfolding routes_tickets_def by blast
  then obtain hs where hs: "http (ticketUrl (sc_ticketsUrl config) i) ?r =
      Some (hs, UpdateTicket i (JObj (ticket_fields price title)))" "hs ''cookie'' = Some (HStr stress_cookie)"
    by (auto simp: arrives_def sent_headers assms(5,6) ticketUrl_def)
  note session = stress_session [where hs = hs, OF hs(2) assms(2,3)]
  from update_passes [OF assms(1) ticket session(1), of i] obtain q where
    "snd (run_route E hs (UpdateTicket i (JObj (ticket_fields price title))) h) =
      h @ [IdentityCurrentUser (JObj []) [(''cookie'', stress_cookie)], TicketsUpdate q]"
    "ticket_request q price title (icu_userId user)" "get_prop q ''id'' = JStr i"
    by (auto simp: session(2) done_with_snd toCurrentUserResponse_def)
  with hs(1) show ?thesis unfolding makes_call_def update_call_def by blast
qed

text \<open>The bodies of a cycle are no longer than its last one.\<close>

lemma cycle_bodies:
  assumes "length (utf8 (ticket_body FINAL_UPDATE_PRICE (base_title runId k @ ''-second-update''))) \<le> 102400"
  shows "length (utf8 (ticket_body INITIAL_PRICE (base_title runId k))) \<le> 102400"
    and "length (utf8 (ticket_body FIRST_UPDATE_PRICE (base_title runId k @ ''-first-update''))) \<le> 102400"
proof -
  have price: "length (utf8 (ticket_body INITIAL_PRICE t)) \<le> length (utf8 (ticket_body FINAL_UPDATE_PRICE t))"
    "length (utf8 (ticket_body FIRST_UPDATE_PRICE t)) = length (utf8 (ticket_body FINAL_UPDATE_PRICE t))" for t
  proof -
    have "show_nat 5 = ''5''" "show_nat 10 = ''10''" "show_nat 15 = ''15''" by code_simp+
    then show "length (utf8 (ticket_body INITIAL_PRICE t)) \<le> length (utf8 (ticket_body FINAL_UPDATE_PRICE t))"
      "length (utf8 (ticket_body FIRST_UPDATE_PRICE t)) = length (utf8 (ticket_body FINAL_UPDATE_PRICE t))"
      by (simp_all add: ticket_body_def json_object_def utf8_def utf8_char_def INITIAL_PRICE_def FIRST_UPDATE_PRICE_def
          FINAL_UPDATE_PRICE_def)
  qed
  have "length (utf8 (concat (map json_escape ''-first-update''))) = 13"
    "length (utf8 (concat (map json_escape ''-second-update''))) = 14" by code_simp+
  with assms price [of "base_title runId k"] show
    "length (utf8 (ticket_body INITIAL_PRICE (base_title runId k))) \<le> 102400"
    "length (utf8 (ticket_body FIRST_UPDATE_PRICE (base_title runId k @ ''-first-update''))) \<le> 102400"
    by (simp_all only: body_length)
qed

text \<open>
  C28: The stress script's writes pass the gateway: a cycle that succeeds made three HTTP requests, a \<open>POST\<close> and two
  \<open>PUT\<close>s, which arrive at the create and the update route; for each the gateway looks the script's cookie up and then makes
  exactly one request to the tickets service, with the price and the title of that step, the user of the session and, for an
  update, the id of the created ticket, whatever characters it has. That needs a script that runs against this gateway, with a cookie
  that identity knows, and titles that fit the body parser.
\<close>

theorem stress_writes_pass_gateway:
  assumes "accepts_valid email uuid E" and "\<And>v. refuse_metadata E ''cookie'' v = None"
    and "grpc_currentUser E (JObj []) [(''cookie'', stress_cookie)] h = Inr user"
    and "routes_tickets origin http" and "readConfig X = Inr config"
    and "sx_resolve X ''/api/tickets''
           (case sx_env X ''STRESS_BASE_URL'' of None \<Rightarrow> DEFAULT_BASE_URL | Some u \<Rightarrow> u) = Some (origin @ ''/api/tickets'')"
    and "runCycle X config k runId h0 = (Inr t, h1)" and "st_id t \<notin> {''.'', ''..''}"
    and "length (utf8 (ticket_body FINAL_UPDATE_PRICE (base_title runId k @ ''-second-update''))) \<le> 102400"
  shows "\<exists>c1 c2 c3 q1 q2 q3. h1 = h0 @ [c1, c2, c3] \<and>
    makes_call E http c1 h (TicketsCreate q1) \<and> ticket_request q1 5 (base_title runId k) (icu_userId user) \<and>
    makes_call E http c2 h (TicketsUpdate q2) \<and>
    ticket_request q2 10 (base_title runId k @ ''-first-update'') (icu_userId user) \<and> get_prop q2 ''id'' = JStr (st_id t) \<and>
    makes_call E http c3 h (TicketsUpdate q3) \<and>
    ticket_request q3 15 (base_title runId k @ ''-second-update'') (icu_userId user) \<and> get_prop q3 ''id'' = JStr (st_id t)"
proof -
  have config: "sc_ticketsUrl config = origin @ ''/api/tickets''" "sc_cookie config = stress_cookie"
    using assms(5,6) by (auto simp: readConfig_def strip_slash_def Let_def split: if_splits sum.splits)
  from runCycle_Inr [OF assms(7)] have run: "h1 = h0 @ cycle_calls config runId k t" and "st_id t \<noteq> []"
    by (simp_all add: final_ticket_def)
  with assms(8) have id: "st_id t \<notin> {[], ''.'', ''..''}" by simp
  note bodies = cycle_bodies [OF assms(9)]
  note setting = assms(1-4) config
  from create_arrives [OF setting base_title_acceptable(1) bodies(1)]
    update_arrives [OF setting base_title_acceptable(2) _ id, of runId k]
    update_arrives [OF setting base_title_acceptable(3) _ id, of runId k] bodies(2) assms(9) run
  show ?thesis
    by (simp add: cycle_calls_def INITIAL_PRICE_def FIRST_UPDATE_PRICE_def FINAL_UPDATE_PRICE_def)
qed

section \<open>A gateway under its address\<close>

definition stress_gateway :: gateway_env where
  "stress_gateway = sample_env\<lparr>grpc_currentUser := \<lambda>_ _ _.
     Inr \<lparr>icu_userId = ''u1'', icu_name = ''Ada'', icu_email = ''a@b.c'', icu_emailVerified = True\<rparr>\<rparr>"

lemma stress_gateway_accepts: "accepts_valid is_string (\<lambda>_. is_string) stress_gateway"
  by (auto simp: accepts_valid_def stress_gateway_def sample_env_def sample_validate_def)

definition local_routing :: http_routing where
  "local_routing url r =
     (case Option.bind (rq_body r) JSON_parse of
        None \<Rightarrow> None
      | Some body \<Rightarrow>
          map_option (Pair (\<lambda>n. map_option HStr (map_of (rq_headers r) n)))
            (if rq_method r = Some ''POST'' then Some (CreateTicket body)
             else map_option (\<lambda>i. UpdateTicket i body)
                    (decodeURIComponent (drop (length ''http://localhost:3000/api/tickets/'') url))))"

lemma local_routing_routes: "routes_tickets ''http://localhost:3000'' local_routing"
  by (auto simp: routes_tickets_def json_request_def arrives_def local_routing_def)

lemma sample_cycle:
  "\<exists>t h1. runCycle sample_stress sample_stress_config 0 ''r'' [] = (Inr t, h1) \<and> st_id t \<notin> {''.'', ''..''}"
proof -
  from runCycle_served [OF sample_stress_serves] obtain t h1 where
    run: "runCycle sample_stress sample_stress_config 0 ''r'' [] = (Inr t, h1)" "last_put sample_stress_config letters_a h1 t"
    by blast
  then have "letters_a (st_id t)" by (simp add: last_put_def)
  then have "st_id t \<notin> {''.'', ''..''}" by (auto simp: letters_a_def)
  with run(1) show ?thesis by blast
qed

theorem stress_writes_pass_gateway_witness:
  "\<exists>c1 c2 c3 q1 t. runCycle sample_stress sample_stress_config 0 ''r'' [] = (Inr t, [c1, c2, c3]) \<and>
    makes_call stress_gateway local_routing c1 [] (TicketsCreate q1) \<and> ticket_request q1 5 (base_title ''r'' 0) ''u1''"
proof -
  obtain t h1 where run: "runCycle sample_stress sample_stress_config 0 ''r'' [] = (Inr t, h1)" "st_id t \<notin> {''.'', ''..''}"
    using sample_cycle by blast
  have "length (utf8 (ticket_body FINAL_UPDATE_PRICE (base_title ''r'' 0 @ ''-second-update''))) < 70" by code_simp
  then have size: "length (utf8 (ticket_body FINAL_UPDATE_PRICE (base_title ''r'' 0 @ ''-second-update''))) \<le> 102400"
    by simp
  have resolved: "sx_resolve sample_stress ''/api/tickets''
      (case sx_env sample_stress ''STRESS_BASE_URL'' of None \<Rightarrow> DEFAULT_BASE_URL | Some u \<Rightarrow> u) =
      Some (''http://localhost:3000'' @ ''/api/tickets'')"
    by (simp add: sample_stress_def DEFAULT_BASE_URL_def)
  from stress_writes_pass_gateway [OF stress_gateway_accepts _ _ local_routing_routes sample_stress_reads resolved run size,
      where h = "[]" and user = "\<lparr>icu_userId = ''u1'', icu_name = ''Ada'', icu_email = ''a@b.c'', icu_emailVerified = True\<rparr>"]
    run(1)
  show ?thesis by (fastforce simp: stress_gateway_def sample_env_def)
qed

end
