(* ===== verification/Validation_Agreement.thy ===== *)
theory Validation_Agreement
  imports Request_Properties Session_Flow Stress_Gateway
begin

text \<open>
  The two validations of a sign-up and a sign-in: the decorators of the gateway's DTOs (dtos/signup.dto.ts, dtos/signin.dto.ts) and
  the rules that identity's validators read from the generated descriptor (validators/signup-request.validator.ts,
  validators/signin-request.validator.ts and protogen/ts/identity/v1/identity_pb.ts).
\<close>

section \<open>The rules of a descriptor\<close>

text \<open>
  What Protovalidate documents of its string rules: lengths count characters, a pattern is searched for anywhere. The
  matching of patterns and of addresses are arguments.
\<close>

fun rule_broken :: "(string \<Rightarrow> string \<Rightarrow> bool) \<Rightarrow> (string \<Rightarrow> bool) \<Rightarrow> string_rule \<Rightarrow> string \<Rightarrow> bool" where
  "rule_broken matches address (MinLen n) s = (int (length s) < n)"
| "rule_broken matches address (MaxLen n) s = (n < int (length s))"
| "rule_broken matches address (Pattern p) s = (\<not> matches p s)"
| "rule_broken matches address EmailAddress s = (\<not> address s)"

text \<open>The fields of the violations, one for each broken rule, in the order of the descriptor.\<close>

definition violated_fields ::
    "(string \<Rightarrow> string \<Rightarrow> bool) \<Rightarrow> (string \<Rightarrow> bool) \<Rightarrow> proto_message \<Rightarrow> jsval \<Rightarrow> string list" where
  "violated_fields matches address m v =
     concat (map (\<lambda>f. map (\<lambda>_. pf_name f)
       (filter (\<lambda>r. rule_broken matches address r (str_of (get_prop v (camelCase (pf_name f))))) (pf_rules f))) (pm_fields m))"

definition verdict :: "string list \<Rightarrow> proto_result" where
  "verdict paths = (if paths = [] then ProtoValid else ProtoInvalid paths)"

definition checks_rules :: "(string \<Rightarrow> string \<Rightarrow> bool) \<Rightarrow> (string \<Rightarrow> bool) \<Rightarrow> identity_env \<Rightarrow> bool" where
  "checks_rules matches address I \<longleftrightarrow>
     (\<forall>m v. SignUpRequestSchema = Some m \<longrightarrow> conforms SignUpRequest_message v \<longrightarrow>
        validate_signUp I v = verdict (violated_fields matches address m v)) \<and>
     (\<forall>m v. SignInRequestSchema = Some m \<longrightarrow> conforms SignInRequest_message v \<longrightarrow>
        validate_signIn I v = verdict (violated_fields matches address m v))"

definition name_pattern :: string where
  "name_pattern = ''.*'' @ CHR 0x5C # ''S.*''"

lemmas identity_requests = SignUpRequest_message_def SignInRequest_message_def ts_member_def

lemma signUp_schema:
  "SignUpRequestSchema =
     Some (described [(''name'', [Pattern name_pattern]), (''email'', [EmailAddress]), (''password'', [MinLen 8, MaxLen 128])]
       SignUpRequest_message)"
  by (simp add: SignUpRequestSchema_def messageDesc_def part_def identity_v1_identity_read name_pattern_def)

lemma signIn_schema:
  "SignInRequestSchema =
     Some (described [(''email'', [EmailAddress]), (''password'', [MinLen 8, MaxLen 128])] SignInRequest_message)"
  by (simp add: SignInRequestSchema_def messageDesc_def part_def identity_v1_identity_read)

text \<open>The violations of either request, by field.\<close>

definition password_faults :: "string \<Rightarrow> string list" where
  "password_faults s = (if length s < 8 \<or> 128 < length s then [''password''] else [])"

lemma signUp_violations:
  assumes "SignUpRequestSchema = Some m"
  shows "violated_fields matches address m v =
    (if matches name_pattern (str_of (get_prop v ''name'')) then [] else [''name'']) @
    (if address (str_of (get_prop v ''email'')) then [] else [''email'']) @
    password_faults (str_of (get_prop v ''password''))"
  using assms unfolding signUp_schema
  by (auto simp: violated_fields_def described_def identity_requests password_faults_def)

lemma signIn_violations:
  assumes "SignInRequestSchema = Some m"
  shows "violated_fields matches address m v =
    (if address (str_of (get_prop v ''email'')) then [] else [''email'']) @
    password_faults (str_of (get_prop v ''password''))"
  using assms unfolding signIn_schema
  by (auto simp: violated_fields_def described_def identity_requests password_faults_def)

lemma validators_of_rules:
  assumes "checks_rules matches address I"
  shows "conforms SignUpRequest_message v \<Longrightarrow> validate_signUp I v =
      verdict ((if matches name_pattern (str_of (get_prop v ''name'')) then [] else [''name'']) @
        (if address (str_of (get_prop v ''email'')) then [] else [''email'']) @
        password_faults (str_of (get_prop v ''password'')))"
    and "conforms SignInRequest_message v \<Longrightarrow> validate_signIn I v =
      verdict ((if address (str_of (get_prop v ''email'')) then [] else [''email'']) @
        password_faults (str_of (get_prop v ''password'')))"
  using assms signUp_violations [OF signUp_schema] signIn_violations [OF signIn_schema]
  unfolding checks_rules_def signUp_schema signIn_schema by simp_all

section \<open>The rules of a DTO\<close>

text \<open>What the validation pipe documents besides: it does not change the value of a decorated property.\<close>

definition keeps_values :: "gateway_env \<Rightarrow> bool" where
  "keeps_values E \<longleftrightarrow>
     (\<forall>rules v dto p. validate_body E rules v = Inr dto \<longrightarrow> p \<in> fst ` set rules \<longrightarrow> get_prop dto p = get_prop v p)"

lemma dto_rules_hold:
  assumes "validates email uuid E" and "validate_body E rules v = Inr dto"
  shows "list_all (\<lambda>(p, rs). list_all (\<lambda>r. rule_holds email uuid r (get_prop dto p)) rs) rules"
  using validates_dto(2) [OF assms] by (auto simp: list_all_iff)

lemma signUp_dto:
  assumes "validates email uuid E" and "validate_body E SignUpDto v = Inr dto"
  shows "str_of (get_prop dto ''name'') \<noteq> []" "email (get_prop dto ''email'')"
    "password_faults (str_of (get_prop dto ''password'')) = []"
  using dto_rules_hold [OF assms] by (auto simp: SignUpDto_def password_faults_def elim: is_string.elims)

lemma signIn_dto:
  assumes "validates email uuid E" and "validate_body E SignInDto v = Inr dto"
  shows "email (get_prop dto ''email'')" "password_faults (str_of (get_prop dto ''password'')) = []"
  using dto_rules_hold [OF assms] by (auto simp: SignInDto_def password_faults_def)

section \<open>Identity behind the gateway's sign-up\<close>

definition sign_up_backed :: "gateway_env \<Rightarrow> identity_env \<Rightarrow> (thrown \<Rightarrow> thrown) \<Rightarrow> bool" where
  "sign_up_backed E I transport \<longleftrightarrow>
     (\<forall>request h. \<exists>hi. grpc_signUp E request h =
        (case fst (IdentityService_signUp I request hi) of
           Inl e \<Rightarrow> Inl (transport e)
         | Inr r \<Rightarrow> Inr \<lparr>sur_userId = is_userId r, sur_email = is_email r\<rparr>))"

text \<open>What identity has against a sign-up that the gateway let through.\<close>

definition sign_up_faults :: "(string \<Rightarrow> string \<Rightarrow> bool) \<Rightarrow> (string \<Rightarrow> bool) \<Rightarrow> jsval \<Rightarrow> error_item list" where
  "sign_up_faults matches address dto =
     (if matches name_pattern (str_of (get_prop dto ''name'')) then [] else [createInvalidNameError]) @
     (if address (str_of (get_prop dto ''email'')) then [] else [createInvalidEmailError])"

lemma validated_signUp_outcome:
  assumes "validates email uuid E" and "checks_rules matches address I" and "validate_body E SignUpDto v = Inr dto"
  shows "validateSignUpRequest I dto =
    (if sign_up_faults matches address dto = [] then Valid else Invalid (sign_up_faults matches address dto))"
proof -
  have "conforms SignUpRequest_message dto" by (rule conforms_signUp [OF assms(1,3)])
  from validators_of_rules(1) [OF assms(2) this] show ?thesis
    by (simp add: validateSignUpRequest_def validation_result_of_def verdict_def sign_up_faults_def
        mapProtovalidateViolation_def signUp_dto(3) [OF assms(1,3)])
qed

lemma validated_signIn_outcome:
  assumes "validates email uuid E" and "checks_rules matches address I" and "validate_body E SignInDto v = Inr dto"
  shows "validateSignInRequest I dto =
    (if address (str_of (get_prop dto ''email'')) then Valid else Invalid [createInvalidEmailError])"
proof -
  have "conforms SignInRequest_message dto" by (rule conforms_signIn [OF assms(1,3)])
  from validators_of_rules(2) [OF assms(2) this] show ?thesis
    by (simp add: validateSignInRequest_def validation_result_of_def verdict_def mapProtovalidateViolation_def
        signIn_dto(2) [OF assms(1,3)])
qed

section \<open>Concrete validators\<close>

text \<open>A pattern is taken to ask for a character that is not a space, and every text is an address.\<close>

definition sample_matches :: "string \<Rightarrow> string \<Rightarrow> bool" where
  "sample_matches p s \<longleftrightarrow> list_ex (\<lambda>c. c \<noteq> CHR '' '') s"

definition ruled_identity :: identity_env where
  "ruled_identity = sample_identity
     \<lparr>validate_signUp := (\<lambda>v. verdict (violated_fields sample_matches (\<lambda>_. True) (the SignUpRequestSchema) v)),
      validate_signIn := (\<lambda>v. verdict (violated_fields sample_matches (\<lambda>_. True) (the SignInRequestSchema) v))\<rparr>"

lemma ruled_checks: "checks_rules sample_matches (\<lambda>_. True) ruled_identity"
proof -
  have "validate_signUp ruled_identity = (\<lambda>v. verdict (violated_fields sample_matches (\<lambda>_. True) (the SignUpRequestSchema) v))"
    "validate_signIn ruled_identity = (\<lambda>v. verdict (violated_fields sample_matches (\<lambda>_. True) (the SignInRequestSchema) v))"
    by (simp_all add: ruled_identity_def)
  then show ?thesis unfolding checks_rules_def by (metis option.sel)
qed

definition backed_env :: gateway_env where
  "backed_env = whitelisting_env
     \<lparr>grpc_signUp := (\<lambda>request h. case fst (IdentityService_signUp ruled_identity request []) of
        Inl e \<Rightarrow> Inl (client_error e) | Inr r \<Rightarrow> Inr \<lparr>sur_userId = is_userId r, sur_email = is_email r\<rparr>)\<rparr>"

lemma backed_backed: "sign_up_backed backed_env ruled_identity client_error"
  by (auto simp: sign_up_backed_def backed_env_def)

lemma backed_validates: "validates is_string (\<lambda>_. is_string) backed_env"
  using whitelisting_validates by (simp add: validates_def enforces_rules_def backed_env_def)

lemma backed_accepts: "accepts_valid is_string (\<lambda>_. is_string) backed_env"
  by (simp add: accepts_valid_def backed_env_def whitelisting_env_def whitelisting_validate_def sample_validate_def)

lemma backed_keeps: "keeps_values backed_env"
  by (auto simp: keeps_values_def backed_env_def whitelisting_env_def whitelisting_validate_def sample_validate_def
      split: jsval.splits if_splits)

definition blank_sign_up :: jsval where
  "blank_sign_up = JObj [(''name'', JStr '' ''), (''email'', JStr ''a@b.c''), (''password'', JStr ''correct horse'')]"

lemma blank_accepted: "validate_body backed_env SignUpDto blank_sign_up = Inr blank_sign_up"
  by (simp add: backed_env_def whitelisting_env_def whitelisting_validate_def sample_validate_def blank_sign_up_def SignUpDto_def)

lemma blank_faults: "sign_up_faults sample_matches (\<lambda>_. True) blank_sign_up = [createInvalidNameError]"
  by (simp add: sign_up_faults_def sample_matches_def blank_sign_up_def)

definition sample_sign_in :: jsval where
  "sample_sign_in = JObj [(''email'', JStr ''a@b.c''), (''password'', JStr ''correct horse'')]"

lemma sign_in_accepted: "validate_body backed_env SignInDto sample_sign_in = Inr sample_sign_in"
  by (simp add: backed_env_def whitelisting_env_def whitelisting_validate_def sample_validate_def sample_sign_in_def SignInDto_def)

lemma sign_in_conforms: "conforms SignInRequest_message sample_sign_in"
  by (simp add: conforms_def sample_sign_in_def identity_requests)

section \<open>Properties\<close>

text \<open>
  C17: The gateway's sign-up and sign-in DTOs and the rules identity reads from its generated descriptor
  agree on all but two things: of a body the gateway has let through, identity never objects to the password, only to
  a name without a visible character, and to an address on which the two address checks differ; it reports exactly those, in the
  order of the descriptor, and accepts everything else.
\<close>

theorem validated_requests_pass_identity:
  assumes "validates email uuid E" and "checks_rules matches address I"
    and "validate_body E SignUpDto v = Inr up" and "validate_body E SignInDto w = Inr si"
  shows "validateSignUpRequest I up =
      (if sign_up_faults matches address up = [] then Valid else Invalid (sign_up_faults matches address up)) \<and>
    validateSignInRequest I si =
      (if address (str_of (get_prop si ''email'')) then Valid else Invalid [createInvalidEmailError])"
  using validated_signUp_outcome [OF assms(1-3)] validated_signIn_outcome [OF assms(1,2,4)] by (rule conjI)

theorem validated_requests_pass_identity_witness:
  "\<exists>up. validate_body backed_env SignUpDto blank_sign_up = Inr up \<and>
     validateSignUpRequest ruled_identity up = Invalid [createInvalidNameError] \<and>
     validateSignInRequest ruled_identity sample_sign_in = Valid"
  using validated_requests_pass_identity [OF backed_validates ruled_checks blank_accepted sign_in_accepted] blank_accepted
    blank_faults by (simp add: sample_sign_in_def)

text \<open>
  C15: What identity has against a validated sign-up reaches the client: the gateway asks identity once, and answers
  400 with exactly identity's items. A blank name, which the DTO lets through as not empty, is answered so.
\<close>

theorem sign_up_faults_reach_client:
  assumes "validates email uuid E" and "checks_rules matches address I"
    and "sign_up_backed E I transport" and "delivers_status transport"
    and "validate_body E SignUpDto v = Inr dto" and "sign_up_faults matches address dto \<noteq> []"
  shows "\<exists>answer. respond (run_route E hs (SignUp v)) h = (Inl (num 400, answer), h @ [IdentitySignUp dto]) \<and>
    map to_error_item answer = sign_up_faults matches address dto"
proof -
  let ?items = "sign_up_faults matches address dto"
  have refused: "fst (IdentityService_signUp I dto hi) = Inl (StructuredGrpcError GRPC_INVALID_ARGUMENT ?items)" for hi
    using validated_signUp_outcome [OF assms(1,2,5)] assms(6) by (simp add: IdentityService_signUp_def io_simps)
  obtain hi where "grpc_signUp E dto h =
      (case fst (IdentityService_signUp I dto hi) of
         Inl e \<Rightarrow> Inl (transport e) | Inr r \<Rightarrow> Inr \<lparr>sur_userId = is_userId r, sur_email = is_email r\<rparr>)"
    using assms(3) unfolding sign_up_backed_def by blast
  then have stub: "grpc_signUp E dto h = Inl (transport (StructuredGrpcError GRPC_INVALID_ARGUMENT ?items))"
    unfolding refused sum.case .
  have "httpStatusFromGrpcCode (num (status_number GRPC_INVALID_ARGUMENT)) = 400" by (simp add: httpStatusFromGrpcCode_def)
  then have thrown: "throwGatewayGrpcError (transport (StructuredGrpcError GRPC_INVALID_ARGUMENT ?items)) d =
      ApiError 400 (map item_val ?items)" for d
    using throwGatewayGrpcError_structured [OF assms(4,6)] by simp
  have "AuthController_signUp E v h = (Inl (ApiError 400 (map item_val ?items)), h @ [IdentitySignUp dto])"
    unfolding AuthController_signUp_def validated_def assms(5) sum.case AuthService_signUp_def try_grpc_def
    by (simp only: io_simps stub thrown sum.case prod.case)
  then have run: "run_route E hs (SignUp v) h = (Inl (ApiError 400 (map item_val ?items)), h @ [IdentitySignUp dto])"
    by (simp add: done_with_def io_bind_def)
  have "api_error_filter_catch (ApiError 400 (map item_val ?items)) = (num 400, map api_item (map item_val ?items))"
    by (intro filter_ApiError) (simp_all add: assms(6) list_all_iff)
  then show ?thesis using run by (simp add: respond_def map_idI)
qed

theorem sign_up_faults_reach_client_witness:
  "\<exists>answer. respond (run_route backed_env sample_headers (SignUp blank_sign_up)) [] =
      (Inl (num 400, answer), [IdentitySignUp blank_sign_up]) \<and>
    map to_error_item answer = [createInvalidNameError]"
proof -
  have "sign_up_faults sample_matches (\<lambda>_. True) blank_sign_up \<noteq> []" by (simp add: blank_faults)
  from sign_up_faults_reach_client [OF backed_validates ruled_checks backed_backed delivers_client_error blank_accepted this,
      of sample_headers "[]"]
  show ?thesis by (simp only: blank_faults append_Nil)
qed

text \<open>
  C25: When both services check addresses alike, the gateway's DTO of a sign-in and the rules of the descriptor
  are equivalent: the gateway lets a request of the declared type through exactly when identity would accept it.
\<close>

theorem signin_validations_equivalent:
  assumes "validates (\<lambda>v. is_string v \<and> address (str_of v)) uuid E"
    and "accepts_valid (\<lambda>v. is_string v \<and> address (str_of v)) uuid E"
    and "keeps_values E" and "checks_rules matches address I" and "conforms SignInRequest_message (JObj kvs)"
  shows "(\<exists>dto. validate_body E SignInDto (JObj kvs) = Inr dto) = (validateSignInRequest I (JObj kvs) = Valid)"
proof
  let ?email = "\<lambda>v. is_string v \<and> address (str_of v)"
  have checked: "validateSignInRequest I (JObj kvs) = Valid \<longleftrightarrow>
      address (str_of (get_prop (JObj kvs) ''email'')) \<and> password_faults (str_of (get_prop (JObj kvs) ''password'')) = []"
    using validators_of_rules(2) [OF assms(4,5)]
    by (simp add: validateSignInRequest_def validation_result_of_def verdict_def)
  have strings: "is_string (get_prop (JObj kvs) ''email'')" "is_string (get_prop (JObj kvs) ''password'')"
    and keys: "fst ` set kvs \<subseteq> fst ` set SignInDto"
    using assms(5) by (auto simp: conforms_def identity_requests SignInDto_def list_all_iff)
  show "validateSignInRequest I (JObj kvs) = Valid" if accepted: "\<exists>dto. validate_body E SignInDto (JObj kvs) = Inr dto"
  proof -
    from accepted obtain dto where dto: "validate_body E SignInDto (JObj kvs) = Inr dto" by blast
    have "get_prop dto p = get_prop (JObj kvs) p" if "p \<in> fst ` set SignInDto" for p
      using assms(3) dto that unfolding keeps_values_def by blast
    with signIn_dto [OF assms(1) dto] checked show ?thesis by (simp add: SignInDto_def)
  qed
  show "\<exists>dto. validate_body E SignInDto (JObj kvs) = Inr dto" if "validateSignInRequest I (JObj kvs) = Valid"
  proof -
    have "\<forall>(p, rs) \<in> set SignInDto. \<forall>r \<in> set rs. rule_holds ?email uuid r (get_prop (JObj kvs) p)"
      using that strings unfolding checked by (simp add: SignInDto_def password_faults_def split: if_splits)
    with keys assms(2) show ?thesis unfolding accepts_valid_def by blast
  qed
qed

theorem signin_validations_equivalent_witness:
  "\<exists>dto. validate_body backed_env SignInDto sample_sign_in = Inr dto \<and> validateSignInRequest ruled_identity sample_sign_in = Valid"
proof -
  have "validates (\<lambda>v. is_string v \<and> (\<lambda>_. True) (str_of v)) (\<lambda>_. is_string) backed_env"
    "accepts_valid (\<lambda>v. is_string v \<and> (\<lambda>_. True) (str_of v)) (\<lambda>_. is_string) backed_env"
    using backed_validates backed_accepts by simp_all
  from signin_validations_equivalent [OF this backed_keeps ruled_checks sign_in_conforms [unfolded sample_sign_in_def]]
  show ?thesis using sign_in_accepted unfolding sample_sign_in_def by blast
qed

end
