(* ===== verification/Expiration_Types.thy ===== *)
theory Expiration_Types
  imports Js_Dates
begin

text \<open>
  The expiration service (apps/expiration/src/expiration): its constants, the messages it exchanges
  through NATS JetStream and BullMQ, the calls it makes, and the environment that answers them.
\<close>

section \<open>Constants\<close>

text \<open>expiration.constants.ts.\<close>

definition expirationQueueName :: string where
  "expirationQueueName = ''expiration''"

definition expirationJobName :: string where
  "expirationJobName = ''expiration-complete''"

definition expirationEventsStream :: string where
  "expirationEventsStream = ''EXPIRATION_EVENTS''"

definition expirationDeadLetterStream :: string where
  "expirationDeadLetterStream = ''EXPIRATION_DLQ''"

definition expirationCompleteSubject :: string where
  "expirationCompleteSubject = ''expiration.expiration.complete.v1''"

definition ordersEventsStream :: string where
  "ordersEventsStream = ''ORDERS_EVENTS''"

definition orderCreatedSubject :: string where
  "orderCreatedSubject = ''orders.order.created.v1''"

definition orderCreatedDurableName :: string where
  "orderCreatedDurableName = ''expiration-order-created-v1''"

definition orderCreatedDeadLetterSubject :: string where
  "orderCreatedDeadLetterSubject = ''dlq.expiration.order-created.v1''"

definition orderCreatedMaxRetries :: nat where
  "orderCreatedMaxRetries = 5"

definition expirationPublishAttempts :: nat where
  "expirationPublishAttempts = 5"

definition expirationPublishBackoffMilliseconds :: nat where
  "expirationPublishBackoffMilliseconds = 1000"

definition natsRetryMilliseconds :: nat where
  "natsRetryMilliseconds = 1000"

text \<open>jetstream.service.ts.\<close>

definition deadLetterRetentionMilliseconds :: int where
  "deadLetterRetentionMilliseconds = 7 * 24 * 60 * 60 * 1000"

definition deadLetterHeader :: string where
  "deadLetterHeader = ''X-Expiration-DLQ-''"

section \<open>Messages\<close>

type_synonym bytes = "nat list"

text \<open>
  NATS headers. A received header block is what its iterator yields: each key with its values. A
  header block under construction is the list of the operations on it.
\<close>

type_synonym header_entries = "(string \<times> string list) list"

datatype header_op = Append string string | SetHeader string string

fun op_key :: "header_op \<Rightarrow> string" where
  "op_key (Append k v) = k"
| "op_key (SetHeader k v) = k"

fun op_value :: "header_op \<Rightarrow> string" where
  "op_value (Append k v) = v"
| "op_value (SetHeader k v) = v"

text \<open>expiration.types.ts: \<open>OrderCreatedDelivery\<close>, without its two methods, which are calls.\<close>

record delivery =
  dl_data :: bytes
  dl_headers :: "header_entries option"
  dl_deliveryCount :: nat
  dl_stream :: string
  dl_streamSequence :: nat
  dl_subject :: string

record ExpirationJobData =
  jd_orderId :: string

record job =
  job_name :: string
  job_data :: ExpirationJobData

record job_options =
  jo_attempts :: nat
  jo_backoff_type :: string
  jo_backoff_delay :: nat
  jo_delay :: jsnum
  jo_jobId :: string
  jo_removeOnComplete :: bool
  jo_removeOnFail :: bool

text \<open>The generated messages \<open>OrderCreated\<close> and \<open>ExpirationComplete\<close>, and the well-known timestamp.\<close>

record pb_timestamp =
  pt_seconds :: int
  pt_nanos :: int

record OrderTicket =
  ot_id :: string
  ot_price :: int

record OrderCreated =
  oc_eventId :: string
  oc_occurredAt :: "pb_timestamp option"
  oc_orderId :: string
  oc_orderStatus :: int
  oc_userId :: string
  oc_expiresAt :: "pb_timestamp option"
  oc_ticket :: "OrderTicket option"
  oc_aggregateVersion :: int

record ExpirationComplete =
  ec_eventId :: string
  ec_occurredAt :: "pb_timestamp option"
  ec_orderId :: string

text \<open>The numbers of the generated \<open>OrderStatus\<close> that the handler compares with.\<close>

definition OrderStatus_CREATED :: int where
  "OrderStatus_CREATED = 1"

record stream_config =
  sc_name :: string
  sc_subjects :: "string list"
  sc_retention :: string
  sc_storage :: string
  sc_duplicate_window :: "int option"
  sc_max_age :: "int option"

record consumer_config =
  cc_ack_policy :: string
  cc_deliver_policy :: string
  cc_durable_name :: string
  cc_filter_subject :: string

text \<open>A message of a stream, as \<open>streams.getMessage\<close> returns it.\<close>

record stored_message =
  sm_subject :: string
  sm_header :: header_entries
  sm_data :: bytes

section \<open>Calls and their answers\<close>

datatype expiration_call =
    NatsConnect string nat
  | NatsManager
  | NatsClose
  | NatsDrain
  | RetryWait nat
  | StreamInfo string
  | StreamAdd stream_config
  | StreamUpdate string stream_config
  | ConsumerInfo string string
  | ConsumerAdd string consumer_config
  | ConsumerGet string string
  | Consume
  | StopMessages
  | GetMessage string nat
  | Publish string bytes "header_op list option" string
  | QueueAdd string ExpirationJobData job_options
  | Ack delivery
  | Nak delivery
  | Observe string string string jsnum

type_synonym 'a expiration = "(expiration_call, thrown, 'a) io"
type_synonym 'a ex_answer = "expiration_call list \<Rightarrow> thrown + 'a"

text \<open>
  NATS, BullMQ, the Protobuf runtime and the clocks are outside the repository. \<open>decode_order\<close> is
  \<open>fromBinary\<close>, \<open>None\<close> where it throws; \<open>refuse_header\<close> is what a header operation throws, if it does; \<open>StreamNotFound\<close> and
  \<open>ConsumerNotFound\<close> are the library's error codes.
\<close>

record expiration_env =
  nats_connect :: "unit ex_answer"
  nats_manager :: "unit ex_answer"
  nats_close :: "unit ex_answer"
  nats_drain :: "unit ex_answer"
  stream_info :: "string \<Rightarrow> stream_config ex_answer"
  stream_add :: "stream_config \<Rightarrow> unit ex_answer"
  stream_update :: "string \<Rightarrow> stream_config \<Rightarrow> unit ex_answer"
  consumer_info :: "unit ex_answer"
  consumer_add :: "unit ex_answer"
  consumer_get :: "unit ex_answer"
  consume_messages :: "unit ex_answer"
  get_message :: "nat \<Rightarrow> stored_message option ex_answer"
  js_publish :: "string \<Rightarrow> bytes \<Rightarrow> header_op list option \<Rightarrow> string \<Rightarrow> nat ex_answer"
  queue_add :: "string \<Rightarrow> ExpirationJobData \<Rightarrow> job_options \<Rightarrow> unit ex_answer"
  delivery_ack :: "delivery \<Rightarrow> unit ex_answer"
  delivery_nak :: "delivery \<Rightarrow> unit ex_answer"
  refuse_header :: "header_op \<Rightarrow> thrown option"
  decode_order :: "bytes \<Rightarrow> OrderCreated option"
  encode_complete :: "ExpirationComplete \<Rightarrow> bytes"
  timestampDate :: "pb_timestamp \<Rightarrow> jsdate"
  timestampNow :: "expiration_call list \<Rightarrow> pb_timestamp"
  date_now :: "expiration_call list \<Rightarrow> int"
  performance_now :: "expiration_call list \<Rightarrow> jsnum"
  has_metrics :: bool
  StreamNotFound :: jsnum
  ConsumerNotFound :: jsnum
  show_number :: "jsnum \<Rightarrow> string"
  ex_process_env :: "string \<Rightarrow> string option"

text \<open>\<open>failure instanceof Error ? failure.message : String(failure)\<close>.\<close>

definition failure_text :: "expiration_env \<Rightarrow> thrown \<Rightarrow> string" where
  "failure_text E failure =
     (if is_error failure then str_of (get_prop (thrown_val failure) ''message'')
      else js_String (show_number E) (thrown_val failure))"

text \<open>The metrics' \<open>observe\<close>, when the optional dependency is there, with the time since \<open>started\<close>.\<close>

definition observe_call :: "expiration_env \<Rightarrow> string \<Rightarrow> string \<Rightarrow> string \<Rightarrow> jsnum \<Rightarrow> unit expiration" where
  "observe_call E component operation result started =
     io_when (has_metrics E)
       (io_bind (io_read (performance_now E)) (\<lambda>now.
          io_call (Observe component operation result (js_div_pos (js_sub now started) 1000)) (\<lambda>_. Inr ())))"

fun is_settle :: "expiration_call \<Rightarrow> bool" where
  "is_settle (Ack _) = True"
| "is_settle (Nak _) = True"
| "is_settle _ = False"

fun is_observe :: "expiration_call \<Rightarrow> bool" where
  "is_observe (Observe _ _ _ _) = True"
| "is_observe _ = False"

lemma observe_not_settle: "is_observe c \<Longrightarrow> \<not> is_settle c"
  by (cases c) simp_all

lemma observe_call_emits: "io_emits is_observe (observe_call E c p r s)"
  unfolding observe_call_def by (intro io_rules) simp

lemma observe_call_ok: "fst (observe_call E c p r s h) = Inr ()"
  by (simp add: observe_call_def io_simps)

end
