(* ===== verification/Expiration_JetStream.thy ===== *)
theory Expiration_JetStream
  imports Expiration_Types
begin

text \<open>
  JetStreamService (apps/expiration/src/expiration/jetstream.service.ts): connection with retries,
  the streams and the consumer it ensures, publishing, parking a delivery in the dead-letter stream and
  replaying it.
\<close>

section \<open>Connection state\<close>

text \<open>Which of the three optional fields are set.\<close>

record js_state =
  js_connection :: bool
  js_client :: bool
  js_manager :: bool

definition disconnected :: js_state where
  "disconnected = \<lparr>js_connection = False, js_client = False, js_manager = False\<rparr>"

definition connected :: js_state where
  "connected = \<lparr>js_connection = True, js_client = True, js_manager = True\<rparr>"

definition requireClient :: "js_state \<Rightarrow> unit expiration" where
  "requireClient S =
     (if js_client S then io_return ()
      else io_throw (new_error PlainError ''JetStream client is not connected.''))"

definition requireManager :: "js_state \<Rightarrow> unit expiration" where
  "requireManager S =
     (if js_manager S then io_return ()
      else io_throw (new_error PlainError ''JetStream manager is not connected.''))"

section \<open>Errors and headers\<close>

definition isStreamNotFound :: "expiration_env \<Rightarrow> thrown \<Rightarrow> bool" where
  "isStreamNotFound E error \<longleftrightarrow>
     (case error of
        ErrorObject c kvs \<Rightarrow> c = JetStreamApiError \<and> get_prop (JObj kvs) ''code'' = JNum (StreamNotFound E)
      | _ \<Rightarrow> False)"

definition isConsumerNotFound :: "expiration_env \<Rightarrow> thrown \<Rightarrow> bool" where
  "isConsumerNotFound E error \<longleftrightarrow>
     (case error of
        ErrorObject c kvs \<Rightarrow> c = JetStreamApiError \<and> get_prop (JObj kvs) ''code'' = JNum (ConsumerNotFound E)
      | _ \<Rightarrow> False)"

definition waitForNatsRetry :: "unit expiration" where
  "waitForNatsRetry = io_call (RetryWait natsRetryMilliseconds) (\<lambda>_. Inr ())"

text \<open>The operations of a header block, in order, up to the first one that throws.\<close>

fun run_header_ops :: "expiration_env \<Rightarrow> header_op list \<Rightarrow> thrown + header_op list" where
  "run_header_ops E [] = Inr []"
| "run_header_ops E (c # cs) =
     (case refuse_header E c of
        Some e \<Rightarrow> Inl e
      | None \<Rightarrow> (case run_header_ops E cs of Inl e \<Rightarrow> Inl e | Inr r \<Rightarrow> Inr (c # r)))"

definition append_entries :: "header_entries \<Rightarrow> header_op list" where
  "append_entries es = concat (map (\<lambda>(key, vs). map (Append key) vs) es)"

definition cloneHeaders :: "header_entries option \<Rightarrow> header_op list" where
  "cloneHeaders original = append_entries (case original of None \<Rightarrow> [] | Some es \<Rightarrow> es)"

definition withoutDeadLetterHeaders :: "header_entries \<Rightarrow> header_op list" where
  "withoutDeadLetterHeaders original =
     append_entries
       (filter (\<lambda>(key, vs). \<not> (startsWith key deadLetterHeader \<or> toLowerCase key = ''nats-msg-id''))
          original)"

definition sanitizeHeaderValue :: "expiration_env \<Rightarrow> thrown \<Rightarrow> string" where
  "sanitizeHeaderValue E failure = replace_newlines (failure_text E failure)"

section \<open>Streams and the consumer\<close>

text \<open>\<open>nanos\<close> of the NATS library: milliseconds as nanoseconds.\<close>

definition nanos :: "int \<Rightarrow> int" where
  "nanos ms = ms * 1000000"

definition info_call :: "expiration_env \<Rightarrow> string \<Rightarrow> stream_config expiration" where
  "info_call E name = io_call (StreamInfo name) (stream_info E name)"

definition add_call :: "expiration_env \<Rightarrow> stream_config \<Rightarrow> unit expiration" where
  "add_call E config = io_call (StreamAdd config) (stream_add E config)"

text \<open>\<open>try { add } catch (error) { try { info } catch { throw error } }\<close>, in both functions below.\<close>

definition add_or_exists :: "expiration_env \<Rightarrow> stream_config \<Rightarrow> string \<Rightarrow> unit expiration" where
  "add_or_exists E config name =
     io_catch (add_call E config)
       (\<lambda>error. io_catch (io_bind (info_call E name) (\<lambda>_. io_return ())) (\<lambda>_. io_throw error))"

definition events_stream_config :: stream_config where
  "events_stream_config =
     \<lparr>sc_name = expirationEventsStream, sc_subjects = [''expiration.>''], sc_retention = ''limits'',
      sc_storage = ''file'', sc_duplicate_window = None, sc_max_age = None\<rparr>"

definition ensureExpirationEventStream :: "expiration_env \<Rightarrow> js_state \<Rightarrow> unit expiration" where
  "ensureExpirationEventStream E S =
     io_seq (requireManager S)
       (io_bind (io_attempt (info_call E expirationEventsStream))
          (\<lambda>r. case r of
                 Inr _ \<Rightarrow> io_return ()
               | Inl error \<Rightarrow>
                   if \<not> isStreamNotFound E error then io_throw error
                   else add_or_exists E events_stream_config expirationEventsStream))"

definition dead_letter_stream_config :: stream_config where
  "dead_letter_stream_config =
     \<lparr>sc_name = expirationDeadLetterStream, sc_subjects = [orderCreatedDeadLetterSubject],
      sc_retention = ''limits'', sc_storage = ''file'',
      sc_duplicate_window = Some (nanos deadLetterRetentionMilliseconds),
      sc_max_age = Some (nanos deadLetterRetentionMilliseconds)\<rparr>"

definition ensureExpirationDeadLetterStream :: "expiration_env \<Rightarrow> js_state \<Rightarrow> unit expiration" where
  "ensureExpirationDeadLetterStream E S =
     io_seq (requireManager S)
       (io_bind
          (io_attempt
             (io_bind (info_call E expirationDeadLetterStream)
                (\<lambda>config.
                   if orderCreatedDeadLetterSubject \<in> set (sc_subjects config) then io_return ()
                   else
                     (let config' = config\<lparr>sc_subjects := sc_subjects config @ [orderCreatedDeadLetterSubject]\<rparr>
                      in io_call (StreamUpdate expirationDeadLetterStream config')
                           (stream_update E expirationDeadLetterStream config')))))
          (\<lambda>r. case r of
                 Inr _ \<Rightarrow> io_return ()
               | Inl error \<Rightarrow>
                   if \<not> isStreamNotFound E error then io_throw error
                   else add_or_exists E dead_letter_stream_config expirationDeadLetterStream))"

definition order_created_consumer_config :: consumer_config where
  "order_created_consumer_config =
     \<lparr>cc_ack_policy = ''explicit'', cc_deliver_policy = ''all'',
      cc_durable_name = orderCreatedDurableName, cc_filter_subject = orderCreatedSubject\<rparr>"

definition orderCreatedConsumer :: "expiration_env \<Rightarrow> js_state \<Rightarrow> unit expiration" where
  "orderCreatedConsumer E S =
     io_seq (requireManager S)
       (io_seq
          (io_catch (io_call (ConsumerInfo ordersEventsStream orderCreatedDurableName) (consumer_info E))
             (\<lambda>error.
                if \<not> isConsumerNotFound E error then io_throw error
                else io_call (ConsumerAdd ordersEventsStream order_created_consumer_config) (consumer_add E)))
          (io_seq (requireClient S)
             (io_call (ConsumerGet ordersEventsStream orderCreatedDurableName) (consumer_get E))))"

section \<open>Connecting\<close>

text \<open>One round of the loop of \<open>onModuleInit\<close> after the connection is there.\<close>

definition set_up :: "expiration_env \<Rightarrow> unit expiration" where
  "set_up E =
     io_seq (io_call NatsManager (nats_manager E))
       (io_seq (ensureExpirationEventStream E connected) (ensureExpirationDeadLetterStream E connected))"

text \<open>
  The loop, with the number of rounds as fuel: \<open>None\<close> when it is still not connected after them. An
  error of closing a half-open connection leaves the loop, as in the code.
\<close>

fun onModuleInit :: "expiration_env \<Rightarrow> nat \<Rightarrow> js_state option expiration" where
  "onModuleInit E 0 = io_return None"
| "onModuleInit E (Suc rounds) =
     (let servers = (case ex_process_env E ''NATS_URL'' of None \<Rightarrow> ''nats://localhost:4222'' | Some u \<Rightarrow> u)
      in io_bind (io_attempt (io_call (NatsConnect servers 5000) (nats_connect E)))
           (\<lambda>c. case c of
              Inl _ \<Rightarrow> io_seq waitForNatsRetry (onModuleInit E rounds)
            | Inr _ \<Rightarrow>
                io_bind (io_attempt (set_up E))
                  (\<lambda>r. case r of
                     Inr _ \<Rightarrow> io_return (Some connected)
                   | Inl _ \<Rightarrow>
                       io_seq (io_call NatsClose (nats_close E))
                         (io_seq waitForNatsRetry (onModuleInit E rounds)))))"

definition JetStreamService_onApplicationShutdown :: "expiration_env \<Rightarrow> js_state \<Rightarrow> unit expiration" where
  "JetStreamService_onApplicationShutdown E S =
     io_when (js_connection S) (io_call NatsDrain (nats_drain E))"

section \<open>Publishing, parking, replaying\<close>

definition publish ::
    "expiration_env \<Rightarrow> js_state \<Rightarrow> string \<Rightarrow> bytes \<Rightarrow> string \<Rightarrow> header_op list option \<Rightarrow> unit expiration" where
  "publish E S subject payload messageId messageHeaders =
     io_seq (requireClient S)
       (io_bind (io_call (Publish subject payload messageHeaders messageId)
                   (js_publish E subject payload messageHeaders messageId))
          (\<lambda>_. io_return ()))"

definition parking_headers :: "expiration_env \<Rightarrow> delivery \<Rightarrow> string \<Rightarrow> thrown \<Rightarrow> string \<Rightarrow> header_op list" where
  "parking_headers E d failureClass failure parkedAt =
     [SetHeader (deadLetterHeader @ ''Original-Subject'') (dl_subject d),
      SetHeader (deadLetterHeader @ ''Original-Stream'') (dl_stream d),
      SetHeader (deadLetterHeader @ ''Original-Stream-Sequence'') (show_nat (dl_streamSequence d)),
      SetHeader (deadLetterHeader @ ''Consumer'') orderCreatedDurableName,
      SetHeader (deadLetterHeader @ ''Delivery-Count'') (show_nat (dl_deliveryCount d)),
      SetHeader (deadLetterHeader @ ''Failure-Class'') failureClass,
      SetHeader (deadLetterHeader @ ''Failure-Reason'') (sanitizeHeaderValue E failure),
      SetHeader (deadLetterHeader @ ''Parked-At'') parkedAt]"

definition parkOrderCreated ::
    "expiration_env \<Rightarrow> js_state \<Rightarrow> delivery \<Rightarrow> string \<Rightarrow> thrown \<Rightarrow> unit expiration" where
  "parkOrderCreated E S d failureClass failure =
     io_bind (io_read (date_now E)) (\<lambda>now.
     io_bind (io_of_result (toISOString (Some now))) (\<lambda>parkedAt.
     io_bind (io_of_result (run_header_ops E
                (cloneHeaders (dl_headers d) @ parking_headers E d failureClass failure parkedAt)))
       (\<lambda>messageHeaders.
          publish E S orderCreatedDeadLetterSubject (dl_data d)
            (''expiration-dlq-v1:'' @ dl_stream d @ '':'' @ show_nat (dl_streamSequence d))
            (Some messageHeaders))))"

text \<open>\<open>header.get(key)\<close> of a received block: the first value, or the empty string.\<close>

definition header_get :: "header_entries \<Rightarrow> string \<Rightarrow> string" where
  "header_get es key = (case map_of es key of Some (v # _) \<Rightarrow> v | _ \<Rightarrow> [])"

definition replayExpirationDeadLetter :: "expiration_env \<Rightarrow> js_state \<Rightarrow> nat \<Rightarrow> nat expiration" where
  "replayExpirationDeadLetter E S sequence =
     io_seq (requireManager S)
       (io_bind (io_call (GetMessage expirationDeadLetterStream sequence) (get_message E sequence))
          (\<lambda>message.
             case message of
               None \<Rightarrow> io_throw (new_error PlainError
                         (''message '' @ show_nat sequence @ '' is not an Expiration DLQ message''))
             | Some m \<Rightarrow>
                 if sm_subject m \<noteq> orderCreatedDeadLetterSubject
                 then io_throw (new_error PlainError
                        (''message '' @ show_nat sequence @ '' is not an Expiration DLQ message''))
                 else
                   (let subject = header_get (sm_header m) (deadLetterHeader @ ''Original-Subject'')
                    in if subject \<noteq> orderCreatedSubject
                       then io_throw (new_error PlainError
                              (''message '' @ show_nat sequence @ '' has unsupported original subject '' @
                               json_quote subject))
                       else
                         io_seq (requireClient S)
                           (io_bind (io_of_result (run_header_ops E (withoutDeadLetterHeaders (sm_header m))))
                              (\<lambda>hdrs.
                                 io_call (Publish subject (sm_data m) (Some hdrs)
                                            (''expiration-dlq-replay-v1:'' @ show_nat sequence))
                                   (js_publish E subject (sm_data m) (Some hdrs)
                                      (''expiration-dlq-replay-v1:'' @ show_nat sequence)))))))"

section \<open>Facts\<close>

lemma run_header_ops_Inr: "run_header_ops E ops = Inr r \<Longrightarrow> r = ops"
  by (induction ops arbitrary: r) (auto split: option.splits sum.splits)

lemma run_header_ops_accepted: "\<forall>c \<in> set ops. refuse_header E c = None \<Longrightarrow> run_header_ops E ops = Inr ops"
  by (induction ops) simp_all

text \<open>The dead-letter message of a delivery: its headers and its message id.\<close>

definition dead_letter_ops :: "expiration_env \<Rightarrow> delivery \<Rightarrow> string \<Rightarrow> thrown \<Rightarrow> expiration_call list \<Rightarrow> header_op list" where
  "dead_letter_ops E d fclass failure h =
     cloneHeaders (dl_headers d) @ parking_headers E d fclass failure (projr (toISOString (Some (date_now E h))))"

definition dead_letter_id :: "delivery \<Rightarrow> string" where
  "dead_letter_id d = ''expiration-dlq-v1:'' @ dl_stream d @ '':'' @ show_nat (dl_streamSequence d)"

lemma parkOrderCreated_eq:
  "parkOrderCreated E S d fclass failure h =
     (case run_header_ops E (dead_letter_ops E d fclass failure h) of
        Inl e \<Rightarrow> (Inl e, h)
      | Inr ops \<Rightarrow>
          if js_client S
          then (case js_publish E orderCreatedDeadLetterSubject (dl_data d) (Some ops) (dead_letter_id d) h of
                  Inl e \<Rightarrow> Inl e | Inr _ \<Rightarrow> Inr (),
                h @ [Publish orderCreatedDeadLetterSubject (dl_data d) (Some ops) (dead_letter_id d)])
          else (Inl (new_error PlainError ''JetStream client is not connected.''), h))"
proof -
  obtain s where s: "toISOString (Some (date_now E h)) = Inr s" using toISOString_Some by blast
  show ?thesis
    by (cases "run_header_ops E (dead_letter_ops E d fclass failure h)")
      (auto simp: parkOrderCreated_def s dead_letter_ops_def dead_letter_id_def publish_def
        requireClient_def io_simps split: sum.split)
qed

text \<open>A successful parking published the delivery's own bytes and headers.\<close>

lemma parkOrderCreated_Inr:
  assumes "parkOrderCreated E S d fclass failure h = (Inr u, h')"
  shows "h' = h @ [Publish orderCreatedDeadLetterSubject (dl_data d)
      (Some (dead_letter_ops E d fclass failure h)) (dead_letter_id d)] \<and>
    (\<exists>n. js_publish E orderCreatedDeadLetterSubject (dl_data d)
      (Some (dead_letter_ops E d fclass failure h)) (dead_letter_id d) h = Inr n)"
  using assms run_header_ops_Inr
  by (fastforce simp: parkOrderCreated_eq split: sum.splits if_splits)

end
