(* ===== verification/Expiration_Jobs.thy ===== *)
theory Expiration_Jobs
  imports Expiration_JetStream
begin

text \<open>
  The work of the expiration service: validating an order-created event and scheduling its
  expiration (order-created.handler.ts, expiration.scheduler.ts), and publishing the completion when the job
  is due (expiration.processor.ts, expiration.publisher.ts). Then its configuration and command line
  (redis.config.ts, replay-expiration-dlq.ts).
\<close>

section \<open>Scheduling\<close>

definition schedule_options :: "string \<Rightarrow> jsnum \<Rightarrow> job_options" where
  "schedule_options orderId delay =
     \<lparr>jo_attempts = expirationPublishAttempts, jo_backoff_type = ''exponential'',
      jo_backoff_delay = expirationPublishBackoffMilliseconds, jo_delay = delay, jo_jobId = orderId,
      jo_removeOnComplete = False, jo_removeOnFail = False\<rparr>"

definition schedule :: "expiration_env \<Rightarrow> string \<Rightarrow> jsdate \<Rightarrow> unit expiration" where
  "schedule E orderId expiresAt =
     io_bind (io_read (date_now E)) (\<lambda>now.
       (let delay = js_max0 (js_sub (getTime expiresAt) (num now));
            data = \<lparr>jd_orderId = orderId\<rparr>; options = schedule_options orderId delay
        in io_call (QueueAdd expirationJobName data options) (queue_add E expirationJobName data options)))"

definition newInvalidOrderCreatedEvent :: thrown where
  "newInvalidOrderCreatedEvent = new_error InvalidOrderCreatedEvent ''OrderCreated event is invalid.''"

definition handle :: "expiration_env \<Rightarrow> bytes \<Rightarrow> unit expiration" where
  "handle E payload =
     (case decode_order E payload of
        None \<Rightarrow> io_throw newInvalidOrderCreatedEvent
      | Some event \<Rightarrow>
          (case oc_expiresAt event of
             None \<Rightarrow> io_throw newInvalidOrderCreatedEvent
           | Some ts \<Rightarrow>
               if js_trim (oc_orderId event) = [] \<or> oc_orderStatus event \<noteq> OrderStatus_CREATED
               then io_throw newInvalidOrderCreatedEvent
               else (let expiresAt = timestampDate E ts
                     in if getTime expiresAt = NaN then io_throw newInvalidOrderCreatedEvent
                        else schedule E (oc_orderId event) expiresAt)))"

section \<open>Completing\<close>

definition publishExpirationComplete :: "expiration_env \<Rightarrow> js_state \<Rightarrow> string \<Rightarrow> unit expiration" where
  "publishExpirationComplete E S orderId =
     io_bind (io_read (timestampNow E)) (\<lambda>now.
       publish E S expirationCompleteSubject
         (encode_complete E \<lparr>ec_eventId = orderId, ec_occurredAt = Some now, ec_orderId = orderId\<rparr>)
         orderId None)"

definition processor_observe :: "expiration_env \<Rightarrow> string \<Rightarrow> jsnum \<Rightarrow> unit expiration" where
  "processor_observe E result started =
     observe_call E ''bullmq_processor'' ''expiration_complete'' result started"

definition process :: "expiration_env \<Rightarrow> js_state \<Rightarrow> job \<Rightarrow> unit expiration" where
  "process E S j =
     io_bind (io_read (performance_now E)) (\<lambda>started.
       if job_name j \<noteq> expirationJobName
       then io_seq (processor_observe E ''unsupported'' started)
              (io_throw (new_error PlainError (''Unsupported expiration job: '' @ job_name j)))
       else io_catch
              (io_seq (publishExpirationComplete E S (jd_orderId (job_data j)))
                 (processor_observe E ''success'' started))
              (\<lambda>error. io_seq (processor_observe E ''retry'' started) (io_throw error)))"

section \<open>Configuration and the replay command\<close>

text \<open>The parts of a parsed URL that the code reads; parsing is the platform's.\<close>

record url_parts =
  up_pathname :: string
  up_hostname :: string
  up_port :: string
  up_username :: string
  up_password :: string

record redis_options =
  ro_host :: string
  ro_port :: jsnum
  ro_username :: "string option"
  ro_password :: "string option"
  ro_db :: jsnum
  ro_maxRetriesPerRequest :: "nat option"

definition non_empty :: "string \<Rightarrow> string option" where
  "non_empty s = (if s = [] then None else Some s)"

definition redisConnectionOptions ::
    "(string \<Rightarrow> string option) \<Rightarrow> (string \<Rightarrow> thrown + url_parts) \<Rightarrow> thrown + redis_options" where
  "redisConnectionOptions env parse_url =
     (let redisUrl = (case env ''REDIS_URL'' of None \<Rightarrow> ''redis://localhost:6379'' | Some u \<Rightarrow> u)
      in case parse_url redisUrl of
           Inl e \<Rightarrow> Inl e
         | Inr url \<Rightarrow>
             (let database =
                (if up_pathname url = [] \<or> up_pathname url = ''/'' then num 0
                 else js_Number (drop 1 (up_pathname url)))
              in if \<not> js_isInteger database \<or> js_less database (num 0)
                 then Inl (new_error PlainError ''REDIS_URL must contain a non-negative integer database index.'')
                 else Inr \<lparr>ro_host = up_hostname url,
                           ro_port = (if up_port url = [] then num 6379 else js_Number (up_port url)),
                           ro_username = non_empty (up_username url),
                           ro_password = non_empty (up_password url), ro_db = database,
                           ro_maxRetriesPerRequest = None\<rparr>))"

text \<open>The options never name a database other than a natural number.\<close>

lemma redis_database:
  assumes "redisConnectionOptions env parse_url = Inr options"
  shows "\<exists>n. ro_db options = num n \<and> 0 \<le> n"
proof -
  have "\<exists>n. d = num n \<and> 0 \<le> n" if "js_isInteger d" "\<not> js_less d (num 0)" for d
  proof -
    from that(1) obtain x where d: "d = Fin x" and x: "of_int \<lfloor>x\<rfloor> = x"
      by (auto simp: js_isInteger_def split: jsnum.splits)
    with that(2) have "0 \<le> x" by simp
    with d show ?thesis by (intro exI [of _ "\<lfloor>x\<rfloor>"]) (simp add: x)
  qed
  with assms show ?thesis
    by (auto simp: redisConnectionOptions_def Let_def split: sum.splits if_splits)
qed

definition requiredSequence :: "(string \<Rightarrow> string option) \<Rightarrow> string \<Rightarrow> thrown + nat" where
  "requiredSequence env name =
     (case env name of
        None \<Rightarrow> Inl (new_error PlainError (name @ '' is required''))
      | Some value \<Rightarrow>
          if js_trim value = [] then Inl (new_error PlainError (name @ '' is required''))
          else (let sequence = js_Number value
                in case sequence of
                     Fin x \<Rightarrow>
                       if \<not> js_isSafeInteger sequence \<or> js_less_eq sequence (num 0)
                       then Inl (new_error PlainError (name @ '' must be a positive integer''))
                       else Inr (nat \<lfloor>x\<rfloor>)
                   | _ \<Rightarrow> Inl (new_error PlainError (name @ '' must be a positive integer''))))"

text \<open>\<open>main\<close> of the replay command, with the rounds of the connection loop as fuel.\<close>

definition replay_main :: "expiration_env \<Rightarrow> nat \<Rightarrow> nat option expiration" where
  "replay_main E rounds =
     io_bind (io_of_result (requiredSequence (ex_process_env E) ''DLQ_SEQUENCE'')) (\<lambda>sequence.
     io_bind (onModuleInit E rounds) (\<lambda>S.
       case S of
         None \<Rightarrow> io_return None
       | Some S' \<Rightarrow>
           io_finally
             (io_bind (replayExpirationDeadLetter E S' sequence) (\<lambda>r. io_return (Some r)))
             (JetStreamService_onApplicationShutdown E S')))"

end
