(* ===== verification/Expiration_Consumer.thy ===== *)
theory Expiration_Consumer
  imports Expiration_Jobs
begin

text \<open>
  OrderCreatedConsumer (apps/expiration/src/expiration/order-created.consumer.ts): what happens to one
  delivery, and the loop that consumes them until shutdown.
\<close>

section \<open>One delivery\<close>

definition failureClass :: "thrown \<Rightarrow> string" where
  "failureClass error =
     (case error of
        ErrorObject c _ \<Rightarrow> if c = InvalidOrderCreatedEvent then ''invalid'' else ''retryable''
      | _ \<Rightarrow> ''retryable'')"

definition consumer_observe :: "expiration_env \<Rightarrow> string \<Rightarrow> jsnum \<Rightarrow> unit expiration" where
  "consumer_observe E result started =
     observe_call E ''jetstream_consumer'' ''order_created'' result started"

definition ack :: "expiration_env \<Rightarrow> delivery \<Rightarrow> unit expiration" where
  "ack E d = io_call (Ack d) (delivery_ack E d)"

definition nak :: "expiration_env \<Rightarrow> delivery \<Rightarrow> unit expiration" where
  "nak E d = io_call (Nak d) (delivery_nak E d)"

text \<open>
  The class gets its handler and its JetStream service injected: the two definitions take what it calls of
  them as arguments, and \<open>handleDelivery\<close> passes the module's own.
\<close>

definition park ::
    "(delivery \<Rightarrow> string \<Rightarrow> thrown \<Rightarrow> unit expiration) \<Rightarrow>
     expiration_env \<Rightarrow> delivery \<Rightarrow> string \<Rightarrow> thrown \<Rightarrow> bool expiration" where
  "park parker E d fclass failure =
     io_bind (io_attempt (parker d fclass failure))
       (\<lambda>r. case r of
              Inl _ \<Rightarrow> io_seq (nak E d) (io_return False)
            | Inr _ \<Rightarrow> io_seq (ack E d) (io_return True))"

definition handleDelivery_with ::
    "(bytes \<Rightarrow> unit expiration) \<Rightarrow> (delivery \<Rightarrow> string \<Rightarrow> thrown \<Rightarrow> unit expiration) \<Rightarrow>
     expiration_env \<Rightarrow> delivery \<Rightarrow> unit expiration" where
  "handleDelivery_with handler parker E d =
     io_bind (io_read (performance_now E)) (\<lambda>started.
       io_catch
         (io_seq (handler (dl_data d)) (io_seq (ack E d) (consumer_observe E ''success'' started)))
         (\<lambda>error.
            let fclass = failureClass error
            in if fclass = ''invalid'' \<or> orderCreatedMaxRetries < dl_deliveryCount d
               then io_bind (park parker E d fclass error)
                      (\<lambda>parked.
                         if parked then consumer_observe E ''dead_lettered'' started
                         else consumer_observe E ''dead_letter_publish_failed'' started)
               else io_seq (nak E d) (consumer_observe E ''retry'' started)))"

definition handleDelivery :: "expiration_env \<Rightarrow> js_state \<Rightarrow> delivery \<Rightarrow> unit expiration" where
  "handleDelivery E S d = handleDelivery_with (handle E) (parkOrderCreated E S) E d"

section \<open>The loop\<close>

text \<open>The \<open>for await\<close> loop over what one subscription yields before it ends.\<close>

fun for_messages :: "expiration_env \<Rightarrow> js_state \<Rightarrow> delivery list \<Rightarrow> unit expiration" where
  "for_messages E S [] = io_return ()"
| "for_messages E S (message # messages) =
     io_seq (handleDelivery E S message) (for_messages E S messages)"

text \<open>
  The outer loop, with the number of subscriptions as fuel; \<open>stopping\<close> is the flag that shutdown
  sets, as the loop sees it at a point of the history, and \<open>session\<close> what a subscription yields: its deliveries, and then a
  normal end, an error, or nothing more, when the iteration waits for a next delivery that never comes. So the loop has
  ended, waits for ever, or has used up its rounds.
\<close>

datatype iteration_end = Ends "thrown + unit" | NeverEnds

datatype loop_result = LoopEnded | LoopWaits | RoundsUsed

fun consume ::
    "expiration_env \<Rightarrow> js_state \<Rightarrow> (expiration_call list \<Rightarrow> bool) \<Rightarrow>
     (expiration_call list \<Rightarrow> delivery list \<times> iteration_end) \<Rightarrow> nat \<Rightarrow> loop_result expiration" where
  "consume E S stopping session 0 = io_return RoundsUsed"
| "consume E S stopping session (Suc rounds) =
     io_bind (io_read stopping) (\<lambda>stop.
       if stop then io_return LoopEnded
       else
         io_bind
           (io_attempt
              (io_seq (orderCreatedConsumer E S)
                 (io_seq (io_call Consume (consume_messages E))
                    (io_bind (io_read session)
                       (\<lambda>(messages, last).
                          io_seq (for_messages E S messages)
                            (case last of
                               NeverEnds \<Rightarrow> io_return True
                             | Ends r \<Rightarrow> io_seq (io_of_result r) (io_return False)))))))
           (\<lambda>r. case r of
                  Inr waits \<Rightarrow> if waits then io_return LoopWaits else consume E S stopping session rounds
                | Inl _ \<Rightarrow>
                    io_bind (io_read stopping) (\<lambda>stop'.
                      io_seq (io_when (\<not> stop') waitForNatsRetry)
                        (consume E S stopping session rounds))))"

section \<open>Start and shutdown\<close>

record consumer_state =
  cs_processing :: bool
  cs_stopping :: bool
  cs_stopMessages :: bool

definition onApplicationBootstrap :: "consumer_state \<Rightarrow> consumer_state" where
  "onApplicationBootstrap s = s\<lparr>cs_processing := True\<rparr>"

definition consumer_onApplicationShutdown ::
    "consumer_state \<Rightarrow> unit expiration \<Rightarrow> (consumer_state \<times> unit) expiration" where
  "consumer_onApplicationShutdown s processing =
     (let s' = s\<lparr>cs_stopping := True\<rparr>
      in io_seq (io_when (cs_stopMessages s') (io_call StopMessages (\<lambda>_. Inr ())))
           (io_seq (io_when (cs_processing s') processing) (io_return (s', ()))))"

section \<open>How a delivery is settled\<close>

text \<open>
  The specification: a delivery is acknowledged when its event was handled, or when it had to be parked and was;
  it is returned for redelivery otherwise.
\<close>

definition must_park :: "delivery \<Rightarrow> thrown \<Rightarrow> bool" where
  "must_park d error \<longleftrightarrow> failureClass error = ''invalid'' \<or> orderCreatedMaxRetries < dl_deliveryCount d"

definition settlement ::
    "(bytes \<Rightarrow> unit expiration) \<Rightarrow> (delivery \<Rightarrow> string \<Rightarrow> thrown \<Rightarrow> unit expiration) \<Rightarrow>
     delivery \<Rightarrow> expiration_call list \<Rightarrow> expiration_call" where
  "settlement handler parker d h =
     (case handler (dl_data d) h of
        (Inr _, _) \<Rightarrow> Ack d
      | (Inl error, h') \<Rightarrow>
          if must_park d error \<and> result_ok (fst (parker d (failureClass error) error h')) then Ack d else Nak d)"

definition settles_quietly :: "expiration_env \<Rightarrow> bool" where
  "settles_quietly E \<longleftrightarrow> (\<forall>d h. delivery_ack E d h = Inr () \<and> delivery_nak E d h = Inr ())"

text \<open>What the consumer relies on: neither of its dependencies settles a delivery by itself.\<close>

locale delivery_dependencies =
  fixes handler :: "bytes \<Rightarrow> unit expiration"
    and parker :: "delivery \<Rightarrow> string \<Rightarrow> thrown \<Rightarrow> unit expiration"
  assumes handler_quiet: "io_emits (\<lambda>c. \<not> is_settle c) (handler p)"
    and parker_quiet: "io_emits (\<lambda>c. \<not> is_settle c) (parker d f e)"
begin

lemma handler_settles: "handler p h = (r, h') \<Longrightarrow> filter is_settle h' = filter is_settle h"
  using io_emits_filter [OF handler_quiet, of is_settle p h] by simp

lemma parker_settles: "parker d f e h = (r, h') \<Longrightarrow> filter is_settle h' = filter is_settle h"
  using io_emits_filter [OF parker_quiet, of is_settle d f e h] by simp

lemma observe_settles: "filter is_settle (snd (consumer_observe E r s h)) = filter is_settle h"
  unfolding consumer_observe_def
  by (rule io_emits_filter [OF observe_call_emits]) (rule observe_not_settle)

text \<open>Every delivery is settled exactly once, as specified, and handling it never fails.\<close>

lemma settled_as_specified:
  assumes "settles_quietly E"
  shows "filter is_settle (snd (handleDelivery_with handler parker E d h)) =
      filter is_settle h @ [settlement handler parker d h] \<and>
    fst (handleDelivery_with handler parker E d h) = Inr ()"
proof -
  have a: "ack E d h' = (Inr (), h' @ [Ack d])" "nak E d h' = (Inr (), h' @ [Nak d])" for h'
    using assms by (simp_all add: ack_def nak_def io_call_def settles_quietly_def)
  have o: "\<exists>t. consumer_observe E r s h' = (Inr (), t) \<and> filter is_settle t = filter is_settle h'" for r s h'
    using observe_settles [of E r s h'] observe_call_ok [of E _ _ r s h']
    by (metis consumer_observe_def prod.collapse)
  obtain r h1 where hd: "handler (dl_data d) h = (r, h1)" by (cases "handler (dl_data d) h")
  show ?thesis
  proof (cases r)
    case (Inr u)
    with hd a handler_settles [OF hd] o [of "''success''" "performance_now E h" "h1 @ [Ack d]"] show ?thesis
      by (auto simp: handleDelivery_with_def settlement_def io_simps)
  next
    case (Inl e)
    show ?thesis
    proof (cases "must_park d e")
      case False
      with Inl hd a handler_settles [OF hd] o [of "''retry''" "performance_now E h" "h1 @ [Nak d]"] show ?thesis
        by (auto simp: handleDelivery_with_def settlement_def must_park_def io_simps Let_def)
    next
      case True
      obtain q h2 where pk: "parker d (failureClass e) e h1 = (q, h2)"
        by (cases "parker d (failureClass e) e h1")
      with True Inl hd a handler_settles [OF hd] parker_settles [OF pk]
        o [of "''dead_lettered''" "performance_now E h" "h2 @ [Ack d]"]
        o [of "''dead_letter_publish_failed''" "performance_now E h" "h2 @ [Nak d]"]
      show ?thesis
        by (cases q) (auto simp: handleDelivery_with_def settlement_def must_park_def park_def io_simps Let_def)
    qed
  qed
qed

end

lemma schedule_emits: "io_emits (\<lambda>c. \<not> is_settle c) (schedule E i x)"
  unfolding schedule_def Let_def by (intro io_rules) simp

lemma handle_emits: "io_emits (\<lambda>c. \<not> is_settle c) (handle E p)"
  by (auto simp: handle_def Let_def intro!: io_rules schedule_emits split: option.split)

lemma publish_emits: "io_emits (\<lambda>c. \<not> is_settle c) (publish E S s p i hs)"
  unfolding publish_def requireClient_def by (intro io_rules) simp_all

lemma parkOrderCreated_emits: "io_emits (\<lambda>c. \<not> is_settle c) (parkOrderCreated E S d f e)"
  unfolding parkOrderCreated_def by (intro io_rules publish_emits)

interpretation deps: delivery_dependencies "handle E" "parkOrderCreated E S" for E S
  by unfold_locales (rule handle_emits, rule parkOrderCreated_emits)

end
