(* ===== verification/Expiration_Properties.thy ===== *)
theory Expiration_Properties
  imports Expiration_Consumer
begin

text \<open>
  What the expiration service guarantees of an event: it is settled exactly once, acknowledged only after it was
  stored, given up after six deliveries at most, and scheduled with the exact delay.
\<close>

section \<open>A sample environment\<close>

definition sample_event :: OrderCreated where
  "sample_event =
     \<lparr>oc_eventId = ''e1'', oc_occurredAt = None, oc_orderId = ''o1'', oc_orderStatus = 1, oc_userId = ''u1'',
      oc_expiresAt = Some \<lparr>pt_seconds = 1700000900, pt_nanos = 0\<rparr>, oc_ticket = None, oc_aggregateVersion = 1\<rparr>"

text \<open>
  NATS and the queue are up, the dead-letter stream exists with its subject, and payload \<open>[1]\<close> decodes to
  the event.
\<close>

definition sample_expiration :: expiration_env where
  "sample_expiration =
     \<lparr>nats_connect = (\<lambda>_. Inr ()), nats_manager = (\<lambda>_. Inr ()), nats_close = (\<lambda>_. Inr ()),
      nats_drain = (\<lambda>_. Inr ()),
      stream_info = (\<lambda>name _. Inr (dead_letter_stream_config\<lparr>sc_name := name\<rparr>)),
      stream_add = (\<lambda>_ _. Inr ()), stream_update = (\<lambda>_ _ _. Inr ()),
      consumer_info = (\<lambda>_. Inr ()), consumer_add = (\<lambda>_. Inr ()), consumer_get = (\<lambda>_. Inr ()),
      consume_messages = (\<lambda>_. Inr ()),
      get_message = (\<lambda>_ _. Inr None),
      js_publish = (\<lambda>_ _ _ _ _. Inr 7),
      queue_add = (\<lambda>_ _ _ _. Inr ()),
      delivery_ack = (\<lambda>_ _. Inr ()), delivery_nak = (\<lambda>_ _. Inr ()),
      refuse_header = (\<lambda>_. None),
      decode_order = (\<lambda>p. if p = [1] then Some sample_event else None),
      encode_complete = (\<lambda>_. [2]),
      timestampDate = (\<lambda>ts. Some (pt_seconds ts * 1000)),
      timestampNow = (\<lambda>_. \<lparr>pt_seconds = 1700000000, pt_nanos = 0\<rparr>),
      date_now = (\<lambda>_. 1700000000000), performance_now = (\<lambda>_. num 0),
      has_metrics = True, StreamNotFound = num 10059, ConsumerNotFound = num 10014,
      show_number = (\<lambda>_. ''0''), ex_process_env = (\<lambda>_. None)\<rparr>"

definition sample_delivery :: delivery where
  "sample_delivery =
     \<lparr>dl_data = [1], dl_headers = Some [(''traceparent'', [''00-1''])], dl_deliveryCount = 1,
      dl_stream = ''ORDERS_EVENTS'', dl_streamSequence = 42, dl_subject = ''orders.order.created.v1''\<rparr>"

lemma sample_answers [simp]:
  "js_publish sample_expiration = (\<lambda>_ _ _ _ _. Inr 7)" "queue_add sample_expiration = (\<lambda>_ _ _ _. Inr ())"
  "refuse_header sample_expiration = (\<lambda>_. None)"
  "decode_order sample_expiration = (\<lambda>p. if p = [1] then Some sample_event else None)"
  "timestampDate sample_expiration = (\<lambda>ts. Some (pt_seconds ts * 1000))"
  "date_now sample_expiration = (\<lambda>_. 1700000000000)"
  by (simp_all add: sample_expiration_def)

lemma sample_parks [simp]:
  "result_ok (fst (parkOrderCreated sample_expiration connected d f e h))"
  by (simp add: parkOrderCreated_eq run_header_ops_accepted connected_def)

lemma sample_settles: "settles_quietly sample_expiration"
  by (simp add: settles_quietly_def sample_expiration_def)

section \<open>Settling\<close>

text \<open>
  C7: Every delivery is settled exactly once: acknowledged when its expiration was scheduled, or when it was
  invalid or out of retries and its dead-letter message was published; returned for redelivery in
  every other case. Handling a delivery never fails, so one bad event does not stop the consumer.
\<close>

theorem delivery_settled_once:
  assumes "settles_quietly E"
  shows "filter is_settle (snd (handleDelivery E S d h)) =
      filter is_settle h @ [settlement (handle E) (parkOrderCreated E S) d h] \<and>
    fst (handleDelivery E S d h) = Inr ()"
  unfolding handleDelivery_def by (rule deps.settled_as_specified [OF assms])

theorem delivery_settled_once_witness:
  "filter is_settle (snd (handleDelivery sample_expiration connected (sample_delivery\<lparr>dl_data := []\<rparr>) [])) =
     [Ack (sample_delivery\<lparr>dl_data := []\<rparr>)]"
proof -
  let ?d = "sample_delivery\<lparr>dl_data := []\<rparr>"
  have handled: "handle sample_expiration (dl_data ?d) [] = (Inl newInvalidOrderCreatedEvent, [])"
    by (simp add: handle_def io_throw_def)
  then have "settlement (handle sample_expiration) (parkOrderCreated sample_expiration connected) ?d [] = Ack ?d"
    by (simp add: settlement_def must_park_def failureClass_def newInvalidOrderCreatedEvent_def new_error_def)
  with delivery_settled_once [OF sample_settles, of connected ?d "[]"] show ?thesis by simp
qed

text \<open>The calls a computation adds to a history.\<close>

definition new_calls :: "('c, 'e, 'a) io \<Rightarrow> 'c list \<Rightarrow> 'c list" where
  "new_calls m h = drop (length h) (snd (m h))"

lemma handleDelivery_extends: "\<exists>t. snd (handleDelivery E S d h) = h @ t"
proof -
  have any: "io_emits (\<lambda>_. True) m" if "io_emits P m" for P and m :: "'a expiration"
    using io_emits_mono [OF that] by simp
  have "io_emits (\<lambda>_. True) (handleDelivery E S d)"
    unfolding handleDelivery_def handleDelivery_with_def park_def ack_def nak_def consumer_observe_def Let_def
    by (intro io_rules any [OF handle_emits] any [OF parkOrderCreated_emits] any [OF observe_call_emits])
      (auto split: sum.split intro!: io_rules)
  from io_emitsD [OF this, of h] show ?thesis by blast
qed

text \<open>Among the calls of one delivery there is exactly one that settles it, the one specified.\<close>

lemma settled_calls:
  assumes "settles_quietly E"
  shows "filter is_settle (new_calls (handleDelivery E S d) h) =
    [settlement (handle E) (parkOrderCreated E S) d h]"
proof -
  obtain t where t: "snd (handleDelivery E S d h) = h @ t" using handleDelivery_extends by blast
  with deps.settled_as_specified [OF assms, of E S d h] show ?thesis
    by (simp add: new_calls_def handleDelivery_def)
qed

lemma acknowledged_iff:
  assumes "settles_quietly E"
  shows "Ack d \<in> set (new_calls (handleDelivery E S d) h) \<longleftrightarrow>
    settlement (handle E) (parkOrderCreated E S) d h = Ack d"
proof -
  have "Ack d \<in> set (new_calls (handleDelivery E S d) h) \<longleftrightarrow>
      Ack d \<in> set (filter is_settle (new_calls (handleDelivery E S d) h))" by simp
  also have "\<dots> \<longleftrightarrow> settlement (handle E) (parkOrderCreated E S) d h = Ack d"
    unfolding settled_calls [OF assms] by auto
  finally show ?thesis .
qed

text \<open>
  C8: No event is lost: a delivery is acknowledged only after BullMQ accepted the expiration job of
  its order, or JetStream accepted a dead-letter message with the delivery's own bytes.
\<close>

theorem acknowledged_only_after_stored:
  assumes "settles_quietly E" and "Ack d \<in> set (new_calls (handleDelivery E S d) h)"
  shows "(\<exists>event options. decode_order E (dl_data d) = Some event \<and>
      queue_add E expirationJobName \<lparr>jd_orderId = oc_orderId event\<rparr> options h = Inr () \<and>
      jo_jobId options = oc_orderId event) \<or>
    (\<exists>ops h' n. js_publish E orderCreatedDeadLetterSubject (dl_data d) (Some ops) (dead_letter_id d) h' = Inr n)"
proof -
  from assms(2) have ack: "settlement (handle E) (parkOrderCreated E S) d h = Ack d"
    by (simp add: acknowledged_iff [OF assms(1)])
  obtain r h1 where run: "handle E (dl_data d) h = (r, h1)" by (cases "handle E (dl_data d) h")
  show ?thesis
  proof (cases r)
    case (Inr u)
    with run show ?thesis
      by (auto simp: handle_def schedule_def schedule_options_def io_simps Let_def
          split: option.splits if_splits)
  next
    case (Inl e)
    with run ack obtain u h2 where "parkOrderCreated E S d (failureClass e) e h1 = (Inr u, h2)"
      by (auto simp: settlement_def result_ok_iff split: if_splits)
        (metis prod.collapse)
    from parkOrderCreated_Inr [OF this] show ?thesis by blast
  qed
qed

lemma sample_handle:
  "handle sample_expiration [1] h = (Inr (), h @ [QueueAdd expirationJobName \<lparr>jd_orderId = ''o1''\<rparr>
     (schedule_options ''o1'' (js_max0 (js_sub (num 1700000900000) (num 1700000000000))))])"
  by (simp add: handle_def sample_event_def OrderStatus_CREATED_def js_trim_def js_space_def schedule_def
      io_simps Let_def)

theorem acknowledged_only_after_stored_witness:
  "\<exists>event options. decode_order sample_expiration [1] = Some event \<and>
     queue_add sample_expiration expirationJobName \<lparr>jd_orderId = oc_orderId event\<rparr> options [] = Inr () \<and>
     jo_jobId options = oc_orderId event \<or>
   (\<exists>ops h' n. js_publish sample_expiration orderCreatedDeadLetterSubject [1] (Some ops)
      (dead_letter_id sample_delivery) h' = Inr n)"
proof -
  have "settlement (handle sample_expiration) (parkOrderCreated sample_expiration connected) sample_delivery [] =
      Ack sample_delivery"
    using sample_handle [of "[]"] by (simp add: settlement_def sample_delivery_def)
  then have "Ack sample_delivery \<in> set (new_calls (handleDelivery sample_expiration connected sample_delivery) [])"
    by (simp add: acknowledged_iff [OF sample_settles])
  from acknowledged_only_after_stored [OF sample_settles this] show ?thesis
    by (auto simp: sample_delivery_def)
qed

text \<open>The number of deliveries of an event until it is acknowledged, when each return is delivered again.\<close>

definition redelivered :: "delivery \<Rightarrow> delivery" where
  "redelivered d = d\<lparr>dl_deliveryCount := Suc (dl_deliveryCount d)\<rparr>"

fun deliveries :: "expiration_env \<Rightarrow> js_state \<Rightarrow> delivery \<Rightarrow> nat \<Rightarrow> expiration_call list \<Rightarrow> nat option" where
  "deliveries E S d 0 h = None"
| "deliveries E S d (Suc n) h =
     (if Ack d \<in> set (new_calls (handleDelivery E S d) h) then Some 1
      else map_option Suc (deliveries E S (redelivered d) n (snd (handleDelivery E S d h))))"

lemma deliveries_bounded:
  assumes "settles_quietly E" and "\<And>d f e h. result_ok (fst (parkOrderCreated E S d f e h))"
  shows "0 < n \<Longrightarrow> orderCreatedMaxRetries + 2 \<le> dl_deliveryCount d + n \<Longrightarrow>
    \<exists>k \<le> n. deliveries E S d n h = Some k"
proof (induction n arbitrary: d h)
  case (Suc n)
  show ?case
  proof (cases "Ack d \<in> set (new_calls (handleDelivery E S d) h)")
    case False
    then have "settlement (handle E) (parkOrderCreated E S) d h \<noteq> Ack d"
      by (simp add: acknowledged_iff [OF assms(1)])
    then obtain e where "\<not> must_park d e"
      using assms(2) by (auto simp: settlement_def split: prod.splits sum.splits if_splits)
    then have "dl_deliveryCount d \<le> orderCreatedMaxRetries" by (simp add: must_park_def)
    with Suc.prems have "0 < n" "orderCreatedMaxRetries + 2 \<le> dl_deliveryCount (redelivered d) + n"
      by (simp_all add: redelivered_def)
    from Suc.IH [OF this] False show ?thesis by fastforce
  qed simp
qed simp

text \<open>
  C20: A failing event is tried at most six times: as long as the dead-letter stream accepts messages, every event
  is acknowledged within six deliveries, whatever its payload and however the queue behaves.
\<close>

theorem acknowledged_within_six:
  assumes "settles_quietly E" and "\<And>d f e h. result_ok (fst (parkOrderCreated E S d f e h))"
    and "dl_deliveryCount d = 1"
  shows "\<exists>k \<le> 6. deliveries E S d 6 h = Some k"
  by (rule deliveries_bounded) (use assms in \<open>simp_all add: orderCreatedMaxRetries_def\<close>)

theorem acknowledged_within_six_witness:
  "\<exists>k \<le> 6. deliveries sample_expiration connected sample_delivery 6 [] = Some k"
  by (rule acknowledged_within_six [OF sample_settles]) (simp_all add: sample_delivery_def)

section \<open>Scheduling\<close>

text \<open>The order and the expiry of a payload that is a valid order-created event.\<close>

definition order_expiry :: "expiration_env \<Rightarrow> bytes \<Rightarrow> (string \<times> int) option" where
  "order_expiry E payload =
     (case decode_order E payload of
        Some event \<Rightarrow>
          if list_all js_space (oc_orderId event) \<or> oc_orderStatus event \<noteq> 1 then None
          else (case oc_expiresAt event of
                  None \<Rightarrow> None
                | Some ts \<Rightarrow> map_option (Pair (oc_orderId event)) (timestampDate E ts))
      | None \<Rightarrow> None)"

lemma delay_exact:
  assumes "\<bar>t - now\<bar> < 2 ^ 53"
  shows "js_max0 (js_sub (num t) (num now)) = num (max 0 (t - now))"
proof -
  have "(of_int t + - of_int now :: rat) = of_int (t - now)" by simp
  then have "js_sub (num t) (num now) = num (t - now)"
    using fl_int [OF assms] by (simp add: js_sub_def)
  then show ?thesis by (simp add: max_def)
qed

lemma schedule_exact:
  assumes "\<bar>t - date_now E h\<bar> < 2 ^ 53"
  shows "schedule E i (Some t) h =
    (let options = \<lparr>jo_attempts = 5, jo_backoff_type = ''exponential'', jo_backoff_delay = 1000,
       jo_delay = num (max 0 (t - date_now E h)), jo_jobId = i, jo_removeOnComplete = False,
       jo_removeOnFail = False\<rparr>
     in (queue_add E ''expiration-complete'' \<lparr>jd_orderId = i\<rparr> options h,
         h @ [QueueAdd ''expiration-complete'' \<lparr>jd_orderId = i\<rparr> options]))"
  using delay_exact [OF assms]
  by (simp add: schedule_def schedule_options_def expirationPublishAttempts_def
      expirationPublishBackoffMilliseconds_def expirationJobName_def io_simps Let_def)

lemma handle_eq:
  "handle E payload =
    (case order_expiry E payload of
       None \<Rightarrow> io_throw newInvalidOrderCreatedEvent
     | Some (orderId, t) \<Rightarrow> schedule E orderId (Some t))"
  by (auto simp: handle_def order_expiry_def OrderStatus_CREATED_def js_trim_eq_Nil Let_def split: option.split)

text \<open>
  C18: A valid event schedules one job: named for the completion, with the order's id as its data and as its
  job id (so BullMQ keeps one job per order), five attempts with exponential backoff from one second,
  kept when done, and delayed by the exact number of milliseconds to the expiry, or not at all when it has
  passed. An invalid event (undecodable, no order id, not newly created, no valid expiry) schedules nothing
  and is reported as invalid.
\<close>

theorem handle_schedules:
  assumes "\<And>orderId t. order_expiry E payload = Some (orderId, t) \<Longrightarrow> \<bar>t - date_now E h\<bar> < 2 ^ 53"
  shows "handle E payload h =
    (case order_expiry E payload of
       None \<Rightarrow> (Inl newInvalidOrderCreatedEvent, h)
     | Some (orderId, t) \<Rightarrow>
         (let options = \<lparr>jo_attempts = 5, jo_backoff_type = ''exponential'', jo_backoff_delay = 1000,
                jo_delay = num (max 0 (t - date_now E h)), jo_jobId = orderId,
                jo_removeOnComplete = False, jo_removeOnFail = False\<rparr>
          in (queue_add E ''expiration-complete'' \<lparr>jd_orderId = orderId\<rparr> options h,
              h @ [QueueAdd ''expiration-complete'' \<lparr>jd_orderId = orderId\<rparr> options])))"
  using assms by (auto simp: handle_eq schedule_exact io_throw_def Let_def split: option.split)

theorem handle_schedules_witness:
  "handle sample_expiration [1] [] =
     (Inr (), [QueueAdd ''expiration-complete'' \<lparr>jd_orderId = ''o1''\<rparr>
        \<lparr>jo_attempts = 5, jo_backoff_type = ''exponential'', jo_backoff_delay = 1000, jo_delay = num 900000,
         jo_jobId = ''o1'', jo_removeOnComplete = False, jo_removeOnFail = False\<rparr>])"
  by (subst handle_schedules) (auto simp: order_expiry_def sample_event_def js_space_def Let_def)

end
