(* ===== verification/Service_Metrics.thy ===== *)
theory Service_Metrics
  imports Gateway_App Identity_App Expiration_Jobs
begin

text \<open>
  The metrics registries of the three services: the one of the expiration service
  (apps/expiration/src/observability/prometheus.ts), the metrics servers, and the contract all registries keep: an
  observation is counted once and its duration is sampled once, under its own labels.
\<close>

section \<open>The expiration registry\<close>

record operation_labels =
  ol_component :: string
  ol_operation :: string
  ol_outcome :: string

record ExpirationMetrics =
  em_operations :: "operation_labels \<Rightarrow> nat"
  em_duration :: "operation_labels \<Rightarrow> jsnum list"

definition ExpirationMetrics_observe ::
    "ExpirationMetrics \<Rightarrow> string \<Rightarrow> string \<Rightarrow> string \<Rightarrow> jsnum \<Rightarrow> ExpirationMetrics" where
  "ExpirationMetrics_observe metrics component operation outcome durationSeconds =
     (let labels = \<lparr>ol_component = component, ol_operation = operation, ol_outcome = outcome\<rparr>
      in metrics
           \<lparr>em_operations := (em_operations metrics)(labels := em_operations metrics labels + 1),
            em_duration := (em_duration metrics)(labels := em_duration metrics labels @ [durationSeconds])\<rparr>)"

text \<open>The registry after the \<open>observe\<close> calls of a history.\<close>

fun metrics_after :: "ExpirationMetrics \<Rightarrow> expiration_call list \<Rightarrow> ExpirationMetrics" where
  "metrics_after metrics [] = metrics"
| "metrics_after metrics (Observe component operation outcome seconds # calls) =
     metrics_after (ExpirationMetrics_observe metrics component operation outcome seconds) calls"
| "metrics_after metrics (call # calls) = metrics_after metrics calls"

section \<open>Metrics servers\<close>

text \<open>\<open>Number(process.env.METRICS_PORT ?? 9090)\<close>.\<close>

definition metricsPort :: "(string \<Rightarrow> string option) \<Rightarrow> jsnum" where
  "metricsPort env = (case env ''METRICS_PORT'' of None \<Rightarrow> num 9090 | Some v \<Rightarrow> js_Number v)"

definition identity_metrics_server :: "string \<Rightarrow> string \<Rightarrow> string \<Rightarrow> int \<times> string option \<times> string" where
  "identity_metrics_server url contentType registry_text =
     (if url \<noteq> ''/metrics'' then (404, None, []) else (200, Some contentType, registry_text))"

definition expiration_metrics_server :: "string \<Rightarrow> string \<Rightarrow> string \<Rightarrow> int \<times> string option \<times> string" where
  "expiration_metrics_server url contentType registry_text =
     (if url \<noteq> ''/metrics'' then (404, None, []) else (200, Some contentType, registry_text))"

section \<open>The contract of a registry\<close>

locale metrics_registry =
  fixes observe :: "'m \<Rightarrow> 'k \<Rightarrow> jsnum \<Rightarrow> 'm"
    and label :: "'k \<Rightarrow> 'l"
    and counted :: "'m \<Rightarrow> 'l \<Rightarrow> nat"
    and sampled :: "'m \<Rightarrow> 'l \<Rightarrow> jsnum list"
  assumes counted_observe: "counted (observe m k d) l = counted m l + (if label k = l then 1 else 0)"
    and sampled_observe: "sampled (observe m k d) l = sampled m l @ (if label k = l then [d] else [])"
begin

text \<open>The observations with the labels \<open>l\<close>.\<close>

definition observed :: "('k \<times> jsnum) list \<Rightarrow> 'l \<Rightarrow> jsnum list" where
  "observed ks l = map snd (filter (\<lambda>(k, d). label k = l) ks)"

definition observe_all :: "'m \<Rightarrow> ('k \<times> jsnum) list \<Rightarrow> 'm" where
  "observe_all m ks = foldl (\<lambda>m (k, d). observe m k d) m ks"

lemma sampled_all: "sampled (observe_all m ks) l = sampled m l @ observed ks l"
  by (induction ks arbitrary: m) (auto simp: observe_all_def observed_def sampled_observe)

lemma counted_all: "counted (observe_all m ks) l = counted m l + length (observed ks l)"
  by (induction ks arbitrary: m) (auto simp: observe_all_def observed_def counted_observe)

text \<open>The counter and the histogram of every label agree, once they do.\<close>

lemma agree_all:
  "(\<And>l. counted m l = length (sampled m l)) \<Longrightarrow>
     counted (observe_all m ks) l = length (sampled (observe_all m ks) l)"
  by (simp add: counted_all sampled_all)

end

definition request_labels :: "string \<times> string \<times> nat \<times> TrafficSource \<Rightarrow> metric_labels" where
  "request_labels = (\<lambda>(m, r, s, t). \<lparr>ml_method = m, ml_route = r, ml_status = show_nat s, ml_traffic_source = t\<rparr>)"

interpretation gateway_registry: metrics_registry
  "\<lambda>metrics (m, r, s, t) d. observeRequest metrics m r s d t" request_labels gm_requests gm_duration
  by unfold_locales (auto simp: observeRequest_def request_labels_def Let_def)

interpretation identity_registry: metrics_registry
  "\<lambda>metrics (rpc, code) d. identity_observeRequest metrics rpc code d" "\<lambda>l. l" im_requests im_duration
  by unfold_locales (auto simp: identity_observeRequest_def)

definition operation_label :: "string \<times> string \<times> string \<Rightarrow> operation_labels" where
  "operation_label = (\<lambda>(c, p, r). \<lparr>ol_component = c, ol_operation = p, ol_outcome = r\<rparr>)"

interpretation expiration_registry: metrics_registry
  "\<lambda>metrics (c, p, r) d. ExpirationMetrics_observe metrics c p r d" operation_label em_operations em_duration
  by unfold_locales (auto simp: ExpirationMetrics_observe_def operation_label_def Let_def)

section \<open>What the registries show\<close>

text \<open>The observations of a history, as the registry's contract sees them.\<close>

fun observations :: "expiration_call list \<Rightarrow> ((string \<times> string \<times> string) \<times> jsnum) list" where
  "observations [] = []"
| "observations (Observe c p r d # calls) = ((c, p, r), d) # observations calls"
| "observations (call # calls) = observations calls"

lemma metrics_after_all: "metrics_after m calls = expiration_registry.observe_all m (observations calls)"
  by (induction m calls rule: metrics_after.induct) (simp_all add: expiration_registry.observe_all_def)

text \<open>
  The registry of the expiration service counts what the service did: after any history, the counter of
  each component, operation and outcome has grown by the number of observations with exactly these labels, its
  histogram has their durations in order, and the two agree as they did before.
\<close>

theorem metrics_count_operations:
  assumes "\<And>l. em_operations m l = length (em_duration m l)"
  shows "em_operations (metrics_after m h) l =
      em_operations m l + length (filter (\<lambda>(k, d). operation_label k = l) (observations h)) \<and>
    em_duration (metrics_after m h) l =
      em_duration m l @ map snd (filter (\<lambda>(k, d). operation_label k = l) (observations h)) \<and>
    em_operations (metrics_after m h) l = length (em_duration (metrics_after m h) l)"
  using expiration_registry.agree_all [OF assms, where l = l and ks = "observations h"]
  by (simp add: metrics_after_all expiration_registry.counted_all expiration_registry.sampled_all
      expiration_registry.observed_def)

theorem metrics_count_operations_witness:
  "em_operations (metrics_after \<lparr>em_operations = \<lambda>_. 0, em_duration = \<lambda>_. []\<rparr>
      [NatsManager, Observe ''bullmq_processor'' ''expiration_complete'' ''success'' (num 1)])
     \<lparr>ol_component = ''bullmq_processor'', ol_operation = ''expiration_complete'', ol_outcome = ''success''\<rparr> = 1"
  using metrics_count_operations [of "\<lparr>em_operations = \<lambda>_. 0, em_duration = \<lambda>_. []\<rparr>"
      "[NatsManager, Observe ''bullmq_processor'' ''expiration_complete'' ''success'' (num 1)]"
      "\<lparr>ol_component = ''bullmq_processor'', ol_operation = ''expiration_complete'', ol_outcome = ''success''\<rparr>"]
  by (simp add: operation_label_def)

text \<open>The same of the gateway's and identity's registries.\<close>

lemma gateway_metrics_count:
  "gm_requests (gateway_registry.observe_all m ks) l =
     gm_requests m l + length (filter (\<lambda>(k, d). request_labels k = l) ks)"
  by (simp add: gateway_registry.counted_all gateway_registry.observed_def)

lemma identity_metrics_count:
  "im_requests (identity_registry.observe_all m ks) l =
     im_requests m l + length (filter (\<lambda>(k, d). k = l) ks)"
  by (simp add: identity_registry.counted_all identity_registry.observed_def)

lemma metrics_servers_agree:
  "identity_metrics_server = metrics_server" "expiration_metrics_server = metrics_server"
  by (simp_all add: fun_eq_iff identity_metrics_server_def expiration_metrics_server_def metrics_server_def)

end
