(* ===== verification/Delivery_Metrics.thy ===== *)
theory Delivery_Metrics
  imports Expiration_Properties Service_Metrics
begin

text \<open>
  What the metrics of the expiration service tell of its consumer: each handled delivery is observed once
  (order-created.consumer.ts), with an outcome that says how it was settled, so the counters of prometheus.ts add up to the
  settlements.
\<close>

section \<open>Settlements and observations\<close>

definition noted :: "expiration_call \<Rightarrow> bool" where
  "noted c \<longleftrightarrow> is_settle c \<or> is_observe c"

definition is_ack :: "expiration_call \<Rightarrow> bool" where
  "is_ack c = (case c of Ack _ \<Rightarrow> True | _ \<Rightarrow> False)"

definition is_nak :: "expiration_call \<Rightarrow> bool" where
  "is_nak c = (case c of Nak _ \<Rightarrow> True | _ \<Rightarrow> False)"

lemma noted_simps [simp]:
  "noted (Ack d)" "noted (Nak d)" "noted (Observe c p r s)" "is_ack (Ack d)" "\<not> is_ack (Nak d)" "\<not> is_ack (Observe c p r s)"
  "is_nak (Nak d)" "\<not> is_nak (Ack d)" "\<not> is_nak (Observe c p r s)"
  by (simp_all add: noted_def is_ack_def is_nak_def)

lemma is_ack_noted: "is_ack c \<Longrightarrow> noted c" and is_nak_noted: "is_nak c \<Longrightarrow> noted c"
  by (cases c; simp add: is_ack_def is_nak_def)+

text \<open>The consumer's observation with an outcome; the outcomes of an acknowledged and of a returned delivery.\<close>

abbreviation consumer_observation :: "string \<Rightarrow> jsnum \<Rightarrow> expiration_call" where
  "consumer_observation \<equiv> Observe ''jetstream_consumer'' ''order_created''"

definition reports :: "expiration_call \<Rightarrow> string \<Rightarrow> bool" where
  "reports settled outcome \<longleftrightarrow>
     is_ack settled \<and> outcome \<in> {''success'', ''dead_lettered''} \<or>
     is_nak settled \<and> outcome \<in> {''retry'', ''dead_letter_publish_failed''}"

section \<open>One delivery\<close>

text \<open>The consumer relies on more: its dependencies do not write to its metrics either.\<close>

locale unobserved_dependencies = delivery_dependencies +
  assumes handler_unobserved: "io_emits (\<lambda>c. \<not> is_observe c) (handler p)"
    and parker_unobserved: "io_emits (\<lambda>c. \<not> is_observe c) (parker d f e)"
begin

lemma unnoted:
  assumes "io_emits (\<lambda>c. \<not> is_settle c) m" and "io_emits (\<lambda>c. \<not> is_observe c) m" and "m h = (r, h')"
  shows "filter noted h' = filter noted h"
proof -
  from io_emitsD [OF assms(1), of h] io_emitsD [OF assms(2), of h] assms(3) obtain t where
    "h' = h @ t" "list_all (\<lambda>c. \<not> is_settle c) t" "list_all (\<lambda>c. \<not> is_observe c) t" by auto
  then show ?thesis by (simp add: filter_empty_conv list_all_iff noted_def)
qed

lemmas handler_noted = unnoted [OF handler_quiet handler_unobserved]
lemmas parker_noted = unnoted [OF parker_quiet parker_unobserved]

lemma observed_as_settled:
  assumes "settles_quietly E" and "has_metrics E"
  shows "\<exists>settled outcome duration.
    filter noted (snd (handleDelivery_with handler parker E d h)) =
      filter noted h @ [settled, consumer_observation outcome duration] \<and> reports settled outcome"
proof -
  have a: "ack E d h' = (Inr (), h' @ [Ack d])" "nak E d h' = (Inr (), h' @ [Nak d])" for h'
    using assms(1) by (simp_all add: ack_def nak_def io_call_def settles_quietly_def)
  have o: "\<exists>duration. consumer_observe E r s h' = (Inr (), h' @ [consumer_observation r duration])" for r s h'
    using assms(2) by (simp add: consumer_observe_def observe_call_def io_simps)
  obtain r h1 where hd: "handler (dl_data d) h = (r, h1)" by (cases "handler (dl_data d) h")
  note n1 = handler_noted [OF hd]
  show ?thesis
  proof (cases r)
    case (Inr u)
    obtain t where "consumer_observe E ''success'' (performance_now E h) (h1 @ [Ack d]) =
        (Inr (), h1 @ [Ack d] @ [consumer_observation ''success'' t])"
      using o [of "''success''" "performance_now E h" "h1 @ [Ack d]"] by auto
    with Inr hd a n1 show ?thesis
      by (intro exI [of _ "Ack d"] exI [of _ "''success''"] exI [of _ t])
        (simp add: handleDelivery_with_def io_simps reports_def)
  next
    case (Inl e)
    show ?thesis
    proof (cases "must_park d e")
      case False
      obtain t where "consumer_observe E ''retry'' (performance_now E h) (h1 @ [Nak d]) =
          (Inr (), h1 @ [Nak d] @ [consumer_observation ''retry'' t])"
        using o [of "''retry''" "performance_now E h" "h1 @ [Nak d]"] by auto
      with Inl False hd a n1 show ?thesis
        by (intro exI [of _ "Nak d"] exI [of _ "''retry''"] exI [of _ t])
          (simp add: handleDelivery_with_def must_park_def io_simps reports_def Let_def)
    next
      case True
      obtain q h2 where pk: "parker d (failureClass e) e h1 = (q, h2)"
        by (cases "parker d (failureClass e) e h1")
      note n2 = parker_noted [OF pk]
      define settled where "settled = (if result_ok q then Ack d else Nak d)"
      define outcome where "outcome = (if result_ok q then ''dead_lettered'' else ''dead_letter_publish_failed'')"
      obtain t where t: "consumer_observe E outcome (performance_now E h) (h2 @ [settled]) =
          (Inr (), h2 @ [settled] @ [consumer_observation outcome t])"
        using o [of outcome "performance_now E h" "h2 @ [settled]"] by auto
      have "snd (handleDelivery_with handler parker E d h) = h2 @ [settled, consumer_observation outcome t]"
        using Inl True hd a pk t
        by (cases q) (simp_all add: handleDelivery_with_def must_park_def park_def io_simps Let_def settled_def outcome_def)
      then show ?thesis
        using n1 n2 by (intro exI [of _ settled] exI [of _ outcome] exI [of _ t])
          (simp add: reports_def settled_def outcome_def)
    qed
  qed
qed

end

lemma schedule_unobserved: "io_emits (\<lambda>c. \<not> is_observe c) (schedule E i x)"
  unfolding schedule_def Let_def by (intro io_rules) simp

lemma handle_unobserved: "io_emits (\<lambda>c. \<not> is_observe c) (handle E p)"
  by (auto simp: handle_def Let_def intro!: io_rules schedule_unobserved split: option.split)

lemma publish_unobserved: "io_emits (\<lambda>c. \<not> is_observe c) (publish E S s p i hs)"
  unfolding publish_def requireClient_def by (intro io_rules) simp_all

lemma parkOrderCreated_unobserved: "io_emits (\<lambda>c. \<not> is_observe c) (parkOrderCreated E S d f e)"
  unfolding parkOrderCreated_def by (intro io_rules publish_unobserved)

interpretation unobserved_deps: unobserved_dependencies "handle E" "parkOrderCreated E S" for E S
  by unfold_locales (rule handle_unobserved, rule parkOrderCreated_unobserved)

section \<open>Many deliveries\<close>

definition settlement_notes :: "(expiration_call \<times> string \<times> jsnum) list \<Rightarrow> expiration_call list" where
  "settlement_notes ps = concat (map (\<lambda>(settled, outcome, duration). [settled, consumer_observation outcome duration]) ps)"

lemma for_messages_noted:
  assumes "settles_quietly E" and "has_metrics E"
  shows "\<exists>ps. filter noted (snd (for_messages E S ds h)) = filter noted h @ settlement_notes ps \<and>
    length ps = length ds \<and> list_all (\<lambda>(settled, outcome, _). reports settled outcome) ps"
proof (induction ds arbitrary: h)
  case Nil
  then show ?case by (intro exI [of _ "[]"]) (simp add: settlement_notes_def io_simps)
next
  case (Cons d ds)
  obtain h1 where run: "handleDelivery E S d h = (Inr (), h1)"
    using deps.settled_as_specified [OF assms(1)] unfolding handleDelivery_def by (metis prod.collapse)
  have "\<exists>settled outcome duration. filter noted (snd (handleDelivery E S d h)) =
      filter noted h @ [settled, consumer_observation outcome duration] \<and> reports settled outcome"
    unfolding handleDelivery_def by (rule unobserved_deps.observed_as_settled [OF assms])
  with run obtain settled outcome duration where one:
    "filter noted h1 = filter noted h @ [settled, consumer_observation outcome duration]" "reports settled outcome" by auto
  from Cons.IH [of h1] obtain ps where
    "filter noted (snd (for_messages E S ds h1)) = filter noted h1 @ settlement_notes ps"
    "length ps = length ds" "list_all (\<lambda>(settled, outcome, _). reports settled outcome) ps" by blast
  with run one show ?case
    by (intro exI [of _ "(settled, outcome, duration) # ps"]) (simp add: settlement_notes_def io_simps)
qed

section \<open>Counting\<close>

lemma metrics_after_append: "metrics_after m (xs @ ys) = metrics_after (metrics_after m xs) ys"
  by (induction m xs rule: metrics_after.induct) simp_all

lemma metrics_after_noted: "metrics_after m (filter noted calls) = metrics_after m calls"
  by (induction m calls rule: metrics_after.induct) (simp_all add: noted_def)

abbreviation consumer_label :: "string \<Rightarrow> operation_labels" where
  "consumer_label r \<equiv> \<lparr>ol_component = ''jetstream_consumer'', ol_operation = ''order_created'', ol_outcome = r\<rparr>"

abbreviation outcomes :: "ExpirationMetrics \<Rightarrow> string \<Rightarrow> nat" where
  "outcomes m r \<equiv> em_operations m (consumer_label r)"

text \<open>The counters of the two outcomes of an acknowledgement grow by the acknowledgements, the other two by the rest.\<close>

lemma reports_cases:
  assumes "reports settled outcome"
  obtains d where "settled = Ack d" "outcome = ''success''" | d where "settled = Ack d" "outcome = ''dead_lettered''"
    | d where "settled = Nak d" "outcome = ''retry''" | d where "settled = Nak d" "outcome = ''dead_letter_publish_failed''"
  using assms by (cases settled) (auto simp: reports_def is_ack_def is_nak_def)

lemma notes_counted:
  assumes "list_all (\<lambda>(settled, outcome, _). reports settled outcome) ps"
  shows "outcomes (metrics_after m (settlement_notes ps)) ''success'' +
        outcomes (metrics_after m (settlement_notes ps)) ''dead_lettered'' =
      outcomes m ''success'' + outcomes m ''dead_lettered'' + length (filter is_ack (settlement_notes ps)) \<and>
    outcomes (metrics_after m (settlement_notes ps)) ''retry'' +
        outcomes (metrics_after m (settlement_notes ps)) ''dead_letter_publish_failed'' =
      outcomes m ''retry'' + outcomes m ''dead_letter_publish_failed'' + length (filter is_nak (settlement_notes ps)) \<and>
    length (filter is_ack (settlement_notes ps)) + length (filter is_nak (settlement_notes ps)) = length ps"
  using assms
proof (induction ps arbitrary: m)
  case Nil
  then show ?case by (simp add: settlement_notes_def)
next
  case (Cons p ps)
  obtain settled outcome duration where p: "p = (settled, outcome, duration)" by (cases p)
  let ?m = "ExpirationMetrics_observe m ''jetstream_consumer'' ''order_created'' outcome duration"
  have split_notes: "settlement_notes (p # ps) = settled # consumer_observation outcome duration # settlement_notes ps"
    by (simp add: settlement_notes_def p)
  from Cons.prems have "reports settled outcome" by (simp add: p)
  with Cons.IH [of ?m] Cons.prems show ?case unfolding split_notes
    by (elim reports_cases) (simp_all add: ExpirationMetrics_observe_def Let_def)
qed

lemma for_messages_extends: "\<exists>t. snd (for_messages E S ds h) = h @ t"
proof (induction ds arbitrary: h)
  case Nil
  then show ?case by (simp add: io_simps)
next
  case (Cons d ds)
  obtain r h1 where run: "handleDelivery E S d h = (r, h1)" by (cases "handleDelivery E S d h")
  then obtain t where t: "h1 = h @ t" using handleDelivery_extends [of E S d h] by auto
  from Cons.IH [of h1] t run show ?case by (cases r) (auto simp: io_bind_def)
qed

section \<open>Property\<close>

text \<open>
  C19: The consumer's metrics add up to what it did: of the deliveries of a subscription, however many and however
  they went, the counters of \<open>success\<close> and \<open>dead_lettered\<close> grow together by the acknowledgements, those of \<open>retry\<close> and
  \<open>dead_letter_publish_failed\<close> by the deliveries given back, and both together by the number of deliveries.
\<close>

theorem consumer_metrics_add_up:
  assumes "settles_quietly E" and "has_metrics E" and "calls = new_calls (for_messages E S ds) h"
    and "after = metrics_after m calls"
  shows "outcomes after ''success'' + outcomes after ''dead_lettered'' =
      outcomes m ''success'' + outcomes m ''dead_lettered'' + length (filter is_ack calls) \<and>
    outcomes after ''retry'' + outcomes after ''dead_letter_publish_failed'' =
      outcomes m ''retry'' + outcomes m ''dead_letter_publish_failed'' + length (filter is_nak calls) \<and>
    length (filter is_ack calls) + length (filter is_nak calls) = length ds"
proof -
  obtain t where "snd (for_messages E S ds h) = h @ t" using for_messages_extends by blast
  then have calls: "snd (for_messages E S ds h) = h @ calls" using assms(3) by (simp add: new_calls_def)
  with for_messages_noted [OF assms(1,2), of S ds h] obtain ps where ps: "filter noted calls = settlement_notes ps"
    "length ps = length ds" "list_all (\<lambda>(settled, outcome, _). reports settled outcome) ps" by auto
  have "filter is_ack calls = filter is_ack (filter noted calls)" "filter is_nak calls = filter is_nak (filter noted calls)"
    by (simp_all, (rule filter_cong; auto simp: is_ack_noted is_nak_noted)+)
  moreover have "after = metrics_after m (filter noted calls)" by (simp add: assms(4) metrics_after_noted)
  ultimately show ?thesis using notes_counted [OF ps(3), of m] ps(2) by (simp add: ps(1))
qed

theorem consumer_metrics_add_up_witness:
  "length (filter is_ack (new_calls (for_messages sample_expiration connected [sample_delivery, sample_delivery]) [])) +
   length (filter is_nak (new_calls (for_messages sample_expiration connected [sample_delivery, sample_delivery]) [])) = 2"
proof -
  have "has_metrics sample_expiration" by (simp add: sample_expiration_def)
  from consumer_metrics_add_up [OF sample_settles this refl refl,
      where S = connected and ds = "[sample_delivery, sample_delivery]" and h = "[]"
        and m = "\<lparr>em_operations = \<lambda>_. 0, em_duration = \<lambda>_. []\<rparr>"]
  show ?thesis by simp
qed

end
