(* ===== verification/Session_Life.thy ===== *)
theory Session_Life
  imports Session_Flow
begin

text \<open>
  The life of a session across the gateway, identity and Better Auth: from the sign-in that issues its cookie to the sign-out that
  revokes it. Both services run on one history: identity's is what the gateway's calls have made it.
\<close>

section \<open>Identity behind the gateway\<close>

text \<open>The method of identity that a gateway call invokes, with the request as it arrives.\<close>

fun arriving_request :: "(metadata \<Rightarrow> server_metadata) \<Rightarrow> gateway_call \<Rightarrow> identity_request option" where
  "arriving_request deliver (IdentitySignUp r) = Some (RpcSignUp r)"
| "arriving_request deliver (IdentitySignIn r md) = Some (RpcSignIn r (deliver md))"
| "arriving_request deliver (IdentitySignOut _ md) = Some (RpcSignOut (deliver md))"
| "arriving_request deliver (IdentityCurrentUser _ md) = Some (RpcCurrentUser (deliver md))"
| "arriving_request deliver (IdentityVerifyEmail r) = Some (RpcVerifyEmail r)"
| "arriving_request deliver _ = None"

text \<open>Identity's history after a gateway call, and after all of them.\<close>

definition served :: "identity_env \<Rightarrow> (metadata \<Rightarrow> server_metadata) \<Rightarrow> identity_call list \<Rightarrow> gateway_call \<Rightarrow> identity_call list" where
  "served I deliver hi c =
     (case arriving_request deliver c of None \<Rightarrow> hi | Some r \<Rightarrow> snd (IdentityController_handle I r hi))"

definition identity_after ::
    "identity_env \<Rightarrow> (metadata \<Rightarrow> server_metadata) \<Rightarrow> gateway_call list \<Rightarrow> identity_call list" where
  "identity_after I deliver h = foldl (served I deliver) [] h"

lemma identity_after_append: "identity_after I deliver (h @ t) = foldl (served I deliver) (identity_after I deliver h) t"
  by (simp add: identity_after_def)

text \<open>The stubs that concern a session, answered by identity as its history is then.\<close>

definition sessions_backed ::
    "gateway_env \<Rightarrow> identity_env \<Rightarrow> (thrown \<Rightarrow> thrown) \<Rightarrow> (metadata \<Rightarrow> server_metadata) \<Rightarrow> bool" where
  "sessions_backed E I transport deliver \<longleftrightarrow>
     (\<forall>md h. grpc_currentUser E (JObj []) md h =
        (case fst (IdentityService_currentUser I (deliver md) (identity_after I deliver h)) of
           Inl e \<Rightarrow> Inl (transport e) | Inr r \<Rightarrow> Inr (user_reply r))) \<and>
     (\<forall>md h. grpc_signOut E (JObj []) md h =
        (case fst (IdentityService_signOut I (deliver md) (identity_after I deliver h)) of
           Inl e \<Rightarrow> Inl (transport e) | Inr _ \<Rightarrow> Inr ()))"

section \<open>Sessions of Better Auth\<close>

definition session_cookie :: "string \<Rightarrow> web_headers" where
  "session_cookie v = [(''cookie'', identity_SESSION_COOKIE_NAME @ ''='' @ v)]"

text \<open>
  What the calls identity has made mean for the sessions: a sign-in that succeeded opened the session of its cookie, a
  sign-out that succeeded closed the one of the cookie it was given.
\<close>

fun session_step ::
    "identity_env \<Rightarrow> identity_call list \<Rightarrow> identity_call \<Rightarrow> (string \<Rightarrow> auth_user option) \<Rightarrow> string \<Rightarrow> auth_user option" where
  "session_step I seen (SignInEmail r ws) m =
     (case ba_signInEmail I r ws seen of
        Inl _ \<Rightarrow> m
      | Inr result \<Rightarrow>
          (case extractSessionCookieValue (si_headers result) of None \<Rightarrow> m | Some v \<Rightarrow> m(v \<mapsto> si_user result)))"
| "session_step I seen (SignOutSession ws) m =
     (case ba_signOut I ws seen of Inl _ \<Rightarrow> m | Inr _ \<Rightarrow> (\<lambda>v. if ws = session_cookie v then None else m v))"
| "session_step I seen _ m = m"

definition live_sessions :: "identity_env \<Rightarrow> identity_call list \<Rightarrow> string \<Rightarrow> auth_user option" where
  "live_sessions I = history_state (session_step I) Map.empty"

lemma live_snoc: "live_sessions I (hi @ [c]) = session_step I hi c (live_sessions I hi)"
  by (simp add: live_sessions_def history_state_snoc)

text \<open>
  What Better Auth documents, of the header blocks that identity sends, which are empty or one cookie header: it answers with a
  user only for the cookie of a session it opened for that user and has not closed (it may have expired), and it never issues
  the same session cookie again.
\<close>

definition sound_sessions :: "identity_env \<Rightarrow> bool" where
  "sound_sessions I \<longleftrightarrow>
     (\<forall>cookie hi user. ba_getSession I [(''cookie'', cookie)] hi = Inr (Some user) \<longrightarrow>
        (\<exists>v user'. [(''cookie'', cookie)] = session_cookie v \<and> live_sessions I hi v = Some user' \<and> au_id user' = au_id user)) \<and>
     (\<forall>hi user. ba_getSession I [] hi \<noteq> Inr (Some user))"

definition issued :: "identity_env \<Rightarrow> identity_call list \<Rightarrow> identity_call \<Rightarrow> string \<Rightarrow> auth_user \<Rightarrow> bool" where
  "issued I hi c v user \<longleftrightarrow>
     (\<exists>r ws result. c = SignInEmail r ws \<and> ba_signInEmail I r ws hi = Inr result \<and>
        extractSessionCookieValue (si_headers result) = Some v \<and> si_user result = user)"

definition fresh_sessions :: "identity_env \<Rightarrow> bool" where
  "fresh_sessions I \<longleftrightarrow>
     (\<forall>hi c rest c' v user user'. issued I hi c v user \<longrightarrow> \<not> issued I (hi @ c # rest) c' v user')"

text \<open>A sign-out among the calls that follow a history closed the session of a cookie.\<close>

definition revoked :: "identity_env \<Rightarrow> identity_call list \<Rightarrow> identity_call list \<Rightarrow> string \<Rightarrow> bool" where
  "revoked I hi cs v \<longleftrightarrow>
     (\<exists>a b. cs = a @ SignOutSession (session_cookie v) # b \<and> ba_signOut I (session_cookie v) (hi @ a) = Inr ())"

lemma session_cookie_inject [simp]: "session_cookie v = session_cookie w \<longleftrightarrow> v = w"
  by (simp add: session_cookie_def)

lemma session_step_SomeD:
  "session_step I hi c m v = Some user \<Longrightarrow>
     issued I hi c v user \<or>
     m v = Some user \<and> \<not> (c = SignOutSession (session_cookie v) \<and> ba_signOut I (session_cookie v) hi = Inr ())"
  by (cases c) (auto simp: issued_def split: sum.splits option.splits if_splits)

lemma live_issued:
  assumes "live_sessions I hi v = Some user"
  shows "\<exists>a c b. hi = a @ c # b \<and> issued I a c v user \<and> \<not> revoked I (a @ [c]) b v"
  using assms
proof (induction hi rule: rev_induct)
  case Nil
  then show ?case by (simp add: live_sessions_def)
next
  case (snoc x hi)
  from session_step_SomeD [OF snoc.prems [unfolded live_snoc]] show ?case
  proof
    assume "issued I hi x v user"
    then show ?thesis by (intro exI [of _ hi] exI [of _ x] exI [of _ "[]"]) (simp add: revoked_def)
  next
    assume kept: "live_sessions I hi v = Some user \<and>
      \<not> (x = SignOutSession (session_cookie v) \<and> ba_signOut I (session_cookie v) hi = Inr ())"
    with snoc.IH obtain a c b where "hi = a @ c # b" "issued I a c v user" "\<not> revoked I (a @ [c]) b v" by blast
    with kept have "\<not> revoked I (a @ [c]) (b @ [x]) v"
      unfolding revoked_def by (auto simp: append_eq_append_conv2 append_eq_Cons_conv Cons_eq_append_conv)
    with \<open>hi = a @ c # b\<close> \<open>issued I a c v user\<close> show ?thesis
      by (intro exI [of _ a] exI [of _ c] exI [of _ "b @ [x]"]) simp
  qed
qed

text \<open>A session that was issued and has been closed stays closed.\<close>

lemma stays_closed:
  assumes "fresh_sessions I" and "issued I a c v user" and "live_sessions I (a @ c # b) v = None"
  shows "live_sessions I (a @ c # b @ t) v = None"
proof (induction t rule: rev_induct)
  case (snoc x t)
  have "\<not> issued I (a @ c # b @ t) x v u" for u
    using assms(1,2) unfolding fresh_sessions_def by blast
  with snoc.IH session_step_SomeD [of I "a @ c # b @ t" x "live_sessions I (a @ c # b @ t)" v]
  have "session_step I (a @ c # b @ t) x (live_sessions I (a @ c # b @ t)) v = None" by fastforce
  then show ?case using live_snoc [of I "a @ c # b @ t" x] by simp
qed (use assms(3) in simp)

section \<open>What the gateway's calls make of it\<close>

lemma signIn_origin:
  "io_emits (\<lambda>c. \<forall>request ws. c = SignInEmail request ws \<longrightarrow> (\<exists>md. r = RpcSignIn request md)) (IdentityController_handle I r)"
  by (cases r)
    (auto simp: IdentityService_signUp_def IdentityService_signIn_def IdentityService_signOut_def IdentityService_currentUser_def
      IdentityService_verifyEmail_def getSessionExpiry_def Let_def intro!: io_rules split: validation_result.split option.split)

lemma served_origin:
  "\<exists>t. served I deliver hi c = hi @ t \<and>
     (\<forall>request ws. SignInEmail request ws \<in> set t \<longrightarrow> (\<exists>md. c = IdentitySignIn request md))"
proof (cases "arriving_request deliver c")
  case None
  then show ?thesis by (simp add: served_def)
next
  case (Some r)
  have "\<exists>md'. c = IdentitySignIn request md'" if "r = RpcSignIn request md" for request md
    using Some that by (cases c) simp_all
  moreover obtain t where "snd (IdentityController_handle I r hi) = hi @ t"
    "list_all (\<lambda>c. \<forall>request ws. c = SignInEmail request ws \<longrightarrow> (\<exists>md. r = RpcSignIn request md)) t"
    using io_emitsD [OF signIn_origin [of r I], of hi] by blast
  ultimately show ?thesis using Some by (fastforce simp: served_def list_all_iff)
qed

lemma identity_after_extends: "\<exists>t. identity_after I deliver (h @ g) = identity_after I deliver h @ t"
proof (induction g rule: rev_induct)
  case (snoc c g)
  then show ?case
    using served_origin [of I deliver "identity_after I deliver (h @ g)" c]
    by (auto simp: identity_after_append)
qed simp

lemma identity_sign_in_origin:
  "SignInEmail request ws \<in> set (identity_after I deliver h) \<Longrightarrow> \<exists>md. IdentitySignIn request md \<in> set h"
proof (induction h rule: rev_induct)
  case Nil
  then show ?case by (simp add: identity_after_def)
next
  case (snoc c h)
  obtain t where t: "served I deliver (identity_after I deliver h) c = identity_after I deliver h @ t"
    "\<And>request ws. SignInEmail request ws \<in> set t \<Longrightarrow> \<exists>md. c = IdentitySignIn request md"
    using served_origin by blast
  with snoc show ?case by (auto simp: identity_after_append)
qed

section \<open>The guard and the sign-out\<close>

text \<open>The Web headers a request's session lookup reaches Better Auth with, when it gets there.\<close>

definition session_headers :: "gateway_env \<Rightarrow> (metadata \<Rightarrow> server_metadata) \<Rightarrow> headers \<Rightarrow> web_headers option" where
  "session_headers E deliver hs =
     (case createSessionRequestMetadata (refuse_metadata E) hs of
        Inl _ \<Rightarrow> None
      | Inr md \<Rightarrow> (case createSessionRequestHeaders (deliver md) of Inl _ \<Rightarrow> None | Inr ws \<Rightarrow> Some ws))"

lemma session_headers_shape: "createSessionRequestHeaders md = Inr ws \<Longrightarrow> ws = [] \<or> (\<exists>cookie. ws = [(''cookie'', cookie)])"
  by (auto simp: createSessionRequestHeaders_def headers_set_def Let_def split: option.splits if_splits)

lemma session_user_live:
  assumes "sessions_backed E I transport deliver" and "sound_sessions I" and "session_user E hs h = Inr u"
  shows "\<exists>v user. session_headers E deliver hs = Some (session_cookie v) \<and>
    live_sessions I (identity_after I deliver h) v = Some user \<and> au_id user = user_id u"
proof -
  let ?hi = "identity_after I deliver h"
  obtain md where md: "createSessionRequestMetadata (refuse_metadata E) hs = Inr md"
    using assms(3) by (auto simp: session_user_def split: sum.splits)
  with assms(1,3) obtain r where r: "fst (IdentityService_currentUser I (deliver md) ?hi) = Inr r"
    and u: "u = cur_user (toCurrentUserResponse (user_reply r))"
    by (auto simp: session_user_def sessions_backed_def split: sum.splits)
  from r obtain ws user where ws: "createSessionRequestHeaders (deliver md) = Inr ws"
    and found: "ba_getSession I ws ?hi = Inr (Some user)" and "ic_userId r = au_id user"
    by (auto simp: IdentityService_currentUser_def io_simps split: sum.splits option.splits)
  with u have "au_id user = user_id u" by (simp add: toCurrentUserResponse_def user_reply_def)
  moreover from found assms(2) obtain v user' where "ws = session_cookie v" "live_sessions I ?hi v = Some user'"
    "au_id user' = au_id user" 
    using session_headers_shape [OF ws] unfolding sound_sessions_def by (metis option.distinct(1))
  ultimately show ?thesis using md ws by (auto simp: session_headers_def)
qed

lemma signOut_revokes:
  assumes "sessions_backed E I transport deliver" and "session_headers E deliver hs = Some (session_cookie v)"
    and "AuthController_signOut E hs h = (Inr (), h')"
  shows "\<exists>rest. h' = h @ rest \<and>
    identity_after I deliver h' = identity_after I deliver h @ [SignOutSession (session_cookie v)] \<and>
    ba_signOut I (session_cookie v) (identity_after I deliver h) = Inr ()"
proof -
  let ?hi = "identity_after I deliver h"
  obtain md where md: "createSessionRequestMetadata (refuse_metadata E) hs = Inr md"
    and ws: "createSessionRequestHeaders (deliver md) = Inr (session_cookie v)"
    using assms(2) by (auto simp: session_headers_def split: sum.splits)
  have call: "grpc_signOut E (JObj []) md h = Inr ()" and rest: "\<exists>name value options.
      h' = h @ [IdentitySignOut (JObj []) md, ResponseCookie name value options]"
    using assms(3) md
    by (auto simp: AuthController_signOut_def AuthService_signOut_def try_grpc_def set_cookie_def io_simps split: sum.splits)
  from call assms(1) have "\<exists>x. fst (IdentityService_signOut I (deliver md) ?hi) = Inr x"
    by (auto simp: sessions_backed_def split: sum.splits)
  then have out: "ba_signOut I (session_cookie v) ?hi = Inr ()" and
    "snd (IdentityService_signOut I (deliver md) ?hi) = ?hi @ [SignOutSession (session_cookie v)]"
    using ws by (auto simp: IdentityService_signOut_def io_simps split: sum.splits)
  then have "snd (IdentityController_handle I (RpcSignOut (deliver md)) ?hi) = ?hi @ [SignOutSession (session_cookie v)]"
    by (auto simp: io_simps split: sum.split prod.split)
  with out rest show ?thesis by (auto simp: identity_after_append served_def)
qed

lemma guard_session:
  assumes "SessionAuthGuard_canActivate E request h = (Inr (ok, request'), h')"
  shows "\<exists>u. session_user E (req_headers request) h = Inr u \<and> ok \<and> request' = request\<lparr>req_user := Some u\<rparr>"
  using assms
  by (auto simp: SessionAuthGuard_canActivate_def AuthService_currentUser_eq io_bind_def io_return_def split: sum.splits)

section \<open>A Better Auth that keeps its promises\<close>

text \<open>It names its sessions by the length of the history, and finds them by what the history says of them.\<close>

definition issuing_identity :: identity_env where
  "issuing_identity = sample_identity
     \<lparr>ba_signInEmail := (\<lambda>_ _ hi. Inr
        \<lparr>si_headers = \<lparr>rh_getSetCookie =
             Some [identity_SESSION_COOKIE_NAME @ ''='' @ CHR ''t'' # replicate (length hi) CHR ''t'' @ ''; Path=/''],
           rh_get_set_cookie = None\<rparr>,
         si_token = ''k1'', si_user = sample_auth_user\<rparr>)\<rparr>"

definition keeping_identity :: identity_env where
  "keeping_identity = issuing_identity
     \<lparr>ba_getSession := (\<lambda>ws hi. Inr
        (case ws of
           [(k, c)] \<Rightarrow>
             if ws = session_cookie (drop (length identity_SESSION_COOKIE_NAME + 1) c)
             then live_sessions issuing_identity hi (drop (length identity_SESSION_COOKIE_NAME + 1) c) else None
         | _ \<Rightarrow> None))\<rparr>"

lemma keeping_live: "live_sessions keeping_identity hi = live_sessions issuing_identity hi"
proof (induction hi rule: rev_induct)
  case (snoc c hi)
  then show ?case unfolding live_snoc
    by (cases c) (simp_all add: keeping_identity_def)
qed (simp add: live_sessions_def)

lemma keeping_sound: "sound_sessions keeping_identity"
  unfolding sound_sessions_def keeping_live
  by (auto simp: keeping_identity_def split: list.splits if_splits)

lemma issuing_token:
  "extractSessionCookieValue
     \<lparr>rh_getSetCookie = Some [identity_SESSION_COOKIE_NAME @ CHR ''='' # CHR ''t'' # replicate n CHR ''t'' @ ''; Path=/''],
      rh_get_set_cookie = None\<rparr> = Some (CHR ''t'' # replicate n CHR ''t'')"
  by (rule extractSessionCookieValue_found [where before = "[]" and after = "[]" and attrs = "''; Path=/''"])
    (simp_all add: getSetCookieHeaders_def)

lemma keeping_fresh: "fresh_sessions keeping_identity"
proof -
  have token: "v = CHR ''t'' # replicate (length hi) CHR ''t''" if "issued keeping_identity hi c v user" for hi c v user
    using that by (auto simp: issued_def keeping_identity_def issuing_identity_def issuing_token)
  show ?thesis unfolding fresh_sessions_def
  proof (intro allI impI notI)
    fix hi c rest c' v user user'
    assume "issued keeping_identity hi c v user" "issued keeping_identity (hi @ c # rest) c' v user'"
    from this [THEN token] have "length (CHR ''t'' # replicate (length hi) CHR ''t'') =
        length (CHR ''t'' # replicate (length (hi @ c # rest)) CHR ''t'')" by metis
    then show False by simp
  qed
qed

definition kept_env :: gateway_env where
  "kept_env = sample_env
     \<lparr>grpc_currentUser := (\<lambda>_ md h.
        case fst (IdentityService_currentUser keeping_identity (plain_delivery md) (identity_after keeping_identity plain_delivery h)) of
          Inl e \<Rightarrow> Inl e | Inr r \<Rightarrow> Inr (user_reply r)),
      grpc_signOut := (\<lambda>_ md h.
        case fst (IdentityService_signOut keeping_identity (plain_delivery md) (identity_after keeping_identity plain_delivery h)) of
          Inl e \<Rightarrow> Inl e | Inr _ \<Rightarrow> Inr ())\<rparr>"

lemma kept_backed: "sessions_backed kept_env keeping_identity (\<lambda>e. e) plain_delivery"
  by (simp add: sessions_backed_def kept_env_def)

definition visitor :: headers where
  "visitor n = (if n = ''cookie'' then Some (HStr ''better-auth.session_token=t'') else None)"

definition visit :: "gateway_call list" where
  "visit = [IdentitySignIn (JObj []) []]"

lemma keeping_calls:
  "ba_signInEmail keeping_identity = ba_signInEmail issuing_identity" "validate_signIn keeping_identity = (\<lambda>_. ProtoValid)"
  "pool_query keeping_identity = (\<lambda>_ _ _. Inr [Some 1700000000005])"
  by (simp_all add: keeping_identity_def issuing_identity_def sample_identity_def)

lemma visit_served:
  "\<exists>sql ps. identity_after keeping_identity plain_delivery visit = [SignInEmail (JObj []) [], PoolQuery sql ps]"
proof -
  have no_md: "plain_delivery [] = (\<lambda>_. [])" by (simp add: plain_delivery_def fun_eq_iff)
  have ws: "createAuthRequestHeaders (\<lambda>_. []) = Inr []"
    by (simp add: createAuthRequestHeaders_def identity_FORWARDED_AUTH_HEADERS_def first_string_def)
  show ?thesis
    using issuing_token [of 0]
    by (simp add: identity_after_def visit_def served_def IdentityService_signIn_def validateSignInRequest_def
        validation_result_of_def getSessionExpiry_def Let_def io_simps no_md ws keeping_calls)
      (simp add: issuing_identity_def getSessionExpiry_def keeping_calls io_simps Let_def)
qed

lemma visit_session: "live_sessions keeping_identity (identity_after keeping_identity plain_delivery visit) ''t'' = Some sample_auth_user"
proof -
  obtain sql ps where "identity_after keeping_identity plain_delivery visit = [SignInEmail (JObj []) [], PoolQuery sql ps]"
    using visit_served by blast
  then show ?thesis
    using issuing_token [of 0] by (simp add: live_sessions_def history_state_def) (simp add: keeping_identity_def issuing_identity_def)
qed

lemma visitor_headers:
  "createSessionRequestMetadata (refuse_metadata kept_env) visitor = Inr [(''cookie'', ''better-auth.session_token=t'')]"
  "createSessionRequestHeaders (plain_delivery [(''cookie'', ''better-auth.session_token=t'')]) = Inr (session_cookie ''t'')"
proof -
  have "refuse_metadata kept_env = (\<lambda>_ _. None)" by (simp add: kept_env_def sample_env_def)
  moreover have "createSessionRequestMetadata (\<lambda>_ _. None) visitor = Inr [(''cookie'', ''better-auth.session_token=t'')]"
    by code_simp
  ultimately show "createSessionRequestMetadata (refuse_metadata kept_env) visitor =
      Inr [(''cookie'', ''better-auth.session_token=t'')]" by simp
  show "createSessionRequestHeaders (plain_delivery [(''cookie'', ''better-auth.session_token=t'')]) = Inr (session_cookie ''t'')"
    by code_simp
qed

lemma keeping_found: "ba_getSession keeping_identity (session_cookie v) hi = Inr (live_sessions keeping_identity hi v)"
  by (simp add: keeping_live) (simp add: keeping_identity_def session_cookie_def)

lemma visitor_admitted:
  "\<exists>request' h'. SessionAuthGuard_canActivate kept_env \<lparr>req_headers = visitor, req_user = None\<rparr> visit = (Inr (True, request'), h')"
proof -
  have "\<exists>u. session_user kept_env visitor visit = Inr u"
    using visit_session
    by (simp add: session_user_def visitor_headers)
      (simp add: kept_env_def IdentityService_currentUser_def visitor_headers io_simps keeping_found)
  then show ?thesis
    by (auto simp: SessionAuthGuard_canActivate_def AuthService_currentUser_eq io_bind_def io_return_def)
qed

section \<open>From sign-in to the next request\<close>

text \<open>The sign-in stub, answered by identity as its history is then.\<close>

definition sign_in_reply :: "identity_SignInResponse \<Rightarrow> IdentitySignInResponse" where
  "sign_in_reply r =
     \<lparr>isr_userId = ir_userId r, isr_name = ir_name r, isr_email = ir_email r, isr_emailVerified = ir_emailVerified r,
      isr_sessionToken = ir_sessionToken r, isr_sessionExpiresAt = Some (timestamp_reply (ir_sessionExpiresAt r))\<rparr>"

definition sign_in_backed ::
    "gateway_env \<Rightarrow> identity_env \<Rightarrow> (thrown \<Rightarrow> thrown) \<Rightarrow> (metadata \<Rightarrow> server_metadata) \<Rightarrow> bool" where
  "sign_in_backed E I transport deliver \<longleftrightarrow>
     (\<forall>dto md h. grpc_signIn E dto md h =
        (case fst (IdentityService_signIn I dto (deliver md) (identity_after I deliver h)) of
           Inl e \<Rightarrow> Inl (transport e) | Inr r \<Rightarrow> Inr (sign_in_reply r)))"

text \<open>
  What Better Auth documents of a sign-in's answer: one of its \<open>Set-Cookie\<close> headers, the first of that name, sets the session
  cookie to a token that is a cookie value.
\<close>

definition sets_session_cookie :: "response_headers \<Rightarrow> string \<Rightarrow> bool" where
  "sets_session_cookie response token \<longleftrightarrow>
     (\<exists>before attributes after.
        getSetCookieHeaders response = before @ (identity_SESSION_COOKIE_NAME @ ''='' @ token @ attributes) # after \<and>
        (\<forall>v \<in> set before. \<not> startsWith v (identity_SESSION_COOKIE_NAME @ ''='')) \<and>
        (attributes = [] \<or> hd attributes = CHR '';'')) \<and>
     CHR '';'' \<notin> set token \<and> header_safe token \<and> token \<noteq> [] \<and> \<not> js_space (last token)"

definition issues_cookies :: "identity_env \<Rightarrow> bool" where
  "issues_cookies I \<longleftrightarrow>
     (\<forall>request ws hi result. ba_signInEmail I request ws hi = Inr result \<longrightarrow>
        (\<exists>token. sets_session_cookie (si_headers result) token))"

text \<open>
  What Express and a browser document of the cookies an answer sets: \<open>res.cookie\<close> sends the value as the \<open>encode\<close> of the options
  makes it, and the browser then has that text under that name, until it expires, for the path and the scheme of the cookie.
\<close>

definition browser_keeps :: "gateway_call list \<Rightarrow> (string \<times> string) list \<Rightarrow> bool" where
  "browser_keeps calls cookies \<longleftrightarrow>
     (\<forall>name v options. ResponseCookie name v options \<in> set calls \<longrightarrow> map_of cookies name = Some (co_encode options v))"

lemma set_cookie_extracted:
  assumes "sets_session_cookie response token"
  shows "extractSessionCookieValue response = Some token"
proof -
  from assms obtain before attributes after where
    "getSetCookieHeaders response = before @ (identity_SESSION_COOKIE_NAME @ ''='' @ token @ attributes) # after"
    "\<forall>v \<in> set before. \<not> startsWith v (identity_SESSION_COOKIE_NAME @ ''='')"
    "CHR '';'' \<notin> set token" "attributes = [] \<or> hd attributes = CHR '';''"
    unfolding sets_session_cookie_def by blast
  then show ?thesis by (rule extractSessionCookieValue_found)
qed

lemma session_headers_sent:
  assumes "delivers_metadata deliver" and "\<And>v. refuse_metadata E ''cookie'' v = None"
    and "sets_session_cookie response token" and "\<forall>c \<in> set cookies. cookie_ok c"
    and "map_of cookies SESSION_COOKIE_NAME = Some token" and "hs ''cookie'' = Some (HStr (cookie_header cookies))"
  shows "session_headers E deliver hs = Some (session_cookie token)"
proof -
  have token: "header_safe token" "token \<noteq> []" "\<not> js_space (last token)"
    using assms(3) by (auto simp: sets_session_cookie_def)
  let ?v = "SESSION_COOKIE_NAME @ ''='' @ token"
  have md: "createSessionRequestMetadata (refuse_metadata E) hs = Inr [(''cookie'', ?v)]"
    using assms(2,5,6)
    by (simp add: createSessionRequestMetadata_def getCookieValue_map_of [OF assms(4)] metadata_set_def)
  have safe: "header_safe ?v" using token(1) by (simp add: header_safe_def SESSION_COOKIE_NAME_def)
  have "\<not> http_space (last token)" using token(3) by (auto simp: js_space_def http_space_def)
  then have "http_strip ?v = ?v"
    using token(2) by (intro http_strip_id) (simp_all add: SESSION_COOKIE_NAME_def http_space_def)
  with session_headers_cookie [OF assms(1) safe] md show ?thesis
    by (simp add: session_headers_def session_cookie_def SESSION_COOKIE_NAME_def identity_SESSION_COOKIE_NAME_def)
qed

text \<open>The value of the session cookie that a gateway sign-in sets is the one Better Auth's answer set.\<close>

lemma sign_in_cookie:
  assumes "sign_in_backed E I transport deliver" and "issues_cookies I"
    and "AuthController_signIn E body hs h = (Inr response, h')" and "browser_keeps (drop (length h) h') cookies"
  shows "\<exists>dto ws result token. validate_body E SignInDto body = Inr dto \<and>
    ba_signInEmail I dto ws (identity_after I deliver h) = Inr result \<and> sets_session_cookie (si_headers result) token \<and>
    user_id (sir_user response) = au_id (si_user result) \<and> map_of cookies SESSION_COOKIE_NAME = Some token"
proof -
  obtain dto md answer t where dto: "validate_body E SignInDto body = Inr dto" and
    answer: "grpc_signIn E dto md h = Inr answer" and user: "user_id (sir_user response) = isr_userId answer" and
    calls: "h' = h @ [IdentitySignIn dto md, ResponseCookie SESSION_COOKIE_NAME (isr_sessionToken answer)
      \<lparr>co_encode = (\<lambda>v. v), co_expires = Some t, co_httpOnly = True, co_path = ''/'',
       co_sameSite = ''lax'', co_secure = (process_env E ''NODE_ENV'' = Some ''production'')\<rparr>]"
    using signIn_calls [OF assms(3)] by blast
  from answer assms(1) obtain r hi' where
    "IdentityService_signIn I dto (deliver md) (identity_after I deliver h) = (Inr r, hi')" and r: "answer = sign_in_reply r"
    by (cases "IdentityService_signIn I dto (deliver md) (identity_after I deliver h)")
      (auto simp: sign_in_backed_def split: sum.splits)
  from identity_signIn_calls [OF this(1)] obtain ws result where
    result: "ba_signInEmail I dto ws (identity_after I deliver h) = Inr result"
    "extractSessionCookieValue (si_headers result) = Some (ir_sessionToken r)" "ir_userId r = au_id (si_user result)" by blast
  from assms(2) result(1) obtain token where token: "sets_session_cookie (si_headers result) token"
    unfolding issues_cookies_def by blast
  then have "extractSessionCookieValue (si_headers result) = Some token" by (rule set_cookie_extracted)
  with result(2) have "ir_sessionToken r = token" by simp
  moreover have "map_of cookies SESSION_COOKIE_NAME = Some (isr_sessionToken answer)"
    using assms(4) unfolding browser_keeps_def calls by force
  ultimately show ?thesis using dto result(1,3) token user r by (auto simp: sign_in_reply_def)
qed

section \<open>Properties\<close>

text \<open>
  C4: Whoever gets in has signed in: when the guard lets a request through, whatever was done before at the
  gateway and by whom, the request carries the cookie of a session that an earlier sign-in through the gateway opened, for the user
  the route acts for, and that no sign-out has closed since.
\<close>

theorem access_needs_sign_in:
  assumes "sessions_backed E I transport deliver" and "sound_sessions I"
    and "SessionAuthGuard_canActivate E request h = (Inr (ok, request'), h')"
  shows "ok \<and> (\<exists>token before credentials ws later user u.
    session_headers E deliver (req_headers request) = Some (session_cookie token) \<and>
    identity_after I deliver h = before @ SignInEmail credentials ws # later \<and>
    issued I before (SignInEmail credentials ws) token user \<and>
    \<not> revoked I (before @ [SignInEmail credentials ws]) later token \<and>
    (\<exists>md. IdentitySignIn credentials md \<in> set h) \<and>
    request' = request\<lparr>req_user := Some u\<rparr> \<and> user_id u = au_id user)"
proof -
  obtain u where u: "session_user E (req_headers request) h = Inr u" and guard: "ok" "request' = request\<lparr>req_user := Some u\<rparr>"
    using guard_session [OF assms(3)] by blast
  obtain v user where v: "session_headers E deliver (req_headers request) = Some (session_cookie v)"
    "live_sessions I (identity_after I deliver h) v = Some user" "au_id user = user_id u"
    using session_user_live [OF assms(1,2) u] by blast
  from live_issued [OF v(2)] obtain a c b where c: "identity_after I deliver h = a @ c # b" "issued I a c v user"
    "\<not> revoked I (a @ [c]) b v" by blast
  from c(2) obtain credentials ws where sign_in: "c = SignInEmail credentials ws" by (auto simp: issued_def)
  with c(1) have "SignInEmail credentials ws \<in> set (identity_after I deliver h)" by simp
  then have "\<exists>md. IdentitySignIn credentials md \<in> set h" by (rule identity_sign_in_origin)
  with v c sign_in guard show ?thesis by (metis (no_types))
qed

theorem access_needs_sign_in_witness:
  "\<exists>request' h' token credentials md.
     SessionAuthGuard_canActivate kept_env \<lparr>req_headers = visitor, req_user = None\<rparr> visit = (Inr (True, request'), h') \<and>
     session_headers kept_env plain_delivery visitor = Some (session_cookie token) \<and> IdentitySignIn credentials md \<in> set visit"
proof -
  obtain request' h' where run: "SessionAuthGuard_canActivate kept_env \<lparr>req_headers = visitor, req_user = None\<rparr> visit =
      (Inr (True, request'), h')" using visitor_admitted by blast
  from access_needs_sign_in [OF kept_backed keeping_sound run] run show ?thesis by auto
qed

text \<open>
  C5: Signed out stays out: after a sign-out answered as done, with a cookie that the guard admitted until then, a
  request with that cookie is refused at every guarded route, for ever and whatever happens in between, and nothing but
  the session lookup is done for it.
\<close>

theorem signed_out_stays_out:
  assumes "sessions_backed E I transport deliver" and "sound_sessions I" and "fresh_sessions I"
    and "SessionAuthGuard_canActivate E \<lparr>req_headers = hs, req_user = None\<rparr> h = (Inr (ok, request'), h1)"
    and "run_route E hs SignOut h = (Inr (), h')"
    and "session_headers E deliver hs' = session_headers E deliver hs" and "is_guarded r"
  shows "\<exists>e. run_route E hs' r (h' @ between) =
    (Inl (throwGatewayGrpcError e None), h' @ between @ session_lookup E hs')"
proof -
  obtain u where "session_user E hs h = Inr u" using guard_session [OF assms(4)] by auto
  then obtain v user where v: "session_headers E deliver hs = Some (session_cookie v)"
    "live_sessions I (identity_after I deliver h) v = Some user"
    using session_user_live [OF assms(1,2)] by blast
  from live_issued [OF v(2)] obtain a c b where c: "identity_after I deliver h = a @ c # b" "issued I a c v user" by blast
  have "AuthController_signOut E hs h = (Inr (), h')"
    using assms(5) by (simp add: done_with_def io_bind_def io_return_def split: prod.splits sum.splits)
  from signOut_revokes [OF assms(1) v(1) this] have
    after: "identity_after I deliver h' = a @ c # b @ [SignOutSession (session_cookie v)]" and
    out: "ba_signOut I (session_cookie v) (a @ c # b) = Inr ()" by (auto simp: c(1))
  have closed: "live_sessions I (a @ c # b @ [SignOutSession (session_cookie v)]) v = None"
    using live_snoc [of I "a @ c # b" "SignOutSession (session_cookie v)"] out by simp
  obtain t where "identity_after I deliver (h' @ between) = a @ c # (b @ [SignOutSession (session_cookie v)]) @ t"
    using identity_after_extends [of I deliver h' between] after by auto
  with stays_closed [OF assms(3) c(2) closed, of t] have
    "live_sessions I (identity_after I deliver (h' @ between)) v = None" by simp
  with session_user_live [OF assms(1,2), of hs' "h' @ between"] v(1) assms(6) obtain e where
    "session_user E hs' (h' @ between) = Inl e" by (cases "session_user E hs' (h' @ between)") auto
  from guarded_route_denied [OF assms(7) this] show ?thesis by auto
qed

theorem signed_out_stays_out_witness:
  "\<exists>h' e. run_route kept_env visitor SignOut visit = (Inr (), h') \<and>
     run_route kept_env visitor (CancelOrder ''o1'') (h' @ [IdentitySignIn (JObj []) []]) =
       (Inl (throwGatewayGrpcError e None), h' @ [IdentitySignIn (JObj []) []] @ session_lookup kept_env visitor)"
proof -
  obtain request' h1 where user: "SessionAuthGuard_canActivate kept_env \<lparr>req_headers = visitor, req_user = None\<rparr> visit =
      (Inr (True, request'), h1)" using visitor_admitted by blast
  have "ba_signOut keeping_identity = (\<lambda>_ _. Inr ())"
    by (simp add: keeping_identity_def issuing_identity_def sample_identity_def)
  then have "grpc_signOut kept_env (JObj []) [(''cookie'', ''better-auth.session_token=t'')] h = Inr ()" for h
    by (simp add: kept_env_def IdentityService_signOut_def visitor_headers io_simps)
  moreover have "response_cookie kept_env n w options h = Inr ()" for n w options h
    by (simp add: kept_env_def sample_env_def)
  ultimately have "\<exists>h'. run_route kept_env visitor SignOut visit = (Inr (), h')"
    by (simp add: done_with_def AuthController_signOut_def AuthService_signOut_def try_grpc_def set_cookie_def io_simps
        visitor_headers)
  then obtain h' where out: "run_route kept_env visitor SignOut visit = (Inr (), h')" by blast
  from signed_out_stays_out [OF kept_backed keeping_sound keeping_fresh user out refl,
      of "CancelOrder ''o1''" "[IdentitySignIn (JObj []) []]"] out show ?thesis by auto
qed

end
