(* ===== verification/Expiration_Flow.thy ===== *)
theory Expiration_Flow
  imports Expiration_Properties
begin

text \<open>
  The expiration service from end to end: order-created events come in, jobs wait in the queue, completions go out. The
  histories of the whole service are those of the consumer's and the processor's steps in any order, with the queue between
  them.
\<close>

section \<open>Runs of the service\<close>

text \<open>A call that neither queues a job nor publishes a completion.\<close>

fun neutral :: "expiration_call \<Rightarrow> bool" where
  "neutral (QueueAdd _ _ _) = False"
| "neutral (Publish subject _ _ _) = (subject \<noteq> expirationCompleteSubject)"
| "neutral _ = True"

text \<open>
  The deliveries handled so far, the latest first, and the calls made. What BullMQ documents of a delayed job: its
  processor gets it with the name and the data it was accepted with, not before its delay has passed, and possibly again. The
  connection may be another at each step, and whatever else the service does is a neutral call.
\<close>

inductive expiration_run :: "expiration_env \<Rightarrow> delivery list \<Rightarrow> expiration_call list \<Rightarrow> bool" for E where
  run_start: "expiration_run E [] []"
| run_delivery: "expiration_run E ds h \<Longrightarrow> handleDelivery E S d h = (r, h') \<Longrightarrow> expiration_run E (d # ds) h'"
| run_due: "expiration_run E ds h \<Longrightarrow> h = a @ QueueAdd name data options # b \<Longrightarrow>
    queue_add E name data options a = Inr () \<Longrightarrow> jo_delay options = num k \<Longrightarrow> date_now E a + k \<le> date_now E h \<Longrightarrow>
    process E S \<lparr>job_name = name, job_data = data\<rparr> h = (r, h') \<Longrightarrow> expiration_run E ds h'"
| run_other: "expiration_run E ds h \<Longrightarrow> neutral c \<Longrightarrow> expiration_run E ds (h @ [c])"

section \<open>The calls of a step\<close>

lemma observe_neutral: "io_emits neutral (observe_call E c p r s)"
  by (rule io_emits_mono [OF observe_call_emits]) (auto elim: is_observe.elims)

lemma publish_neutral: "s \<noteq> expirationCompleteSubject \<Longrightarrow> io_emits neutral (publish E S s p i hs)"
  unfolding publish_def requireClient_def by (intro io_rules) simp_all

lemma parkOrderCreated_neutral: "io_emits neutral (parkOrderCreated E S d f e)"
  unfolding parkOrderCreated_def
  by (intro io_rules publish_neutral) (simp add: orderCreatedDeadLetterSubject_def expirationCompleteSubject_def)

lemma settle_neutral: "io_emits neutral (ack E d)" "io_emits neutral (nak E d)"
  by (simp_all add: ack_def nak_def io_emits_call)

lemma handleDelivery_calls: "\<exists>t. snd (handleDelivery E S d h) = snd (handle E (dl_data d) h) @ t \<and> list_all neutral t"
proof -
  obtain r h1 where run: "handle E (dl_data d) h = (r, h1)" by (cases "handle E (dl_data d) h")
  define recover where "recover = (\<lambda>error.
     let fclass = failureClass error
     in if fclass = ''invalid'' \<or> orderCreatedMaxRetries < dl_deliveryCount d
        then io_bind (park (parkOrderCreated E S) E d fclass error)
               (\<lambda>parked. if parked then consumer_observe E ''dead_lettered'' (performance_now E h)
                         else consumer_observe E ''dead_letter_publish_failed'' (performance_now E h))
        else io_seq (nak E d) (consumer_observe E ''retry'' (performance_now E h)))"
  have o: "io_emits neutral (consumer_observe E q s)" for q s
    unfolding consumer_observe_def by (rule observe_neutral)
  have rec: "io_emits neutral (recover e)" for e
    unfolding recover_def Let_def park_def
    by (intro io_rules o settle_neutral parkOrderCreated_neutral)
      (auto split: sum.split intro!: io_rules settle_neutral)
  have rest: "io_emits neutral (io_catch (io_seq (ack E d) (consumer_observe E ''success'' (performance_now E h))) recover)"
    by (intro io_rules o settle_neutral rec)
  have "handleDelivery E S d h = io_catch (io_seq (handle E (dl_data d))
      (io_seq (ack E d) (consumer_observe E ''success'' (performance_now E h)))) recover h"
    unfolding recover_def by (simp add: handleDelivery_def handleDelivery_with_def io_bind_def io_read_def)
  then have "handleDelivery E S d h =
    (case r of Inl e \<Rightarrow> recover e h1
     | Inr _ \<Rightarrow> io_catch (io_seq (ack E d) (consumer_observe E ''success'' (performance_now E h))) recover h1)"
    using run by (auto simp: io_bind_def io_catch_def split: sum.split)
  with run io_emitsD [OF rec, of _ h1] io_emitsD [OF rest, of h1] show ?thesis by (cases r) auto
qed

lemma handle_calls:
  assumes bounded: "\<forall>orderId t. order_expiry E payload = Some (orderId, t) \<longrightarrow> \<bar>t - date_now E h\<bar> < 2 ^ 53"
  shows "(order_expiry E payload = None \<and> snd (handle E payload h) = h) \<or>
    (\<exists>orderId t options. order_expiry E payload = Some (orderId, t) \<and> jo_jobId options = orderId \<and>
       jo_delay options = num (max 0 (t - date_now E h)) \<and>
       snd (handle E payload h) = h @ [QueueAdd expirationJobName \<lparr>jd_orderId = orderId\<rparr> options])"
  using bounded
  by (auto simp: handle_eq schedule_exact io_throw_def Let_def expirationJobName_def split: option.split)

lemma process_calls:
  "\<exists>t. list_all neutral t \<and>
     (snd (process E S j h) = h @ t \<or>
      snd (process E S j h) = h @ Publish expirationCompleteSubject
        (encode_complete E \<lparr>ec_eventId = jd_orderId (job_data j), ec_occurredAt = Some (timestampNow E h),
           ec_orderId = jd_orderId (job_data j)\<rparr>) None (jd_orderId (job_data j)) # t)"
  by (cases "has_metrics E"; cases "js_client S"; cases "job_name j = expirationJobName")
    (auto simp: process_def publishExpirationComplete_def publish_def requireClient_def processor_observe_def
      observe_call_def io_simps conj_disj_distribL ex_disj_distrib split: sum.split)

section \<open>Justified histories\<close>

text \<open>
  What the calls made so far have to do with the calls before them: a job was queued for an order whose valid event was
  delivered, for the rest of the time to its expiry, and a completion was published for such an order, under its id and
  at its expiry or later.
\<close>

fun justified :: "expiration_env \<Rightarrow> delivery list \<Rightarrow> expiration_call list \<Rightarrow> expiration_call \<Rightarrow> bool" where
  "justified E ds a (QueueAdd name data options) \<longleftrightarrow>
     (\<exists>d \<in> set ds. \<exists>t. order_expiry E (dl_data d) = Some (jd_orderId data, t) \<and> name = expirationJobName \<and>
        jo_jobId options = jd_orderId data \<and> jo_delay options = num (max 0 (t - date_now E a)))"
| "justified E ds a (Publish subject payload headers messageId) \<longleftrightarrow>
     (subject = expirationCompleteSubject \<longrightarrow>
        (\<exists>d \<in> set ds. \<exists>t now. order_expiry E (dl_data d) = Some (messageId, t) \<and> t \<le> date_now E a \<and>
           payload = encode_complete E \<lparr>ec_eventId = messageId, ec_occurredAt = Some now, ec_orderId = messageId\<rparr>))"
| "justified E ds a _ \<longleftrightarrow> True"

definition all_justified :: "expiration_env \<Rightarrow> delivery list \<Rightarrow> expiration_call list \<Rightarrow> bool" where
  "all_justified E ds h \<longleftrightarrow> (\<forall>a c b. h = a @ c # b \<longrightarrow> justified E ds a c)"

lemma neutral_justified: "neutral c \<Longrightarrow> justified E ds a c"
  by (cases c) simp_all

lemma justified_more: "justified E ds a c \<Longrightarrow> justified E (d # ds) a c"
  by (cases c) auto

lemma all_justified_nil [simp]: "all_justified E ds []"
  by (simp add: all_justified_def)

lemma all_justified_snoc: "all_justified E ds (h @ [c]) \<longleftrightarrow> all_justified E ds h \<and> justified E ds h c"
proof -
  have split: "h @ [c] = a @ x # b \<longleftrightarrow> (b = [] \<and> a = h \<and> x = c) \<or> (\<exists>b'. b = b' @ [c] \<and> h = a @ x # b')" for a x b
    by (cases b rule: rev_exhaust) auto
  show ?thesis unfolding all_justified_def split by blast
qed

lemma all_justified_neutral: "all_justified E ds h \<Longrightarrow> list_all neutral t \<Longrightarrow> all_justified E ds (h @ t)"
proof (induction t rule: rev_induct)
  case (snoc c t)
  then have "all_justified E ds ((h @ t) @ [c])" by (simp only: all_justified_snoc list_all_append) (simp add: neutral_justified)
  then show ?case by simp
qed simp

lemma all_justified_more: "all_justified E ds h \<Longrightarrow> all_justified E (d # ds) h"
  unfolding all_justified_def by (blast intro: justified_more)

section \<open>Every run is justified\<close>

text \<open>Expiry and clock are so near to each other that their difference is exact as a JavaScript number.\<close>

definition clock_in_range :: "expiration_env \<Rightarrow> bool" where
  "clock_in_range E \<longleftrightarrow>
     (\<forall>payload orderId t h. order_expiry E payload = Some (orderId, t) \<longrightarrow> \<bar>t - date_now E h\<bar> < 2 ^ 53)"

lemma handled_justified:
  assumes "all_justified E ds h" and "clock_in_range E"
  shows "all_justified E (d # ds) (snd (handle E (dl_data d) h))"
proof -
  have bounded: "\<forall>orderId t. order_expiry E (dl_data d) = Some (orderId, t) \<longrightarrow> \<bar>t - date_now E h\<bar> < 2 ^ 53"
    using assms(2) by (simp add: clock_in_range_def)
  show ?thesis
    using handle_calls [OF bounded] all_justified_more [OF assms(1), of d] by (auto simp: all_justified_snoc)
qed

lemma processed_justified:
  assumes "all_justified E ds h" and "h = a @ QueueAdd name data options # b" and "jo_delay options = num k"
    and "date_now E a + k \<le> date_now E h"
  shows "all_justified E ds (snd (process E S \<lparr>job_name = name, job_data = data\<rparr> h))"
proof -
  have "justified E ds a (QueueAdd name data options)"
    using assms(1,2) unfolding all_justified_def by blast
  then obtain d t where d: "d \<in> set ds" "order_expiry E (dl_data d) = Some (jd_orderId data, t)"
    and delay: "num k = num (max 0 (t - date_now E a))" using assms(3) by auto
  from delay have "k = max 0 (t - date_now E a)" by simp
  with assms(4) have due: "t \<le> date_now E h" by linarith
  let ?publish = "Publish expirationCompleteSubject
    (encode_complete E \<lparr>ec_eventId = jd_orderId data, ec_occurredAt = Some (timestampNow E h), ec_orderId = jd_orderId data\<rparr>)
    None (jd_orderId data)"
  have published: "all_justified E ds (h @ [?publish])"
    using assms(1) d due by (auto simp: all_justified_snoc)
  from process_calls [of E S "\<lparr>job_name = name, job_data = data\<rparr>" h] obtain t where "list_all neutral t"
    "snd (process E S \<lparr>job_name = name, job_data = data\<rparr> h) = h @ t \<or>
     snd (process E S \<lparr>job_name = name, job_data = data\<rparr> h) = (h @ [?publish]) @ t" by auto
  then show ?thesis using all_justified_neutral [OF assms(1)] all_justified_neutral [OF published] by auto
qed

lemma run_justified:
  assumes clock: "clock_in_range E"
    and "expiration_run E ds h"
  shows "all_justified E ds h"
  using assms(2)
proof (induction rule: expiration_run.induct)
  case run_start
  show ?case by simp
next
  case (run_delivery ds h S d r h')
  from handleDelivery_calls [of E S d h] run_delivery(2) obtain t where
    "h' = snd (handle E (dl_data d) h) @ t" "list_all neutral t" by auto
  with all_justified_neutral [OF handled_justified [OF run_delivery.IH clock]] show ?case by simp
next
  case (run_due ds h a name data options b k S r h')
  with processed_justified [OF run_due.IH run_due(2,4,5), of S] show ?case by simp
next
  case (run_other ds h c)
  then show ?case by (simp add: all_justified_snoc neutral_justified)
qed

section \<open>Property\<close>

text \<open>
  C9: However deliveries, redeliveries, due jobs and retries interleave: a completion is only ever published for an
  order whose valid order-created event was delivered, with that order in its payload and as its message id, and never
  before the order's expiry. Two completions of one order thus have one message id, by which JetStream drops the second
  within its window.
\<close>

theorem completions_justified:
  assumes "clock_in_range E"
    and "expiration_run E ds (a @ Publish expirationCompleteSubject payload headers orderId # b)"
  shows "\<exists>d \<in> set ds. \<exists>t now. order_expiry E (dl_data d) = Some (orderId, t) \<and> t \<le> date_now E a \<and>
    payload = encode_complete E \<lparr>ec_eventId = orderId, ec_occurredAt = Some now, ec_orderId = orderId\<rparr>"
proof -
  have "all_justified E ds (a @ Publish expirationCompleteSubject payload headers orderId # b)"
    by (rule run_justified [OF assms])
  then have "justified E ds a (Publish expirationCompleteSubject payload headers orderId)"
    unfolding all_justified_def by blast
  then show ?thesis by simp
qed

text \<open>A run in which time passes between the delivery and the job.\<close>

definition clock_expiration :: expiration_env where
  "clock_expiration = sample_expiration\<lparr>date_now := (\<lambda>h. if h = [] then 1700000000000 else 1700000900000)\<rparr>"

definition clock_options :: job_options where
  "clock_options = schedule_options ''o1'' (num 900000)"

lemma clock_expiration_range: "clock_in_range clock_expiration"
  by (auto simp: clock_in_range_def clock_expiration_def order_expiry_def sample_event_def sample_expiration_def
      split: if_splits)

lemma clock_delivery:
  obtains b where "snd (handleDelivery clock_expiration connected sample_delivery []) =
    [] @ QueueAdd expirationJobName \<lparr>jd_orderId = ''o1''\<rparr> clock_options # b"
proof -
  have "order_expiry clock_expiration (dl_data sample_delivery) = Some (''o1'', 1700000900000)"
    by (simp add: clock_expiration_def order_expiry_def sample_event_def sample_delivery_def js_space_def)
  moreover have "js_max0 (js_sub (num 1700000900000) (num 1700000000000)) = num 900000"
    using delay_exact [of 1700000900000 1700000000000] by simp
  ultimately have "snd (handle clock_expiration (dl_data sample_delivery) []) =
      [QueueAdd expirationJobName \<lparr>jd_orderId = ''o1''\<rparr> clock_options]"
    by (simp add: handle_eq schedule_def clock_options_def clock_expiration_def io_simps)
  with handleDelivery_calls [of clock_expiration connected sample_delivery "[]"] show ?thesis
    by (auto intro: that)
qed

lemma clock_due:
  "queue_add clock_expiration n d clock_options h = Inr ()" "jo_delay clock_options = num 900000"
  "date_now clock_expiration [] + 900000 \<le> date_now clock_expiration (c # h)"
  by (simp_all add: clock_expiration_def clock_options_def schedule_options_def)

lemma clock_completion:
  "\<exists>payload b. snd (process clock_expiration connected \<lparr>job_name = expirationJobName, job_data = \<lparr>jd_orderId = ''o1''\<rparr>\<rparr> h) =
     h @ Publish expirationCompleteSubject payload None ''o1'' # b"
  by (auto simp: process_def publishExpirationComplete_def publish_def requireClient_def connected_def io_simps
      clock_expiration_def processor_observe_def observe_call_def)

theorem completions_justified_witness:
  "\<exists>a payload b. expiration_run clock_expiration [sample_delivery]
      (a @ Publish expirationCompleteSubject payload None ''o1'' # b) \<and>
    (\<exists>now. payload = encode_complete clock_expiration \<lparr>ec_eventId = ''o1'', ec_occurredAt = Some now, ec_orderId = ''o1''\<rparr>)"
proof -
  define h where "h = snd (handleDelivery clock_expiration connected sample_delivery [])"
  obtain b where b: "h = [] @ QueueAdd expirationJobName \<lparr>jd_orderId = ''o1''\<rparr> clock_options # b"
    using clock_delivery unfolding h_def by blast
  have "expiration_run clock_expiration [sample_delivery] h"
    by (rule run_delivery [OF run_start]) (simp add: h_def prod_eq_iff)
  then have run: "expiration_run clock_expiration [sample_delivery]
      (snd (process clock_expiration connected \<lparr>job_name = expirationJobName, job_data = \<lparr>jd_orderId = ''o1''\<rparr>\<rparr> h))"
    by (rule run_due [OF _ b clock_due(1,2) _ surjective_pairing]) (simp add: b clock_due(3))
  with clock_completion [of h] obtain payload c where "expiration_run clock_expiration [sample_delivery]
      (h @ Publish expirationCompleteSubject payload None ''o1'' # c)" by auto
  with completions_justified [OF clock_expiration_range this] show ?thesis by blast
qed

end
