(* ===== verification/Expiration_Refinement.thy ===== *)
theory Expiration_Refinement
  imports Expiration_Flow
begin

text \<open>
  What the expiration service promises, as an abstract machine over a book of orders, and that the service implements it
  together with its job queue. BullMQ is an argument: a predicate that says when it may hand a job to the processor, of which
  the theorems need what BullMQ documents of job ids, delays, attempts, backoff and kept jobs.
\<close>

section \<open>The specification\<close>

text \<open>
  An order of the book: when its announcement says it expires, how many publications failed and when the last did, and when it
  was completed. An order that was completed without an announcement would have no expiry.
\<close>

record order_state =
  os_due :: "int option"
  os_failed :: nat
  os_last :: int
  os_completed :: "int list"

type_synonym order_book = "string \<Rightarrow> order_state option"

text \<open>
  Each order is entered once; from its expiry on it is completed once, unless five publications failed.
\<close>

inductive book_step :: "order_book \<Rightarrow> order_book \<Rightarrow> bool" where
  enter: "b i = None \<Longrightarrow>
    book_step b (b(i \<mapsto> \<lparr>os_due = Some t, os_failed = 0, os_last = 0, os_completed = []\<rparr>))"
| fail: "b i = Some s \<Longrightarrow> os_due s = Some t \<Longrightarrow> t \<le> now \<Longrightarrow> os_completed s = [] \<Longrightarrow> os_failed s < 5 \<Longrightarrow>
    book_step b (b(i \<mapsto> s\<lparr>os_failed := Suc (os_failed s), os_last := now\<rparr>))"
| complete: "b i = Some s \<Longrightarrow> os_due s = Some t \<Longrightarrow> t \<le> now \<Longrightarrow> os_completed s = [] \<Longrightarrow> os_failed s < 5 \<Longrightarrow>
    book_step b (b(i \<mapsto> s\<lparr>os_completed := [now]\<rparr>))"

abbreviation book_steps :: "order_book \<Rightarrow> order_book \<Rightarrow> bool" where
  "book_steps \<equiv> rtranclp book_step"

definition order_ok :: "order_state \<Rightarrow> bool" where
  "order_ok s \<longleftrightarrow> os_failed s \<le> 5 \<and>
     (\<exists>t. os_due s = Some t \<and> (os_completed s = [] \<or> (\<exists>now. os_completed s = [now] \<and> t \<le> now \<and> os_failed s < 5)))"

lemma book_step_ok: "book_step b b' \<Longrightarrow> pred_option order_ok (b k) \<Longrightarrow> pred_option order_ok (b' k)"
  by (induction rule: book_step.induct) (auto simp: order_ok_def)

lemma book_steps_ok: "book_steps Map.empty b \<Longrightarrow> pred_option order_ok (b k)"
  by (induction rule: rtranclp_induct) (auto intro: book_step_ok)

section \<open>What BullMQ documents\<close>

text \<open>Jobs that were added, with the time, and attempts that a worker reported: the job's id, whether it succeeded, the time.\<close>

datatype queue_event =
    Added string ExpirationJobData job_options int
  | Tried string bool int

record queued_job =
  qj_name :: string
  qj_data :: ExpirationJobData
  qj_options :: job_options
  qj_added :: int
  qj_tries :: nat
  qj_last :: int
  qj_done :: bool

text \<open>
  The jobs of a queue by their ids: an id that has a job already is not added again; a job that is done or has used up its
  attempts stays with its id, unless its options have it removed.
\<close>

fun job_event :: "queue_event \<Rightarrow> (string \<Rightarrow> queued_job option) \<Rightarrow> string \<Rightarrow> queued_job option" where
  "job_event (Added name data options t) m =
     (if m (jo_jobId options) = None
      then m(jo_jobId options \<mapsto>
        \<lparr>qj_name = name, qj_data = data, qj_options = options, qj_added = t, qj_tries = 0, qj_last = 0, qj_done = False\<rparr>)
      else m)"
| "job_event (Tried i ok t) m =
     (case m i of
        None \<Rightarrow> m
      | Some j \<Rightarrow>
          (let j' = j\<lparr>qj_tries := Suc (qj_tries j), qj_last := t, qj_done := ok\<rparr>;
               removed = (if ok then jo_removeOnComplete (qj_options j)
                          else jo_attempts (qj_options j) \<le> qj_tries j' \<and> jo_removeOnFail (qj_options j))
           in if removed then m(i := None) else m(i \<mapsto> j')))"

definition jobs_after :: "queue_event list \<Rightarrow> string \<Rightarrow> queued_job option" where
  "jobs_after q = foldl (\<lambda>m e. job_event e m) Map.empty q"

lemma jobs_snoc [simp]: "jobs_after (q @ [e]) = job_event e (jobs_after q)" "jobs_after [] = Map.empty"
  by (simp_all add: jobs_after_def)

text \<open>The delay has passed and an attempt is left; and the wait after failures, 2 to the number of failures but one times the delay.\<close>

definition attempt_left :: "queued_job \<Rightarrow> int \<Rightarrow> bool" where
  "attempt_left j now \<longleftrightarrow> \<not> qj_done j \<and> qj_tries j < jo_attempts (qj_options j) \<and>
     (case jo_delay (qj_options j) of Fin x \<Rightarrow> of_int (qj_added j) + x \<le> of_int now | _ \<Rightarrow> False)"

definition backed_off :: "queued_job \<Rightarrow> int \<Rightarrow> bool" where
  "backed_off j now \<longleftrightarrow> qj_tries j = 0 \<or>
     jo_backoff_type (qj_options j) = ''exponential'' \<and>
     qj_last j + 2 ^ (qj_tries j - 1) * int (jo_backoff_delay (qj_options j)) \<le> now"

text \<open>
  A queue hands out a job only while an attempt is left, and it does so then, once the backoff has passed. Workers report
  each attempt they make: a worker that dies in the middle of one is not considered.
\<close>

type_synonym job_queue = "queue_event list \<Rightarrow> int \<Rightarrow> string \<Rightarrow> bool"

definition keeps_jobs :: "job_queue \<Rightarrow> bool" where
  "keeps_jobs Q \<longleftrightarrow> (\<forall>q now i. Q q now i \<longrightarrow> (\<exists>j. jobs_after q i = Some j \<and> attempt_left j now))"

definition offers_jobs :: "job_queue \<Rightarrow> bool" where
  "offers_jobs Q \<longleftrightarrow>
     (\<forall>q now i j. jobs_after q i = Some j \<longrightarrow> attempt_left j now \<longrightarrow> backed_off j now \<longrightarrow> Q q now i)"

section \<open>The service with its queue\<close>

text \<open>What the calls of a step mean, each with the calls before it.\<close>

fun collect :: "('c list \<Rightarrow> 'c \<Rightarrow> 'b list) \<Rightarrow> 'c list \<Rightarrow> 'c list \<Rightarrow> 'b list" where
  "collect f seen [] = []"
| "collect f seen (c # cs) = f seen c @ collect f (seen @ [c]) cs"

text \<open>A job the queue accepted, and a completion JetStream stored, under its message id.\<close>

fun accepted :: "expiration_env \<Rightarrow> expiration_call list \<Rightarrow> expiration_call \<Rightarrow> queue_event list" where
  "accepted E seen (QueueAdd name data options) =
     (if result_ok (queue_add E name data options seen) then [Added name data options (date_now E seen)] else [])"
| "accepted E seen _ = []"

fun stored :: "expiration_env \<Rightarrow> expiration_call list \<Rightarrow> expiration_call \<Rightarrow> (string \<times> int) list" where
  "stored E seen (Publish subject payload headers messageId) =
     (if subject = expirationCompleteSubject \<and> result_ok (js_publish E subject payload headers messageId seen)
      then [(messageId, date_now E seen)] else [])"
| "stored E seen _ = []"

text \<open>
  The log of the service: an event that was handled, with its payload and whether the handler accepted it, and an attempt at a
  job, with its order, whether it succeeded, the completions that were stored and the time.
\<close>

datatype service_event =
    Handled bytes bool
  | Attempted string bool "(string \<times> int) list" int

fun is_attempt :: "service_event \<Rightarrow> bool" where
  "is_attempt (Attempted _ _ _ _) = True"
| "is_attempt _ = False"

type_synonym service_state = "service_event list \<times> queue_event list \<times> expiration_call list"

text \<open>
  A step of the service on its log, the queue's and the calls made: a delivery, an attempt at a job the queue hands out with the
  name and the data it was added with, or anything else the service calls. The connection may be another at each step.
\<close>

inductive service_step :: "job_queue \<Rightarrow> expiration_env \<Rightarrow> service_state \<Rightarrow> service_state \<Rightarrow> bool" for Q E where
  step_delivery: "handleDelivery E S d h = (r, h') \<Longrightarrow>
    service_step Q E (l, q, h)
      (l @ [Handled (dl_data d) (result_ok (fst (handle E (dl_data d) h)))],
       q @ collect (accepted E) h (drop (length h) h'), h')"
| step_attempt: "Q q (date_now E h) i \<Longrightarrow> jobs_after q i = Some j \<Longrightarrow>
    process E S \<lparr>job_name = qj_name j, job_data = qj_data j\<rparr> h = (r, h') \<Longrightarrow>
    service_step Q E (l, q, h)
      (l @ [Attempted (jd_orderId (qj_data j)) (result_ok r) (collect (stored E) h (drop (length h) h')) (date_now E h)],
       q @ collect (accepted E) h (drop (length h) h') @ [Tried i (result_ok r) (date_now E h)], h')"
| step_other: "neutral c \<Longrightarrow> service_step Q E (l, q, h) (l, q, h @ [c])"

abbreviation service_runs :: "job_queue \<Rightarrow> expiration_env \<Rightarrow> service_state \<Rightarrow> bool" where
  "service_runs Q E \<equiv> rtranclp (service_step Q E) ([], [], [])"

section \<open>The book of a log\<close>

text \<open>
  The book is read off what comes in and what goes out: the expiry is the one that the first accepted announcement has, every
  stored completion is entered, however many there are and for whatever order, and every failed attempt counts.
\<close>

definition record_completion :: "string \<times> int \<Rightarrow> order_book \<Rightarrow> order_book" where
  "record_completion c b =
     (case b (fst c) of
        None \<Rightarrow> b(fst c \<mapsto> \<lparr>os_due = None, os_failed = 0, os_last = 0, os_completed = [snd c]\<rparr>)
      | Some s \<Rightarrow> b(fst c \<mapsto> s\<lparr>os_completed := os_completed s @ [snd c]\<rparr>))"

definition record_failure :: "string \<Rightarrow> int \<Rightarrow> order_book \<Rightarrow> order_book" where
  "record_failure i now b =
     (case b i of
        None \<Rightarrow> b(i \<mapsto> \<lparr>os_due = None, os_failed = 1, os_last = now, os_completed = []\<rparr>)
      | Some s \<Rightarrow> b(i \<mapsto> s\<lparr>os_failed := Suc (os_failed s), os_last := now\<rparr>))"

fun book_event :: "expiration_env \<Rightarrow> service_event \<Rightarrow> order_book \<Rightarrow> order_book" where
  "book_event E (Handled payload ok) b =
     (case order_expiry E payload of
        Some (i, t) \<Rightarrow>
          if ok \<and> b i = None then b(i \<mapsto> \<lparr>os_due = Some t, os_failed = 0, os_last = 0, os_completed = []\<rparr>) else b
      | None \<Rightarrow> b)"
| "book_event E (Attempted i ok completions now) b =
     (let b' = fold record_completion completions b in if ok then b' else record_failure i now b')"

definition book_of :: "expiration_env \<Rightarrow> service_event list \<Rightarrow> order_book" where
  "book_of E l = foldl (\<lambda>b e. book_event E e b) Map.empty l"

lemma book_snoc [simp]: "book_of E (l @ [e]) = book_event E e (book_of E l)" "book_of E [] = Map.empty"
  by (simp_all add: book_of_def)

section \<open>Book and queue\<close>

text \<open>
  An order and its job: the job has the options the scheduler gives it, the delay is the rest of the time to the order's expiry,
  and its attempts are those of the order.
\<close>

definition linked :: "string \<Rightarrow> order_state \<Rightarrow> queued_job \<Rightarrow> bool" where
  "linked i s j \<longleftrightarrow>
     (\<exists>t. os_due s = Some t \<and> qj_name j = expirationJobName \<and> qj_data j = \<lparr>jd_orderId = i\<rparr> \<and>
        qj_options j = schedule_options i (num (max 0 (t - qj_added j))) \<and>
        (if qj_done j then os_completed s \<noteq> [] else os_completed s = [] \<and> os_failed s = qj_tries j \<and> os_last s = qj_last j))"

definition agree :: "order_book \<Rightarrow> (string \<Rightarrow> queued_job option) \<Rightarrow> bool" where
  "agree b m \<longleftrightarrow> (\<forall>i. rel_option (linked i) (b i) (m i))"

lemma agree_empty: "agree Map.empty Map.empty"
  by (simp add: agree_def)

lemma agree_None: "agree b m \<Longrightarrow> m i = None \<longleftrightarrow> b i = None"
  by (metis agree_def option.rel_distinct(1,2) option.exhaust)

lemma agree_linked: "agree b m \<Longrightarrow> m i = Some j \<Longrightarrow> \<exists>s. b i = Some s \<and> linked i s j"
  unfolding agree_def by (metis option_rel_Some2)

lemma agree_update: "agree b m \<Longrightarrow> linked i s j \<Longrightarrow> agree (b(i \<mapsto> s)) (m(i \<mapsto> j))"
  by (simp add: agree_def)

lemma collect_neutral:
  "list_all neutral cs \<Longrightarrow> collect (accepted E) seen cs = []"
  "list_all neutral cs \<Longrightarrow> collect (stored E) seen cs = []"
proof (induction cs arbitrary: seen)
  case (Cons c cs)
  { case 1 with Cons.IH(1) show ?case by (cases c) simp_all }
  { case 2 with Cons.IH(2) show ?case by (cases c) simp_all }
qed simp_all

lemma handle_exact:
  assumes "clock_in_range E"
  shows "handle E payload h =
    (case order_expiry E payload of
       None \<Rightarrow> (Inl newInvalidOrderCreatedEvent, h)
     | Some (i, t) \<Rightarrow>
         (let options = schedule_options i (num (max 0 (t - date_now E h))); data = \<lparr>jd_orderId = i\<rparr>
          in (queue_add E expirationJobName data options h, h @ [QueueAdd expirationJobName data options])))"
proof (cases "order_expiry E payload")
  case (Some p)
  obtain i t where p: "p = (i, t)" by (cases p)
  with Some assms have "\<bar>t - date_now E h\<bar> < 2 ^ 53" by (auto simp: clock_in_range_def)
  with Some p show ?thesis
    using schedule_exact [of t E h i] by (simp add: handle_eq Let_def schedule_options_def expirationPublishAttempts_def
        expirationPublishBackoffMilliseconds_def expirationJobName_def)
qed (simp add: handle_eq io_throw_def)

lemma delivery_calls:
  assumes "clock_in_range E" and "handleDelivery E S d h = (r, h')"
  shows "collect (accepted E) h (drop (length h) h') =
    (case order_expiry E (dl_data d) of
       Some (i, t) \<Rightarrow>
         if result_ok (fst (handle E (dl_data d) h))
         then [Added expirationJobName \<lparr>jd_orderId = i\<rparr> (schedule_options i (num (max 0 (t - date_now E h)))) (date_now E h)]
         else []
     | None \<Rightarrow> [])"
proof -
  obtain cs where "h' = snd (handle E (dl_data d) h) @ cs" "list_all neutral cs"
    using handleDelivery_calls [of E S d h] assms(2) by auto
  then show ?thesis
    by (simp add: handle_exact [OF assms(1)] collect_neutral Let_def split: option.split)
qed

lemma delivery_step:
  assumes "clock_in_range E" and "agree (book_of E l) (jobs_after q)" and "handleDelivery E S d h = (r, h')"
  defines "l' \<equiv> l @ [Handled (dl_data d) (result_ok (fst (handle E (dl_data d) h)))]"
  shows "agree (book_of E l') (jobs_after (q @ collect (accepted E) h (drop (length h) h')))"
    and "book_of E l' = book_of E l \<or> book_step (book_of E l) (book_of E l')"
proof -
  let ?ok = "result_ok (fst (handle E (dl_data d) h))"
  have invalid: "\<not> ?ok" if "order_expiry E (dl_data d) = None"
    using that by (simp add: handle_exact [OF assms(1)])
  have "agree (book_of E l') (jobs_after (q @ collect (accepted E) h (drop (length h) h'))) \<and>
      (book_of E l' = book_of E l \<or> book_step (book_of E l) (book_of E l'))"
  proof (cases "order_expiry E (dl_data d)")
    case None
    with assms(2) show ?thesis by (simp add: l'_def delivery_calls [OF assms(1,3)])
  next
    case (Some p)
    obtain i t where p: "p = (i, t)" by (cases p)
    show ?thesis
    proof (cases "?ok \<and> book_of E l i = None")
      case True
      with assms(2) have "jobs_after q i = None" by (simp add: agree_None)
      with True Some p assms(2) enter [of "book_of E l" i t] show ?thesis
        by (simp add: l'_def delivery_calls [OF assms(1,3)] schedule_options_def agree_update linked_def)
    next
      case False
      have "jobs_after q i \<noteq> None" if "?ok" using False that agree_None [OF assms(2)] by blast
      with False Some p assms(2) show ?thesis
        by (auto simp: l'_def delivery_calls [OF assms(1,3)] schedule_options_def)
    qed
  qed
  then show "agree (book_of E l') (jobs_after (q @ collect (accepted E) h (drop (length h) h')))"
    "book_of E l' = book_of E l \<or> book_step (book_of E l) (book_of E l')" by blast+
qed

text \<open>An attempt at a job: a publication, if there is a connection; it succeeds if JetStream stores the message.\<close>

lemma process_outcome:
  "\<exists>cs. list_all neutral cs \<and>
     (if js_client S
      then \<exists>payload. process E S \<lparr>job_name = expirationJobName, job_data = \<lparr>jd_orderId = i\<rparr>\<rparr> h =
        (case js_publish E expirationCompleteSubject payload None i h of Inl e \<Rightarrow> Inl e | Inr _ \<Rightarrow> Inr (),
         h @ Publish expirationCompleteSubject payload None i # cs)
      else \<exists>e. process E S \<lparr>job_name = expirationJobName, job_data = \<lparr>jd_orderId = i\<rparr>\<rparr> h = (Inl e, h @ cs))"
proof -
  let ?payload = "encode_complete E \<lparr>ec_eventId = i, ec_occurredAt = Some (timestampNow E h), ec_orderId = i\<rparr>"
  show ?thesis
    by (cases "has_metrics E"; cases "js_client S"; cases "js_publish E expirationCompleteSubject ?payload None i h")
      (auto simp: process_def publishExpirationComplete_def publish_def requireClient_def processor_observe_def
        observe_call_def io_simps intro!: exI [of _ ?payload])
qed

lemma attempt_calls:
  assumes "process E S \<lparr>job_name = expirationJobName, job_data = \<lparr>jd_orderId = i\<rparr>\<rparr> h = (r, h')"
  shows "collect (accepted E) h (drop (length h) h') = []"
    and "collect (stored E) h (drop (length h) h') = (if result_ok r then [(i, date_now E h)] else [])"
proof -
  obtain cs where cs: "list_all neutral cs" and run: "if js_client S
      then \<exists>payload. (r, h') = (case js_publish E expirationCompleteSubject payload None i h of Inl e \<Rightarrow> Inl e | Inr _ \<Rightarrow> Inr (),
         h @ Publish expirationCompleteSubject payload None i # cs)
      else \<exists>e. (r, h') = (Inl e, h @ cs)"
    using process_outcome [of S E i h] unfolding assms by blast
  have "collect (accepted E) h (drop (length h) h') = [] \<and>
      collect (stored E) h (drop (length h) h') = (if result_ok r then [(i, date_now E h)] else [])"
  proof (cases "js_client S")
    case True
    with run obtain payload where "r = (case js_publish E expirationCompleteSubject payload None i h of Inl e \<Rightarrow> Inl e | Inr _ \<Rightarrow> Inr ())"
      "h' = h @ Publish expirationCompleteSubject payload None i # cs" by auto
    with cs show ?thesis
      by (cases "js_publish E expirationCompleteSubject payload None i h") (simp_all add: collect_neutral)
  qed (use run cs in \<open>auto simp: collect_neutral\<close>)
  then show "collect (accepted E) h (drop (length h) h') = []"
    "collect (stored E) h (drop (length h) h') = (if result_ok r then [(i, date_now E h)] else [])" by blast+
qed

lemma attempt_left_due:
  assumes "linked i s j" and "attempt_left j now"
  shows "os_failed s < 5 \<and> os_completed s = [] \<and> (\<exists>t. os_due s = Some t \<and> t \<le> now)"
proof -
  from assms obtain t where t: "os_due s = Some t" and "qj_options j = schedule_options i (num (max 0 (t - qj_added j)))"
    and "\<not> qj_done j" "os_completed s = []" "os_failed s = qj_tries j" "qj_tries j < jo_attempts (qj_options j)"
    by (auto simp: linked_def attempt_left_def split: if_splits)
  moreover from this assms(2) have "(of_int (qj_added j + max 0 (t - qj_added j)) :: rat) \<le> of_int now"
    by (simp add: attempt_left_def schedule_options_def)
  then have "t \<le> now" by (simp only: of_int_le_iff)
  ultimately show ?thesis by (simp add: schedule_options_def expirationPublishAttempts_def)
qed

lemma attempt_step:
  assumes "agree (book_of E l) (jobs_after q)" and "jobs_after q i = Some j" and "attempt_left j (date_now E h)"
    and "process E S \<lparr>job_name = qj_name j, job_data = qj_data j\<rparr> h = (r, h')"
  defines "l' \<equiv> l @ [Attempted (jd_orderId (qj_data j)) (result_ok r) (collect (stored E) h (drop (length h) h')) (date_now E h)]"
    and "q' \<equiv> q @ collect (accepted E) h (drop (length h) h') @ [Tried i (result_ok r) (date_now E h)]"
  shows "agree (book_of E l') (jobs_after q')" and "book_step (book_of E l) (book_of E l')"
    and "\<exists>s s'. book_of E l i = Some s \<and> book_of E l' i = Some s' \<and>
      s' = (if result_ok r then s\<lparr>os_completed := [date_now E h]\<rparr>
            else s\<lparr>os_failed := Suc (os_failed s), os_last := date_now E h\<rparr>)"
proof -
  obtain s where s: "book_of E l i = Some s" "linked i s j"
    using agree_linked [OF assms(1,2)] by blast
  then have job: "qj_name j = expirationJobName" "qj_data j = \<lparr>jd_orderId = i\<rparr>" by (auto simp: linked_def)
  note calls = attempt_calls [OF assms(4) [unfolded job]]
  let ?now = "date_now E h"
  from attempt_left_due [OF s(2) assms(3)] obtain t where due: "os_due s = Some t" "t \<le> ?now" "os_completed s = []"
    "os_failed s < 5" by blast
  let ?s' = "if result_ok r then s\<lparr>os_completed := [?now]\<rparr> else s\<lparr>os_failed := Suc (os_failed s), os_last := ?now\<rparr>"
  let ?j' = "j\<lparr>qj_tries := Suc (qj_tries j), qj_last := ?now, qj_done := result_ok r\<rparr>"
  have book: "book_of E l' = (book_of E l)(i \<mapsto> ?s')"
    using s(1) due(3) by (simp add: l'_def calls job record_completion_def record_failure_def)
  have "\<not> jo_removeOnComplete (qj_options j)" "\<not> jo_removeOnFail (qj_options j)"
    using s(2) by (auto simp: linked_def schedule_options_def)
  with assms(2) have queue: "jobs_after q' = (jobs_after q)(i \<mapsto> ?j')" by (simp add: q'_def calls Let_def)
  have "\<not> qj_done j" using assms(3) by (simp add: attempt_left_def)
  with s(2) have "linked i ?s' ?j'" by (auto simp: linked_def)
  with assms(1) show "agree (book_of E l') (jobs_after q')" unfolding book queue by (rule agree_update)
  show "book_step (book_of E l) (book_of E l')"
    unfolding book
    using complete [where b = "book_of E l", OF s(1) due(1,2,3,4)] fail [where b = "book_of E l", OF s(1) due(1,2,3,4)] by simp
  show "\<exists>s s'. book_of E l i = Some s \<and> book_of E l' i = Some s' \<and>
      s' = (if result_ok r then s\<lparr>os_completed := [?now]\<rparr> else s\<lparr>os_failed := Suc (os_failed s), os_last := ?now\<rparr>)"
    by (simp add: s(1) book)
qed

section \<open>Every run implements the specification\<close>

lemma service_step_implements:
  assumes "keeps_jobs Q" and "clock_in_range E" and "service_step Q E (l, q, h) (l', q', h')"
    and "agree (book_of E l) (jobs_after q)"
  shows "agree (book_of E l') (jobs_after q') \<and>
    (book_of E l' = book_of E l \<and> filter is_attempt l' = filter is_attempt l \<or> book_step (book_of E l) (book_of E l'))"
  using assms(3)
proof (cases rule: service_step.cases)
  case (step_delivery S d r)
  with delivery_step [OF assms(2,4), of S d h r h'] show ?thesis by auto
next
  case (step_attempt i j S r)
  then have "Q q (date_now E h) i" "jobs_after q i = Some j" by simp_all
  with assms(1) have "attempt_left j (date_now E h)" unfolding keeps_jobs_def by fastforce
  with attempt_step [OF assms(4), of i j h S r h'] step_attempt show ?thesis by auto
qed (use assms(4) in auto)

lemma run_agrees:
  assumes "keeps_jobs Q" and "clock_in_range E" and "service_runs Q E (l, q, h)"
  shows "agree (book_of E l) (jobs_after q) \<and> book_steps Map.empty (book_of E l)"
  using assms(3)
proof (induction "(l, q, h)" arbitrary: l q h rule: rtranclp_induct)
  case base
  show ?case by (simp add: agree_empty)
next
  case (step y)
  obtain l0 q0 h0 where y: "y = (l0, q0, h0)" by (cases y)
  with step(3) have "agree (book_of E l0) (jobs_after q0)" "book_steps Map.empty (book_of E l0)" by blast+
  with service_step_implements [OF assms(1,2) step(2) [unfolded y]] show ?case
    by (auto intro: rtranclp.rtrancl_into_rtrancl)
qed

text \<open>Jobs were added at a moment of the history.\<close>

definition added_before :: "expiration_env \<Rightarrow> queue_event list \<Rightarrow> expiration_call list \<Rightarrow> bool" where
  "added_before E q h \<longleftrightarrow>
     (\<forall>name data options t. Added name data options t \<in> set q \<longrightarrow> (\<exists>a b. h = a @ b \<and> t = date_now E a))"

lemma collect_added:
  "Added name data options t \<in> set (collect (accepted E) seen cs) \<Longrightarrow> \<exists>a b. cs = a @ b \<and> t = date_now E (seen @ a)"
proof (induction cs arbitrary: seen)
  case (Cons c cs)
  from Cons.prems consider "Added name data options t \<in> set (accepted E seen c)"
    | "Added name data options t \<in> set (collect (accepted E) (seen @ [c]) cs)" by auto
  then show ?case
  proof cases
    case 1
    then have "t = date_now E seen" by (cases c) (auto split: if_splits)
    then show ?thesis by (metis append_Nil append_Nil2)
  next
    case 2
    from Cons.IH [OF this] obtain a b where "cs = a @ b" "t = date_now E ((seen @ [c]) @ a)" by blast
    then show ?thesis by (metis append_Cons append_Nil append_assoc)
  qed
qed simp

lemma job_origin:
  "jobs_after q i = Some j \<Longrightarrow> Added (qj_name j) (qj_data j) (qj_options j) (qj_added j) \<in> set q"
proof (induction q arbitrary: j rule: rev_induct)
  case (snoc e q)
  then show ?case
    by (cases e) (auto simp: Let_def split: if_splits option.splits)
qed simp

lemma step_extends:
  assumes "service_step Q E (l, q, h) (l', q', h')"
  shows "\<exists>g. h' = h @ g \<and> (\<forall>e \<in> set q'. e \<in> set q \<or> e \<in> set (collect (accepted E) h g) \<or> (\<exists>i ok t. e = Tried i ok t))"
  using assms
proof (cases rule: service_step.cases)
  case (step_delivery S d r)
  then have "h' = snd (handleDelivery E S d h)" by simp
  then obtain g where "h' = h @ g"
    using handleDelivery_calls [of E S d h] io_emitsD [OF handle_emits [of E "dl_data d"], of h] by auto
  with step_delivery show ?thesis by auto
next
  case (step_attempt i j S r)
  then have "h' = snd (process E S \<lparr>job_name = qj_name j, job_data = qj_data j\<rparr> h)" by simp
  then obtain g where "h' = h @ g"
    using process_calls [of E S "\<lparr>job_name = qj_name j, job_data = qj_data j\<rparr>" h] by auto
  with step_attempt show ?thesis by auto
qed auto

lemma run_added_before:
  assumes "service_runs Q E (l, q, h)"
  shows "added_before E q h"
  using assms
proof (induction "(l, q, h)" arbitrary: l q h rule: rtranclp_induct)
  case base
  show ?case by (simp add: added_before_def)
next
  case (step y)
  obtain l0 q0 h0 where y: "y = (l0, q0, h0)" by (cases y)
  obtain g where g: "h = h0 @ g"
    "\<forall>e \<in> set q. e \<in> set q0 \<or> e \<in> set (collect (accepted E) h0 g) \<or> (\<exists>i ok t. e = Tried i ok t)"
    using step_extends [OF step(2) [unfolded y]] by blast
  from step(3) y have before: "added_before E q0 h0" by blast
  show ?case unfolding added_before_def
  proof (intro allI impI)
    fix name data options t assume "Added name data options t \<in> set q"
    with g(2) consider "Added name data options t \<in> set q0" | "Added name data options t \<in> set (collect (accepted E) h0 g)"
      by blast
    then show "\<exists>a b. h = a @ b \<and> t = date_now E a"
    proof cases
      case 1
      with before obtain a b where "h0 = a @ b" "t = date_now E a" unfolding added_before_def by blast
      with g(1) show ?thesis by (intro exI [of _ a] exI [of _ "b @ g"]) simp
    next
      case 2
      from collect_added [OF this] obtain a b where "g = a @ b" "t = date_now E (h0 @ a)" by blast
      with g(1) show ?thesis by (intro exI [of _ "h0 @ a"] exI [of _ b]) simp
    qed
  qed
qed

lemma process_succeeds:
  assumes "js_client S" and "\<And>payload. result_ok (js_publish E expirationCompleteSubject payload None i h)"
  shows "result_ok (fst (process E S \<lparr>job_name = expirationJobName, job_data = \<lparr>jd_orderId = i\<rparr>\<rparr> h))"
proof -
  from process_outcome [of S E i h] assms(1) obtain payload cs where
    "process E S \<lparr>job_name = expirationJobName, job_data = \<lparr>jd_orderId = i\<rparr>\<rparr> h =
      (case js_publish E expirationCompleteSubject payload None i h of Inl e \<Rightarrow> Inl e | Inr _ \<Rightarrow> Inr (),
       h @ Publish expirationCompleteSubject payload None i # cs)" by auto
  with assms(2) [of payload] show ?thesis by (cases "js_publish E expirationCompleteSubject payload None i h") simp_all
qed

text \<open>The attempt that an order of the book with attempts left gets.\<close>

lemma due_order_attempt:
  assumes "keeps_jobs Q" and "offers_jobs Q" and "clock_in_range E" and "\<And>a b. date_now E a \<le> date_now E (a @ b)"
    and "service_runs Q E (l, q, h)" and "book_of E l i = Some s" and "os_completed s = []" and "os_failed s < 5"
    and "os_due s = Some t" and "t \<le> date_now E h"
    and "os_failed s = 0 \<or> os_last s + 1000 * 2 ^ (os_failed s - 1) \<le> date_now E h"
    and "js_client (S :: js_state)" and "\<And>payload. result_ok (js_publish E expirationCompleteSubject payload None i h)"
  shows "\<exists>completions q' h' s'.
    service_step Q E (l, q, h) (l @ [Attempted i True completions (date_now E h)], q', h') \<and>
    book_of E (l @ [Attempted i True completions (date_now E h)]) i = Some s' \<and> os_completed s' = [date_now E h]"
proof -
  have agree: "agree (book_of E l) (jobs_after q)" using run_agrees [OF assms(1,3,5)] by blast
  then obtain j where j: "jobs_after q i = Some j" "linked i s j"
    using assms(6) unfolding agree_def by (metis option_rel_Some1)
  then have linked: "qj_name j = expirationJobName" "qj_data j = \<lparr>jd_orderId = i\<rparr>" "\<not> qj_done j"
    "qj_options j = schedule_options i (num (max 0 (t - qj_added j)))" "os_failed s = qj_tries j" "os_last s = qj_last j"
    using assms(7,9) by (auto simp: linked_def split: if_splits)
  from run_added_before [OF assms(5)] job_origin [OF j(1)] obtain a b where "h = a @ b" "qj_added j = date_now E a"
    unfolding added_before_def by blast
  with assms(4) have "qj_added j \<le> date_now E h" by simp
  with assms(10) have "(of_int (qj_added j + max 0 (t - qj_added j)) :: rat) \<le> of_int (date_now E h)"
    by (simp only: of_int_le_iff)
  with linked assms(8) have left: "attempt_left j (date_now E h)"
    by (simp add: attempt_left_def schedule_options_def expirationPublishAttempts_def)
  have "backed_off j (date_now E h)"
    using assms(11) linked by (auto simp: backed_off_def schedule_options_def expirationPublishBackoffMilliseconds_def ac_simps)
  with assms(2) j(1) left have offered: "Q q (date_now E h) i" unfolding offers_jobs_def by blast
  obtain r h' where run: "process E S \<lparr>job_name = qj_name j, job_data = qj_data j\<rparr> h = (r, h')" by fastforce
  with process_succeeds [OF assms(12,13)] have "result_ok r" by (metis fst_conv linked(1,2))
  let ?c = "collect (stored E) h (drop (length h) h')"
  have "service_step Q E (l, q, h) (l @ [Attempted i True ?c (date_now E h)],
      q @ collect (accepted E) h (drop (length h) h') @ [Tried i True (date_now E h)], h')"
    using step_attempt [where Q = Q and E = E, OF offered j(1) run, of l] linked(2) \<open>result_ok r\<close> by simp
  moreover have "\<exists>s'. book_of E (l @ [Attempted i True ?c (date_now E h)]) i = Some s' \<and> os_completed s' = [date_now E h]"
    using attempt_step(3) [OF agree j(1) left run] linked(2) \<open>result_ok r\<close> by auto
  ultimately show ?thesis by blast
qed

section \<open>Properties\<close>

text \<open>
  C10: The expiration service implements its specification, the book of orders, with any queue that keeps its jobs as BullMQ
  documents: whatever deliveries, redeliveries, attempts and failures come in whatever order, every attempt at a job is
  exactly one step of the book and everything else is one or none. So a completion is stored at most once for each order, only
  for an order that was announced, not before the expiry its announcement has, and after at most four failed attempts, of
  which there are never more than five.
\<close>

theorem service_implements_book:
  assumes "keeps_jobs Q" and "clock_in_range E" and "service_runs Q E (l, q, h)"
    and "service_step Q E (l, q, h) (l', q', h')"
  shows "(book_of E l' = book_of E l \<and> filter is_attempt l' = filter is_attempt l \<or> book_step (book_of E l) (book_of E l')) \<and>
    book_steps Map.empty (book_of E l') \<and> pred_option order_ok (book_of E l' i)"
proof -
  note run = run_agrees [OF assms(1-3)]
  from service_step_implements [OF assms(1,2,4)] run have
    step: "book_of E l' = book_of E l \<and> filter is_attempt l' = filter is_attempt l \<or> book_step (book_of E l) (book_of E l')"
    by blast
  with run have "book_steps Map.empty (book_of E l')" by (auto intro: rtranclp.rtrancl_into_rtrancl)
  with step book_steps_ok show ?thesis by blast
qed

text \<open>
  C11: An order survives four failures: at any point of any run, an order of the book that has expired, is not completed
  and had fewer than five failed attempts is completed by an attempt that the queue makes as soon as the backoff has passed,
  one second after the first failure and twice as long after each other, if JetStream is connected and stores the message.
\<close>

theorem due_order_completes:
  assumes "keeps_jobs Q" and "offers_jobs Q" and "clock_in_range E" and "\<And>a b. date_now E a \<le> date_now E (a @ b)"
    and "service_runs Q E (l, q, h)" and "book_of E l i = Some s" and "os_completed s = []" and "os_failed s < 5"
    and "os_due s = Some t" and "t \<le> date_now E h"
    and "os_failed s = 0 \<or> os_last s + 1000 * 2 ^ (os_failed s - 1) \<le> date_now E h"
    and "js_client (S :: js_state)" and "\<And>payload. result_ok (js_publish E expirationCompleteSubject payload None i h)"
  shows "\<exists>l' q' h' s'. service_step Q E (l, q, h) (l', q', h') \<and>
    book_of E l' i = Some s' \<and> os_completed s' = [date_now E h]"
  using due_order_attempt [OF assms] by blast

section \<open>A queue that keeps its promises\<close>

definition documented_queue :: job_queue where
  "documented_queue q now i \<longleftrightarrow> (case jobs_after q i of None \<Rightarrow> False | Some j \<Rightarrow> attempt_left j now \<and> backed_off j now)"

lemma documented_queue_keeps: "keeps_jobs documented_queue"
  by (auto simp: keeps_jobs_def documented_queue_def split: option.splits)

lemma documented_queue_offers: "offers_jobs documented_queue"
  by (simp add: offers_jobs_def documented_queue_def)

lemma clock_expiration_forward: "date_now clock_expiration a \<le> date_now clock_expiration (a @ b)"
  by (simp add: clock_expiration_def)

lemma clock_announced:
  "\<exists>l q h. service_runs documented_queue clock_expiration (l, q, h) \<and> 1700000900000 \<le> date_now clock_expiration h \<and>
     book_of clock_expiration l ''o1'' = Some \<lparr>os_due = Some 1700000900000, os_failed = 0, os_last = 0, os_completed = []\<rparr>"
proof -
  let ?E = clock_expiration
  have expiry: "order_expiry ?E (dl_data sample_delivery) = Some (''o1'', 1700000900000)"
    by (simp add: clock_expiration_def order_expiry_def sample_event_def sample_delivery_def js_space_def)
  have ok: "result_ok (fst (handle ?E (dl_data sample_delivery) []))"
    by (simp add: handle_exact [OF clock_expiration_range] expiry Let_def) (simp add: clock_expiration_def)
  obtain r h' where run: "handleDelivery ?E connected sample_delivery [] = (r, h')" by fastforce
  with clock_delivery have "h' \<noteq> []" by (metis append_Nil list.discI snd_conv)
  then have "1700000900000 \<le> date_now ?E h'" by (simp add: clock_expiration_def)
  moreover from step_delivery [OF run, where l = "[]" and q = "[]" and Q = documented_queue] ok have
    "service_runs documented_queue ?E ([Handled (dl_data sample_delivery) True],
       collect (accepted ?E) [] (drop (length []) h'), h')" by (auto intro: r_into_rtranclp)
  moreover have "book_of ?E [Handled (dl_data sample_delivery) True] ''o1'' =
      Some \<lparr>os_due = Some 1700000900000, os_failed = 0, os_last = 0, os_completed = []\<rparr>"
    using book_snoc(1) [of ?E "[]"] by (simp add: expiry)
  ultimately show ?thesis by blast
qed

lemma clock_attempt:
  assumes "service_runs documented_queue clock_expiration (l, q, h)" and "1700000900000 \<le> date_now clock_expiration h"
    and "book_of clock_expiration l ''o1'' = Some \<lparr>os_due = Some 1700000900000, os_failed = 0, os_last = 0, os_completed = []\<rparr>"
  shows "\<exists>completions q' h'. service_step documented_queue clock_expiration (l, q, h)
    (l @ [Attempted ''o1'' True completions (date_now clock_expiration h)], q', h')"
proof -
  have publishes: "result_ok (js_publish clock_expiration expirationCompleteSubject payload None ''o1'' h)" for payload
    by (simp add: clock_expiration_def)
  show ?thesis
    using due_order_attempt [where S = connected, OF documented_queue_keeps documented_queue_offers clock_expiration_range
        clock_expiration_forward assms(1,3) _ _ _ assms(2)] publishes
    by (auto simp: connected_def)
qed

theorem due_order_completes_witness:
  "\<exists>l q h l' q' h' s'. service_runs documented_queue clock_expiration (l, q, h) \<and>
     service_step documented_queue clock_expiration (l, q, h) (l', q', h') \<and>
     book_of clock_expiration l' ''o1'' = Some s' \<and> os_completed s' = [date_now clock_expiration h]"
proof -
  from clock_announced obtain l q h where run: "service_runs documented_queue clock_expiration (l, q, h)"
    "1700000900000 \<le> date_now clock_expiration h"
    "book_of clock_expiration l ''o1'' = Some \<lparr>os_due = Some 1700000900000, os_failed = 0, os_last = 0, os_completed = []\<rparr>"
    by blast
  have publishes: "result_ok (js_publish clock_expiration expirationCompleteSubject payload None ''o1'' h)" for payload
    by (simp add: clock_expiration_def)
  have "\<exists>l' q' h' s'. service_step documented_queue clock_expiration (l, q, h) (l', q', h') \<and>
      book_of clock_expiration l' ''o1'' = Some s' \<and> os_completed s' = [date_now clock_expiration h]"
    using due_order_completes [where S = connected, OF documented_queue_keeps documented_queue_offers clock_expiration_range
        clock_expiration_forward run(1,3) _ _ _ run(2)] publishes
    by (auto simp: connected_def)
  with run(1) show ?thesis by blast
qed

theorem service_implements_book_witness:
  "\<exists>l q h l' q' h'. service_step documented_queue clock_expiration (l, q, h) (l', q', h') \<and>
     book_step (book_of clock_expiration l) (book_of clock_expiration l') \<and>
     pred_option order_ok (book_of clock_expiration l' ''o1'')"
proof -
  from clock_announced obtain l q h where run: "service_runs documented_queue clock_expiration (l, q, h)"
    "1700000900000 \<le> date_now clock_expiration h"
    "book_of clock_expiration l ''o1'' = Some \<lparr>os_due = Some 1700000900000, os_failed = 0, os_last = 0, os_completed = []\<rparr>"
    by blast
  from clock_attempt [OF this] obtain completions q' h' where step: "service_step documented_queue clock_expiration (l, q, h)
    (l @ [Attempted ''o1'' True completions (date_now clock_expiration h)], q', h')" by blast
  from service_implements_book [OF documented_queue_keeps clock_expiration_range run(1) step, of "''o1''"] step
  show ?thesis by (intro exI conjI) auto
qed

end
