(* ===== verification/Expiration_Recovery.thy ===== *)
theory Expiration_Recovery
  imports Expiration_Properties
begin

text \<open>
  Recovery in the expiration service: dead letters and their replay, the completion job and the
  streams it ensures.
\<close>

section \<open>What header operations leave behind\<close>

text \<open>
  The documented meaning of \<open>append\<close> and \<open>set\<close>: the values of a key after the operations; and the
  values of a key in a received block.
\<close>

fun header_values :: "header_op list \<Rightarrow> string \<Rightarrow> string list \<Rightarrow> string list" where
  "header_values [] k acc = acc"
| "header_values (Append k' v # cs) k acc = header_values cs k (if k' = k then acc @ [v] else acc)"
| "header_values (SetHeader k' v # cs) k acc = header_values cs k (if k' = k then [v] else acc)"

definition entry_values :: "header_entries \<Rightarrow> string \<Rightarrow> string list" where
  "entry_values es k = concat (map snd (filter (\<lambda>e. fst e = k) es))"

lemma header_values_append: "header_values (xs @ ys) k acc = header_values ys k (header_values xs k acc)"
  by (induction xs k acc rule: header_values.induct) simp_all

lemma header_values_other: "k \<notin> op_key ` set cs \<Longrightarrow> header_values cs k acc = acc"
  by (induction cs k acc rule: header_values.induct) auto

lemma header_values_appends: "header_values (map (Append k') vs) k acc = (if k' = k then acc @ vs else acc)"
  by (induction vs arbitrary: acc) auto

lemma header_values_entries: "header_values (append_entries es) k acc = acc @ entry_values es k"
  by (induction es arbitrary: acc)
    (auto simp: append_entries_def entry_values_def header_values_append header_values_appends)

text \<open>
  What the stream stores of a published message: its subject and bytes, and under every key but the
  message id's the values the header operations left; each key once and with at least one value.
\<close>

definition stored_from :: "stored_message \<Rightarrow> string \<Rightarrow> bytes \<Rightarrow> header_op list \<Rightarrow> bool" where
  "stored_from m subject payload ops \<longleftrightarrow>
     sm_subject m = subject \<and> sm_data m = payload \<and> distinct (map fst (sm_header m)) \<and>
     (\<forall>k. toLowerCase k \<noteq> ''nats-msg-id'' \<longrightarrow> entry_values (sm_header m) k = header_values ops k [])"

lemma entry_values_map_of:
  "distinct (map fst es) \<Longrightarrow> entry_values es k = (case map_of es k of None \<Rightarrow> [] | Some vs \<Rightarrow> vs)"
proof (induction es)
  case (Cons e es)
  have "entry_values es k = []" if "k \<notin> fst ` set es"
    using that by (force simp: entry_values_def filter_empty_conv)
  with Cons show ?case by (cases e) (auto simp: entry_values_def split: option.split)
qed (simp add: entry_values_def)

lemma header_get_entry:
  "distinct (map fst es) \<Longrightarrow> header_get es k = (case entry_values es k of [] \<Rightarrow> [] | v # _ \<Rightarrow> v)"
  by (auto simp: header_get_def entry_values_map_of split: option.splits list.splits)

section \<open>Parking and replaying\<close>

lemma parking_keys: "k \<in> op_key ` set (parking_headers E d f e t) \<Longrightarrow> startsWith k deadLetterHeader"
  by (auto simp: parking_headers_def)

lemma dead_letter_values:
  "\<not> startsWith k deadLetterHeader \<Longrightarrow>
     header_values (dead_letter_ops E d f e h) k [] =
     entry_values (case dl_headers d of None \<Rightarrow> [] | Some es \<Rightarrow> es) k"
  using parking_keys [of k E d f e]
  by (auto simp: dead_letter_ops_def header_values_append cloneHeaders_def header_values_entries
      intro: header_values_other)

lemma dead_letter_subject:
  "header_values (dead_letter_ops E d f e h) (deadLetterHeader @ ''Original-Subject'') [] = [dl_subject d]"
  by (simp add: dead_letter_ops_def header_values_append parking_headers_def)

lemma without_dead_letter_values:
  "header_values (withoutDeadLetterHeaders es) k [] =
     (if startsWith k deadLetterHeader \<or> toLowerCase k = ''nats-msg-id'' then [] else entry_values es k)"
  by (auto simp: withoutDeadLetterHeaders_def header_values_entries entry_values_def filter_filter
      split_beta intro!: arg_cong [of _ _ concat] arg_cong [of _ _ "map snd"] filter_cong)

text \<open>The id of a dead letter ends with the sequence number after the last colon.\<close>

lemma dead_letter_id_eq_iff:
  "dead_letter_id d = dead_letter_id d' \<longleftrightarrow>
     dl_stream d = dl_stream d' \<and> dl_streamSequence d = dl_streamSequence d'"
proof
  assume "dead_letter_id d = dead_letter_id d'"
  then have eq: "dl_stream d @ CHR '':'' # show_nat (dl_streamSequence d) =
      dl_stream d' @ CHR '':'' # show_nat (dl_streamSequence d')"
    by (simp add: dead_letter_id_def)
  have no: "CHR '':'' \<notin> set (show_nat n)" for n
    by (rule show_nat_no_char) (simp add: is_digit_def)
  have tail: "takeWhile (\<lambda>c. c \<noteq> CHR '':'') (rev (s @ CHR '':'' # show_nat n)) = rev (show_nat n)" for s n
    using no [of n] by (auto simp: takeWhile_append takeWhile_eq_all_conv)
  have "rev (show_nat (dl_streamSequence d)) = rev (show_nat (dl_streamSequence d'))"
    using tail [of "dl_stream d"] tail [of "dl_stream d'"] eq by metis
  then have "dl_streamSequence d = dl_streamSequence d'" by simp
  with eq show "dl_stream d = dl_stream d' \<and> dl_streamSequence d = dl_streamSequence d'" by simp
qed (simp add: dead_letter_id_def)

text \<open>
  C13: Replaying a parked event undoes the parking: the dead letter that the stream stored for a
  delivery is published again on the orders subject with the delivery's own bytes, with every header of the
  delivery and none of the parking headers, under a message id of its own so that it is not
  taken for a duplicate.
\<close>

theorem replay_restores_parked:
  assumes subject: "dl_subject d = orderCreatedSubject"
    and parked: "parkOrderCreated E S d f e h = (Inr (), h @ [Publish subject payload (Some parked) mid])"
    and kept: "stored_from m subject payload parked"
    and found: "get_message E' sequence h' = Inr (Some m)"
    and accepted: "\<And>c. refuse_header E' c = None"
  shows "\<exists>ops. replayExpirationDeadLetter E' connected sequence h' =
      (js_publish E' orderCreatedSubject (dl_data d) (Some ops) (''expiration-dlq-replay-v1:'' @ show_nat sequence)
         (h' @ [GetMessage expirationDeadLetterStream sequence]),
       h' @ [GetMessage expirationDeadLetterStream sequence,
             Publish orderCreatedSubject (dl_data d) (Some ops)
               (''expiration-dlq-replay-v1:'' @ show_nat sequence)]) \<and>
    (\<forall>k. header_values ops k [] =
       (if startsWith k deadLetterHeader \<or> toLowerCase k = ''nats-msg-id'' then []
        else entry_values (case dl_headers d of None \<Rightarrow> [] | Some es \<Rightarrow> es) k))"
proof -
  let ?ops = "withoutDeadLetterHeaders (sm_header m)"
  from parkOrderCreated_Inr [OF parked] kept
  have stored: "stored_from m orderCreatedDeadLetterSubject (dl_data d) (dead_letter_ops E d f e h)" by simp
  then have m: "sm_subject m = orderCreatedDeadLetterSubject" "sm_data m = dl_data d"
    "distinct (map fst (sm_header m))"
    and vals: "\<And>k. toLowerCase k \<noteq> ''nats-msg-id'' \<Longrightarrow>
      entry_values (sm_header m) k = header_values (dead_letter_ops E d f e h) k []"
    by (auto simp: stored_from_def)
  have "toLowerCase (deadLetterHeader @ ''Original-Subject'') \<noteq> ''nats-msg-id''" by code_simp
  with vals have "entry_values (sm_header m) (deadLetterHeader @ ''Original-Subject'') = [orderCreatedSubject]"
    by (simp add: dead_letter_subject subject)
  with header_get_entry [OF m(3)] have
    get: "header_get (sm_header m) (deadLetterHeader @ ''Original-Subject'') = orderCreatedSubject" by simp
  have ops: "run_header_ops E' ?ops = Inr ?ops" by (rule run_header_ops_accepted) (simp add: accepted)
  have "replayExpirationDeadLetter E' connected sequence h' =
      (js_publish E' orderCreatedSubject (dl_data d) (Some ?ops) (''expiration-dlq-replay-v1:'' @ show_nat sequence)
         (h' @ [GetMessage expirationDeadLetterStream sequence]),
       h' @ [GetMessage expirationDeadLetterStream sequence,
             Publish orderCreatedSubject (dl_data d) (Some ?ops)
               (''expiration-dlq-replay-v1:'' @ show_nat sequence)])"
    using found m get ops
    by (simp add: replayExpirationDeadLetter_def requireManager_def requireClient_def connected_def
        io_bind_def [of "io_call _ _"] io_call_def Let_def)
  moreover have "header_values ?ops k [] =
      (if startsWith k deadLetterHeader \<or> toLowerCase k = ''nats-msg-id'' then []
       else entry_values (case dl_headers d of None \<Rightarrow> [] | Some es \<Rightarrow> es) k)" for k
    by (simp add: without_dead_letter_values vals dead_letter_values)
  ultimately show ?thesis by blast
qed

text \<open>A stream that stores what it is sent.\<close>

definition store :: "string \<Rightarrow> bytes \<Rightarrow> header_op list \<Rightarrow> stored_message" where
  "store subject payload ops =
     \<lparr>sm_subject = subject, sm_header = map (\<lambda>k. (k, header_values ops k [])) (remdups (map op_key ops)),
      sm_data = payload\<rparr>"

lemma stored_from_store: "stored_from (store subject payload ops) subject payload ops"
proof -
  have d: "distinct (map fst (sm_header (store subject payload ops)))"
    by (simp add: store_def comp_def)
  have "entry_values (sm_header (store subject payload ops)) k = header_values ops k []" for k
    using header_values_other [of k ops "[]"]
    by (auto simp: entry_values_map_of [OF d]) (auto simp: store_def map_of_map_keys)
  with d show ?thesis by (simp add: stored_from_def) (simp add: store_def)
qed

theorem replay_restores_parked_witness:
  "\<exists>ops. snd (replayExpirationDeadLetter
      (sample_expiration\<lparr>get_message := \<lambda>_ _. Inr (Some (store orderCreatedDeadLetterSubject [1]
         (dead_letter_ops sample_expiration sample_delivery ''retryable'' newInvalidOrderCreatedEvent [])))\<rparr>)
      connected 3 []) =
     [GetMessage expirationDeadLetterStream 3,
      Publish orderCreatedSubject [1] (Some ops) ''expiration-dlq-replay-v1:3''] \<and>
     header_values ops ''traceparent'' [] = [''00-1'']"
proof -
  let ?ops = "dead_letter_ops sample_expiration sample_delivery ''retryable'' newInvalidOrderCreatedEvent []"
  let ?E = "sample_expiration\<lparr>get_message := \<lambda>_ _. Inr (Some (store orderCreatedDeadLetterSubject [1] ?ops))\<rparr>"
  have subj: "dl_subject sample_delivery = orderCreatedSubject" and data: "dl_data sample_delivery = [1]"
    by (simp_all add: sample_delivery_def orderCreatedSubject_def)
  have key: "\<not> startsWith ''traceparent'' deadLetterHeader" "toLowerCase ''traceparent'' \<noteq> ''nats-msg-id''"
    by code_simp+
  have seq: "show_nat 3 = ''3''" by code_simp
  have "parkOrderCreated sample_expiration connected sample_delivery ''retryable'' newInvalidOrderCreatedEvent [] =
      (Inr (), [] @ [Publish orderCreatedDeadLetterSubject [1] (Some ?ops) (dead_letter_id sample_delivery)])"
    by (simp add: parkOrderCreated_eq run_header_ops_accepted connected_def data)
  from replay_restores_parked [OF subj this stored_from_store, of ?E 3 "[]"] key seq data show ?thesis
    by (auto simp: entry_values_def sample_delivery_def)
qed

text \<open>
  A dead letter says where the event came from and why it was parked: each of the eight parking headers
  has exactly the one value parking gave it, and the reason holds no line break that could forge a header.
\<close>

theorem dead_letter_describes_failure:
  assumes "parkOrderCreated E S d fclass failure h = (Inr (), h @ [Publish subject payload (Some ops) mid])"
  shows "header_values ops (deadLetterHeader @ ''Original-Subject'') [] = [dl_subject d] \<and>
   header_values ops (deadLetterHeader @ ''Original-Stream'') [] = [dl_stream d] \<and>
   header_values ops (deadLetterHeader @ ''Original-Stream-Sequence'') [] = [show_nat (dl_streamSequence d)] \<and>
   header_values ops (deadLetterHeader @ ''Consumer'') [] = [orderCreatedDurableName] \<and>
   header_values ops (deadLetterHeader @ ''Delivery-Count'') [] = [show_nat (dl_deliveryCount d)] \<and>
   header_values ops (deadLetterHeader @ ''Failure-Class'') [] = [fclass] \<and>
   (\<exists>reason. header_values ops (deadLetterHeader @ ''Failure-Reason'') [] = [reason] \<and>
      length reason = length (failure_text E failure) \<and>
      list_all (\<lambda>c. of_char c \<noteq> (10 :: nat) \<and> of_char c \<noteq> (13 :: nat)) reason) \<and>
   (\<exists>time. toISOString (Some (date_now E h)) = Inr time \<and>
      header_values ops (deadLetterHeader @ ''Parked-At'') [] = [time])"
proof -
  from parkOrderCreated_Inr [OF assms] have ops: "ops = dead_letter_ops E d fclass failure h" by simp
  obtain time where time: "toISOString (Some (date_now E h)) = Inr time" using toISOString_Some by blast
  show ?thesis unfolding ops
    by (simp add: time dead_letter_ops_def header_values_append parking_headers_def sanitizeHeaderValue_def
        list_all_iff replace_newlines_free)
qed

lemma sample_parked:
  "parkOrderCreated sample_expiration connected sample_delivery fclass failure [] =
     (Inr (), [] @ [Publish orderCreatedDeadLetterSubject [1]
        (Some (dead_letter_ops sample_expiration sample_delivery fclass failure []))
        (dead_letter_id sample_delivery)])"
  by (simp add: parkOrderCreated_eq run_header_ops_accepted connected_def sample_delivery_def)

theorem dead_letter_describes_failure_witness:
  "header_values (dead_letter_ops sample_expiration sample_delivery ''invalid'' newInvalidOrderCreatedEvent [])
     (deadLetterHeader @ ''Failure-Class'') [] = [''invalid'']"
  using dead_letter_describes_failure [OF sample_parked [of "''invalid''" newInvalidOrderCreatedEvent]] by blast

text \<open>
  The message id of a dead letter identifies the event: two parkings publish under the same id exactly when
  they are of the same message of the same stream, so a second parking of one event is a duplicate the stream
  drops and two events never collide.
\<close>

theorem dead_letter_id_exact:
  assumes "parkOrderCreated E S d f e h = (Inr (), h @ [Publish s p ops mid])"
    and "parkOrderCreated E S d' f' e' h' = (Inr (), h' @ [Publish s' p' ops' mid'])"
  shows "mid = mid' \<longleftrightarrow> dl_stream d = dl_stream d' \<and> dl_streamSequence d = dl_streamSequence d'"
  using parkOrderCreated_Inr [OF assms(1)] parkOrderCreated_Inr [OF assms(2)] dead_letter_id_eq_iff by simp

theorem dead_letter_id_exact_witness:
  "dead_letter_id sample_delivery = dead_letter_id sample_delivery \<longleftrightarrow>
     dl_stream sample_delivery = dl_stream sample_delivery \<and>
     dl_streamSequence sample_delivery = dl_streamSequence sample_delivery"
  by (rule dead_letter_id_exact [OF sample_parked sample_parked])

section \<open>Completing an order\<close>

text \<open>
  C38: A due job publishes the completion of its order exactly once per attempt, under the order's id as
  message id (so a retry after a lost answer is dropped as a duplicate), is observed exactly once, and fails
  exactly when publishing failed, with the same error, so BullMQ retries it.
\<close>

theorem process_publishes_completion:
  assumes "job_name j = expirationJobName" and "js_client S" and "has_metrics E"
  shows "\<exists>payload.
    payload = encode_complete E \<lparr>ec_eventId = jd_orderId (job_data j), ec_occurredAt = Some (timestampNow E h),
      ec_orderId = jd_orderId (job_data j)\<rparr> \<and>
    (case js_publish E expirationCompleteSubject payload None (jd_orderId (job_data j)) h of
       Inl e \<Rightarrow> fst (process E S j h) = Inl e
     | Inr _ \<Rightarrow> fst (process E S j h) = Inr ()) \<and>
    (\<exists>duration. snd (process E S j h) = h @
       [Publish expirationCompleteSubject payload None (jd_orderId (job_data j)),
        Observe ''bullmq_processor'' ''expiration_complete''
          (if result_ok (js_publish E expirationCompleteSubject payload None (jd_orderId (job_data j)) h)
           then ''success'' else ''retry'') duration])"
  using assms
  by (auto simp: process_def publishExpirationComplete_def publish_def requireClient_def processor_observe_def
      observe_call_def io_simps split: sum.split)

theorem process_publishes_completion_witness:
  "fst (process sample_expiration connected \<lparr>job_name = ''expiration-complete'', job_data = \<lparr>jd_orderId = ''o1''\<rparr>\<rparr> []) =
     Inr ()"
proof -
  have "has_metrics sample_expiration" by (simp add: sample_expiration_def)
  from process_publishes_completion [OF _ _ this,
      of "\<lparr>job_name = ''expiration-complete'', job_data = \<lparr>jd_orderId = ''o1''\<rparr>\<rparr>" connected "[]"]
  show ?thesis by (simp add: expirationJobName_def connected_def)
qed

section \<open>Streams\<close>

text \<open>
  A server that keeps streams as JetStream documents it: the streams after a history of calls, and its
  answers by them. JetStream refuses a stream one of whose subjects another stream has; on this server no other stream claims
  the subjects that are added.
\<close>

fun apply_stream_call :: "(string \<Rightarrow> stream_config option) \<Rightarrow> expiration_call \<Rightarrow> string \<Rightarrow> stream_config option" where
  "apply_stream_call streams (StreamAdd c) = streams(sc_name c \<mapsto> c)"
| "apply_stream_call streams (StreamUpdate n c) = streams(n \<mapsto> c)"
| "apply_stream_call streams _ = streams"

definition streams_at :: "(string \<Rightarrow> stream_config option) \<Rightarrow> expiration_call list \<Rightarrow> string \<Rightarrow> stream_config option" where
  "streams_at init h = foldl apply_stream_call init h"

definition serves_streams :: "expiration_env \<Rightarrow> (string \<Rightarrow> stream_config option) \<Rightarrow> bool" where
  "serves_streams E init \<longleftrightarrow>
     (\<forall>h n. stream_info E n h =
        (case streams_at init h n of
           Some c \<Rightarrow> Inr c
         | None \<Rightarrow> Inl (ErrorObject JetStreamApiError [(''code'', JNum (StreamNotFound E))]))) \<and>
     (\<forall>h c. streams_at init h (sc_name c) = None \<longrightarrow> stream_add E c h = Inr ()) \<and>
     (\<forall>h n c. stream_update E n c h = Inr ())"

lemma streams_at_snoc [simp]: "streams_at init (h @ [c]) = apply_stream_call (streams_at init h) c"
  by (simp add: streams_at_def)

lemma ensure_dead_letter_calls:
  assumes "serves_streams E init"
  shows "ensureExpirationDeadLetterStream E connected h =
    (Inr (), h @ [StreamInfo expirationDeadLetterStream] @
      (case streams_at init h expirationDeadLetterStream of
         None \<Rightarrow> [StreamAdd dead_letter_stream_config]
       | Some c \<Rightarrow>
           if orderCreatedDeadLetterSubject \<in> set (sc_subjects c) then []
           else [StreamUpdate expirationDeadLetterStream
                   (c\<lparr>sc_subjects := sc_subjects c @ [orderCreatedDeadLetterSubject]\<rparr>)]))"
proof (cases "streams_at init h expirationDeadLetterStream")
  case None
  have name: "sc_name dead_letter_stream_config = expirationDeadLetterStream"
    by (simp add: dead_letter_stream_config_def)
  have "streams_at init (h @ [StreamInfo expirationDeadLetterStream]) (sc_name dead_letter_stream_config) = None"
    by (simp add: name None)
  then have "stream_add E dead_letter_stream_config (h @ [StreamInfo expirationDeadLetterStream]) = Inr ()"
    using assms unfolding serves_streams_def by blast
  with None assms show ?thesis
    by (simp add: serves_streams_def ensureExpirationDeadLetterStream_def requireManager_def connected_def
        info_call_def add_or_exists_def add_call_def isStreamNotFound_def io_simps)
next
  case (Some c)
  with assms show ?thesis
    by (simp add: serves_streams_def ensureExpirationDeadLetterStream_def requireManager_def connected_def
        info_call_def io_simps Let_def)
qed

definition ensured :: "stream_config option \<Rightarrow> stream_config" where
  "ensured found =
     (case found of
        None \<Rightarrow> dead_letter_stream_config
      | Some c \<Rightarrow>
          if orderCreatedDeadLetterSubject \<in> set (sc_subjects c) then c
          else c\<lparr>sc_subjects := sc_subjects c @ [orderCreatedDeadLetterSubject]\<rparr>)"

lemma ensured_subject: "orderCreatedDeadLetterSubject \<in> set (sc_subjects (ensured found))"
  by (simp add: ensured_def dead_letter_stream_config_def split: option.split)

lemma ensured_keeps:
  "set (sc_subjects c) \<subseteq> set (sc_subjects (ensured (Some c)))"
  "ensured (Some c) = c\<lparr>sc_subjects := sc_subjects (ensured (Some c))\<rparr>"
  by (auto simp: ensured_def)

lemma streams_after_ensure:
  assumes "serves_streams E init"
  shows "streams_at init (snd (ensureExpirationDeadLetterStream E connected h)) =
    (streams_at init h)(expirationDeadLetterStream \<mapsto> ensured (streams_at init h expirationDeadLetterStream))"
proof -
  have two: "streams_at init (h @ [a, b]) = apply_stream_call (apply_stream_call (streams_at init h) a) b" for a b
    by (simp add: streams_at_def)
  have name: "sc_name dead_letter_stream_config = expirationDeadLetterStream"
    by (simp add: dead_letter_stream_config_def)
  show ?thesis
  proof (cases "streams_at init h expirationDeadLetterStream")
    case (Some c)
    then show ?thesis
      by (cases "orderCreatedDeadLetterSubject \<in> set (sc_subjects c)")
        (simp_all add: ensure_dead_letter_calls [OF assms] two ensured_def fun_upd_idem)
  qed (simp add: ensure_dead_letter_calls [OF assms] two name ensured_def)
qed

text \<open>
  C33: Ensuring the dead-letter stream, on a server that keeps streams as documented, always succeeds; it
  leaves a stream that holds the dead-letter subject, every subject it had before and the rest of its
  configuration, and no other stream changed. Doing it again changes nothing.
\<close>

theorem ensure_dead_letter_stream:
  assumes "serves_streams E init"
  shows "let (r, h') = ensureExpirationDeadLetterStream E connected h;
      before = streams_at init h; after = streams_at init h'
    in r = Inr () \<and>
       (\<exists>c. after expirationDeadLetterStream = Some c \<and> orderCreatedDeadLetterSubject \<in> set (sc_subjects c) \<and>
          (\<forall>c0. before expirationDeadLetterStream = Some c0 \<longrightarrow>
             set (sc_subjects c0) \<subseteq> set (sc_subjects c) \<and> c = c0\<lparr>sc_subjects := sc_subjects c\<rparr>)) \<and>
       (\<forall>n. n \<noteq> expirationDeadLetterStream \<longrightarrow> after n = before n) \<and>
       ensureExpirationDeadLetterStream E connected h' =
         (Inr (), h' @ [StreamInfo expirationDeadLetterStream])"
proof -
  define h' where "h' = snd (ensureExpirationDeadLetterStream E connected h)"
  have after: "streams_at init h' = (streams_at init h)(expirationDeadLetterStream \<mapsto>
      ensured (streams_at init h expirationDeadLetterStream))"
    unfolding h'_def by (rule streams_after_ensure [OF assms])
  have "ensureExpirationDeadLetterStream E connected h' = (Inr (), h' @ [StreamInfo expirationDeadLetterStream])"
    using after ensured_subject by (simp add: ensure_dead_letter_calls [OF assms])
  moreover have "ensureExpirationDeadLetterStream E connected h = (Inr (), h')"
    by (simp add: h'_def ensure_dead_letter_calls [OF assms])
  ultimately show ?thesis
    using after ensured_subject ensured_keeps by (simp add: Let_def)
qed

definition sample_streams :: "string \<Rightarrow> stream_config option" where
  "sample_streams = [expirationDeadLetterStream \<mapsto>
     \<lparr>sc_name = expirationDeadLetterStream, sc_subjects = [''dlq.other''], sc_retention = ''limits'',
      sc_storage = ''file'', sc_duplicate_window = None, sc_max_age = None\<rparr>]"

definition sample_server :: expiration_env where
  "sample_server = sample_expiration
     \<lparr>stream_info := (\<lambda>n h. case streams_at sample_streams h n of
         Some c \<Rightarrow> Inr c
       | None \<Rightarrow> Inl (ErrorObject JetStreamApiError [(''code'', JNum (num 10059))]))\<rparr>"

lemma sample_serves: "serves_streams sample_server sample_streams"
  by (simp add: serves_streams_def sample_server_def)
    (simp add: sample_expiration_def split: option.split)

theorem ensure_dead_letter_stream_witness:
  "\<exists>c. streams_at sample_streams (snd (ensureExpirationDeadLetterStream sample_server connected []))
      expirationDeadLetterStream = Some c \<and>
    orderCreatedDeadLetterSubject \<in> set (sc_subjects c) \<and> ''dlq.other'' \<in> set (sc_subjects c)"
proof -
  have "streams_at sample_streams [] expirationDeadLetterStream =
      Some \<lparr>sc_name = expirationDeadLetterStream, sc_subjects = [''dlq.other''], sc_retention = ''limits'',
        sc_storage = ''file'', sc_duplicate_window = None, sc_max_age = None\<rparr>"
    by (simp add: streams_at_def sample_streams_def)
  with ensure_dead_letter_stream [OF sample_serves, of "[]"] show ?thesis
    by (fastforce simp: Let_def split_beta)
qed

end
