(* ===== verification/Expiration_Loops.thy ===== *)
theory Expiration_Loops
  imports Expiration_Recovery
begin

text \<open>
  The loops of the expiration service: the connection loop ends once NATS is back, the consumer's loop opens no other
  subscription after a shutdown. Then the sequence number of the replay command.
\<close>

section \<open>Counting\<close>

definition count_calls :: "(expiration_call \<Rightarrow> bool) \<Rightarrow> expiration_call list \<Rightarrow> nat" where
  "count_calls P h = length (filter P h)"

lemma count_calls_append [simp]: "count_calls P (h @ t) = count_calls P h + count_calls P t"
  by (simp add: count_calls_def)

lemma count_calls_mono: "io_emits Q m \<Longrightarrow> m h = (r, h') \<Longrightarrow> count_calls P h \<le> count_calls P h'"
  using io_emitsD [of Q m h] by (auto simp: count_calls_def)

fun is_wait :: "expiration_call \<Rightarrow> bool" where
  "is_wait (RetryWait _) = True"
| "is_wait _ = False"

fun is_round :: "expiration_call \<Rightarrow> bool" where
  "is_round (ConsumerInfo _ _) = True"
| "is_round _ = False"

section \<open>Connecting\<close>

text \<open>
  NATS is back after \<open>N\<close> waits: from then on it accepts connections and has both streams. Closing a
  connection does not fail.
\<close>

definition recovers_after :: "expiration_env \<Rightarrow> nat \<Rightarrow> bool" where
  "recovers_after E N \<longleftrightarrow>
     (\<forall>h. nats_close E h = Inr ()) \<and>
     (\<forall>h. N \<le> count_calls is_wait h \<longrightarrow>
        nats_connect E h = Inr () \<and> nats_manager E h = Inr () \<and>
        (\<exists>c. stream_info E expirationEventsStream h = Inr c) \<and>
        (\<exists>c. stream_info E expirationDeadLetterStream h = Inr c \<and>
             orderCreatedDeadLetterSubject \<in> set (sc_subjects c)))"

lemma set_up_emits: "io_emits (\<lambda>_. True) (set_up E)"
  unfolding set_up_def ensureExpirationEventStream_def ensureExpirationDeadLetterStream_def
    requireManager_def add_or_exists_def add_call_def info_call_def Let_def
  by (auto intro!: io_rules split: sum.split)

lemma set_up_recovered:
  assumes "recovers_after E N" and "N \<le> count_calls is_wait h"
  shows "\<exists>h'. set_up E h = (Inr (), h')"
proof -
  have up: "nats_manager E h' = Inr () \<and>
      (\<exists>c. stream_info E expirationEventsStream h' = Inr c) \<and>
      (\<exists>c. stream_info E expirationDeadLetterStream h' = Inr c \<and>
           orderCreatedDeadLetterSubject \<in> set (sc_subjects c))" if "h' = h @ t" for h' t
    using assms that by (simp add: recovers_after_def)
  from up [of h "[]"] up [of "h @ [NatsManager]" "[NatsManager]"]
    up [of "h @ [NatsManager, StreamInfo expirationEventsStream]" "[NatsManager, StreamInfo expirationEventsStream]"]
  show ?thesis
    by (auto simp: set_up_def ensureExpirationEventStream_def ensureExpirationDeadLetterStream_def
        requireManager_def connected_def info_call_def io_simps)
qed

text \<open>One round of the loop: it is connected, or it waited and goes on with one round less.\<close>

lemma onModuleInit_round:
  assumes "\<And>h. nats_close E h = Inr ()"
  shows "(\<exists>h'. onModuleInit E (Suc n) h = (Inr (Some connected), h')) \<or>
    (\<exists>h'. count_calls is_wait h < count_calls is_wait h' \<and> onModuleInit E (Suc n) h = onModuleInit E n h')"
proof -
  define servers where
    "servers = (case ex_process_env E ''NATS_URL'' of None \<Rightarrow> ''nats://localhost:4222'' | Some u \<Rightarrow> u)"
  let ?h = "h @ [NatsConnect servers 5000]"
  let ?w = "[RetryWait natsRetryMilliseconds]"
  have w: "count_calls is_wait ?w = 1" by (simp add: count_calls_def)
  show ?thesis
  proof (cases "nats_connect E h")
    case (Inl e)
    then have "onModuleInit E (Suc n) h = onModuleInit E n (?h @ ?w)"
      by (simp add: io_simps waitForNatsRetry_def flip: servers_def)
    moreover have "count_calls is_wait h < count_calls is_wait (?h @ ?w)" unfolding count_calls_append w by simp
    ultimately show ?thesis by blast
  next
    case (Inr u)
    obtain r h1 where up: "set_up E ?h = (r, h1)" by (cases "set_up E ?h")
    show ?thesis
    proof (cases r)
      case (Inr v)
      with \<open>nats_connect E h = Inr u\<close> up have "onModuleInit E (Suc n) h = (Inr (Some connected), h1)"
        by (simp add: io_simps flip: servers_def)
      then show ?thesis by blast
    next
      case (Inl e)
      with \<open>nats_connect E h = Inr u\<close> up assms
      have "onModuleInit E (Suc n) h = onModuleInit E n ((h1 @ [NatsClose]) @ ?w)"
        by (simp add: io_simps waitForNatsRetry_def flip: servers_def)
      moreover have "count_calls is_wait h < count_calls is_wait ((h1 @ [NatsClose]) @ ?w)"
        using count_calls_mono [OF set_up_emits up, of is_wait] unfolding count_calls_append w by simp
      ultimately show ?thesis by blast
    qed
  qed
qed

lemma onModuleInit_recovered:
  assumes "recovers_after E N" and "N \<le> count_calls is_wait h"
  shows "\<exists>h'. onModuleInit E (Suc n) h = (Inr (Some connected), h')"
proof -
  define servers where
    "servers = (case ex_process_env E ''NATS_URL'' of None \<Rightarrow> ''nats://localhost:4222'' | Some u \<Rightarrow> u)"
  have "N \<le> count_calls is_wait (h @ [NatsConnect servers 5000])" using assms(2) by simp
  from set_up_recovered [OF assms(1) this] obtain h1 where
    "set_up E (h @ [NatsConnect servers 5000]) = (Inr (), h1)" by blast
  moreover from assms have "nats_connect E h = Inr ()" by (simp add: recovers_after_def)
  ultimately show ?thesis by (simp add: io_simps flip: servers_def)
qed

lemma connects_with_fuel:
  assumes "recovers_after E N"
  shows "0 < rounds \<Longrightarrow> N < count_calls is_wait h + rounds \<Longrightarrow>
    \<exists>h'. onModuleInit E rounds h = (Inr (Some connected), h')"
proof (induction rounds arbitrary: h)
  case (Suc n)
  show ?case
  proof (cases "N \<le> count_calls is_wait h")
    case True
    then show ?thesis by (rule onModuleInit_recovered [OF assms])
  next
    case False
    from assms have close: "\<And>h. nats_close E h = Inr ()" by (simp add: recovers_after_def)
    from onModuleInit_round [OF close, of n h] show ?thesis
    proof
      assume "\<exists>h'. count_calls is_wait h < count_calls is_wait h' \<and> onModuleInit E (Suc n) h = onModuleInit E n h'"
      then obtain h' where h': "count_calls is_wait h < count_calls is_wait h'"
        "onModuleInit E (Suc n) h = onModuleInit E n h'" by blast
      with Suc.prems False have "0 < n" "N < count_calls is_wait h' + n" by linarith+
      from Suc.IH [OF this] h'(2) show ?thesis by simp
    qed
  qed
qed simp

text \<open>
  C32: The service waits for NATS as long as it must and no longer: if NATS is back after \<open>N\<close> waits, the loop
  ends, connected and with its streams ensured, within \<open>N + 1\<close> rounds.
\<close>

theorem connects_when_nats_is_back:
  assumes "recovers_after E N"
  shows "\<exists>h'. onModuleInit E (Suc N) [] = (Inr (Some connected), h')"
  by (rule connects_with_fuel [OF assms]) (simp_all add: count_calls_def)

theorem connects_when_nats_is_back_witness:
  "\<exists>h'. onModuleInit (sample_expiration\<lparr>nats_connect := \<lambda>h. if count_calls is_wait h < 2
       then Inl (new_error PlainError ''refused'') else Inr ()\<rparr>) 3 [] = (Inr (Some connected), h')"
proof -
  let ?E = "sample_expiration\<lparr>nats_connect := \<lambda>h. if count_calls is_wait h < 2
       then Inl (new_error PlainError ''refused'') else Inr ()\<rparr>"
  have "recovers_after ?E 2"
    by (simp add: recovers_after_def) (simp add: sample_expiration_def dead_letter_stream_config_def)
  from connects_when_nats_is_back [OF this] show ?thesis by (simp only: eval_nat_numeral)
qed

section \<open>Stopping\<close>

text \<open>One subscription of the consumer's loop, as \<open>consume\<close> runs it.\<close>

definition subscription ::
    "expiration_env \<Rightarrow> js_state \<Rightarrow> (expiration_call list \<Rightarrow> delivery list \<times> iteration_end) \<Rightarrow> bool expiration" where
  "subscription E S session =
     io_seq (orderCreatedConsumer E S)
       (io_seq (io_call Consume (consume_messages E))
          (io_bind (io_read session)
             (\<lambda>(messages, last).
                io_seq (for_messages E S messages)
                  (case last of NeverEnds \<Rightarrow> io_return True | Ends r \<Rightarrow> io_seq (io_of_result r) (io_return False)))))"

lemma emits_any:
  "io_emits (\<lambda>_. True) (orderCreatedConsumer E S)" "io_emits (\<lambda>_. True) (handleDelivery E S d)"
  "io_emits (\<lambda>_. True) (for_messages E S ds)" "io_emits (\<lambda>_. True) (subscription E S session)"
proof -
  show c: "io_emits (\<lambda>_. True) (orderCreatedConsumer E S)"
    unfolding orderCreatedConsumer_def requireManager_def requireClient_def by (intro io_rules) simp_all
  have o: "io_emits (\<lambda>_. True) (consumer_observe E r s)" for r s
    unfolding consumer_observe_def observe_call_def by (intro io_rules) simp
  have p: "io_emits (\<lambda>_. True) (parkOrderCreated E S d f e)" "io_emits (\<lambda>_. True) (handle E x)" for d f e x
    by (rule io_emits_mono [OF parkOrderCreated_emits], simp) (rule io_emits_mono [OF handle_emits], simp)
  have d: "io_emits (\<lambda>_. True) (handleDelivery E S d)" for d
    unfolding handleDelivery_def handleDelivery_with_def park_def Let_def ack_def nak_def
    by (auto intro!: io_rules o p split: sum.split)
  then show "io_emits (\<lambda>_. True) (handleDelivery E S d)" .
  have f: "io_emits (\<lambda>_. True) (for_messages E S ds)" for ds
    by (induction ds) (auto intro!: io_rules d)
  then show "io_emits (\<lambda>_. True) (for_messages E S ds)" .
  show "io_emits (\<lambda>_. True) (subscription E S session)"
    unfolding subscription_def by (auto intro!: io_rules c f split: iteration_end.split)
qed

lemma subscription_round:
  assumes "subscription E connected session h = (r, h')"
  shows "count_calls is_round h < count_calls is_round h'"
proof -
  let ?c = "ConsumerInfo ordersEventsStream orderCreatedDurableName"
  define rest where "rest = (\<lambda>a. io_seq
      (io_catch (io_of_result a)
         (\<lambda>error. if \<not> isConsumerNotFound E error then io_throw error
            else io_call (ConsumerAdd ordersEventsStream order_created_consumer_config) (consumer_add E)))
      (io_seq (io_call (ConsumerGet ordersEventsStream orderCreatedDurableName) (consumer_get E))
        (io_seq (io_call Consume (consume_messages E))
          (io_bind (io_read session)
            (\<lambda>(messages, last). io_seq (for_messages E connected messages)
               (case last of NeverEnds \<Rightarrow> io_return True | Ends r \<Rightarrow> io_seq (io_of_result r) (io_return False)))))))"
  have "subscription E connected session h = rest (consumer_info E h) (h @ [?c])"
    by (simp add: subscription_def orderCreatedConsumer_def requireManager_def requireClient_def connected_def
        rest_def io_simps split: sum.split)
  moreover have "io_emits (\<lambda>_. True) (rest a)" for a
    unfolding rest_def by (auto intro!: io_rules emits_any split: iteration_end.split)
  ultimately have "count_calls is_round (h @ [?c]) \<le> count_calls is_round h'"
    using assms count_calls_mono by metis
  then show ?thesis by (simp add: count_calls_def)
qed

lemma consume_eq:
  "consume E S stopping session (Suc n) h =
     (if stopping h then (Inr LoopEnded, h)
      else case subscription E S session h of
             (Inr waits, h') \<Rightarrow> if waits then (Inr LoopWaits, h') else consume E S stopping session n h'
           | (Inl _, h') \<Rightarrow>
               consume E S stopping session n
                 (if stopping h' then h' else h' @ [RetryWait natsRetryMilliseconds]))"
  by (simp add: subscription_def [symmetric] io_bind_def [of "io_read _"] io_bind_def [of "io_attempt _"]
      io_read_def io_attempt_def io_when_def io_return_def waitForNatsRetry_def io_bind_def [of "io_call _ _"]
      io_call_def split: prod.split sum.split)

lemma consume_stops_with_fuel:
  assumes "\<And>h. N \<le> count_calls is_round h \<Longrightarrow> stopping h"
  shows "N < count_calls is_round h + rounds \<Longrightarrow> 0 < rounds \<Longrightarrow>
    \<exists>h'. consume E connected stopping session rounds h = (Inr LoopWaits, h') \<or>
      consume E connected stopping session rounds h = (Inr LoopEnded, h') \<and> stopping h'"
proof (induction rounds arbitrary: h)
  case (Suc n)
  show ?case
  proof (cases "stopping h")
    case True
    then show ?thesis by (simp add: consume_eq del: consume.simps)
  next
    case False
    with assms have lt: "count_calls is_round h < N" by (meson not_less)
    obtain r h1 where sub: "subscription E connected session h = (r, h1)"
      by (cases "subscription E connected session h")
    define h2 where "h2 = (case r of Inr _ \<Rightarrow> h1
      | Inl _ \<Rightarrow> if stopping h1 then h1 else h1 @ [RetryWait natsRetryMilliseconds])"
    have "count_calls is_round h1 \<le> count_calls is_round h2" by (simp add: h2_def split: sum.split)
    with subscription_round [OF sub] Suc.prems lt have "N < count_calls is_round h2 + n" "0 < n" by linarith+
    from Suc.IH [OF this] show ?thesis
      using False sub by (simp add: consume_eq h2_def del: consume.simps split: sum.splits if_splits)
  qed
qed simp

lemma subscription_waits:
  assumes "subscription E S session h = (Inr True, h')"
  shows "\<exists>h0. snd (session h0) = NeverEnds"
  using assms
  by (auto simp: subscription_def io_bind_def io_read_def io_return_def io_of_result_def io_throw_def
      split: prod.splits sum.splits iteration_end.splits) (metis snd_conv)+

lemma consume_waits:
  "consume E S stopping session rounds h = (Inr LoopWaits, h') \<Longrightarrow> \<exists>h0. snd (session h0) = NeverEnds"
proof (induction rounds arbitrary: h)
  case (Suc n)
  then show ?case
    by (auto simp: consume_eq simp del: consume.simps split: if_splits prod.splits sum.splits dest: subscription_waits)
qed (simp add: io_return_def)

text \<open>
  If shutdown is requested before the next subscription after \<open>N\<close> of them, the loop does not open another: within
  \<open>N + 1\<close> rounds it has ended without an error or waits in a subscription that does not end, and it has ended if every
  subscription ends. What ends the open one is the shutdown hook, and that the hook misses one that is just being opened is
  shown in Consumer_Shutdown.
\<close>

lemma consumer_stops_or_waits:
  assumes "\<And>h. N \<le> count_calls is_round h \<Longrightarrow> stopping h"
  shows "\<exists>r h'. consume E connected stopping session (Suc N) [] = (Inr r, h') \<and>
    (r = LoopEnded \<and> stopping h' \<or> r = LoopWaits \<and> (\<exists>h. snd (session h) = NeverEnds))"
  using consume_stops_with_fuel [of N stopping "[]" "Suc N" E session, OF assms]
    consume_waits [of E connected stopping session "Suc N" "[]"] by (auto simp del: consume.simps)

section \<open>The replay command\<close>

text \<open>
  C40: The replay command accepts the decimal text of every positive sequence number below 2^53, as that
  number, and only ever a positive number in that range.
\<close>

theorem requiredSequence_exact:
  "(0 < n \<and> n < 2 ^ 53 \<longrightarrow> requiredSequence [name \<mapsto> show_nat n] name = Inr n) \<and>
   (requiredSequence env name = Inr m \<longrightarrow> 0 < m \<and> m < 2 ^ 53)"
proof (intro conjI impI)
  assume n: "0 < n \<and> n < 2 ^ 53"
  then have "int n < 2 ^ 53" by simp
  from js_Number_show_nat [OF this] have num: "js_Number (show_nat n) = Fin (of_nat n)" .
  have "js_isSafeInteger (Fin (of_nat n))"
    using n by (simp add: js_isSafeInteger_def js_isInteger_def max_safe_integer_def)
  moreover have "\<not> js_less_eq (Fin (of_nat n)) (num 0)"
    using n by (simp add: js_less_eq_def js_num_eq_def)
  ultimately show "requiredSequence [name \<mapsto> show_nat n] name = Inr n"
    by (simp add: requiredSequence_def js_trim_show_nat num Let_def)
next
  assume "requiredSequence env name = Inr m"
  then obtain x where x: "js_isSafeInteger (Fin x)" "\<not> js_less_eq (Fin x) (num 0)" "m = nat \<lfloor>x\<rfloor>"
    by (auto simp: requiredSequence_def Let_def split: option.splits if_splits jsnum.splits)
  then have f: "of_int \<lfloor>x\<rfloor> = x" "\<bar>x\<bar> \<le> of_int max_safe_integer" "0 < x"
    by (auto simp: js_isSafeInteger_def js_isInteger_def js_less_eq_def js_num_eq_def)
  then have "0 < \<lfloor>x\<rfloor>" by (metis of_int_0_less_iff)
  moreover have "\<lfloor>x\<rfloor> \<le> max_safe_integer" using f by (metis abs_of_pos of_int_le_iff)
  ultimately have "0 < int m" "int m < 2 ^ 53"
    unfolding x(3) max_safe_integer_def by linarith+
  then show "0 < m" "m < 2 ^ 53" by simp_all
qed

theorem requiredSequence_exact_witness:
  "requiredSequence [''DLQ_SEQUENCE'' \<mapsto> ''42''] ''DLQ_SEQUENCE'' = Inr 42"
proof -
  have "show_nat 42 = ''42''" by code_simp
  with requiredSequence_exact [of 42 "''DLQ_SEQUENCE''"] show ?thesis by simp
qed

end
