(* ===== verification/Consumer_Shutdown.thy ===== *)
theory Consumer_Shutdown
  imports Expiration_Consumer
begin

text \<open>
  The consumer's loop and its shutdown hook interleaved (order-created.consumer.ts): \<open>consume\<close> runs from one
  \<open>await\<close> to the next, and \<open>onApplicationShutdown\<close> may run at any of them. The state has the three fields of
  the class, the point at which the loop waits, and the subscription as the NATS library documents it: an iterator takes
  messages into its buffer until it is stopped, and ends when it is stopped and its buffer is empty.
\<close>

section \<open>States\<close>

datatype consumer_pc =
    NotStarted | AwaitConsumer | AwaitMessages | AwaitNext | Handling | AwaitRetry | Returned

datatype shutdown_progress = Running | Awaiting | Finished

record consumer_run = consumer_state +
  cr_pc :: consumer_pc
  cr_open :: bool
  cr_buffered :: nat
  cr_shutdown :: shutdown_progress

definition initial_run :: consumer_run where
  "initial_run =
     \<lparr>cs_processing = False, cs_stopping = False, cs_stopMessages = False, cr_pc = NotStarted,
      cr_open = False, cr_buffered = 0, cr_shutdown = Running\<rparr>"

text \<open>The head of the \<open>while\<close> loop, the \<open>finally\<close> block before it, and the \<open>catch\<close> block.\<close>

definition loop_head :: "consumer_run \<Rightarrow> consumer_run" where
  "loop_head s = s\<lparr>cr_pc := if cs_stopping s then Returned else AwaitConsumer\<rparr>"

definition leave_try :: "consumer_run \<Rightarrow> consumer_run" where
  "leave_try s = loop_head (s\<lparr>cs_stopMessages := False, cr_open := False, cr_buffered := 0\<rparr>)"

definition catch_error :: "consumer_run \<Rightarrow> consumer_run" where
  "catch_error s =
     (if cs_stopping s then leave_try s
      else s\<lparr>cr_pc := AwaitRetry, cr_open := False, cr_buffered := 0\<rparr>)"

definition request_shutdown :: "consumer_run \<Rightarrow> consumer_run" where
  "request_shutdown s =
     s\<lparr>cs_stopping := True, cr_open := cr_open s \<and> \<not> cs_stopMessages s,
       cr_shutdown := if cs_processing s then Awaiting else Finished\<rparr>"

section \<open>Steps\<close>

datatype consumer_event =
    Bootstrapped | GotConsumer | GotMessages | Arrived | Delivered | Handled | IterationEnded | Failed | Retried
  | ShutdownRequested | ShutdownFinished

inductive consumer_step :: "consumer_run \<Rightarrow> consumer_event \<Rightarrow> consumer_run \<Rightarrow> bool" where
  bootstrap: "cr_pc s = NotStarted \<Longrightarrow>
    consumer_step s Bootstrapped (loop_head (s\<lparr>cs_processing := True\<rparr>))"
| consumer: "cr_pc s = AwaitConsumer \<Longrightarrow> consumer_step s GotConsumer (s\<lparr>cr_pc := AwaitMessages\<rparr>)"
| messages: "cr_pc s = AwaitMessages \<Longrightarrow>
    consumer_step s GotMessages (s\<lparr>cr_pc := AwaitNext, cs_stopMessages := True, cr_open := True, cr_buffered := 0\<rparr>)"
| arrival: "cr_open s \<Longrightarrow> consumer_step s Arrived (s\<lparr>cr_buffered := Suc (cr_buffered s)\<rparr>)"
| deliver: "cr_pc s = AwaitNext \<Longrightarrow> cr_buffered s = Suc n \<Longrightarrow>
    consumer_step s Delivered (s\<lparr>cr_pc := Handling, cr_buffered := n\<rparr>)"
| handled: "cr_pc s = Handling \<Longrightarrow> consumer_step s Handled (s\<lparr>cr_pc := AwaitNext\<rparr>)"
| ended: "cr_pc s = AwaitNext \<Longrightarrow> cr_buffered s = 0 \<Longrightarrow> \<not> cr_open s \<Longrightarrow>
    consumer_step s IterationEnded (leave_try s)"
| failed: "cr_pc s \<in> {AwaitConsumer, AwaitMessages, AwaitNext, Handling} \<Longrightarrow>
    consumer_step s Failed (catch_error s)"
| retried: "cr_pc s = AwaitRetry \<Longrightarrow> consumer_step s Retried (leave_try s)"
| shutdown: "cr_shutdown s = Running \<Longrightarrow> consumer_step s ShutdownRequested (request_shutdown s)"
| finished: "cr_shutdown s = Awaiting \<Longrightarrow> cr_pc s = Returned \<Longrightarrow>
    consumer_step s ShutdownFinished (s\<lparr>cr_shutdown := Finished\<rparr>)"

inductive consumer_trace :: "consumer_run \<Rightarrow> consumer_event list \<Rightarrow> consumer_run \<Rightarrow> bool" where
  nil: "consumer_trace s [] s"
| cons: "consumer_step s e t \<Longrightarrow> consumer_trace t es u \<Longrightarrow> consumer_trace s (e # es) u"

inductive_cases trace_consE: "consumer_trace s (e # es) u"
inductive_cases trace_nilE: "consumer_trace s [] u"

text \<open>The same steps as a function of the event, which runs a trace.\<close>

fun run_event :: "consumer_run \<Rightarrow> consumer_event \<Rightarrow> consumer_run option" where
  "run_event s Bootstrapped =
     (if cr_pc s = NotStarted then Some (loop_head (s\<lparr>cs_processing := True\<rparr>)) else None)"
| "run_event s GotConsumer = (if cr_pc s = AwaitConsumer then Some (s\<lparr>cr_pc := AwaitMessages\<rparr>) else None)"
| "run_event s GotMessages =
     (if cr_pc s = AwaitMessages
      then Some (s\<lparr>cr_pc := AwaitNext, cs_stopMessages := True, cr_open := True, cr_buffered := 0\<rparr>) else None)"
| "run_event s Arrived = (if cr_open s then Some (s\<lparr>cr_buffered := Suc (cr_buffered s)\<rparr>) else None)"
| "run_event s Delivered =
     (if cr_pc s = AwaitNext \<and> cr_buffered s \<noteq> 0
      then Some (s\<lparr>cr_pc := Handling, cr_buffered := cr_buffered s - 1\<rparr>) else None)"
| "run_event s Handled = (if cr_pc s = Handling then Some (s\<lparr>cr_pc := AwaitNext\<rparr>) else None)"
| "run_event s IterationEnded =
     (if cr_pc s = AwaitNext \<and> cr_buffered s = 0 \<and> \<not> cr_open s then Some (leave_try s) else None)"
| "run_event s Failed =
     (if cr_pc s \<in> {AwaitConsumer, AwaitMessages, AwaitNext, Handling} then Some (catch_error s) else None)"
| "run_event s Retried = (if cr_pc s = AwaitRetry then Some (leave_try s) else None)"
| "run_event s ShutdownRequested = (if cr_shutdown s = Running then Some (request_shutdown s) else None)"
| "run_event s ShutdownFinished =
     (if cr_shutdown s = Awaiting \<and> cr_pc s = Returned then Some (s\<lparr>cr_shutdown := Finished\<rparr>) else None)"

fun run_events :: "consumer_run \<Rightarrow> consumer_event list \<Rightarrow> consumer_run option" where
  "run_events s [] = Some s"
| "run_events s (e # es) = Option.bind (run_event s e) (\<lambda>t. run_events t es)"

lemma consumer_step_iff: "consumer_step s e t \<longleftrightarrow> run_event s e = Some t"
proof
  assume "consumer_step s e t"
  then show "run_event s e = Some t" by cases simp_all
next
  assume "run_event s e = Some t"
  then show "consumer_step s e t"
    using consumer_step.deliver [of s "cr_buffered s - 1"]
    by (cases e) (auto split: if_splits intro: consumer_step.intros)
qed

lemma consumer_trace_iff: "consumer_trace s es t \<longleftrightarrow> run_events s es = Some t"
proof (induction es arbitrary: s)
  case Nil
  show ?case by (auto elim: trace_nilE intro: consumer_trace.nil)
next
  case (Cons e es)
  show ?case
    by (auto simp: Cons [symmetric] consumer_step_iff bind_eq_Some_conv elim!: trace_consE
        intro: consumer_trace.cons)
qed

lemmas run_defs = loop_head_def leave_try_def catch_error_def request_shutdown_def

section \<open>The invariant\<close>

definition run_inv :: "consumer_run \<Rightarrow> bool" where
  "run_inv s \<longleftrightarrow>
     (cs_stopping s \<longleftrightarrow> cr_shutdown s \<noteq> Running) \<and>
     (cs_processing s \<longleftrightarrow> cr_pc s \<noteq> NotStarted) \<and>
     (cr_pc s \<in> {AwaitNext, Handling} \<longrightarrow> cs_stopMessages s) \<and>
     (cr_open s \<or> 0 < cr_buffered s \<longrightarrow> cr_pc s \<in> {AwaitNext, Handling}) \<and>
     (cs_stopMessages s \<longrightarrow> cr_pc s \<in> {AwaitNext, Handling, AwaitRetry}) \<and>
     (cr_pc s = Returned \<longrightarrow> cs_stopping s) \<and>
     (cr_shutdown s = Finished \<longrightarrow> cr_pc s \<in> {NotStarted, Returned})"

lemma run_inv_initial: "run_inv initial_run"
  by (simp add: run_inv_def initial_run_def)

lemma run_inv_step: "consumer_step s e t \<Longrightarrow> run_inv s \<Longrightarrow> run_inv t"
  by (cases rule: consumer_step.cases, assumption)
    (cases "cr_pc s"; cases "cr_shutdown s"; simp add: run_inv_def run_defs)+

lemma run_inv_trace: "consumer_trace s es t \<Longrightarrow> run_inv s \<Longrightarrow> run_inv t"
  by (induction rule: consumer_trace.induct) (auto intro: run_inv_step)

text \<open>
  C21: When shutdown is done the consumer is quiet: \<open>onApplicationShutdown\<close> finishes only after the loop has
  returned (or was never started), and from then on no delivery is taken and none is handled, however the
  loop and the hook were interleaved.
\<close>

theorem quiet_after_shutdown:
  assumes "consumer_trace initial_run es s" and "cr_shutdown s = Finished" and "consumer_trace s es' t"
  shows "cr_pc s \<in> {NotStarted, Returned} \<and> Delivered \<notin> set es' \<and> Handled \<notin> set es'"
proof -
  have inv: "run_inv s" using run_inv_trace [OF assms(1)] run_inv_initial by blast
  have "Delivered \<notin> set es' \<and> Handled \<notin> set es'" using assms(3,2) inv
  proof (induction rule: consumer_trace.induct)
    case (cons s e t es u)
    from cons.hyps(1) cons.prems have "cr_shutdown t = Finished \<and> e \<notin> {Delivered, Handled}"
      by cases (auto simp: run_inv_def run_defs)
    with cons.IH cons.hyps(1) cons.prems(2) show ?case by (auto dest: run_inv_step)
  qed simp
  with inv assms(2) show ?thesis by (simp add: run_inv_def)
qed

text \<open>The states of a shutdown that found the subscription, and the steps it still has to make.\<close>

definition winding_down :: "consumer_run \<Rightarrow> bool" where
  "winding_down s \<longleftrightarrow>
     cr_shutdown s \<noteq> Running \<and> cs_stopping s \<and> \<not> cr_open s \<and>
     cr_pc s \<in> {AwaitNext, Handling, AwaitRetry, Returned} \<and> (cr_shutdown s = Finished \<longrightarrow> cr_pc s = Returned)"

definition steps_left :: "consumer_run \<Rightarrow> nat" where
  "steps_left s =
     (if cr_shutdown s = Finished then 0
      else case cr_pc s of
             AwaitNext \<Rightarrow> 2 * cr_buffered s + 2 | Handling \<Rightarrow> 2 * cr_buffered s + 3 | AwaitRetry \<Rightarrow> 2 | _ \<Rightarrow> 1)"

lemma winding_down_step:
  "consumer_step s e t \<Longrightarrow> winding_down s \<Longrightarrow> winding_down t \<and> steps_left t < steps_left s"
  by (induction rule: consumer_step.induct) (auto simp: winding_down_def steps_left_def run_defs)

lemma winding_down_trace:
  "consumer_trace s es t \<Longrightarrow> winding_down s \<Longrightarrow> winding_down t \<and> length es + steps_left t \<le> steps_left s"
  by (induction rule: consumer_trace.induct) (auto dest!: winding_down_step)

lemma winding_down_progress:
  assumes "winding_down s" and "cr_shutdown s \<noteq> Finished"
  shows "\<exists>e t. e \<noteq> Failed \<and> consumer_step s e t"
proof (cases "cr_pc s")
  case AwaitNext
  with assms(1) show ?thesis
    by (cases "cr_buffered s") (auto simp: winding_down_def consumer_step_iff intro: exI [of _ IterationEnded] exI [of _ Delivered])
qed (use assms in \<open>cases "cr_shutdown s"; auto simp: winding_down_def
  intro: consumer_step.finished consumer_step.handled consumer_step.retried\<close>)+

text \<open>
  C22: A shutdown that finds the consumer subscribed, handling or waiting to reconnect ends: whatever happens
  after the request, at most \<open>2 b + 3\<close> steps are left, where \<open>b\<close> messages were buffered, and until it is
  finished there is a next step that is no failure.
\<close>

theorem shutdown_terminates:
  assumes "consumer_trace initial_run es s" and "consumer_step s ShutdownRequested t"
    and "cr_pc s \<in> {AwaitNext, Handling, AwaitRetry}" and "consumer_trace t es' u"
  shows "length es' \<le> 2 * cr_buffered s + 3 \<and> (cr_shutdown u = Finished \<or> (\<exists>e v. e \<noteq> Failed \<and> consumer_step u e v))"
proof -
  have inv: "run_inv s" using run_inv_trace [OF assms(1)] run_inv_initial by blast
  from assms(2) have t: "t = request_shutdown s" by cases simp
  from inv assms(3) have wind: "winding_down t" and left: "steps_left t \<le> 2 * cr_buffered s + 3"
    by (auto simp: t run_inv_def winding_down_def steps_left_def run_defs)
  from winding_down_trace [OF assms(4) wind] left winding_down_progress [of u] show ?thesis by auto
qed

text \<open>A consumer that waits for its next message, two of them buffered.\<close>

definition subscribed_run :: "nat \<Rightarrow> consumer_run" where
  "subscribed_run n =
     \<lparr>cs_processing = True, cs_stopping = False, cs_stopMessages = True, cr_pc = AwaitNext,
      cr_open = True, cr_buffered = n, cr_shutdown = Running\<rparr>"

lemma subscribed_reachable:
  "consumer_trace initial_run [Bootstrapped, GotConsumer, GotMessages, Arrived, Arrived] (subscribed_run 2)"
  by (simp add: consumer_trace_iff initial_run_def subscribed_run_def run_defs)

theorem quiet_after_shutdown_witness:
  "cr_shutdown (request_shutdown initial_run) = Finished \<and>
   cr_pc (request_shutdown initial_run) \<in> {NotStarted, Returned} \<and>
   Delivered \<notin> set [Bootstrapped] \<and> Handled \<notin> set [Bootstrapped]"
proof -
  let ?s = "request_shutdown initial_run"
  have fin: "cr_shutdown ?s = Finished" by (simp add: run_defs initial_run_def)
  have "consumer_trace initial_run [ShutdownRequested] ?s"
    and "consumer_trace ?s [Bootstrapped] (loop_head (?s\<lparr>cs_processing := True\<rparr>))"
    by (simp_all add: consumer_trace_iff initial_run_def run_defs)
  from quiet_after_shutdown [OF this(1) fin this(2)] fin show ?thesis by blast
qed

theorem shutdown_terminates_witness:
  "let t = request_shutdown (subscribed_run 2); u = t\<lparr>cr_pc := Handling, cr_buffered := 1\<rparr>
   in consumer_trace t [Delivered] u \<and> length [Delivered] \<le> 2 * cr_buffered (subscribed_run 2) + 3 \<and>
      (\<exists>e v. e \<noteq> Failed \<and> consumer_step u e v)"
proof -
  let ?t = "request_shutdown (subscribed_run 2)"
  let ?u = "?t\<lparr>cr_pc := Handling, cr_buffered := 1\<rparr>"
  have step: "consumer_step (subscribed_run 2) ShutdownRequested ?t"
    and trace: "consumer_trace ?t [Delivered] ?u" and waiting: "cr_shutdown ?u \<noteq> Finished"
    by (simp_all add: consumer_step_iff consumer_trace_iff subscribed_run_def run_defs)
  have "cr_pc (subscribed_run 2) \<in> {AwaitNext, Handling, AwaitRetry}" by (simp add: subscribed_run_def)
  from shutdown_terminates [OF subscribed_reachable step this trace] waiting trace show ?thesis
    unfolding Let_def by blast
qed

text \<open>
  A shutdown that arrives while the consumer is subscribing misses the subscription: the hook finds no
  \<open>stopMessages\<close> to call, the loop does not look at \<open>stopping\<close> again before it iterates, and the
  shutdown waits while any number of further messages arrive and are handled.
\<close>

theorem shutdown_misses_subscription:
  "\<exists>s. consumer_trace initial_run [Bootstrapped, GotConsumer, ShutdownRequested, GotMessages] s \<and>
     cs_stopping s \<and>
     (\<forall>n. consumer_trace s (concat (replicate n [Arrived, Delivered, Handled])) s \<and> cr_shutdown s = Awaiting)"
proof -
  let ?s = "\<lparr>cs_processing = True, cs_stopping = True, cs_stopMessages = True, cr_pc = AwaitNext,
      cr_open = True, cr_buffered = 0, cr_shutdown = Awaiting\<rparr>"
  have "consumer_trace initial_run [Bootstrapped, GotConsumer, ShutdownRequested, GotMessages] ?s"
    by (simp add: consumer_trace_iff initial_run_def run_defs)
  moreover have "run_events ?s (concat (replicate n [Arrived, Delivered, Handled])) = Some ?s" for n
    by (induction n) simp_all
  ultimately show ?thesis by (intro exI [of _ ?s]) (simp add: consumer_trace_iff)
qed

end
