(* ===== verification/Identity_Mail.thy ===== *)
theory Identity_Mail
  imports Identity_App
begin

text \<open>
  The verification e-mail of identity (apps/identity/src/auth/email.sender.ts and the \<open>sendVerificationEmail\<close>
  callback of auth.factory.ts). Parsing and printing of a URL are the platform's and arguments here; of a parsed URL the code
  uses the search parameters.
\<close>

section \<open>Search parameters\<close>

record parsed_url =
  pu_rest :: string
  pu_search :: "(string \<times> string) list"

text \<open>\<open>searchParams.set(n, v)\<close>: the first parameter of that name gets the value, the others of that name go.\<close>

fun search_set :: "(string \<times> string) list \<Rightarrow> string \<Rightarrow> string \<Rightarrow> (string \<times> string) list" where
  "search_set [] n v = [(n, v)]"
| "search_set ((k, x) # ps) n v =
     (if k = n then (n, v) # filter (\<lambda>p. fst p \<noteq> n) ps else (k, x) # search_set ps n v)"

lemma search_set_named: "filter (\<lambda>p. fst p = n) (search_set ps n v) = [(n, v)]"
  by (induction ps n v rule: search_set.induct) (auto simp: filter_empty_conv)

lemma search_set_others: "filter (\<lambda>p. fst p \<noteq> n) (search_set ps n v) = filter (\<lambda>p. fst p \<noteq> n) ps"
  by (induction ps n v rule: search_set.induct) auto

section \<open>The link and the mail\<close>

definition createVerificationUrl ::
    "(string \<Rightarrow> string option) \<Rightarrow> (string \<Rightarrow> thrown + parsed_url) \<Rightarrow> (parsed_url \<Rightarrow> string) \<Rightarrow>
     string \<Rightarrow> thrown + string" where
  "createVerificationUrl env parse_url print_url token =
     res_bind (requiredEnvironmentVariable env ''EMAIL_VERIFICATION_URL'') (\<lambda>base.
     res_bind (parse_url base) (\<lambda>url.
       Inr (print_url (url\<lparr>pu_search := search_set (pu_search url) ''token'' token\<rparr>))))"

definition verification_callback ::
    "(string \<Rightarrow> string option) \<Rightarrow> (string \<Rightarrow> thrown + parsed_url) \<Rightarrow> (parsed_url \<Rightarrow> string) \<Rightarrow>
     auth_config \<Rightarrow> auth_user \<Rightarrow> string \<Rightarrow> thrown + mail" where
  "verification_callback env parse_url print_url config user token =
     res_bind (createVerificationUrl env parse_url print_url token) (\<lambda>verificationUrl.
       Inr (sendVerificationEmail (cfg_sender config) (au_email user) verificationUrl))"

text \<open>
  The verification mail goes to the user's own address from the configured sender and shows the configured page with
  exactly one token parameter, the user's token, every other parameter of the page kept in order. There is no mail when the
  page is not configured or not a URL; identity's start-up does not look at that variable.
\<close>

theorem verification_mail_exact:
  "verification_callback env parse_url print_url config user token =
     (case env ''EMAIL_VERIFICATION_URL'' of
        None \<Rightarrow> Inl (new_error PlainError ''EMAIL_VERIFICATION_URL must be configured.'')
      | Some base \<Rightarrow>
          if base = [] then Inl (new_error PlainError ''EMAIL_VERIFICATION_URL must be configured.'')
          else (case parse_url base of
                  Inl e \<Rightarrow> Inl e
                | Inr url \<Rightarrow>
                    Inr \<lparr>mail_from = es_from (cfg_sender config),
                         mail_subject = ''Verify your Polyglot Ticketing email address'',
                         mail_text = ''Verify your email address: '' @
                           print_url (url\<lparr>pu_search := search_set (pu_search url) ''token'' token\<rparr>),
                         mail_to = au_email user\<rparr>)) \<and>
   filter (\<lambda>p. fst p = ''token'') (search_set ps ''token'' token) = [(''token'', token)] \<and>
   filter (\<lambda>p. fst p \<noteq> ''token'') (search_set ps ''token'' token) = filter (\<lambda>p. fst p \<noteq> ''token'') ps \<and>
   createIdentityAuthContext (env(''EMAIL_VERIFICATION_URL'' := any)) = createIdentityAuthContext env"
proof -
  have "createIdentityAuthContext (env(''EMAIL_VERIFICATION_URL'' := any)) = createIdentityAuthContext env"
    by (simp add: createIdentityAuthContext_def createEmailSender_def requiredEnvironmentVariable_def)
  then show ?thesis
    by (simp add: search_set_named search_set_others verification_callback_def createVerificationUrl_def
        requiredEnvironmentVariable_def res_bind_def sendVerificationEmail_def split: option.split sum.split)
qed

end
