(* ===== verification/Service_Startup.thy ===== *)
theory Service_Startup
  imports Service_Metrics
begin

text \<open>
  How the three services start and stop (apps/*/src/main.ts, apps/identity/src/migrate.ts,
  libs/observability/src/tracing.ts): the order of the start-up calls, the ports they listen on and what a signal does.
\<close>

section \<open>Tracing\<close>

record tracing_config =
  tc_service_name :: string
  tc_environment :: string
  tc_url :: string
  tc_ignores :: "string \<Rightarrow> bool"

definition tracing_config_of :: "(string \<Rightarrow> string option) \<Rightarrow> string \<Rightarrow> tracing_config" where
  "tracing_config_of env serviceName =
     (let endpoint = env_or env ''OTEL_EXPORTER_OTLP_ENDPOINT'' ''localhost:4318''
      in \<lparr>tc_service_name = serviceName, tc_environment = ''local'',
          tc_url = ''http://'' @ endpoint @ ''/v1/traces'', tc_ignores = (\<lambda>url. url = ''/metrics'')\<rparr>)"

section \<open>Start-up calls\<close>

datatype signal_action = CloseMetricsServer | ShutdownTracing

datatype boot_call =
    StartTracing tracing_config
  | MetricsListen jsnum string
  | ImportModule string
  | CreateApplication
  | EnableShutdownHooks
  | UseFinishListener string
  | UseMetricsInterceptor
  | Listen jsnum
  | OnceSignal string signal_action
  | LogLine string
  | LogError string
  | ExitCode nat

type_synonym 'a boot = "(boot_call, thrown, 'a) io"

text \<open>What may throw: the tracing SDK, a dynamic import, \<open>listen\<close> on a socket, or the construction of the application. A
  port in use is reported later, by an event of the server, and is no part of \<open>bootstrap\<close>.\<close>

record boot_env =
  be_env :: "string \<Rightarrow> string option"
  be_tracing :: "tracing_config \<Rightarrow> boot_call list \<Rightarrow> thrown + unit"
  be_metrics_listen :: "jsnum \<Rightarrow> boot_call list \<Rightarrow> thrown + unit"
  be_import :: "string \<Rightarrow> boot_call list \<Rightarrow> thrown + unit"
  be_create :: "boot_call list \<Rightarrow> thrown + unit"
  be_listen :: "jsnum \<Rightarrow> boot_call list \<Rightarrow> thrown + unit"

definition startTracing :: "boot_env \<Rightarrow> string \<Rightarrow> unit boot" where
  "startTracing B serviceName =
     (let config = tracing_config_of (be_env B) serviceName
      in io_call (StartTracing config) (be_tracing B config))"

definition startMetricsServer :: "boot_env \<Rightarrow> unit boot" where
  "startMetricsServer B =
     (let port = metricsPort (be_env B) in io_call (MetricsListen port ''0.0.0.0'') (be_metrics_listen B port))"

text \<open>\<open>await import(path)\<close>.\<close>

definition import_module :: "boot_env \<Rightarrow> string \<Rightarrow> unit boot" where
  "import_module B path = io_call (ImportModule path) (be_import B path)"

definition createApplication :: "boot_env \<Rightarrow> unit boot" where
  "createApplication B = io_call CreateApplication (be_create B)"

definition app_listen :: "boot_env \<Rightarrow> jsnum \<Rightarrow> unit boot" where
  "app_listen B port = io_call (Listen port) (be_listen B port)"

definition silently :: "boot_call \<Rightarrow> unit boot" where
  "silently c = io_call c (\<lambda>_. Inr ())"

text \<open>The four \<open>process.once\<close> calls, in the order all three services have them.\<close>

definition register_signals :: "unit boot" where
  "register_signals =
     io_seq (silently (OnceSignal ''SIGINT'' CloseMetricsServer))
     (io_seq (silently (OnceSignal ''SIGTERM'' CloseMetricsServer))
     (io_seq (silently (OnceSignal ''SIGINT'' ShutdownTracing))
       (silently (OnceSignal ''SIGTERM'' ShutdownTracing))))"

text \<open>\<open>Number(process.env.NAME ?? n)\<close>.\<close>

definition port_or :: "(string \<Rightarrow> string option) \<Rightarrow> string \<Rightarrow> int \<Rightarrow> jsnum" where
  "port_or env name dflt = (case env name of None \<Rightarrow> num dflt | Some v \<Rightarrow> js_Number v)"

section \<open>The three services\<close>

definition gateway_bootstrap :: "boot_env \<Rightarrow> unit boot" where
  "gateway_bootstrap B =
     io_seq (startTracing B ''api-gateway'')
     (io_seq (import_module B ''./app/app.bootstrap.js'')
     (let loadTestMetricsToken = env_or (be_env B) ''LOAD_TEST_METRICS_TOKEN'' []
      in io_seq (startMetricsServer B)
         (io_seq (createApplication B)
         (io_seq (silently EnableShutdownHooks)
         (io_seq (silently (UseFinishListener loadTestMetricsToken))
         (let globalPrefix = ''api''; port = port_or (be_env B) ''PORT'' 3000
          in io_seq (app_listen B port)
             (io_seq register_signals
               (silently (LogLine (''API gateway is running on: http://localhost:'' @ number_text port @
                  ''/'' @ globalPrefix))))))))))"

definition identity_bootstrap :: "boot_env \<Rightarrow> unit boot" where
  "identity_bootstrap B =
     io_seq (startTracing B ''identity'')
     (io_seq (import_module B ''./app/app.bootstrap.js'')
     (io_seq (startMetricsServer B)
     (let grpcPort = port_or (be_env B) ''GRPC_PORT'' 50051
      in io_seq (createApplication B)
         (io_seq (silently EnableShutdownHooks)
         (io_seq (silently UseMetricsInterceptor)
         (io_seq (app_listen B grpcPort)
         (io_seq register_signals
           (silently (LogLine (''Identity gRPC service is running on: 0.0.0.0:'' @ number_text grpcPort))))))))))"

definition expiration_bootstrap :: "boot_env \<Rightarrow> unit boot" where
  "expiration_bootstrap B =
     io_seq (startTracing B ''expiration'')
     (io_seq (import_module B ''./app/app.module.js'')
     (io_seq (createApplication B)
     (io_seq (silently EnableShutdownHooks)
     (io_seq (startMetricsServer B)
     (io_seq register_signals
       (silently (LogLine ''Expiration service started'')))))))"

text \<open>migrate.ts: a failed migration is reported and sets the exit code; the promise never rejects.\<close>

definition migrate_main :: "unit boot \<Rightarrow> unit boot" where
  "migrate_main migration =
     io_catch migration
       (\<lambda>error. io_seq (silently (LogError ''Identity database migration failed.'')) (silently (ExitCode 1)))"

section \<open>Signals\<close>

text \<open>
  What a signal does: the listeners that \<open>process.once\<close> registered for it, in their order. The listeners that NestJS registers for
  itself when its shutdown hooks are enabled, which run the hooks of the application's providers, are the framework's.
\<close>

fun on_signal :: "boot_call list \<Rightarrow> string \<Rightarrow> signal_action list" where
  "on_signal [] signal = []"
| "on_signal (OnceSignal s action # calls) signal =
     (if s = signal then action # on_signal calls signal else on_signal calls signal)"
| "on_signal (call # calls) signal = on_signal calls signal"

fun registers :: "boot_call \<Rightarrow> bool" where
  "registers (OnceSignal _ _) = True"
| "registers _ = False"

lemma on_signal_filter: "on_signal calls signal = on_signal (filter registers calls) signal"
  by (induction calls signal rule: on_signal.induct) simp_all

section \<open>The contract of a start-up\<close>

text \<open>
  A service starts in two phases: the first brings everything up and registers nothing, the second
  registers the signals and logs.
\<close>

locale service_start =
  fixes boot :: "boot_env \<Rightarrow> unit boot" and name :: string
    and up :: "boot_env \<Rightarrow> unit boot" and line :: "boot_env \<Rightarrow> string"
  assumes phases: "boot B = io_seq (startTracing B name) (io_seq (up B) (io_seq register_signals (silently (LogLine (line B)))))"
    and up_quiet: "io_emits (\<lambda>c. \<not> registers c) (up B)"
    and up_hooks: "up B h = (Inr (), h') \<Longrightarrow> EnableShutdownHooks \<in> set h'"
begin

text \<open>A started service has the shutdown hooks of its application enabled.\<close>

lemma hooks_enabled:
  assumes "result_ok (fst (boot B h))"
  shows "EnableShutdownHooks \<in> set (snd (boot B h))"
proof -
  let ?h = "h @ [StartTracing (tracing_config_of (be_env B) name)]"
  obtain r h1 where up: "up B ?h = (r, h1)" by (cases "up B ?h")
  with assms have "r = Inr ()"
    by (cases "be_tracing B (tracing_config_of (be_env B) name) h"; cases r)
      (simp_all add: phases startTracing_def io_bind_def io_call_def Let_def)
  with up have "EnableShutdownHooks \<in> set h1" using up_hooks by blast
  with assms up \<open>r = Inr ()\<close> show ?thesis
    by (cases "be_tracing B (tracing_config_of (be_env B) name) h")
      (simp_all add: phases startTracing_def register_signals_def silently_def io_bind_def io_call_def Let_def)
qed

lemma tracing_first: "\<exists>t. snd (boot B h) = h @ StartTracing (tracing_config_of (be_env B) name) # t"
proof -
  have "io_emits (\<lambda>_. True) (up B)" using io_emits_mono [OF up_quiet] by simp
  then have "io_emits (\<lambda>_. True) (io_seq (up B) (io_seq register_signals (silently (LogLine (line B)))))"
    unfolding register_signals_def silently_def by (intro io_rules) simp_all
  from io_emitsD [OF this, of "h @ [StartTracing (tracing_config_of (be_env B) name)]"] show ?thesis
    by (auto simp: phases startTracing_def io_bind_def io_call_def Let_def split: sum.split)
qed

text \<open>The listeners are registered when, and only when, the start-up succeeded.\<close>

lemma registered:
  "filter registers (snd (boot B h)) = filter registers h @
    (if result_ok (fst (boot B h))
     then [OnceSignal ''SIGINT'' CloseMetricsServer, OnceSignal ''SIGTERM'' CloseMetricsServer,
           OnceSignal ''SIGINT'' ShutdownTracing, OnceSignal ''SIGTERM'' ShutdownTracing]
     else [])"
proof -
  let ?h = "h @ [StartTracing (tracing_config_of (be_env B) name)]"
  obtain r h1 where up: "up B ?h = (r, h1)" by (cases "up B ?h")
  have "filter registers h1 = filter registers h"
    using io_emits_filter [OF up_quiet, of registers B ?h] up by simp
  then show ?thesis
    by (cases "be_tracing B (tracing_config_of (be_env B) name) h"; cases r)
      (simp_all add: phases startTracing_def register_signals_def silently_def io_bind_def io_call_def Let_def up)
qed

lemma signal_after:
  assumes "filter registers h = []" and "signal \<in> {''SIGINT'', ''SIGTERM''}"
  shows "on_signal (snd (boot B h)) signal =
    (if result_ok (fst (boot B h)) then [CloseMetricsServer, ShutdownTracing] else [])"
  using assms by (subst on_signal_filter) (auto simp: registered)

lemma stops_gracefully:
  assumes "signal \<in> {''SIGINT'', ''SIGTERM''}"
  shows "on_signal (snd (boot B [])) signal =
      (if result_ok (fst (boot B [])) then [CloseMetricsServer, ShutdownTracing] else []) \<and>
    (result_ok (fst (boot B [])) \<longrightarrow> EnableShutdownHooks \<in> set (snd (boot B []))) \<and>
    (\<exists>config t. snd (boot B []) = StartTracing config # t)"
proof (intro conjI)
  show "on_signal (snd (boot B [])) signal =
      (if result_ok (fst (boot B [])) then [CloseMetricsServer, ShutdownTracing] else [])"
    by (rule signal_after [OF _ assms]) simp
  show "\<exists>config t. snd (boot B []) = StartTracing config # t" using tracing_first [of B "[]"] by auto
qed (use hooks_enabled in blast)

end

definition gateway_up :: "boot_env \<Rightarrow> unit boot" where
  "gateway_up B =
     io_seq (import_module B ''./app/app.bootstrap.js'') (io_seq (startMetricsServer B) (io_seq (createApplication B)
       (io_seq (silently EnableShutdownHooks) (io_seq (silently (UseFinishListener (env_or (be_env B) ''LOAD_TEST_METRICS_TOKEN'' [])))
         (app_listen B (port_or (be_env B) ''PORT'' 3000))))))"

definition identity_up :: "boot_env \<Rightarrow> unit boot" where
  "identity_up B =
     io_seq (import_module B ''./app/app.bootstrap.js'') (io_seq (startMetricsServer B) (io_seq (createApplication B)
       (io_seq (silently EnableShutdownHooks)
         (io_seq (silently UseMetricsInterceptor) (app_listen B (port_or (be_env B) ''GRPC_PORT'' 50051))))))"

definition expiration_up :: "boot_env \<Rightarrow> unit boot" where
  "expiration_up B =
     io_seq (import_module B ''./app/app.module.js'') (io_seq (createApplication B)
       (io_seq (silently EnableShutdownHooks) (startMetricsServer B)))"

lemmas boot_steps = startMetricsServer_def import_module_def createApplication_def app_listen_def silently_def Let_def

interpretation gateway_start: service_start gateway_bootstrap "''api-gateway''" gateway_up
  "\<lambda>B. ''API gateway is running on: http://localhost:'' @ number_text (port_or (be_env B) ''PORT'' 3000) @ ''/api''"
proof unfold_locales
  fix B
  show "io_emits (\<lambda>c. \<not> registers c) (gateway_up B)"
    unfolding gateway_up_def boot_steps by (intro io_rules) simp_all
next
  fix B h h'
  show "gateway_up B h = (Inr (), h') \<Longrightarrow> EnableShutdownHooks \<in> set h'"
    by (auto simp: gateway_up_def boot_steps io_simps split: sum.splits)
qed (simp add: gateway_bootstrap_def gateway_up_def io_bind_assoc Let_def)

interpretation identity_start: service_start identity_bootstrap "''identity''" identity_up
  "\<lambda>B. ''Identity gRPC service is running on: 0.0.0.0:'' @ number_text (port_or (be_env B) ''GRPC_PORT'' 50051)"
proof unfold_locales
  fix B
  show "io_emits (\<lambda>c. \<not> registers c) (identity_up B)"
    unfolding identity_up_def boot_steps by (intro io_rules) simp_all
next
  fix B h h'
  show "identity_up B h = (Inr (), h') \<Longrightarrow> EnableShutdownHooks \<in> set h'"
    by (auto simp: identity_up_def boot_steps io_simps split: sum.splits)
qed (simp add: identity_bootstrap_def identity_up_def io_bind_assoc Let_def)

interpretation expiration_start: service_start expiration_bootstrap "''expiration''" expiration_up
  "\<lambda>B. ''Expiration service started''"
proof unfold_locales
  fix B
  show "io_emits (\<lambda>c. \<not> registers c) (expiration_up B)"
    unfolding expiration_up_def boot_steps by (intro io_rules) simp_all
next
  fix B h h'
  show "expiration_up B h = (Inr (), h') \<Longrightarrow> EnableShutdownHooks \<in> set h'"
    by (auto simp: expiration_up_def boot_steps io_simps split: sum.splits)
qed (simp add: expiration_bootstrap_def expiration_up_def io_bind_assoc)

text \<open>
  C35: Every service that started stops gracefully, and only one that started: whichever service, after its
  start-up succeeded a \<open>SIGINT\<close> or a \<open>SIGTERM\<close> closes its metrics server and then shuts tracing down, each once;
  after a failed start-up none of its listeners is left behind. A started service also has its framework's shutdown hooks
  enabled. Tracing is started before everything else, so that it sees every module that is imported later.
\<close>

theorem services_stop_gracefully:
  assumes "boot \<in> {gateway_bootstrap, identity_bootstrap, expiration_bootstrap}"
    and "signal \<in> {''SIGINT'', ''SIGTERM''}"
  shows "on_signal (snd (boot B [])) signal =
      (if result_ok (fst (boot B [])) then [CloseMetricsServer, ShutdownTracing] else []) \<and>
    (result_ok (fst (boot B [])) \<longrightarrow> EnableShutdownHooks \<in> set (snd (boot B []))) \<and>
    (\<exists>config t. snd (boot B []) = StartTracing config # t)"
  using assms gateway_start.stops_gracefully [of signal B] identity_start.stops_gracefully [of signal B]
    expiration_start.stops_gracefully [of signal B] by blast

definition sample_boot :: boot_env where
  "sample_boot = \<lparr>be_env = \<lambda>_. None, be_tracing = \<lambda>_ _. Inr (), be_metrics_listen = \<lambda>_ _. Inr (),
     be_import = \<lambda>_ _. Inr (), be_create = \<lambda>_. Inr (), be_listen = \<lambda>_ _. Inr ()\<rparr>"

theorem services_stop_gracefully_witness:
  "on_signal (snd (identity_bootstrap sample_boot [])) ''SIGTERM'' = [CloseMetricsServer, ShutdownTracing]"
proof -
  have "result_ok (fst (identity_bootstrap sample_boot []))"
    by (simp add: identity_bootstrap_def startTracing_def register_signals_def boot_steps sample_boot_def io_simps)
  with services_stop_gracefully [of identity_bootstrap "''SIGTERM''" sample_boot] show ?thesis by simp
qed

text \<open>The migration command always ends; its exit code tells a failure.\<close>

lemma migrate_main_exit:
  "fst (migrate_main migration h) = Inr () \<and>
   (fst (migration h) = Inr () \<longrightarrow> migrate_main migration h = migration h) \<and>
   (\<forall>e. fst (migration h) = Inl e \<longrightarrow> snd (migrate_main migration h) =
      snd (migration h) @ [LogError ''Identity database migration failed.'', ExitCode 1])"
  by (cases "migration h"; cases "fst (migration h)")
    (auto simp: migrate_main_def silently_def io_simps)

end
