(* ===== verification/Spec2Isabelle.thy ===== *)
theory Spec2Isabelle
  imports Validation_Agreement Delivery_Metrics Session_Life Expiration_Refinement Expiration_Loops Consumer_Shutdown
    Identity_Mail Service_Startup
begin

text \<open>
  Verification of the TypeScript services of the ticketing system.

  \<^bold>\<open>The program.\<close> Browsers talk HTTP to the gateway (src/apps/api-gateway), which checks sessions and forwards
  requests by gRPC to identity (src/apps/identity, around Better Auth) and to the tickets, orders and payments backends.
  The expiration service (src/apps/expiration) consumes order-created events from NATS JetStream, schedules a BullMQ job for the
  moment an order expires, publishes the completion when the job is due, and parks events it cannot handle in a dead-letter
  stream. The stress script (src/scripts/stress/tickets.js) drives the gateway's ticket routes.

  \<^bold>\<open>How the code is modelled.\<close> An asynchronous function is a map from the list of outside calls made so far, the history, to
  a thrown value or a result and the longer history (type \<open>io\<close> of Prelude). Code that is not in the repository (Better Auth,
  Protovalidate, class-validator, grpc-js, NATS, BullMQ, OpenTelemetry, fetch, URL parsing, NestJS) is an environment record whose
  fields may answer differently at every history; what the code relies on of it is a named predicate in the
  hypotheses (\<open>enforces_rules\<close>, \<open>accepts_valid\<close>, \<open>delivers_status\<close>, \<open>delivers_metadata\<close>, \<open>settles_quietly\<close>,
  \<open>serves_tickets\<close>, \<open>routes_tickets\<close>, \<open>sound_sessions\<close>, \<open>keeps_jobs\<close> and others), and each is shown to hold of a concrete environment. Every definition keeps the name of
  the function it models, with the class in front where needed. Strings are lists of Latin-1 code units; numbers are IEEE
  doubles with explicit rounding and one zero; an object is the list of its properties in insertion order; an absent field of a
  message is \<open>None\<close>.

  \<^bold>\<open>Foundation.\<close> Prelude (effects, \<open>io_emits\<close> and the rules collection \<open>io_rules\<close>), Js_Strings, Js_Numbers, Js_Values,
  Js_Json and Js_Dates: the parts of the JavaScript library the services use, with \<open>JSON.parse\<close> and its round trip, \<open>Number\<close>, and
  \<open>toISOString\<close>. The JSON parser runs on fuel \<open>2 * length + 2\<close>: each step consumes a character or closes a level,
  and the round trip proves it enough for everything the services write.

  \<^bold>\<open>Errors.\<close> Public_Errors (the generated ErrorCode enum, errors/error-code.ts of both services), Gateway_Errors
  (api-error.ts, grpc-error.ts, throw-grpc-error.ts, api-error.filter.ts), Identity_Errors (identity/mappers), Error_Contract (the locale of
  identity's error contract with its interpretations on the mappers).

  \<^bold>\<open>Gateway.\<close> Gateway_Requests (metadata, cookies, DTO rules, validation errors), Gateway_Calls (messages and calls; the locale of
  a service method), Gateway_Auth (auth.service.ts, auth.controller.ts, the session guard), Gateway_Trading (tickets, orders,
  payments), Gateway_App (routes, start-up configuration, request metrics), Gateway_Properties.

  \<^bold>\<open>Identity.\<close> Identity_Headers (Web headers, the session cookie), Identity_Service (identity.service.ts and the controller),
  Identity_App (Better Auth options, mail, migration, metrics), Identity_Mail (verification link), Identity_Properties.

  \<^bold>\<open>Expiration.\<close> Expiration_Types (constants and messages), Expiration_JetStream (jetstream.service.ts), Expiration_Jobs (handler,
  scheduler, processor, publisher, Redis options, replay command), Expiration_Consumer (order-created.consumer.ts), then what holds:
  Expiration_Properties, Expiration_Recovery and Expiration_Loops. Consumer_Shutdown has the consumer's loop and its shutdown hook
  as a step relation over the awaits of the code, with an invariant over all interleavings. Expiration_Flow has the runs of the whole
  service, its deliveries, due jobs and retries in any order. Expiration_Refinement has the specification, a book of orders with
  their announced expiry, failed attempts and completions, what BullMQ documents of a queue (\<open>keeps_jobs\<close>, \<open>offers_jobs\<close>), and the
  simulation of the service with such a queue by the book. The reconnecting loops
  \<open>onModuleInit\<close> and \<open>consume\<close> take a number of rounds as fuel; Expiration_Loops shows that one round more than NATS was
  away is enough to connect, and that after the shutdown the consumer's loop opens no other subscription. An open subscription
  may wait for ever in \<open>consume\<close>; what ends it is the shutdown hook of Consumer_Shutdown.

  \<^bold>\<open>Generated Protobuf code.\<close> Each src/protogen/ts file declares its messages, enums and services as TypeScript types, and
  embeds the descriptor the runtime works with as base64 text. Proto_Wire decodes base64 and the Protobuf wire format (with round
  trips against their encodings), Proto_Descriptor reads a descriptor (\<open>fileDesc\<close>, \<open>messageDesc\<close>, \<open>enumDesc\<close>, \<open>serviceDesc\<close>) with the rules
  of buf.validate on its fields, and states by which rules protoc-gen-es turns a descriptor into declarations. These are reference
  definitions of documented formats, not translations of the runtime. Protogen_Identity, Protogen_Tickets, Protogen_Orders,
  Protogen_Payments and Protogen_Common hold the declarations and the embedded texts; the kernel decodes the texts
  and checks each against its declaration, and Protogen collects them. The wire decoder recurses on what is left of its input, which every step shortens.
  Request_Types and Request_Properties hold the gateway's requests against the declared input types, and Validation_Agreement its DTOs
  against the rules that identity reads from its descriptor.

  \<^bold>\<open>Operation.\<close> Service_Metrics (the three registries as interpretations of one locale), Service_Startup (main.ts of the services,
  migrate.ts, tracing.ts; a locale of the start-up phases).

  \<^bold>\<open>Stress script.\<close> Stress_Script models the whole script, Stress_Properties what its success and its failure mean, Stress_Gateway that
  its writes arrive at the ticket routes and pass the gateway, with Express's routing as an argument.

  \<^bold>\<open>What is shown.\<close> Errors: every failure of identity reaches the browser with its status and items, every answer of
  the gateway is a well-formed public error, masked from 500 on, and error items survive their JSON encoding. Sessions: no guarded
  route does anything without a session, and with one it acts for that user only; whoever gets in has signed in through the gateway and
  has not signed out, and a session that was signed out stays out; cookie, token and expiry survive both services.
  Requests: what the gateway asks of the backends is validated; conversions are exact or answered as errors. Expiration: every
  delivery is settled exactly once (a refinement of a settlement specification), acknowledged only after its job or its dead letter
  was stored, within six deliveries; a completion is published only for an order that was announced, and not before its expiry; the service
  implements the book of orders, which completes each order at most once in at most five attempts, and an order survives four failed
  ones; a replay restores the parked event; the connection loop ends, and so does the consumer after a shutdown. Operation: start-up, signals and metrics.
  Contracts: every request of the gateway is of its method's input type, and the gateway's and identity's validations differ only in blank names and in addresses. Delivery_Metrics shows that
  the consumer's counters add up to its settlements. Session_Flow holds the connection between gateway and identity. Session_Life runs both on one history, the gateway's calls
  and what identity makes of them, with the sessions that Better Auth keeps as a function of its calls. This theory states the other
  properties that span both services.

  \<^bold>\<open>Not modelled.\<close> The Go services (tickets, orders, payments) and the Python assistant, which are other programs behind gRPC stubs and
  event streams; buf/validate/validate_pb.ts, the vendored code of the validation library, of which only the numbers of the
  option and of the rules the services use enter the model; the k6 load tests and the test suites; the text of log lines written through a NestJS logger inside
  the services; NestJS's routing and injection with the module declarations it reads, and the type declarations of the *.types.ts
  files, which have no behaviour of their own; workers of the queue that die in the middle of an attempt; the text format of the metrics; the wire formats of gRPC, NATS and Redis, and of
  messages on the wire (only descriptors are decoded).
\<close>

section \<open>Errors across the services\<close>

text \<open>
  C1: A failure of identity reaches the client of the gateway with its meaning: whichever method
  failed and whatever the cause, the gateway answers with the HTTP status of identity's gRPC status and with
  identity's own items, unless that status is a server error, whose body says nothing but the status.
\<close>

theorem identity_error_reaches_client:
  assumes "delivers_status transport" and "reports_violations I"
    and "IdentityController_handle I request hi = (Inl e, hi')"
  shows "\<exists>s items status body. e = StructuredGrpcError s items \<and> items \<noteq> [] \<and>
    status = httpStatusFromGrpcCode (num (status_number s)) \<and>
    api_error_filter_catch (throwGatewayGrpcError (transport e) d) = (num status, body) \<and>
    (status < 500 \<longrightarrow> map to_error_item body = items) \<and>
    (500 \<le> status \<longrightarrow> body = masked_body status)"
proof -
  have "fails_structured (IdentityController_handle I request)"
    using fails_structured_service [OF assms(2)]
    by (cases request) (auto intro!: fails_structured_bind fails_structured_return)
  with assms(3) have "structured e" unfolding fails_structured_def by blast
  then obtain s items where e: "e = StructuredGrpcError s items" "items \<noteq> []"
    by (auto simp: structured_def)
  define status where "status = httpStatusFromGrpcCode (num (status_number s))"
  have ex: "throwGatewayGrpcError (transport e) d = ApiError status (map item_val items)"
    unfolding e(1) status_def by (rule throwGatewayGrpcError_structured [OF assms(1) e(2)])
  show ?thesis
  proof (cases "status < 500")
    case True
    then have "api_error_filter_catch (throwGatewayGrpcError (transport e) d) =
        (num status, map api_item (map item_val items))"
      unfolding ex by (intro filter_ApiError) (simp_all add: e(2) list_all_iff)
    with True e show ?thesis
      by (intro exI [of _ s] exI [of _ items] exI [of _ status] exI [of _ "map api_item (map item_val items)"])
        (simp add: status_def map_idI)
  next
    case False
    then have "api_error_filter_catch (throwGatewayGrpcError (transport e) d) = (num status, masked_body status)"
      unfolding ex by (intro filter_masked) simp
    with False e show ?thesis
      by (intro exI [of _ s] exI [of _ items] exI [of _ status] exI [of _ "masked_body status"])
        (simp add: status_def)
  qed
qed

theorem identity_error_reaches_client_witness:
  "\<exists>e hi'. IdentityController_handle sample_identity (RpcSignUp (JObj [])) [] = (Inl e, hi') \<and>
    (\<exists>s items status body. e = StructuredGrpcError s items \<and> items \<noteq> [] \<and>
      status = httpStatusFromGrpcCode (num (status_number s)) \<and>
      api_error_filter_catch (throwGatewayGrpcError (client_error e) None) = (num status, body) \<and>
      (status < 500 \<longrightarrow> map to_error_item body = items) \<and> (500 \<le> status \<longrightarrow> body = masked_body status))"
proof -
  have "\<exists>e h'. IdentityController_handle sample_identity (RpcSignUp (JObj [])) [] = (Inl e, h')"
    by (simp add: IdentityService_signUp_def validateSignUpRequest_def validation_result_of_def
        sample_identity_def io_simps)
  then obtain e h' where run: "IdentityController_handle sample_identity (RpcSignUp (JObj [])) [] = (Inl e, h')"
    by blast
  from identity_error_reaches_client [OF delivers_client_error sample_reports run, of None] run
  show ?thesis by blast
qed

text \<open>
  C31: Error items survive the connection: the gateway reads from the details of a gRPC status
  exactly the items identity wrote into them as JSON, in their order, whatever characters their
  messages have.
\<close>

theorem error_details_round_trip:
  assumes "items \<noteq> []"
  shows "decode_errors (errors_json items) = Some items"
  by (rule details.decode_encode [OF assms])

theorem error_details_round_trip_witness:
  "decode_errors (errors_json [\<lparr>ei_message = ''a'' @ [CHR 0x22, CHR 0x0A] @ ''b'', ei_code = ''NOT_FOUND'', ei_field = None\<rparr>]) =
     Some [\<lparr>ei_message = ''a'' @ [CHR 0x22, CHR 0x0A] @ ''b'', ei_code = ''NOT_FOUND'', ei_field = None\<rparr>]"
  by (rule error_details_round_trip) simp

text \<open>
  Both services spell error codes alike: every number has a public string, the same in both, which is the
  name of the code for a specified one and \<open>INTERNAL_ERROR\<close> otherwise.
\<close>

theorem public_error_codes_agree:
  "identity_toPublicErrorCode n = toPublicErrorCode n \<and> toPublicErrorCode n \<in> public_codes \<and>
   toPublicErrorCode n =
     (case find (\<lambda>c. code_number c = n \<and> c \<noteq> UNSPECIFIED) enum_class.enum of
        Some c \<Rightarrow> code_name c | None \<Rightarrow> ''INTERNAL_ERROR'')"
proof -
  let ?P = "\<lambda>c. code_number c = n \<and> c \<noteq> UNSPECIFIED"
  have "toPublicErrorCode n = (case find ?P enum_class.enum of Some c \<Rightarrow> code_name c | None \<Rightarrow> ''INTERNAL_ERROR'')"
  proof (cases "find ?P enum_class.enum")
    case None
    then have none: "\<And>c. \<not> ?P c" by (simp add: find_None_iff in_enum)
    have "ErrorCode_at n = None \<or> n = code_number UNSPECIFIED"
      using none ErrorCode_at_None [of n] by blast
    with None show ?thesis
      by (auto simp: toPublicErrorCode_def simp del: code_number.simps split: option.split)
  next
    case (Some c)
    then have "?P c" by (auto simp: find_Some_iff)
    with Some show ?thesis using public_code_name [of c] by (auto simp del: code_number.simps)
  qed
  with toPublicErrorCode_same [of n] toPublicErrorCode_public [of n] show ?thesis by blast
qed

section \<open>Sessions across the services\<close>

text \<open>
  C2: Without a session nobody gets in: a request to any guarded route that carries no session cookie
  is answered 401 with the item \<open>UNAUTHENTICATED\<close>, when identity answers the gateway's lookup and Better Auth knows no
  session for a request without a cookie.
\<close>

theorem no_session_no_access:
  assumes "current_user_backed E I transport deliver" and "delivers_status transport"
    and "delivers_metadata deliver" and "\<And>h. ba_getSession I [] h = Inr None"
    and "getCookieValue (hs ''cookie'') SESSION_COOKIE_NAME = None" and "is_guarded r"
  shows "\<exists>h'. respond (run_route E hs r) h = (Inl (num 401, [api_item (item_val
    \<lparr>ei_message = ''Authentication is required.'', ei_code = ''UNAUTHENTICATED'', ei_field = None\<rparr>)]), h')"
proof -
  let ?e = "StructuredGrpcError GRPC_UNAUTHENTICATED [createCurrentUserUnauthenticatedError]"
  have md: "createSessionRequestMetadata (refuse_metadata E) hs = Inr []"
    by (simp add: createSessionRequestMetadata_def assms(5))
  from assms(1) obtain hi where "grpc_currentUser E (JObj []) [] h =
      (case fst (IdentityService_currentUser I (deliver []) hi) of
         Inl e \<Rightarrow> Inl (transport e) | Inr r \<Rightarrow> Inr (user_reply r))"
    unfolding current_user_backed_def by blast
  then have "session_user E hs h = Inl (transport ?e)"
    by (simp add: session_user_def md currentUser_no_session [OF assms(3,4)])
  from guarded_route_denied [OF assms(6) this] have
    "run_route E hs r h = (Inl (throwGatewayGrpcError (transport ?e) None), h @ session_lookup E hs)" .
  moreover have "throwGatewayGrpcError (transport ?e) None =
      ApiError 401 (map item_val [createCurrentUserUnauthenticatedError])"
    by (subst throwGatewayGrpcError_structured [OF assms(2)]) (simp_all add: httpStatusFromGrpcCode_def)
  moreover have "api_error_filter_catch (ApiError 401 (map item_val [createCurrentUserUnauthenticatedError])) =
      (num 401, map api_item (map item_val [createCurrentUserUnauthenticatedError]))"
    by (rule filter_ApiError) simp_all
  moreover have "createCurrentUserUnauthenticatedError =
      \<lparr>ei_message = ''Authentication is required.'', ei_code = ''UNAUTHENTICATED'', ei_field = None\<rparr>"
    by code_simp
  ultimately show ?thesis by (simp add: respond_def)
qed

definition backed_gateway :: gateway_env where
  "backed_gateway = sample_env\<lparr>grpc_currentUser := \<lambda>r md h.
     (case fst (IdentityService_currentUser sample_identity (plain_delivery md) []) of
        Inl e \<Rightarrow> Inl (client_error e) | Inr r \<Rightarrow> Inr (user_reply r))\<rparr>"

lemma backed_gateway_backed: "current_user_backed backed_gateway sample_identity client_error plain_delivery"
  by (auto simp: current_user_backed_def backed_gateway_def)

theorem no_session_no_access_witness:
  "\<exists>h'. respond (run_route backed_gateway Map.empty (CancelOrder ''o1'')) [] = (Inl (num 401, [api_item (item_val
    \<lparr>ei_message = ''Authentication is required.'', ei_code = ''UNAUTHENTICATED'', ei_field = None\<rparr>)]), h')"
  by (rule no_session_no_access [OF backed_gateway_backed delivers_client_error delivers_plain])
    (simp_all add: sample_identity_def getCookieValue_def)

text \<open>
  C14: A session survives the round through gateway and browser: after a sign-in at the gateway, a request with
  the cookies the browser then keeps, among any others, has Better Auth asked for the session with exactly the cookie that
  Better Auth's answer to that sign-in set, and no other header. The token goes from Better Auth's \<open>Set-Cookie\<close> header through
  identity's answer, the cookie the gateway sets, the browser's cookie header, the gateway's metadata and identity's Web headers
  without a change.
\<close>

theorem session_cookie_round_trip:
  assumes "sign_in_backed E I transport deliver" and "issues_cookies I" and "delivers_metadata deliver"
    and "\<And>v. refuse_metadata E ''cookie'' v = None" and "AuthController_signIn E body hs h = (Inr response, h')"
    and "browser_keeps (drop (length h) h') cookies" and "\<forall>c \<in> set cookies. cookie_ok c"
    and "hs' ''cookie'' = Some (HStr (cookie_header cookies))"
  shows "\<exists>dto ws result token. validate_body E SignInDto body = Inr dto \<and>
    ba_signInEmail I dto ws (identity_after I deliver h) = Inr result \<and> user_id (sir_user response) = au_id (si_user result) \<and>
    sets_session_cookie (si_headers result) token \<and> session_headers E deliver hs' = Some (session_cookie token)"
proof -
  obtain dto ws result token where signed: "validate_body E SignInDto body = Inr dto"
    "ba_signInEmail I dto ws (identity_after I deliver h) = Inr result" "user_id (sir_user response) = au_id (si_user result)"
    and token: "sets_session_cookie (si_headers result) token" "map_of cookies SESSION_COOKIE_NAME = Some token"
    using sign_in_cookie [OF assms(1,2,5,6)] by blast
  have "session_headers E deliver hs' = Some (session_cookie token)"
    by (rule session_headers_sent [where hs = hs', OF assms(3) _ token(1) assms(7) token(2) assms(8)]) (rule assms(4))
  with signed token(1) show ?thesis by blast
qed

lemma expiry_survives:
  assumes "0 \<le> t" and "t \<le> max_time"
  shows "toDate (Some (timestamp_reply (toTimestamp (Some t)))) = Inr (Some t)"
  by (rule toDate_milliseconds [OF assms])
    (simp_all add: timestamp_reply_def toTimestamp_nonneg [OF assms] seconds_number_shown [OF assms]
      del: seconds_number.simps)

definition signing_env :: gateway_env where
  "signing_env = kept_env
     \<lparr>grpc_signIn := (\<lambda>dto md h.
        case fst (IdentityService_signIn keeping_identity dto (plain_delivery md)
                    (identity_after keeping_identity plain_delivery h)) of
          Inl e \<Rightarrow> Inl e | Inr r \<Rightarrow> Inr (sign_in_reply r))\<rparr>"

definition signing_body :: jsval where
  "signing_body = JObj [(''email'', JStr ''a@b.c''), (''password'', JStr ''password1'')]"

lemma signing_backed: "sign_in_backed signing_env keeping_identity (\<lambda>e. e) plain_delivery"
  by (simp add: sign_in_backed_def signing_env_def)

lemma keeping_issues: "issues_cookies keeping_identity"
proof -
  let ?response = "\<lambda>n. \<lparr>rh_getSetCookie =
      Some [identity_SESSION_COOKIE_NAME @ ''='' @ CHR ''t'' # replicate n CHR ''t'' @ ''; Path=/''], rh_get_set_cookie = None\<rparr>"
  have "sets_session_cookie (?response n) (CHR ''t'' # replicate n CHR ''t'')" for n
    unfolding sets_session_cookie_def
    by (intro conjI exI [of _ "[]"] exI [of _ "''; Path=/''"])
      (auto simp: getSetCookieHeaders_def header_safe_def js_space_def)
  then show ?thesis
    by (auto simp: issues_cookies_def keeping_identity_def issuing_identity_def)
qed

theorem session_cookie_round_trip_witness:
  "\<exists>response h' token. AuthController_signIn signing_env signing_body Map.empty [] = (Inr response, h') \<and>
     session_headers signing_env plain_delivery visitor = Some (session_cookie token)"
proof -
  have val: "validate_body signing_env SignInDto signing_body = Inr signing_body"
    by (simp add: signing_env_def kept_env_def sample_env_def sample_validate_def SignInDto_def signing_body_def)
  have unrefused: "refuse_metadata signing_env k v = None" for k v
    by (simp add: signing_env_def kept_env_def sample_env_def)
  have md: "createAuthRequestMetadata (refuse_metadata signing_env) Map.empty = Inr []"
    by (simp add: createAuthRequestMetadata_def FORWARDED_AUTH_HEADERS_def)
  have ws: "createAuthRequestHeaders (plain_delivery []) = Inr []"
    by (simp add: createAuthRequestHeaders_def identity_FORWARDED_AUTH_HEADERS_def first_string_def plain_delivery_def)
  have answer: "\<exists>answer. grpc_signIn signing_env signing_body [] [] = Inr answer \<and> isr_sessionToken answer = ''t'' \<and>
      isr_sessionExpiresAt answer = Some (timestamp_reply (toTimestamp (Some 1700000000005)))"
    using issuing_token [of 0]
    by (simp add: signing_env_def identity_after_def IdentityService_signIn_def validateSignInRequest_def
        validation_result_of_def io_simps ws keeping_calls getSessionExpiry_def Let_def sign_in_reply_def)
      (simp add: issuing_identity_def getSessionExpiry_def keeping_calls io_simps Let_def sign_in_reply_def)
  have date: "toDate (Some (timestamp_reply (toTimestamp (Some 1700000000005)))) = Inr (Some 1700000000005)"
    by (rule expiry_survives) (simp_all add: max_time_def)
  have iso: "toISOString (Some 1700000000005) = Inr ''2023-11-14T22:13:20.005Z''" by code_simp
  have "response_cookie signing_env n v options h = Inr ()" for n v options h
    by (simp add: signing_env_def kept_env_def sample_env_def)
  then have "\<exists>response h'. AuthController_signIn signing_env signing_body Map.empty [] = (Inr response, h')"
    using answer date iso
    by (auto simp: AuthController_signIn_def validated_def val AuthService_signIn_def md try_grpc_def io_simps set_cookie_def)
  then obtain response h' where run: "AuthController_signIn signing_env signing_body Map.empty [] = (Inr response, h')" by blast
  have "browser_keeps (drop (length []) h') [(SESSION_COOKIE_NAME, ''t'')]"
    using signIn_calls [OF run] val md answer by (auto simp: browser_keeps_def)
  moreover have "\<forall>c \<in> set [(SESSION_COOKIE_NAME, ''t'')]. cookie_ok c"
    by (simp add: cookie_ok_def SESSION_COOKIE_NAME_def js_space_def)
  moreover have "visitor ''cookie'' = Some (HStr (cookie_header [(SESSION_COOKIE_NAME, ''t'')]))"
    by (simp add: visitor_def cookie_header_def cookie_text_def SESSION_COOKIE_NAME_def)
  ultimately show ?thesis
    using session_cookie_round_trip [OF signing_backed keeping_issues delivers_plain unrefused run] run by blast
qed

text \<open>
  C23: A session's expiry survives the connection: the millisecond that identity's database holds, between the
  epoch and the last date of the language, is the one the gateway sets the cookie's expiry to.
\<close>

theorem session_expiry_round_trip:
  assumes "0 \<le> t" and "t \<le> max_time"
  shows "toDate (Some (timestamp_reply (toTimestamp (Some t)))) = Inr (Some t)"
  by (rule expiry_survives [OF assms])

theorem session_expiry_round_trip_witness:
  "toDate (Some (timestamp_reply (toTimestamp (Some 1700000000005)))) = Inr (Some 1700000000005)"
  by (rule session_expiry_round_trip) (simp_all add: max_time_def)

text \<open>
  Before the epoch it does not: the floor of the seconds and the remainder of the milliseconds disagree, and
  the last millisecond of 1969 comes back a second early.
\<close>

theorem session_expiry_before_epoch:
  "toDate (Some (timestamp_reply (toTimestamp (Some (- 1))))) = Inr (Some (- 1001))"
proof -
  have "show_int (- 1) = ''-1''" by code_simp
  moreover have "\<lfloor>- 1 :: rat\<rfloor> = - 1" by (rule floor_unique) simp_all
  ultimately have seconds: "its_seconds (toTimestamp (Some (- 1))) = ''-1''"
    using floor_minus_thousandth by (simp add: toTimestamp_def)
  have nanos: "its_nanos (toTimestamp (Some (- 1))) = num (- 1000000)"
    by (simp add: toTimestamp_def js_rem_def)
  have "fl (- 1000) = num (- 1000)" "fl (- 1) = num (- 1)" "fl (- 1001) = num (- 1001)"
    using fl_int [of "- 1000"] fl_int [of "- 1"] fl_int [of "- 1001"] by simp_all
  then show ?thesis
    using newDate_int [of "- 1001"]
    by (simp add: toDate_def timestamp_reply_def deref_def seconds nanos js_Number_minus_one
        nanos_number_def max_time_def)
qed

end
